(* ===== verification/Prelude.thy ===== *)
theory Prelude
  imports Main "HOL-Library.AList" "HOL-Library.List_Lexorder" "HOL-Library.Char_ord"
begin

text \<open>
  Shared vocabulary of the development: results of fallible Python code, ordered Python
  dictionaries, and the methods of \<open>str\<close> the modelled code calls.

  A Python \<open>str\<close> is a \<^typ>\<open>string\<close>, one \<^typ>\<open>char\<close> per code point: the model covers
  the code points below 256 (Latin-1), and \<^const>\<open>length\<close> counts code points as Python does.
  A Python \<open>dict\<close> is an association list in insertion order; \<^const>\<open>AList.update\<close> keeps the
  position of an existing key and appends a new one, \<^const>\<open>AList.delete\<close> is \<open>pop\<close>.
\<close>

named_theorems res_simps \<open>unfolding of the result combinators\<close>
named_theorems py_defs \<open>definitions of the string helpers, for evaluation\<close>

section \<open>Results\<close>

text \<open>Code that may raise returns \<open>'e + 'a\<close>, \<^const>\<open>Inl\<close> carrying the exception.\<close>

definition res_bind :: "'e + 'a \<Rightarrow> ('a \<Rightarrow> 'e + 'b) \<Rightarrow> 'e + 'b" where
  "res_bind m f = (case m of Inl e \<Rightarrow> Inl e | Inr x \<Rightarrow> f x)"

lemma res_bind_Inl [simp, res_simps]: "res_bind (Inl e) f = Inl e"
  by (simp add: res_bind_def)

lemma res_bind_Inr [simp, res_simps]: "res_bind (Inr x) f = f x"
  by (simp add: res_bind_def)

lemma res_bind_eq_Inr: "res_bind m f = Inr y \<longleftrightarrow> (\<exists>x. m = Inr x \<and> f x = Inr y)"
  by (cases m) auto

lemma res_bind_eq_Inl: "res_bind m f = Inl e \<longleftrightarrow> m = Inl e \<or> (\<exists>x. m = Inr x \<and> f x = Inl e)"
  by (cases m) auto

lemma res_bindE:
  assumes "res_bind m f = Inr y"
  obtains x where "m = Inr x" "f x = Inr y"
  using assms by (auto simp: res_bind_eq_Inr)

lemma res_bind_cong [fundef_cong]:
  "m = m' \<Longrightarrow> (\<And>x. m' = Inr x \<Longrightarrow> f x = f' x) \<Longrightarrow> res_bind m f = res_bind m' f'"
  by (cases m') auto

lemma res_bind_assoc: "res_bind (res_bind m f) g = res_bind m (\<lambda>x. res_bind (f x) g)"
  by (cases m) auto

definition res_guard :: "bool \<Rightarrow> 'e \<Rightarrow> 'e + unit" where
  "res_guard b e = (if b then Inr () else Inl e)"

lemma res_guard_eq [simp]:
  "res_guard b e = Inr u \<longleftrightarrow> b"
  "res_guard b e = Inl e' \<longleftrightarrow> \<not> b \<and> e' = e"
  by (auto simp: res_guard_def)

lemma res_guard_simps [simp, res_simps]: "res_guard True e = Inr ()" "res_guard False e = Inl e"
  by (simp_all add: res_guard_def)

fun res_map :: "('a \<Rightarrow> 'e + 'b) \<Rightarrow> 'a list \<Rightarrow> 'e + 'b list" where
  "res_map f [] = Inr []"
| "res_map f (x # xs) = res_bind (f x) (\<lambda>y. res_bind (res_map f xs) (\<lambda>ys. Inr (y # ys)))"

lemma res_map_cong [fundef_cong]:
  "xs = ys \<Longrightarrow> (\<And>x. x \<in> set ys \<Longrightarrow> f x = g x) \<Longrightarrow> res_map f xs = res_map g ys"
  by (induction xs arbitrary: ys) auto

lemma res_map_Inr_iff:
  "res_map f xs = Inr ys \<longleftrightarrow> list_all2 (\<lambda>x y. f x = Inr y) xs ys"
  by (induction xs arbitrary: ys) (auto simp: res_bind_eq_Inr list_all2_Cons1)

lemma res_map_ok_iff:
  "(\<exists>ys. res_map f xs = Inr ys) \<longleftrightarrow> (\<forall>x\<in>set xs. \<exists>y. f x = Inr y)"
proof (induction xs)
  case (Cons x xs)
  show ?case
  proof (cases "f x")
    case (Inr y)
    have "(\<exists>ys. res_map f (x # xs) = Inr ys) \<longleftrightarrow> (\<exists>ys. res_map f xs = Inr ys)"
      by (simp add: Inr res_bind_eq_Inr)
    with Cons Inr show ?thesis by simp
  qed simp
qed simp

lemma res_map_total: "(\<And>x. x \<in> set xs \<Longrightarrow> f x = Inr (g x)) \<Longrightarrow> res_map f xs = Inr (map g xs)"
proof (induction xs)
  case (Cons x xs)
  have "f x = Inr (g x)" by (rule Cons.prems) simp
  moreover have "res_map f xs = Inr (map g xs)" by (rule Cons.IH) (rule Cons.prems, simp)
  ultimately show ?case by simp
qed simp

lemma res_map_InlD: "res_map f xs = Inl e \<Longrightarrow> \<exists>x\<in>set xs. f x = Inl e"
proof (induction xs)
  case (Cons x xs)
  from Cons.prems consider "f x = Inl e" | "res_map f xs = Inl e"
    by (auto simp: res_bind_eq_Inl)
  then show ?case using Cons.IH by cases auto
qed simp

fun res_fold :: "('a \<Rightarrow> 's \<Rightarrow> 'e + 's) \<Rightarrow> 'a list \<Rightarrow> 's \<Rightarrow> 'e + 's" where
  "res_fold f [] s = Inr s"
| "res_fold f (x # xs) s = res_bind (f x s) (res_fold f xs)"

lemma res_fold_invariant:
  assumes "res_fold f xs s = Inr t" "I s"
    and step: "\<And>x s t. x \<in> set xs \<Longrightarrow> I s \<Longrightarrow> f x s = Inr t \<Longrightarrow> I t"
  shows "I t"
  using assms(1,2) step
proof (induction xs arbitrary: s)
  case (Cons x xs)
  from Cons.prems(1) obtain u where "f x s = Inr u" and u: "res_fold f xs u = Inr t"
    by (auto simp: res_bind_eq_Inr)
  then have "I u" using Cons.prems(2,3) by (metis list.set_intros(1))
  with u show ?case using Cons.IH Cons.prems(3) by (meson list.set_intros(2))
qed simp

definition of_opt :: "'e \<Rightarrow> 'a option \<Rightarrow> 'e + 'a" where
  "of_opt e x = (case x of None \<Rightarrow> Inl e | Some y \<Rightarrow> Inr y)"

lemma of_opt_simps [simp, res_simps]: "of_opt e None = Inl e" "of_opt e (Some x) = Inr x"
  by (simp_all add: of_opt_def)

lemma of_opt_eq_Inr [simp]: "of_opt e x = Inr y \<longleftrightarrow> x = Some y"
  by (cases x) auto

lemma of_opt_eq_Inl [simp]: "of_opt e x = Inl e' \<longleftrightarrow> x = None \<and> e' = e"
  by (cases x) auto

section \<open>Lists as Python collections\<close>

text \<open>
  \<open>set_of f xs\<close>: the Python set built from \<open>xs\<close> when elements are equal iff their \<open>f\<close>
  agrees (the first one added stays). Kept as a list: one iteration order of the set.
\<close>

fun dedup_by :: "('a \<Rightarrow> 'k) \<Rightarrow> 'a list \<Rightarrow> 'a list" where
  "dedup_by f [] = []"
| "dedup_by f (x # xs) = x # dedup_by f (filter (\<lambda>y. f y \<noteq> f x) xs)"

lemma filter_comm_key:
  "filter P (filter Q xs) = filter Q (filter P xs)"
  by (induction xs) auto

lemma dedup_by_subset: "set (dedup_by f xs) \<subseteq> set xs"
  by (induction f xs rule: dedup_by.induct) auto

lemma image_dedup_by [simp]: "f ` set (dedup_by f xs) = f ` set xs"
proof (induction f xs rule: dedup_by.induct)
  case (2 f x xs)
  have "f ` set (x # xs) = insert (f x) (f ` set (filter (\<lambda>y. f y \<noteq> f x) xs))" by auto
  with 2 show ?case by simp
qed simp

lemma distinct_dedup_by: "distinct (map f (dedup_by f xs))"
proof (induction f xs rule: dedup_by.induct)
  case (2 f x xs)
  have "f x \<notin> f ` set (dedup_by f (filter (\<lambda>y. f y \<noteq> f x) xs))" by auto
  with 2 show ?case by simp
qed simp

text \<open>Looking a row up by a key: \<open>next(r for r in rows if key(r) = k)\<close>.\<close>

definition find_by :: "('a \<Rightarrow> 'k) \<Rightarrow> 'k \<Rightarrow> 'a list \<Rightarrow> 'a option" where
  "find_by f k xs = find (\<lambda>x. f x = k) xs"

lemma find_by_simps [simp]:
  "find_by f k [] = None"
  "find_by f k (x # xs) = (if f x = k then Some x else find_by f k xs)"
  by (simp_all add: find_by_def)

lemma find_by_None_iff: "find_by f k xs = None \<longleftrightarrow> k \<notin> f ` set xs"
  by (induction xs) auto

lemma find_by_SomeD: "find_by f k xs = Some x \<Longrightarrow> x \<in> set xs \<and> f x = k"
  by (induction xs) (auto split: if_splits)

lemma find_by_append:
  "find_by f k (xs @ ys) = (case find_by f k xs of None \<Rightarrow> find_by f k ys | Some x \<Rightarrow> Some x)"
  by (induction xs) auto

lemma find_by_distinct:
  "distinct (map f xs) \<Longrightarrow> x \<in> set xs \<Longrightarrow> find_by f (f x) xs = Some x"
  by (induction xs) (auto simp: rev_image_eqI)

lemma find_by_filter_out: "find_by f k (filter (\<lambda>x. f x \<noteq> k) xs) = None"
  by (auto simp: find_by_None_iff)

lemma find_by_filter_other:
  "k \<noteq> k' \<Longrightarrow> find_by f k (filter (\<lambda>x. f x \<noteq> k') xs) = find_by f k xs"
  by (induction xs) auto

section \<open>Strings\<close>

definition startswith :: "string \<Rightarrow> string \<Rightarrow> bool" where
  [py_defs]: "startswith p s = (take (length p) s = p)"

lemma startswith_append [simp]: "startswith p (p @ s)"
  by (simp add: startswith_def)

lemma startswith_iff: "startswith p s \<longleftrightarrow> (\<exists>r. s = p @ r)"
  by (auto simp: startswith_def) (metis append_take_drop_id)

definition removeprefix :: "string \<Rightarrow> string \<Rightarrow> string" where
  [py_defs]: "removeprefix p s = (if startswith p s then drop (length p) s else s)"

text \<open>\<open>s.split(c)\<close> for a one-character separator: never empty.\<close>

fun py_split :: "char \<Rightarrow> string \<Rightarrow> string list" where
  "py_split c [] = [[]]"
| "py_split c (x # xs) =
     (if x = c then [] # py_split c xs
      else (case py_split c xs of [] \<Rightarrow> [[x]] | y # ys \<Rightarrow> (x # y) # ys))"

lemma py_split_nonempty [simp]: "py_split c s \<noteq> []"
  by (induction s) (auto split: list.splits)

lemma py_split_no_sep: "c \<notin> set s \<Longrightarrow> py_split c s = [s]"
  by (induction s) auto

lemma py_split_append_sep: "c \<notin> set a \<Longrightarrow> py_split c (a @ c # s) = a # py_split c s"
  by (induction a) auto

text \<open>\<open>c.join(parts)\<close>; splitting what was joined gives the parts back.\<close>

fun py_join :: "char \<Rightarrow> string list \<Rightarrow> string" where
  "py_join c [] = []"
| "py_join c [x] = x"
| "py_join c (x # y # ys) = x @ c # py_join c (y # ys)"

lemma py_split_join:
  "xs \<noteq> [] \<Longrightarrow> (\<And>x. x \<in> set xs \<Longrightarrow> c \<notin> set x) \<Longrightarrow> py_split c (py_join c xs) = xs"
  by (induction c xs rule: py_join.induct) (auto simp: py_split_no_sep py_split_append_sep)

definition py_lstrip :: "char \<Rightarrow> string \<Rightarrow> string" where
  [py_defs]: "py_lstrip c s = dropWhile (\<lambda>x. x = c) s"

text \<open>\<open>s.partition(c)\<close>: text before, whether the separator occurs, text after.\<close>

fun py_partition :: "char \<Rightarrow> string \<Rightarrow> string \<times> bool \<times> string" where
  "py_partition c [] = ([], False, [])"
| "py_partition c (x # xs) =
     (if x = c then ([], True, xs)
      else (case py_partition c xs of (a, b, r) \<Rightarrow> (x # a, b, r)))"

lemma py_partition_sep: "fst (snd (py_partition c s)) \<longleftrightarrow> c \<in> set s"
  by (induction s) (auto split: prod.splits)

lemma py_partition_append: "c \<notin> set a \<Longrightarrow> py_partition c (a @ c # s) = (a, True, s)"
  by (induction a) auto

lemma py_partition_none: "c \<notin> set a \<Longrightarrow> py_partition c a = (a, False, [])"
  by (induction a) auto

lemma py_partition_cases:
  "(c \<notin> set s \<and> py_partition c s = (s, False, [])) \<or>
   (\<exists>a r. c \<notin> set a \<and> s = a @ c # r \<and> py_partition c s = (a, True, r))"
proof (cases "c \<in> set s")
  case True
  then obtain a r where "s = a @ c # r" "c \<notin> set a"
    by (meson split_list_first)
  then show ?thesis using py_partition_append by blast
qed (simp add: py_partition_none)

text \<open>\<open>s.replace(c, r)\<close> for a one-character pattern.\<close>

definition replace_char :: "char \<Rightarrow> string \<Rightarrow> string \<Rightarrow> string" where
  [py_defs]: "replace_char c r s = concat (map (\<lambda>x. if x = c then r else [x]) s)"

lemma replace_char_simps [simp]:
  "replace_char c r [] = []"
  "replace_char c r (x # s) = (if x = c then r @ replace_char c r s else x # replace_char c r s)"
  by (simp_all add: replace_char_def)

lemma replace_char_append [simp]: "replace_char c r (s @ t) = replace_char c r s @ replace_char c r t"
  by (simp add: replace_char_def)

lemma replace_char_id: "c \<notin> set s \<Longrightarrow> replace_char c r s = s"
  by (induction s) auto

text \<open>\<open>s.replace(p, r)\<close> for a longer pattern: leftmost, not overlapping.\<close>

function replace_sub :: "string \<Rightarrow> string \<Rightarrow> string \<Rightarrow> string" where
  "replace_sub p r s =
     (case s of [] \<Rightarrow> []
      | x # xs \<Rightarrow> if p \<noteq> [] \<and> startswith p s then r @ replace_sub p r (drop (length p) s)
                  else x # replace_sub p r xs)"
  by pat_completeness auto
termination
  by (relation "measure (\<lambda>(p, r, s). length s)") auto

declare replace_sub.simps [simp del]

lemma replace_sub_Nil [simp]: "replace_sub p r [] = []"
  by (simp add: replace_sub.simps)

lemma replace_sub_Cons:
  "replace_sub p r (x # xs) =
     (if p \<noteq> [] \<and> startswith p (x # xs) then r @ replace_sub p r (drop (length p) (x # xs))
      else x # replace_sub p r xs)"
  by (simp add: replace_sub.simps [of p r "x # xs"])

lemma replace_sub_id:
  assumes "p \<noteq> []" "hd p \<notin> set s"
  shows "replace_sub p r s = s"
  using assms
proof (induction s)
  case (Cons x xs)
  then have "\<not> startswith p (x # xs)"
    by (cases p) (auto simp: startswith_def)
  with Cons show ?case by (simp add: replace_sub_Cons)
qed simp

text \<open>Case mapping on code points; \<open>str.lower\<close> stays below 256.\<close>

abbreviation cp :: "char \<Rightarrow> nat" where "cp c \<equiv> of_char c"

definition lower_char :: "char \<Rightarrow> char" where
  [py_defs]: "lower_char c =
     (let n = cp c in
      if 65 \<le> n \<and> n \<le> 90 \<or> 192 \<le> n \<and> n \<le> 222 \<and> n \<noteq> 215 then char_of (n + 32) else c)"

definition py_lower :: "string \<Rightarrow> string" where
  [py_defs]: "py_lower s = map lower_char s"

text \<open>
  \<open>str.upper\<close> of a Latin-1 string may leave Latin-1 or grow, so it gives code points:
  \<open>\<mu>\<close> (181) becomes 924, \<open>y\<close> with diaeresis (255) becomes 376, sharp s (223) becomes \<open>SS\<close>.
\<close>

definition upper_char :: "char \<Rightarrow> nat list" where
  [py_defs]: "upper_char c =
     (let n = cp c in
      if 97 \<le> n \<and> n \<le> 122 \<or> 224 \<le> n \<and> n \<le> 254 \<and> n \<noteq> 247 then [n - 32]
      else if n = 181 then [924] else if n = 255 then [376]
      else if n = 223 then [83, 83] else [n])"

definition py_upper :: "string \<Rightarrow> nat list" where
  [py_defs]: "py_upper s = concat (map upper_char s)"

definition is_ascii_digit :: "char \<Rightarrow> bool" where
  [py_defs]: "is_ascii_digit c \<longleftrightarrow> 48 \<le> cp c \<and> cp c \<le> 57"

definition is_ascii_alpha :: "char \<Rightarrow> bool" where
  [py_defs]: "is_ascii_alpha c \<longleftrightarrow> 65 \<le> cp c \<and> cp c \<le> 90 \<or> 97 \<le> cp c \<and> cp c \<le> 122"

text \<open>\<open>str.isdigit\<close>: not empty and all digits, superscript two, three and one included.\<close>

definition py_isdigit :: "string \<Rightarrow> bool" where
  [py_defs]: "py_isdigit s \<longleftrightarrow>
     s \<noteq> [] \<and> (\<forall>c\<in>set s. is_ascii_digit c \<or> cp c = 178 \<or> cp c = 179 \<or> cp c = 185)"

text \<open>Decimal text of a natural number, and the value of a string of ASCII digits.\<close>

fun dec_str :: "nat \<Rightarrow> string" where
  "dec_str n = (if n < 10 then [char_of (48 + n)] else dec_str (n div 10) @ [char_of (48 + n mod 10)])"

declare dec_str.simps [simp del]

definition dec_val :: "string \<Rightarrow> nat" where
  [py_defs]: "dec_val s = foldl (\<lambda>a c. 10 * a + (cp c - 48)) 0 s"

lemma dec_val_snoc: "dec_val (s @ [c]) = 10 * dec_val s + (cp c - 48)"
  by (simp add: dec_val_def)

lemma dec_val_dec_str: "dec_val (dec_str n) = n"
proof (induction n rule: dec_str.induct)
  case (1 n)
  show ?case
  proof (cases "n < 10")
    case True
    then show ?thesis by (subst dec_str.simps) (simp add: dec_val_def)
  next
    case False
    then have "dec_val (dec_str n) = 10 * (n div 10) + n mod 10"
      using 1 by (subst dec_str.simps) (simp add: dec_val_snoc)
    then show ?thesis by simp
  qed
qed

lemma dec_str_digits: "c \<in> set (dec_str n) \<Longrightarrow> is_ascii_digit c"
proof (induction n rule: dec_str.induct)
  case (1 n)
  show ?case
  proof (cases "n < 10")
    case True
    with 1 show ?thesis by (subst (asm) dec_str.simps) (simp add: is_ascii_digit_def)
  next
    case False
    then have "dec_str n = dec_str (n div 10) @ [char_of (48 + n mod 10)]"
      by (subst dec_str.simps) simp
    moreover have "cp (char_of (48 + n mod 10)) = 48 + n mod 10" by simp
    ultimately show ?thesis using 1 False by (auto simp: is_ascii_digit_def)
  qed
qed

end
