(* ===== verification/Uuid.thy ===== *)
theory Uuid
  imports Prelude "HOL-Library.Word"
begin

text \<open>
  The standard library's \<open>uuid.UUID\<close>, as the code uses it: a 128-bit integer, its canonical
  text (\<open>str(u)\<close>) and the constructor \<open>UUID(text)\<close>, which raises \<open>ValueError\<close> (here \<^const>\<open>None\<close>)
  on malformed text. \<open>UUID(text)\<close> drops \<open>urn:\<close>, \<open>uuid:\<close>, braces and hyphens, wants 32
  characters and reads them with \<open>int(text, 16)\<close>, which itself tolerates surrounding white
  space, a plus sign, a \<open>0x\<close> prefix and single underscores between digits.
\<close>

type_synonym uuid = "128 word"

section \<open>Hexadecimal digits\<close>

definition hex_char :: "nat \<Rightarrow> char" where
  "hex_char d = char_of (if d < 10 then 48 + d else 87 + d)"

definition hex_val :: "char \<Rightarrow> nat option" where
  "hex_val c =
     (let n = cp c in
      if 48 \<le> n \<and> n \<le> 57 then Some (n - 48)
      else if 97 \<le> n \<and> n \<le> 102 then Some (n - 87)
      else if 65 \<le> n \<and> n \<le> 70 then Some (n - 55)
      else None)"

lemma hex_val_hex_char [simp]: "d < 16 \<Longrightarrow> hex_val (hex_char d) = Some d"
  by (simp add: hex_val_def hex_char_def Let_def)

lemma cp_hex_char: "d < 16 \<Longrightarrow> cp (hex_char d) = (if d < 10 then 48 + d else 87 + d)"
  by (simp add: hex_char_def)

lemma hex_char_neq:
  assumes "d < 16" "cp x < 48 \<or> 102 < cp x \<or> (57 < cp x \<and> cp x < 97)"
  shows "hex_char d \<noteq> x"
  using assms cp_hex_char [of d] by (auto split: if_splits)

text \<open>\<open>int(text, 16)\<close>: \<open>us\<close> says whether an underscore may come next.\<close>

fun hex_run :: "int \<Rightarrow> bool \<Rightarrow> string \<Rightarrow> int option" where
  "hex_run acc us [] = (if us then Some acc else None)"
| "hex_run acc us (c # cs) =
     (if c = CHR ''_'' then (if us then hex_run acc False cs else None)
      else (case hex_val c of None \<Rightarrow> None | Some d \<Rightarrow> hex_run (16 * acc + int d) True cs))"

definition is_py_space :: "char \<Rightarrow> bool" where
  "is_py_space c \<longleftrightarrow> (let n = cp c in 9 \<le> n \<and> n \<le> 13 \<or> 28 \<le> n \<and> n \<le> 32 \<or> n = 133 \<or> n = 160)"

definition py_strip_space :: "string \<Rightarrow> string" where
  "py_strip_space s = rev (dropWhile is_py_space (rev (dropWhile is_py_space s)))"

definition int_base16 :: "string \<Rightarrow> int option" where
  "int_base16 text =
     (let s = py_strip_space text;
          neg = (startswith ''-'' s);
          s1 = (if neg \<or> startswith ''+'' s then tl s else s);
          hexp = (startswith ''0x'' s1 \<or> startswith ''0X'' s1);
          v = (if hexp then (if drop 2 s1 = [] then None else hex_run 0 True (drop 2 s1))
               else hex_run 0 False s1)
      in map_option (\<lambda>n. if neg then - n else n) v)"

section \<open>Text to UUID\<close>

definition strip_braces :: "string \<Rightarrow> string" where
  "strip_braces s =
     (let b = (\<lambda>c. c = CHR ''{'' \<or> c = CHR ''}'') in rev (dropWhile b (rev (dropWhile b s))))"

definition uuid_hex :: "string \<Rightarrow> string" where
  "uuid_hex text =
     replace_char (CHR ''-'') []
       (strip_braces (replace_sub ''uuid:'' [] (replace_sub ''urn:'' [] text)))"

definition uuid_parse :: "string \<Rightarrow> uuid option" where
  "uuid_parse text =
     (let hex = uuid_hex text in
      if length hex \<noteq> 32 then None
      else case int_base16 hex of
             None \<Rightarrow> None
           | Some i \<Rightarrow> if 0 \<le> i \<and> i < 2 ^ 128 then Some (word_of_int i) else None)"

section \<open>UUID to text\<close>

fun hex_digits :: "nat \<Rightarrow> int \<Rightarrow> string" where
  "hex_digits 0 n = []"
| "hex_digits (Suc k) n = hex_digits k (n div 16) @ [hex_char (nat (n mod 16))]"

definition uuid_str :: "uuid \<Rightarrow> string" where
  "uuid_str u =
     (let h = hex_digits 32 (uint u)
      in take 8 h @ ''-'' @ take 4 (drop 8 h) @ ''-'' @ take 4 (drop 12 h) @ ''-''
         @ take 4 (drop 16 h) @ ''-'' @ drop 20 h)"

lemma length_hex_digits [simp]: "length (hex_digits k n) = k"
  by (induction k arbitrary: n) auto

lemma hex_digits_set: "c \<in> set (hex_digits k n) \<Longrightarrow> \<exists>d<16. c = hex_char d"
proof (induction k arbitrary: n)
  case (Suc k)
  from Suc.prems consider "c \<in> set (hex_digits k (n div 16))" | "c = hex_char (nat (n mod 16))" by auto
  then show ?case
  proof cases
    case 2
    then show ?thesis by (intro exI [of _ "nat (n mod 16)"]) simp
  qed (rule Suc.IH)
qed simp

lemma hex_run_append:
  "(\<And>c. c \<in> set s \<Longrightarrow> \<exists>d<16. c = hex_char d) \<Longrightarrow> s \<noteq> [] \<Longrightarrow>
   hex_run acc us (s @ [hex_char d]) =
     (case hex_run acc us s of None \<Rightarrow> None | Some a \<Rightarrow> hex_run a True [hex_char d])"
proof (induction s arbitrary: acc us)
  case (Cons c cs)
  then obtain e where e: "e < 16" "c = hex_char e" by (meson list.set_intros(1))
  then have ne: "c \<noteq> CHR ''_''" using hex_char_neq by simp
  show ?case
  proof (cases "cs = []")
    case True
    with e ne show ?thesis by simp
  next
    case False
    with Cons e ne show ?thesis by simp
  qed
qed simp

lemma hex_run_hex_digits:
  "0 \<le> n \<Longrightarrow> n < 16 ^ k \<Longrightarrow> 0 < k \<Longrightarrow> hex_run 0 us (hex_digits k n) = Some n"
proof (induction k arbitrary: n)
  case (Suc k)
  have ne: "hex_char (nat (n mod 16)) \<noteq> CHR ''_''" by (rule hex_char_neq) auto
  have hv: "hex_val (hex_char (nat (n mod 16))) = Some (nat (n mod 16))"
    by (rule hex_val_hex_char) simp
  show ?case
  proof (cases "k = 0")
    case True
    with Suc.prems ne hv show ?thesis by simp
  next
    case False
    from Suc.prems have "0 \<le> n div 16" "n div 16 < 16 ^ k" by auto
    with Suc.IH False have IH: "hex_run 0 us (hex_digits k (n div 16)) = Some (n div 16)" by simp
    have "hex_run 0 us (hex_digits k (n div 16) @ [hex_char (nat (n mod 16))]) =
        hex_run (n div 16) True [hex_char (nat (n mod 16))]"
      using hex_run_append [of "hex_digits k (n div 16)" 0 us "nat (n mod 16)"] hex_digits_set IH False
      by (metis length_0_conv length_hex_digits option.simps(5))
    also have "\<dots> = Some (16 * (n div 16) + n mod 16)" using ne hv by simp
    finally show ?thesis by simp
  qed
qed simp

lemma hex_first_two:
  assumes "\<And>c. c \<in> set s \<Longrightarrow> \<exists>d<16. c = hex_char d"
  shows "\<not> startswith ''0x'' s" "\<not> startswith ''0X'' s" "\<not> startswith ''-'' s" "\<not> startswith ''+'' s"
proof -
  have no: "x \<notin> set s" if "cp x < 48 \<or> 102 < cp x \<or> (57 < cp x \<and> cp x < 97)" for x
    using assms hex_char_neq that by metis
  have "CHR ''x'' \<notin> set s" "CHR ''-'' \<notin> set s" "CHR ''+'' \<notin> set s" "CHR ''X'' \<notin> set s"
    by (rule no, simp)+
  then show "\<not> startswith ''0x'' s" "\<not> startswith ''0X'' s" "\<not> startswith ''-'' s"
    "\<not> startswith ''+'' s" by (auto simp: startswith_iff)
qed

lemma dropWhile_none: "(\<And>c. c \<in> set s \<Longrightarrow> \<not> P c) \<Longrightarrow> dropWhile P s = s"
  by (cases s) auto

lemma hex_not_space: "d < 16 \<Longrightarrow> \<not> is_py_space (hex_char d)"
  by (simp add: is_py_space_def cp_hex_char Let_def)

lemma py_strip_space_hex:
  "(\<And>c. c \<in> set s \<Longrightarrow> \<exists>d<16. c = hex_char d) \<Longrightarrow> py_strip_space s = s"
proof -
  assume a: "\<And>c. c \<in> set s \<Longrightarrow> \<exists>d<16. c = hex_char d"
  have n: "\<not> is_py_space c" if "c \<in> set s" for c
    using a [OF that] hex_not_space by blast
  have "dropWhile is_py_space s = s" "dropWhile is_py_space (rev s) = rev s"
    using n by (auto intro: dropWhile_none)
  then show ?thesis by (simp add: py_strip_space_def)
qed

lemma int_base16_hex_digits:
  "0 \<le> n \<Longrightarrow> n < 16 ^ k \<Longrightarrow> 0 < k \<Longrightarrow> int_base16 (hex_digits k n) = Some n"
  using hex_first_two [of "hex_digits k n"] hex_digits_set [of _ k n]
  by (auto simp: int_base16_def Let_def py_strip_space_hex hex_run_hex_digits)

lemma replace_char_minus_hex:
  "(\<And>c. c \<in> set s \<Longrightarrow> \<exists>d<16. c = hex_char d) \<Longrightarrow> replace_char (CHR ''-'') [] s = s"
proof (rule replace_char_id)
  assume "\<And>c. c \<in> set s \<Longrightarrow> \<exists>d<16. c = hex_char d"
  then show "CHR ''-'' \<notin> set s"
    using hex_char_neq [of _ "CHR ''-''"] by fastforce
qed

lemma hex_take_drop:
  "c \<in> set (take a (drop b (hex_digits k n))) \<Longrightarrow> \<exists>d<16. c = hex_char d"
  "c \<in> set (drop b (hex_digits k n)) \<Longrightarrow> \<exists>d<16. c = hex_char d"
  "c \<in> set (take a (hex_digits k n)) \<Longrightarrow> \<exists>d<16. c = hex_char d"
  by (meson hex_digits_set in_set_dropD in_set_takeD)+

lemma uuid_str_chars: "c \<in> set (uuid_str u) \<Longrightarrow> c = CHR ''-'' \<or> (\<exists>d<16. c = hex_char d)"
  by (auto simp: uuid_str_def Let_def dest: hex_take_drop)

lemma uuid_str_no:
  assumes "cp x < 45 \<or> 102 < cp x \<or> (57 < cp x \<and> cp x < 97)"
  shows "x \<notin> set (uuid_str u)"
proof
  assume "x \<in> set (uuid_str u)"
  then consider "x = CHR ''-''" | d where "d < 16" "x = hex_char d"
    using uuid_str_chars by blast
  then show False
  proof cases
    case 1
    with assms show False by simp
  next
    case 2
    with assms hex_char_neq [of d x] show False by auto
  qed
qed

lemma replace_minus_take_drop [simp]:
  "replace_char (CHR ''-'') [] (take a (drop b (hex_digits k n))) = take a (drop b (hex_digits k n))"
  "replace_char (CHR ''-'') [] (drop b (hex_digits k n)) = drop b (hex_digits k n)"
  "replace_char (CHR ''-'') [] (take a (hex_digits k n)) = take a (hex_digits k n)"
  by (rule replace_char_minus_hex, erule hex_take_drop)+

lemma take_drop_join: "take a (drop b xs) @ drop (a + b) xs = drop b xs"
  by (metis append_take_drop_id drop_drop)

lemma uuid_hex_uuid_str: "uuid_hex (uuid_str u) = hex_digits 32 (uint u)"
proof -
  let ?h = "hex_digits 32 (uint u)"
  have nu: "CHR ''u'' \<notin> set (uuid_str u)" by (rule uuid_str_no) simp
  have nb: "CHR ''{'' \<notin> set (uuid_str u)" "CHR ''}'' \<notin> set (uuid_str u)"
    by (rule uuid_str_no, simp)+
  have d: "dropWhile (\<lambda>c. c = CHR ''{'' \<or> c = CHR ''}'') s = s"
    if "set s = set (uuid_str u)" for s
    using nb that by (intro dropWhile_none) auto
  have "uuid_hex (uuid_str u) = replace_char (CHR ''-'') [] (uuid_str u)"
    using nu d by (simp add: uuid_hex_def strip_braces_def Let_def replace_sub_id)
  also have "\<dots> = take 8 ?h @ take 4 (drop 8 ?h) @ take 4 (drop 12 ?h) @ take 4 (drop 16 ?h) @ drop 20 ?h"
    by (simp add: uuid_str_def Let_def)
  also have "\<dots> = ?h"
    using take_drop_join [of 4 16 ?h] take_drop_join [of 4 12 ?h] take_drop_join [of 4 8 ?h]
      append_take_drop_id [of 8 ?h] by simp
  finally show ?thesis .
qed

text \<open>The round trip the managers rely on whenever a reference passes through JSON.\<close>

lemma uuid_parse_str [simp]: "uuid_parse (uuid_str u) = Some u"
proof -
  have b: "0 \<le> uint u" "uint u < 2 ^ 128" using unsigned_less [of u, where ?'a = int] by simp_all
  then have "uint u < 16 ^ 32" by simp
  with b show ?thesis
    by (simp add: uuid_parse_def Let_def uuid_hex_uuid_str int_base16_hex_digits)
qed

lemma uuid_str_inj [simp]: "uuid_str u = uuid_str v \<longleftrightarrow> u = v"
  using uuid_parse_str by (metis option.inject)

end
