(* ===== verification/Py_Date.thy ===== *)
theory Py_Date
  imports Prelude
begin

text \<open>
  The standard library's \<open>datetime.date\<close>, as the code uses it: \<open>isoformat\<close> when an object is
  turned into JSON, \<open>fromisoformat\<close> when a patched object is read back. The latter accepts
  \<open>YYYY-MM-DD\<close>, \<open>YYYYMMDD\<close> and the ISO week forms \<open>YYYY-Www[-D]\<close>, \<open>YYYYWww[D]\<close>.
\<close>

datatype date = Date (d_year: nat) (d_month: nat) (d_day: nat)

definition leap_year :: "nat \<Rightarrow> bool" where
  "leap_year y \<longleftrightarrow> y mod 4 = 0 \<and> (y mod 100 \<noteq> 0 \<or> y mod 400 = 0)"

definition days_in_month :: "nat \<Rightarrow> nat \<Rightarrow> nat" where
  "days_in_month y m =
     (if m = 2 then (if leap_year y then 29 else 28)
      else if m = 4 \<or> m = 6 \<or> m = 9 \<or> m = 11 then 30 else 31)"

definition valid_date :: "date \<Rightarrow> bool" where
  "valid_date d \<longleftrightarrow>
     1 \<le> d_year d \<and> d_year d \<le> 9999 \<and> 1 \<le> d_month d \<and> d_month d \<le> 12 \<and>
     1 \<le> d_day d \<and> d_day d \<le> days_in_month (d_year d) (d_month d)"

definition mk_date :: "nat \<Rightarrow> nat \<Rightarrow> nat \<Rightarrow> date option" where
  "mk_date y m d = (let r = Date y m d in if valid_date r then Some r else None)"

section \<open>Fixed-width decimal fields\<close>

fun pad_dec :: "nat \<Rightarrow> nat \<Rightarrow> string" where
  "pad_dec 0 n = []"
| "pad_dec (Suc k) n = pad_dec k (n div 10) @ [char_of (48 + n mod 10)]"

definition read_dec :: "string \<Rightarrow> nat option" where
  "read_dec s = (if s \<noteq> [] \<and> (\<forall>c\<in>set s. is_ascii_digit c) then Some (dec_val s) else None)"

lemma length_pad_dec [simp]: "length (pad_dec k n) = k"
  by (induction k arbitrary: n) auto

lemma cp_digit [simp]: "cp (char_of (48 + n mod 10)) = 48 + n mod 10"
  by simp

lemma pad_dec_digits: "\<forall>c\<in>set (pad_dec k n). is_ascii_digit c"
proof (induction k arbitrary: n)
  case (Suc k)
  have "n mod 10 < 10" by simp
  with Suc show ?case by (auto simp: is_ascii_digit_def)
qed simp

lemma dec_val_pad_dec: "n < 10 ^ k \<Longrightarrow> dec_val (pad_dec k n) = n"
proof (induction k arbitrary: n)
  case 0
  then show ?case by (simp add: dec_val_def)
next
  case (Suc k)
  then have "n div 10 < 10 ^ k" by (simp add: less_mult_imp_div_less)
  with Suc.IH show ?case by (simp add: dec_val_snoc)
qed

lemma read_dec_pad_dec: "n < 10 ^ k \<Longrightarrow> 0 < k \<Longrightarrow> read_dec (pad_dec k n) = Some n"
proof -
  assume b: "n < 10 ^ k" "0 < k"
  then have "pad_dec k n \<noteq> []" by (metis length_0_conv length_pad_dec not_gr_zero)
  with b show ?thesis by (simp add: read_dec_def pad_dec_digits dec_val_pad_dec)
qed

section \<open>ISO text\<close>

definition isoformat :: "date \<Rightarrow> string" where
  "isoformat d = pad_dec 4 (d_year d) @ ''-'' @ pad_dec 2 (d_month d) @ ''-'' @ pad_dec 2 (d_day d)"

fun next_day :: "date \<Rightarrow> date" where
  "next_day (Date y m d) =
     (if d < days_in_month y m then Date y m (Suc d)
      else if m < 12 then Date y (Suc m) 1 else Date (Suc y) 1 1)"

text \<open>Monday is 0; days before 1 January of year \<open>y\<close> in the proleptic Gregorian calendar.\<close>

definition weekday_jan1 :: "nat \<Rightarrow> nat" where
  "weekday_jan1 y =
     (let p = y - 1 in (365 * p + p div 4 - p div 100 + p div 400) mod 7)"

definition week_date :: "nat \<Rightarrow> nat \<Rightarrow> nat \<Rightarrow> date option" where
  "week_date y w d =
     (let wd = weekday_jan1 y;
          long_year = (wd = 3 \<or> wd = 2 \<and> leap_year y);
          \<comment> \<open>days from 25 December of the year before to Monday of week 1\<close>
          monday1 = (if wd \<le> 3 then 7 - wd else 14 - wd);
          r = (next_day ^^ (monday1 + 7 * (w - 1) + (d - 1))) (Date (y - 1) 12 25)
      in if 1 \<le> y \<and> y \<le> 9999 \<and> (1 \<le> w \<and> w \<le> 52 \<or> w = 53 \<and> long_year) \<and> 1 \<le> d \<and> d \<le> 7
            \<and> valid_date r
         then Some r else None)"

definition date_fromisoformat :: "string \<Rightarrow> date option" where
  "date_fromisoformat s =
     (if length s \<notin> {7, 8, 10} then None
      else case read_dec (take 4 s) of
        None \<Rightarrow> None
      | Some y \<Rightarrow>
          let sep = (s ! 4 = CHR ''-''); r = drop (if sep then 5 else 4) s in
          if startswith ''W'' r
          then (let r2 = drop 3 r in
                case read_dec (take 2 (drop 1 r)) of
                  None \<Rightarrow> None
                | Some w \<Rightarrow>
                    if r2 = [] then week_date y w 1
                    else if (hd r2 = CHR ''-'') \<noteq> sep then None
                    else let r3 = (if sep then tl r2 else r2) in
                         if length r3 \<noteq> 1 then None
                         else Option.bind (read_dec r3) (week_date y w))
          else case read_dec (take 2 r) of
                 None \<Rightarrow> None
               | Some m \<Rightarrow>
                   let r2 = drop 2 r in
                   if startswith ''-'' r2 \<noteq> sep then None
                   else let r3 = (if sep then tl r2 else r2) in
                        if length r3 \<noteq> 2 then None
                        else Option.bind (read_dec r3) (mk_date y m))"

lemma days_in_month_le: "days_in_month y m \<le> 31"
  by (simp add: days_in_month_def)

lemma pad_dec_hd: "0 < k \<Longrightarrow> startswith ''W'' (pad_dec k n @ s) = False"
proof -
  assume "0 < k"
  then obtain c cs where e: "pad_dec k n = c # cs" by (metis length_greater_0_conv length_pad_dec neq_Nil_conv)
  then have "is_ascii_digit c" using pad_dec_digits [of k n] by auto
  then have "c \<noteq> CHR ''W''" by (auto simp: is_ascii_digit_def)
  with e show ?thesis by (simp add: startswith_def)
qed

lemma date_fromisoformat_isoformat:
  assumes "valid_date d"
  shows "date_fromisoformat (isoformat d) = Some d"
proof -
  obtain y m dd where d: "d = Date y m dd" by (cases d)
  with assms have b: "y < 10 ^ 4" "m < 10 ^ 2" "dd < 10 ^ 2"
    using days_in_month_le [of y m] by (auto simp: valid_date_def)
  have mk: "mk_date y m dd = Some d" using assms d by (simp add: mk_date_def Let_def)
  let ?s = "isoformat d"
  have l: "length ?s = 10" and y: "take 4 ?s = pad_dec 4 y" and s4: "?s ! 4 = CHR ''-''"
    and r: "drop 5 ?s = pad_dec 2 m @ ''-'' @ pad_dec 2 dd"
    using d by (simp_all add: isoformat_def nth_append)
  have W: "startswith ''W'' (drop 5 ?s) = False"
    unfolding r by (rule pad_dec_hd) simp
  have m2: "take 2 (drop 5 ?s) = pad_dec 2 m" "drop 2 (drop 5 ?s) = CHR ''-'' # pad_dec 2 dd"
    unfolding r by simp_all
  have rd: "read_dec (pad_dec 4 y) = Some y" "read_dec (pad_dec 2 m) = Some m"
    "read_dec (pad_dec 2 dd) = Some dd"
    using b by (simp_all add: read_dec_pad_dec)
  show ?thesis
    unfolding date_fromisoformat_def Let_def
    using l y s4 W m2 rd mk by (simp add: startswith_def)
qed

end
