(* ===== verification/Domain_Query.thy ===== *)
theory Domain_Query
  imports Uuid Py_Date
begin

text \<open>
  \<open>ucsschool_objects/core/domain/query.py\<close> and \<open>errors.py\<close>: the query expression tree of the read
  APIs and the exceptions of the library. Exceptions carry the attributes the code stores in
  them; their message texts are not modelled.
\<close>

section \<open>Query expressions (query.py)\<close>

datatype operator = EQ | NE | IN | MATCHES | MATCHES_CI | GT | GTE | LT | LTE | CONTAINS

text \<open>\<open>FilterValue\<close>: a scalar or an iterable of scalars. A float and a \<open>Decimal\<close> are their text.\<close>

datatype fval =
    VStr string
  | VInt int
  | VFloat string
  | VBool bool
  | VDate date
  | VDatetime string
  | VDecimal string
  | VUuid uuid
  | VNone
  | VIter "fval list"

datatype qfilter = Filter (f_field: string) (f_op: operator) (f_value: fval)

datatype query_expr =
    QFilter qfilter
  | And "query_expr list"
  | Or "query_expr list"
  | QNot query_expr

datatype sort_spec = SortSpec (sort_field: string) (ascending: bool)

datatype search_query = SearchQuery (q_where: "query_expr option")

text \<open>\<open>_shared.iter_filters\<close>: the leaves of an expression, left to right.\<close>

fun iter_filters :: "query_expr \<Rightarrow> qfilter list" where
  "iter_filters (QFilter f) = [f]"
| "iter_filters (And qs) = concat (map iter_filters qs)"
| "iter_filters (Or qs) = concat (map iter_filters qs)"
| "iter_filters (QNot q) = iter_filters q"

section \<open>Exceptions (errors.py, and the builtin ones the code raises)\<close>

datatype err =
    UnsupportedFilterField string
  | UnsupportedSortField string
  | InvalidInFilter string fval
  | InvalidJsonFilter string fval
  | InvalidUuidFilter string fval
  | InvalidPatternFilter string fval
  | InvalidRangeFilter string operator fval
  | UnsupportedFilterOperator string operator
  | UnsupportedNestedField string
  | EmptyAndClause
  | EmptyOrClause
  | UnsupportedOperation string
  | NotFound string string
  | ValueError string
  | TypeError string
  | AttributeError string
  | KeyError string
  | RuntimeError string
  | AssertionError
  | NotImplementedError string
  | NoResultFound
  | JsonPatchException
  | IntegrityError string
  | ValidationError string
  | SynchronizationException string

text \<open>The class hierarchy: which exceptions an \<open>except InvalidFilter\<close> catches.\<close>

fun is_invalid_filter :: "err \<Rightarrow> bool" where
  "is_invalid_filter (UnsupportedFilterField _) = True"
| "is_invalid_filter (UnsupportedSortField _) = True"
| "is_invalid_filter (InvalidInFilter _ _) = True"
| "is_invalid_filter (InvalidJsonFilter _ _) = True"
| "is_invalid_filter (InvalidUuidFilter _ _) = True"
| "is_invalid_filter (InvalidPatternFilter _ _) = True"
| "is_invalid_filter (InvalidRangeFilter _ _ _) = True"
| "is_invalid_filter (UnsupportedFilterOperator _ _) = True"
| "is_invalid_filter (UnsupportedNestedField _) = True"
| "is_invalid_filter EmptyAndClause = True"
| "is_invalid_filter EmptyOrClause = True"
| "is_invalid_filter _ = False"

definition is_corelib_error :: "err \<Rightarrow> bool" where
  "is_corelib_error e \<longleftrightarrow>
     is_invalid_filter e \<or> (\<exists>m. e = UnsupportedOperation m) \<or> (\<exists>t i. e = NotFound t i)"

section \<open>make\_wildcard\_filter (query.py)\<close>

definition make_wildcard_filter :: "string \<Rightarrow> fval \<Rightarrow> bool \<Rightarrow> err + qfilter" where
  "make_wildcard_filter field user_value case_insensitive =
     (case user_value of
        VStr v \<Rightarrow>
          if field = [] then Inl (ValueError ''field must be a non-empty string'')
          else Inr (Filter field (if case_insensitive then MATCHES_CI else MATCHES) (VStr v))
      | _ \<Rightarrow> Inl (TypeError ''user_value must be str''))"

end
