(* ===== verification/Py_Json.thy ===== *)
theory Py_Json
  imports Uuid Py_Date
begin

text \<open>
  JSON-like Python values, as the domain layer produces and compares them: Python's \<open>==\<close> on
  them, \<open>str()\<close> (the sort key of \<open>json.normalise\<close>) and dictionary access. A float is its \<open>repr\<close>.
\<close>

datatype json =
    JNull
  | JBool bool
  | JInt int
  | JFloat string
  | JStr string
  | JList "json list"
  | JObj "(string \<times> json) list"

type_synonym pdict = "(string \<times> json) list"

section \<open>Python equality\<close>

text \<open>
  \<open>True == 1\<close>, \<open>1 == 1.0\<close>; lists compare element-wise, dicts as mappings (their order does not
  matter).
\<close>

definition int_str :: "int \<Rightarrow> string" where
  "int_str i = (if i < 0 then CHR ''-'' # dec_str (nat (- i)) else dec_str (nat i))"

definition scalar_num :: "json \<Rightarrow> int option" where
  "scalar_num v = (case v of JInt i \<Rightarrow> Some i | JBool b \<Rightarrow> Some (if b then 1 else 0) | _ \<Rightarrow> None)"

fun json_eq :: "json \<Rightarrow> json \<Rightarrow> bool" where
  "json_eq (JList xs) (JList ys) = list_all2 json_eq xs ys"
| "json_eq (JObj xs) (JObj ys) \<longleftrightarrow>
     length xs = length ys \<and>
     (\<forall>p\<in>set xs. (case map_of ys (fst p) of None \<Rightarrow> False | Some w \<Rightarrow> json_eq (snd p) w))"
| "json_eq (JStr s) (JStr t) \<longleftrightarrow> s = t"
| "json_eq JNull JNull \<longleftrightarrow> True"
| "json_eq (JFloat s) (JFloat t) \<longleftrightarrow> s = t"
| "json_eq (JFloat s) v \<longleftrightarrow> (\<exists>i. scalar_num v = Some i \<and> s = int_str i @ ''.0'')"
| "json_eq v (JFloat t) \<longleftrightarrow> (\<exists>i. scalar_num v = Some i \<and> t = int_str i @ ''.0'')"
| "json_eq v w \<longleftrightarrow> (\<exists>i. scalar_num v = Some i \<and> scalar_num w = Some i)"

text \<open>A value is well formed when every dict in it has distinct keys, as Python dicts do.\<close>

fun json_wf :: "json \<Rightarrow> bool" where
  "json_wf (JList xs) = list_all json_wf xs"
| "json_wf (JObj xs) \<longleftrightarrow> distinct (map fst xs) \<and> list_all (\<lambda>p. json_wf (snd p)) xs"
| "json_wf _ = True"

lemma json_eq_refl: "json_wf v \<Longrightarrow> json_eq v v"
proof (induction v)
  case (JList xs)
  then show ?case by (auto simp: list_all_iff intro!: list.rel_refl_strong)
next
  case (JObj xs)
  have "case map_of xs (fst p) of None \<Rightarrow> False | Some w \<Rightarrow> json_eq (snd p) w" if "p \<in> set xs" for p
  proof -
    from JObj.prems that have "map_of xs (fst p) = Some (snd p)" by simp
    moreover have "json_eq (snd p) (snd p)"
      using JObj that by (cases p) (auto simp: list_all_iff)
    ultimately show ?thesis by simp
  qed
  then show ?case by simp
qed (auto simp: scalar_num_def)

section \<open>str() and repr()\<close>

definition nibble :: "nat \<Rightarrow> char" where
  "nibble d = char_of (if d < 10 then 48 + d else 87 + d)"

definition repr_char :: "char \<Rightarrow> char \<Rightarrow> string" where
  "repr_char q c =
     (let n = cp c in
      if c = q \<or> c = CHR 0x5C then [CHR 0x5C, c]
      else if n = 10 then [CHR 0x5C, CHR ''n'']
      else if n = 13 then [CHR 0x5C, CHR ''r'']
      else if n = 9 then [CHR 0x5C, CHR ''t'']
      else if n < 32 \<or> 127 \<le> n \<and> n \<le> 160 \<or> n = 173
        then [CHR 0x5C, CHR ''x'', nibble (n div 16), nibble (n mod 16)]
      else [c])"

definition repr_string :: "string \<Rightarrow> string" where
  "repr_string s =
     (let q = (if CHR 0x27 \<in> set s \<and> CHR 0x22 \<notin> set s then CHR 0x22 else CHR 0x27)
      in q # concat (map (repr_char q) s) @ [q])"

fun join_comma :: "string list \<Rightarrow> string" where
  "join_comma [] = []"
| "join_comma [x] = x"
| "join_comma (x # y # ys) = x @ '', '' @ join_comma (y # ys)"

fun py_repr :: "json \<Rightarrow> string" where
  "py_repr JNull = ''None''"
| "py_repr (JBool b) = (if b then ''True'' else ''False'')"
| "py_repr (JInt i) = int_str i"
| "py_repr (JFloat s) = s"
| "py_repr (JStr s) = repr_string s"
| "py_repr (JList xs) = ''['' @ join_comma (map py_repr xs) @ '']''"
| "py_repr (JObj xs) =
     ''{'' @ join_comma (map (\<lambda>p. repr_string (fst p) @ '': '' @ py_repr (snd p)) xs) @ ''}''"

fun py_str :: "json \<Rightarrow> string" where
  "py_str (JStr s) = s"
| "py_str v = py_repr v"

section \<open>Dictionary access\<close>

definition dict_item :: "pdict \<Rightarrow> string \<Rightarrow> json option" where
  "dict_item d k = map_of d k"

text \<open>\<open>d.pop(k, None)\<close>: the value (\<open>None\<close> for a missing key) and the remaining dict.\<close>

definition dict_pop :: "pdict \<Rightarrow> string \<Rightarrow> json \<times> pdict" where
  "dict_pop d k = (case map_of d k of None \<Rightarrow> JNull | Some v \<Rightarrow> v, AList.delete k d)"

lemma dict_pop_remaining: "map_of (snd (dict_pop d k)) = (map_of d)(k := None)"
  by (simp add: dict_pop_def delete_conv')

end
