(* ===== verification/Domain_Models.thy ===== *)
theory Domain_Models
  imports Domain_Query Py_Json
begin

text \<open>
  \<open>ucsschool_objects/core/domain/models.py\<close> and \<open>load_spec.py\<close>: the domain objects with their
  loadable fields, their checked accessors, equality by \<open>public_id\<close>, the derived properties of a
  user and the field lists that drive serialisation and loading.

  \<open>School\<close> and \<open>Role\<close> are records. \<open>Group\<close>, \<open>SchoolMembership\<close> and \<open>User\<close> contain each other, so
  they are mutually recursive datatypes whose selectors are the private attributes. A Python set
  of domain objects is a list without two elements of the same \<open>public_id\<close> (\<^const>\<open>dedup_by\<close>
  builds it), in one iteration order; a dict is an association list.
\<close>

section \<open>Sentinels\<close>

datatype 'a loadable = UNLOADED | Loaded 'a

datatype 'a settable = UNSET | Present 'a

definition require_loaded :: "'a loadable \<Rightarrow> string \<Rightarrow> string \<Rightarrow> err + 'a" where
  "require_loaded value object_type field_name =
     (case value of
        UNLOADED \<Rightarrow> Inl (ValueError (object_type @ ''.'' @ field_name @ '' is not loaded.''))
      | Loaded x \<Rightarrow> Inr x)"

lemma require_loaded_simps [simp]:
  "require_loaded (Loaded x) t f = Inr x"
  "require_loaded UNLOADED t f = Inl (ValueError (t @ ''.'' @ f @ '' is not loaded.''))"
  by (simp_all add: require_loaded_def)

lemma require_loaded_eq_Inr [simp]: "require_loaded v t f = Inr x \<longleftrightarrow> v = Loaded x"
  by (cases v) auto

definition is_loaded_value :: "'a loadable \<Rightarrow> bool" where
  "is_loaded_value v \<longleftrightarrow> v \<noteq> UNLOADED"

section \<open>Objects\<close>

record school =
  s_public_id :: "uuid settable"
  s_record_uid :: "(string) loadable"
  s_source_uid :: "(string) loadable"
  s_name :: "(string) loadable"
  s_display_name :: "(string) loadable"
  s_educational_servers :: "(string list) loadable"
  s_administrative_servers :: "(string list) loadable"
  s_class_share_file_server :: "(string option) loadable"
  s_home_share_file_server :: "(string option) loadable"
  s_udm_properties :: "(pdict) loadable"

record role =
  r_public_id :: "uuid settable"
  r_name :: "(string) loadable"
  r_display_name :: "((string \<times> string) list) loadable"

datatype group = Group
    (g_public_id: "uuid settable")
    (g_record_uid: "(string) loadable")
    (g_source_uid: "(string) loadable")
    (g_name: "(string) loadable")
    (g_display_name: "(string) loadable")
    (g_create_share: "(bool) loadable")
    (g_roles: "(role list) loadable")
    (g_allowed_email_senders_users: "(user list) loadable")
    (g_allowed_email_senders_groups: "(group list) loadable")
    (g_members: "(user list) loadable")
    (g_member_roles: "(role list) loadable")
    (g_school: "(school) loadable")
    (g_email: "(string option) loadable")
    (g_description: "(string option) loadable")
    (g_udm_properties: "(pdict) loadable")
and membership = SchoolMembership
    (m_school: school)
    (m_is_primary: bool)
    (m_roles: "role list")
    (m_groups: "group list")
and user = User
    (u_public_id: "uuid settable")
    (u_record_uid: "(string) loadable")
    (u_source_uid: "(string) loadable")
    (u_name: "(string) loadable")
    (u_firstname: "(string) loadable")
    (u_lastname: "(string) loadable")
    (u_active: "(bool) loadable")
    (u_school_memberships: "((uuid \<times> membership) list) loadable")
    (u_legal_wards: "(user list) loadable")
    (u_legal_guardians: "(user list) loadable")
    (u_email: "(string option) loadable")
    (u_birthday: "(date option) loadable")
    (u_expiration_date: "(date option) loadable")
    (u_udm_properties: "(pdict) loadable")

text \<open>\<open>minimal(public_id)\<close>: only the identity is known.\<close>

definition School_minimal :: "uuid \<Rightarrow> school" where
  "School_minimal public_id = \<lparr>s_public_id = Present public_id, s_record_uid = UNLOADED, s_source_uid = UNLOADED, s_name = UNLOADED, s_display_name = UNLOADED, s_educational_servers = UNLOADED, s_administrative_servers = UNLOADED, s_class_share_file_server = UNLOADED, s_home_share_file_server = UNLOADED, s_udm_properties = UNLOADED\<rparr>"

definition Role_minimal :: "uuid \<Rightarrow> role" where
  "Role_minimal public_id = \<lparr>r_public_id = Present public_id, r_name = UNLOADED, r_display_name = UNLOADED\<rparr>"

definition Group_minimal :: "uuid \<Rightarrow> group" where
  "Group_minimal public_id = Group (Present public_id) UNLOADED UNLOADED UNLOADED UNLOADED UNLOADED UNLOADED UNLOADED UNLOADED UNLOADED UNLOADED UNLOADED UNLOADED UNLOADED UNLOADED"

text \<open>
  \<open>User.__init__\<close>: an argument that is left out is \<^const>\<open>None\<close>. The optional scalars have no \<open>UNLOADED\<close> default,
  so \<open>minimal\<close> leaves them \<open>None\<close>.
\<close>

definition User_init ::
  "string loadable \<Rightarrow> string loadable \<Rightarrow> string loadable \<Rightarrow> string loadable \<Rightarrow> string loadable \<Rightarrow> bool loadable \<Rightarrow>
   (uuid \<times> membership) list loadable \<Rightarrow> user list loadable \<Rightarrow> user list loadable \<Rightarrow> uuid settable option \<Rightarrow>
   string option loadable option \<Rightarrow> date option loadable option \<Rightarrow> date option loadable option \<Rightarrow> pdict loadable option \<Rightarrow> user" where
  [simp]: "User_init record_uid source_uid nm firstname lastname active school_memberships legal_wards legal_guardians
     public_id email birthday expiration_date udm_properties =
   User (case public_id of None \<Rightarrow> UNSET | Some i \<Rightarrow> i) record_uid source_uid nm firstname lastname active
      school_memberships legal_wards legal_guardians
      (case email of None \<Rightarrow> Loaded None | Some v \<Rightarrow> v)
      (case birthday of None \<Rightarrow> Loaded None | Some v \<Rightarrow> v)
      (case expiration_date of None \<Rightarrow> Loaded None | Some v \<Rightarrow> v)
      (case udm_properties of None \<Rightarrow> UNLOADED | Some v \<Rightarrow> v)"

definition User_minimal :: "uuid \<Rightarrow> user" where
  "User_minimal public_id =
     User_init UNLOADED UNLOADED UNLOADED UNLOADED UNLOADED UNLOADED UNLOADED UNLOADED UNLOADED
       (Some (Present public_id)) None None None None"

section \<open>Accessors\<close>

text \<open>Reading a property raises when the field is not loaded; assigning one loads it.\<close>

named_theorems accessors \<open>the checked property accessors\<close>

definition School_record_uid :: "school \<Rightarrow> err + string" where
  [accessors]: "School_record_uid x = require_loaded (s_record_uid x) ''School'' ''record_uid''"

definition School_source_uid :: "school \<Rightarrow> err + string" where
  [accessors]: "School_source_uid x = require_loaded (s_source_uid x) ''School'' ''source_uid''"

definition School_name :: "school \<Rightarrow> err + string" where
  [accessors]: "School_name x = require_loaded (s_name x) ''School'' ''name''"

definition School_display_name :: "school \<Rightarrow> err + string" where
  [accessors]: "School_display_name x = require_loaded (s_display_name x) ''School'' ''display_name''"

definition School_educational_servers :: "school \<Rightarrow> err + (string list)" where
  [accessors]: "School_educational_servers x = require_loaded (s_educational_servers x) ''School'' ''educational_servers''"

definition School_administrative_servers :: "school \<Rightarrow> err + (string list)" where
  [accessors]: "School_administrative_servers x = require_loaded (s_administrative_servers x) ''School'' ''administrative_servers''"

definition School_class_share_file_server :: "school \<Rightarrow> err + (string option)" where
  [accessors]: "School_class_share_file_server x = require_loaded (s_class_share_file_server x) ''School'' ''class_share_file_server''"

definition School_home_share_file_server :: "school \<Rightarrow> err + (string option)" where
  [accessors]: "School_home_share_file_server x = require_loaded (s_home_share_file_server x) ''School'' ''home_share_file_server''"

definition School_udm_properties :: "school \<Rightarrow> err + pdict" where
  [accessors]: "School_udm_properties x = require_loaded (s_udm_properties x) ''School'' ''udm_properties''"

definition Role_name :: "role \<Rightarrow> err + string" where
  [accessors]: "Role_name x = require_loaded (r_name x) ''Role'' ''name''"

definition Role_display_name :: "role \<Rightarrow> err + ((string \<times> string) list)" where
  [accessors]: "Role_display_name x = require_loaded (r_display_name x) ''Role'' ''display_name''"

definition Group_record_uid :: "group \<Rightarrow> err + string" where
  [accessors]: "Group_record_uid x = require_loaded (g_record_uid x) ''Group'' ''record_uid''"

definition Group_source_uid :: "group \<Rightarrow> err + string" where
  [accessors]: "Group_source_uid x = require_loaded (g_source_uid x) ''Group'' ''source_uid''"

definition Group_name :: "group \<Rightarrow> err + string" where
  [accessors]: "Group_name x = require_loaded (g_name x) ''Group'' ''name''"

definition Group_display_name :: "group \<Rightarrow> err + string" where
  [accessors]: "Group_display_name x = require_loaded (g_display_name x) ''Group'' ''display_name''"

definition Group_create_share :: "group \<Rightarrow> err + bool" where
  [accessors]: "Group_create_share x = require_loaded (g_create_share x) ''Group'' ''create_share''"

definition Group_roles :: "group \<Rightarrow> err + (role list)" where
  [accessors]: "Group_roles x = require_loaded (g_roles x) ''Group'' ''roles''"

definition Group_allowed_email_senders_users :: "group \<Rightarrow> err + (user list)" where
  [accessors]: "Group_allowed_email_senders_users x = require_loaded (g_allowed_email_senders_users x) ''Group'' ''allowed_email_senders_users''"

definition Group_allowed_email_senders_groups :: "group \<Rightarrow> err + (group list)" where
  [accessors]: "Group_allowed_email_senders_groups x = require_loaded (g_allowed_email_senders_groups x) ''Group'' ''allowed_email_senders_groups''"

definition Group_members :: "group \<Rightarrow> err + (user list)" where
  [accessors]: "Group_members x = require_loaded (g_members x) ''Group'' ''members''"

definition Group_member_roles :: "group \<Rightarrow> err + (role list)" where
  [accessors]: "Group_member_roles x = require_loaded (g_member_roles x) ''Group'' ''member_roles''"

definition Group_school :: "group \<Rightarrow> err + school" where
  [accessors]: "Group_school x = require_loaded (g_school x) ''Group'' ''school''"

definition Group_email :: "group \<Rightarrow> err + (string option)" where
  [accessors]: "Group_email x = require_loaded (g_email x) ''Group'' ''email''"

definition Group_description :: "group \<Rightarrow> err + (string option)" where
  [accessors]: "Group_description x = require_loaded (g_description x) ''Group'' ''description''"

definition Group_udm_properties :: "group \<Rightarrow> err + pdict" where
  [accessors]: "Group_udm_properties x = require_loaded (g_udm_properties x) ''Group'' ''udm_properties''"

definition User_record_uid :: "user \<Rightarrow> err + string" where
  [accessors]: "User_record_uid x = require_loaded (u_record_uid x) ''User'' ''record_uid''"

definition User_source_uid :: "user \<Rightarrow> err + string" where
  [accessors]: "User_source_uid x = require_loaded (u_source_uid x) ''User'' ''source_uid''"

definition User_name :: "user \<Rightarrow> err + string" where
  [accessors]: "User_name x = require_loaded (u_name x) ''User'' ''name''"

definition User_firstname :: "user \<Rightarrow> err + string" where
  [accessors]: "User_firstname x = require_loaded (u_firstname x) ''User'' ''firstname''"

definition User_lastname :: "user \<Rightarrow> err + string" where
  [accessors]: "User_lastname x = require_loaded (u_lastname x) ''User'' ''lastname''"

definition User_active :: "user \<Rightarrow> err + bool" where
  [accessors]: "User_active x = require_loaded (u_active x) ''User'' ''active''"

definition User_school_memberships :: "user \<Rightarrow> err + ((uuid \<times> membership) list)" where
  [accessors]: "User_school_memberships x = require_loaded (u_school_memberships x) ''User'' ''school_memberships''"

definition User_legal_wards :: "user \<Rightarrow> err + (user list)" where
  [accessors]: "User_legal_wards x = require_loaded (u_legal_wards x) ''User'' ''legal_wards''"

definition User_legal_guardians :: "user \<Rightarrow> err + (user list)" where
  [accessors]: "User_legal_guardians x = require_loaded (u_legal_guardians x) ''User'' ''legal_guardians''"

definition User_email :: "user \<Rightarrow> err + (string option)" where
  [accessors]: "User_email x = require_loaded (u_email x) ''User'' ''email''"

definition User_birthday :: "user \<Rightarrow> err + (date option)" where
  [accessors]: "User_birthday x = require_loaded (u_birthday x) ''User'' ''birthday''"

definition User_expiration_date :: "user \<Rightarrow> err + (date option)" where
  [accessors]: "User_expiration_date x = require_loaded (u_expiration_date x) ''User'' ''expiration_date''"

definition User_udm_properties :: "user \<Rightarrow> err + pdict" where
  [accessors]: "User_udm_properties x = require_loaded (u_udm_properties x) ''User'' ''udm_properties''"

definition set_School_record_uid :: "string \<Rightarrow> school \<Rightarrow> school" where
  [accessors]: "set_School_record_uid v x = x\<lparr>s_record_uid := Loaded v\<rparr>"

definition set_School_source_uid :: "string \<Rightarrow> school \<Rightarrow> school" where
  [accessors]: "set_School_source_uid v x = x\<lparr>s_source_uid := Loaded v\<rparr>"

definition set_School_name :: "string \<Rightarrow> school \<Rightarrow> school" where
  [accessors]: "set_School_name v x = x\<lparr>s_name := Loaded v\<rparr>"

definition set_School_display_name :: "string \<Rightarrow> school \<Rightarrow> school" where
  [accessors]: "set_School_display_name v x = x\<lparr>s_display_name := Loaded v\<rparr>"

definition set_School_educational_servers :: "(string list) \<Rightarrow> school \<Rightarrow> school" where
  [accessors]: "set_School_educational_servers v x = x\<lparr>s_educational_servers := Loaded v\<rparr>"

definition set_School_administrative_servers :: "(string list) \<Rightarrow> school \<Rightarrow> school" where
  [accessors]: "set_School_administrative_servers v x = x\<lparr>s_administrative_servers := Loaded v\<rparr>"

definition set_School_class_share_file_server :: "(string option) \<Rightarrow> school \<Rightarrow> school" where
  [accessors]: "set_School_class_share_file_server v x = x\<lparr>s_class_share_file_server := Loaded v\<rparr>"

definition set_School_home_share_file_server :: "(string option) \<Rightarrow> school \<Rightarrow> school" where
  [accessors]: "set_School_home_share_file_server v x = x\<lparr>s_home_share_file_server := Loaded v\<rparr>"

definition set_School_udm_properties :: "pdict \<Rightarrow> school \<Rightarrow> school" where
  [accessors]: "set_School_udm_properties v x = x\<lparr>s_udm_properties := Loaded v\<rparr>"

fun set_Group_record_uid :: "string \<Rightarrow> group \<Rightarrow> group" where
  "set_Group_record_uid v (Group a0 _ a2 a3 a4 a5 a6 a7 a8 a9 a10 a11 a12 a13 a14) =
     Group a0 (Loaded v) a2 a3 a4 a5 a6 a7 a8 a9 a10 a11 a12 a13 a14"

fun set_Group_source_uid :: "string \<Rightarrow> group \<Rightarrow> group" where
  "set_Group_source_uid v (Group a0 a1 _ a3 a4 a5 a6 a7 a8 a9 a10 a11 a12 a13 a14) =
     Group a0 a1 (Loaded v) a3 a4 a5 a6 a7 a8 a9 a10 a11 a12 a13 a14"

fun set_Group_name :: "string \<Rightarrow> group \<Rightarrow> group" where
  "set_Group_name v (Group a0 a1 a2 _ a4 a5 a6 a7 a8 a9 a10 a11 a12 a13 a14) =
     Group a0 a1 a2 (Loaded v) a4 a5 a6 a7 a8 a9 a10 a11 a12 a13 a14"

fun set_Group_display_name :: "string \<Rightarrow> group \<Rightarrow> group" where
  "set_Group_display_name v (Group a0 a1 a2 a3 _ a5 a6 a7 a8 a9 a10 a11 a12 a13 a14) =
     Group a0 a1 a2 a3 (Loaded v) a5 a6 a7 a8 a9 a10 a11 a12 a13 a14"

fun set_Group_create_share :: "bool \<Rightarrow> group \<Rightarrow> group" where
  "set_Group_create_share v (Group a0 a1 a2 a3 a4 _ a6 a7 a8 a9 a10 a11 a12 a13 a14) =
     Group a0 a1 a2 a3 a4 (Loaded v) a6 a7 a8 a9 a10 a11 a12 a13 a14"

fun set_Group_roles :: "(role list) \<Rightarrow> group \<Rightarrow> group" where
  "set_Group_roles v (Group a0 a1 a2 a3 a4 a5 _ a7 a8 a9 a10 a11 a12 a13 a14) =
     Group a0 a1 a2 a3 a4 a5 (Loaded v) a7 a8 a9 a10 a11 a12 a13 a14"

fun set_Group_allowed_email_senders_users :: "(user list) \<Rightarrow> group \<Rightarrow> group" where
  "set_Group_allowed_email_senders_users v (Group a0 a1 a2 a3 a4 a5 a6 _ a8 a9 a10 a11 a12 a13 a14) =
     Group a0 a1 a2 a3 a4 a5 a6 (Loaded v) a8 a9 a10 a11 a12 a13 a14"

fun set_Group_allowed_email_senders_groups :: "(group list) \<Rightarrow> group \<Rightarrow> group" where
  "set_Group_allowed_email_senders_groups v (Group a0 a1 a2 a3 a4 a5 a6 a7 _ a9 a10 a11 a12 a13 a14) =
     Group a0 a1 a2 a3 a4 a5 a6 a7 (Loaded v) a9 a10 a11 a12 a13 a14"

fun set_Group_members :: "(user list) \<Rightarrow> group \<Rightarrow> group" where
  "set_Group_members v (Group a0 a1 a2 a3 a4 a5 a6 a7 a8 _ a10 a11 a12 a13 a14) =
     Group a0 a1 a2 a3 a4 a5 a6 a7 a8 (Loaded v) a10 a11 a12 a13 a14"

fun set_Group_member_roles :: "(role list) \<Rightarrow> group \<Rightarrow> group" where
  "set_Group_member_roles v (Group a0 a1 a2 a3 a4 a5 a6 a7 a8 a9 _ a11 a12 a13 a14) =
     Group a0 a1 a2 a3 a4 a5 a6 a7 a8 a9 (Loaded v) a11 a12 a13 a14"

fun set_Group_school :: "school \<Rightarrow> group \<Rightarrow> group" where
  "set_Group_school v (Group a0 a1 a2 a3 a4 a5 a6 a7 a8 a9 a10 _ a12 a13 a14) =
     Group a0 a1 a2 a3 a4 a5 a6 a7 a8 a9 a10 (Loaded v) a12 a13 a14"

fun set_Group_email :: "(string option) \<Rightarrow> group \<Rightarrow> group" where
  "set_Group_email v (Group a0 a1 a2 a3 a4 a5 a6 a7 a8 a9 a10 a11 _ a13 a14) =
     Group a0 a1 a2 a3 a4 a5 a6 a7 a8 a9 a10 a11 (Loaded v) a13 a14"

fun set_Group_description :: "(string option) \<Rightarrow> group \<Rightarrow> group" where
  "set_Group_description v (Group a0 a1 a2 a3 a4 a5 a6 a7 a8 a9 a10 a11 a12 _ a14) =
     Group a0 a1 a2 a3 a4 a5 a6 a7 a8 a9 a10 a11 a12 (Loaded v) a14"

fun set_Group_udm_properties :: "pdict \<Rightarrow> group \<Rightarrow> group" where
  "set_Group_udm_properties v (Group a0 a1 a2 a3 a4 a5 a6 a7 a8 a9 a10 a11 a12 a13 _) =
     Group a0 a1 a2 a3 a4 a5 a6 a7 a8 a9 a10 a11 a12 a13 (Loaded v)"

fun set_User_record_uid :: "string \<Rightarrow> user \<Rightarrow> user" where
  "set_User_record_uid v (User a0 _ a2 a3 a4 a5 a6 a7 a8 a9 a10 a11 a12 a13) =
     User a0 (Loaded v) a2 a3 a4 a5 a6 a7 a8 a9 a10 a11 a12 a13"

fun set_User_source_uid :: "string \<Rightarrow> user \<Rightarrow> user" where
  "set_User_source_uid v (User a0 a1 _ a3 a4 a5 a6 a7 a8 a9 a10 a11 a12 a13) =
     User a0 a1 (Loaded v) a3 a4 a5 a6 a7 a8 a9 a10 a11 a12 a13"

fun set_User_name :: "string \<Rightarrow> user \<Rightarrow> user" where
  "set_User_name v (User a0 a1 a2 _ a4 a5 a6 a7 a8 a9 a10 a11 a12 a13) =
     User a0 a1 a2 (Loaded v) a4 a5 a6 a7 a8 a9 a10 a11 a12 a13"

fun set_User_firstname :: "string \<Rightarrow> user \<Rightarrow> user" where
  "set_User_firstname v (User a0 a1 a2 a3 _ a5 a6 a7 a8 a9 a10 a11 a12 a13) =
     User a0 a1 a2 a3 (Loaded v) a5 a6 a7 a8 a9 a10 a11 a12 a13"

fun set_User_lastname :: "string \<Rightarrow> user \<Rightarrow> user" where
  "set_User_lastname v (User a0 a1 a2 a3 a4 _ a6 a7 a8 a9 a10 a11 a12 a13) =
     User a0 a1 a2 a3 a4 (Loaded v) a6 a7 a8 a9 a10 a11 a12 a13"

fun set_User_active :: "bool \<Rightarrow> user \<Rightarrow> user" where
  "set_User_active v (User a0 a1 a2 a3 a4 a5 _ a7 a8 a9 a10 a11 a12 a13) =
     User a0 a1 a2 a3 a4 a5 (Loaded v) a7 a8 a9 a10 a11 a12 a13"

fun set_User_school_memberships :: "((uuid \<times> membership) list) \<Rightarrow> user \<Rightarrow> user" where
  "set_User_school_memberships v (User a0 a1 a2 a3 a4 a5 a6 _ a8 a9 a10 a11 a12 a13) =
     User a0 a1 a2 a3 a4 a5 a6 (Loaded v) a8 a9 a10 a11 a12 a13"

fun set_User_legal_wards :: "(user list) \<Rightarrow> user \<Rightarrow> user" where
  "set_User_legal_wards v (User a0 a1 a2 a3 a4 a5 a6 a7 _ a9 a10 a11 a12 a13) =
     User a0 a1 a2 a3 a4 a5 a6 a7 (Loaded v) a9 a10 a11 a12 a13"

fun set_User_legal_guardians :: "(user list) \<Rightarrow> user \<Rightarrow> user" where
  "set_User_legal_guardians v (User a0 a1 a2 a3 a4 a5 a6 a7 a8 _ a10 a11 a12 a13) =
     User a0 a1 a2 a3 a4 a5 a6 a7 a8 (Loaded v) a10 a11 a12 a13"

fun set_User_email :: "(string option) \<Rightarrow> user \<Rightarrow> user" where
  "set_User_email v (User a0 a1 a2 a3 a4 a5 a6 a7 a8 a9 _ a11 a12 a13) =
     User a0 a1 a2 a3 a4 a5 a6 a7 a8 a9 (Loaded v) a11 a12 a13"

fun set_User_birthday :: "(date option) \<Rightarrow> user \<Rightarrow> user" where
  "set_User_birthday v (User a0 a1 a2 a3 a4 a5 a6 a7 a8 a9 a10 _ a12 a13) =
     User a0 a1 a2 a3 a4 a5 a6 a7 a8 a9 a10 (Loaded v) a12 a13"

fun set_User_expiration_date :: "(date option) \<Rightarrow> user \<Rightarrow> user" where
  "set_User_expiration_date v (User a0 a1 a2 a3 a4 a5 a6 a7 a8 a9 a10 a11 _ a13) =
     User a0 a1 a2 a3 a4 a5 a6 a7 a8 a9 a10 a11 (Loaded v) a13"

fun set_User_udm_properties :: "pdict \<Rightarrow> user \<Rightarrow> user" where
  "set_User_udm_properties v (User a0 a1 a2 a3 a4 a5 a6 a7 a8 a9 a10 a11 a12 _) =
     User a0 a1 a2 a3 a4 a5 a6 a7 a8 a9 a10 a11 a12 (Loaded v)"

section \<open>Equality\<close>

text \<open>Domain objects are equal iff their \<open>public_id\<close> is; two unset ids are equal as well.\<close>

definition School_eq :: "school \<Rightarrow> school \<Rightarrow> bool" where
  "School_eq a b \<longleftrightarrow> s_public_id a = s_public_id b"

definition Role_eq :: "role \<Rightarrow> role \<Rightarrow> bool" where
  "Role_eq a b \<longleftrightarrow> r_public_id a = r_public_id b"

definition Group_eq :: "group \<Rightarrow> group \<Rightarrow> bool" where
  "Group_eq a b \<longleftrightarrow> g_public_id a = g_public_id b"

definition User_eq :: "user \<Rightarrow> user \<Rightarrow> bool" where
  "User_eq a b \<longleftrightarrow> u_public_id a = u_public_id b"

definition SchoolMembership_eq :: "membership \<Rightarrow> membership \<Rightarrow> bool" where
  "SchoolMembership_eq a b \<longleftrightarrow>
     School_eq (m_school a) (m_school b) \<and> m_is_primary a = m_is_primary b \<and>
     r_public_id ` set (m_roles a) = r_public_id ` set (m_roles b) \<and>
     g_public_id ` set (m_groups a) = g_public_id ` set (m_groups b)"

section \<open>Derived properties of a user\<close>

fun first_primary :: "membership list \<Rightarrow> err + school" where
  "first_primary [] = Inl (ValueError ''User has no primary school membership.'')"
| "first_primary (m # ms) = (if m_is_primary m then Inr (m_school m) else first_primary ms)"

definition primary_school :: "user \<Rightarrow> err + school" where
  "primary_school u = res_bind (User_school_memberships u) (\<lambda>ms. first_primary (map snd ms))"

definition user_groups :: "user \<Rightarrow> err + group list" where
  "user_groups u = res_bind (User_school_memberships u)
     (\<lambda>ms. Inr (dedup_by g_public_id (concat (map (\<lambda>p. m_groups (snd p)) ms))))"

definition user_roles :: "user \<Rightarrow> err + role list" where
  "user_roles u = res_bind (User_school_memberships u)
     (\<lambda>ms. Inr (dedup_by r_public_id (concat (map (\<lambda>p. m_roles (snd p)) ms))))"

section \<open>Field lists\<close>

datatype model_type = SchoolT | RoleT | GroupT | MembershipT | UserT

fun serialize_fields :: "model_type \<Rightarrow> string list" where
  "serialize_fields SchoolT =
     [''public_id'', ''_record_uid'', ''_source_uid'', ''_name'', ''_display_name'',
      ''_educational_servers'', ''_administrative_servers'', ''_class_share_file_server'',
      ''_home_share_file_server'', ''_udm_properties'']"
| "serialize_fields RoleT = [''public_id'', ''_name'', ''_display_name'']"
| "serialize_fields GroupT =
     [''public_id'', ''_record_uid'', ''_source_uid'', ''_name'', ''_display_name'', ''_create_share'',
      ''_roles'', ''_allowed_email_senders_users'', ''_allowed_email_senders_groups'', ''_members'',
      ''_member_roles'', ''_school'', ''_email'', ''_description'', ''_udm_properties'']"
| "serialize_fields MembershipT = [''school'', ''is_primary'', ''roles'', ''groups'']"
| "serialize_fields UserT =
     [''public_id'', ''_record_uid'', ''_source_uid'', ''_name'', ''_firstname'', ''_lastname'',
      ''_active'', ''_school_memberships'', ''_legal_wards'', ''_legal_guardians'', ''_email'',
      ''_birthday'', ''_expiration_date'', ''_udm_properties'']"

definition serialized_domain_field_name :: "string \<Rightarrow> string" where
  "serialized_domain_field_name f = (if startswith ''_'' f then tl f else f)"

definition get_properties :: "model_type \<Rightarrow> string set" where
  "get_properties t = set (map serialized_domain_field_name (serialize_fields t))"

section \<open>LoadSpec (load\_spec.py)\<close>

datatype load_spec = LoadSpec (spec_attributes: "string set")

definition spec_includes :: "load_spec \<Rightarrow> string \<Rightarrow> bool" where
  "spec_includes l attribute \<longleftrightarrow> attribute \<in> spec_attributes l"

definition from_attributes :: "string list \<Rightarrow> load_spec" where
  "from_attributes attributes = LoadSpec (set attributes)"

definition from_model :: "model_type \<Rightarrow> load_spec" where
  "from_model t = LoadSpec (get_properties t)"

section \<open>Lemmas\<close>

lemma first_primary_find:
  "first_primary ms =
     (case find m_is_primary ms of
        None \<Rightarrow> Inl (ValueError ''User has no primary school membership.'')
      | Some m \<Rightarrow> Inr (m_school m))"
  by (induction ms) auto

lemma first_primary_Inl:
  "(\<exists>e. first_primary ms = Inl e) \<longleftrightarrow> (\<forall>m\<in>set ms. \<not> m_is_primary m)"
  by (induction ms) auto

lemma first_primary_unique:
  assumes "m \<in> set ms" "m_is_primary m"
    and uniq: "\<forall>n\<in>set ms. m_is_primary n \<longrightarrow> m_school n = m_school m"
  shows "first_primary ms = Inr (m_school m)"
proof (cases "find m_is_primary ms")
  case None
  with assms(1,2) show ?thesis by (auto simp: find_None_iff)
next
  case (Some n)
  then have "n \<in> set ms" "m_is_primary n" by (auto simp: find_Some_iff)
  with uniq have "m_school n = m_school m" by blast
  with Some show ?thesis by (simp add: first_primary_find)
qed

lemma serialized_name_underscore [simp]: "serialized_domain_field_name (CHR ''_'' # f) = f"
  by (simp add: serialized_domain_field_name_def startswith_def)

lemma public_id_loaded_everywhere: "t \<noteq> MembershipT \<Longrightarrow> spec_includes (from_model t) ''public_id''"
  by (cases t) (simp_all add: spec_includes_def from_model_def get_properties_def
      serialized_domain_field_name_def startswith_def)

end
