(* ===== verification/Validators.thy ===== *)
theory Validators
  imports Domain_Models
begin

text \<open>
  \<open>ucsschool_objects/core/domain/validators.py\<close>: the checks an object passes before the managers
  store it. The regular expressions are kept as such, with a matcher for the constructs they use.
\<close>

section \<open>Regular expressions\<close>

text \<open>
  The fragment of \<open>re\<close> the code uses. \<open>rx_rest r s\<close> lists what is left of \<open>s\<close> after each way
  \<open>r\<close> can match a prefix of it; \<open>$\<close> matches at the end and before a final newline.
\<close>

datatype rx =
    Cls "char \<Rightarrow> bool"
  | StarCls "char \<Rightarrow> bool"
  | Cat rx rx
  | Opt rx
  | Eos

fun star_rest :: "(char \<Rightarrow> bool) \<Rightarrow> string \<Rightarrow> string list" where
  "star_rest P [] = [[]]"
| "star_rest P (c # s) = (if P c then star_rest P s @ [c # s] else [c # s])"

abbreviation newline :: char where "newline \<equiv> CHR 0x0A"

fun rx_rest :: "rx \<Rightarrow> string \<Rightarrow> string list" where
  "rx_rest (Cls P) s = (case s of [] \<Rightarrow> [] | c # t \<Rightarrow> if P c then [t] else [])"
| "rx_rest (StarCls P) s = star_rest P s"
| "rx_rest (Cat a b) s = concat (map (rx_rest b) (rx_rest a s))"
| "rx_rest (Opt a) s = rx_rest a s @ [s]"
| "rx_rest Eos s = (if s = [] \<or> s = [newline] then [s] else [])"

text \<open>\<open>pattern.match(s)\<close>; the leading \<open>^\<close> of the patterns is where \<open>match\<close> starts anyway.\<close>

definition re_match :: "rx \<Rightarrow> string \<Rightarrow> bool" where
  "re_match r s \<longleftrightarrow> rx_rest r s \<noteq> []"

lemma set_star_rest: "set (star_rest P s) = {r. \<exists>p. s = p @ r \<and> (\<forall>c\<in>set p. P c)}"
proof (induction s)
  case (Cons c s)
  show ?case
    by (auto simp: Cons Cons_eq_append_conv)
qed auto

lemma re_match_Cat: "re_match (Cat a b) s \<longleftrightarrow> (\<exists>r\<in>set (rx_rest a s). re_match b r)"
  by (auto simp: re_match_def)

section \<open>Patterns\<close>

definition is_alnum :: "char \<Rightarrow> bool" where
  [py_defs]: "is_alnum c \<longleftrightarrow> is_ascii_alpha c \<or> is_ascii_digit c"

definition name_char :: "char \<Rightarrow> bool" where
  [py_defs]: "name_char c \<longleftrightarrow> is_alnum c \<or> c = CHR ''-'' \<or> c = CHR ''_''"

definition SCHOOL_NAME_RE :: rx where
  "SCHOOL_NAME_RE =
     Cat (Cls is_alnum)
         (Cat (Opt (Cat (StarCls name_char) (Cat (Cls is_alnum) Eos))) Eos)"

definition WIN_INVALID_CHARS_RE :: "char \<Rightarrow> bool" where
  "WIN_INVALID_CHARS_RE c \<longleftrightarrow> cp c < 32 \<or> c \<in> set (CHR 0x22 # CHR 0x5C # ''<>:/|?*'')"

definition re_search_cls :: "(char \<Rightarrow> bool) \<Rightarrow> string \<Rightarrow> bool" where
  "re_search_cls P s \<longleftrightarrow> (\<exists>c\<in>set s. P c)"

definition WIN_RESERVED_NAMES :: "string list" where
  "WIN_RESERVED_NAMES =
     [''CON'', ''PRN'', ''AUX'', ''NUL'', ''COM0'', ''COM1'', ''COM2'', ''COM3'', ''COM4'', ''COM5'', ''COM6'',
      ''COM7'', ''COM8'', ''COM9'', ''LPT0'', ''LPT1'', ''LPT2'', ''LPT3'', ''LPT4'', ''LPT5'', ''LPT6'', ''LPT7'',
      ''LPT8'', ''LPT9'']"

definition is_reserved :: "string \<Rightarrow> bool" where
  "is_reserved name \<longleftrightarrow>
     py_upper (hd (py_split CHR ''.'' name)) \<in> set (map (map of_char) WIN_RESERVED_NAMES)"

section \<open>Validators\<close>

text \<open>\<open>if bad: raise ValueError(message)\<close>, then the rest.\<close>

definition raise_if :: "bool \<Rightarrow> string \<Rightarrow> err + unit \<Rightarrow> err + unit" where
  "raise_if bad message rest = (if bad then Inl (ValueError message) else rest)"

lemma raise_if_ok [simp]: "raise_if bad message rest = Inr () \<longleftrightarrow> \<not> bad \<and> rest = Inr ()"
  by (simp add: raise_if_def)

definition SchoolValidator_validate :: "school \<Rightarrow> err + unit" where
  "SchoolValidator_validate school =
     res_bind (School_name school) (\<lambda>name.
     raise_if (name = []) ''School.name must not be empty.''
    (raise_if (\<not> re_match SCHOOL_NAME_RE name) ''Invalid school name''
    (res_bind (School_record_uid school) (\<lambda>record_uid.
     raise_if (record_uid = []) ''School.record_uid must not be empty.''
    (res_bind (School_source_uid school) (\<lambda>source_uid.
     raise_if (source_uid = []) ''School.source_uid must not be empty.''
    (Inr ())))))))"

definition RoleValidator_validate :: "role \<Rightarrow> err + unit" where
  "RoleValidator_validate role =
     res_bind (Role_name role) (\<lambda>name. raise_if (name = []) ''Role.name must not be empty.'' (Inr ()))"

definition GroupValidator_validate :: "group \<Rightarrow> err + unit" where
  "GroupValidator_validate g =
     res_bind (Group_name g) (\<lambda>name.
     raise_if (name = []) ''Group.name must not be empty.''
    (res_bind (Group_record_uid g) (\<lambda>record_uid.
     raise_if (record_uid = []) ''Group.record_uid must not be empty.''
    (res_bind (Group_source_uid g) (\<lambda>source_uid.
     raise_if (source_uid = []) ''Group.source_uid must not be empty.''
    (res_bind (Group_roles g) (\<lambda>roles.
     raise_if (roles = []) ''Group.roles must not be empty.''
    (Inr ()))))))))"

definition UserValidator_validate :: "user \<Rightarrow> err + unit" where
  "UserValidator_validate user =
     res_bind (User_name user) (\<lambda>name.
     raise_if (name = []) ''User.name must not be empty.''
    (raise_if (re_search_cls WIN_INVALID_CHARS_RE name) ''User.name contains invalid characters.''
    (raise_if (last name \<in> {CHR '' '', CHR ''.''}) ''User.name must not end with a space or period.''
    (raise_if (255 < length name) ''User.name must not exceed 255 characters.''
    (raise_if (is_reserved name) ''User.name is a reserved Windows name.''
    (res_bind (User_firstname user) (\<lambda>firstname.
     raise_if (firstname = []) ''User.firstname must not be empty.''
    (res_bind (User_lastname user) (\<lambda>lastname.
     raise_if (lastname = []) ''User.lastname must not be empty.''
    (res_bind (User_record_uid user) (\<lambda>record_uid.
     raise_if (record_uid = []) ''User.record_uid must not be empty.''
    (res_bind (User_source_uid user) (\<lambda>source_uid.
     raise_if (source_uid = []) ''User.source_uid must not be empty.''
    (Inr ()))))))))))))))"

section \<open>What the school name pattern accepts\<close>

definition proper_name :: "string \<Rightarrow> bool" where
  "proper_name s \<longleftrightarrow>
     s \<noteq> [] \<and> is_alnum (hd s) \<and> is_alnum (last s) \<and> (\<forall>c\<in>set s. name_char c)"

lemma newline_not_name_char [simp]: "\<not> name_char newline" "\<not> is_alnum newline"
  by (simp_all add: py_defs)

lemma alnum_name_char: "is_alnum c \<Longrightarrow> name_char c"
  by (simp add: name_char_def)

lemma re_match_Eos [simp]: "re_match Eos s \<longleftrightarrow> s = [] \<or> s = [newline]"
  by (simp add: re_match_def)

lemma re_match_tail:
  "re_match (Cat (Opt (Cat (StarCls name_char) (Cat (Cls is_alnum) Eos))) Eos) s \<longleftrightarrow>
     s = [] \<or> s = [newline] \<or>
     (\<exists>p a. (s = p @ [a] \<or> s = (p @ [a]) @ [newline]) \<and> (\<forall>c\<in>set p. name_char c) \<and> is_alnum a)"
proof -
  have *: "set (rx_rest (Cat (StarCls name_char) (Cat (Cls is_alnum) Eos)) s) =
      {r. \<exists>p a. s = p @ a # r \<and> (\<forall>c\<in>set p. name_char c) \<and> is_alnum a \<and> (r = [] \<or> r = [newline])}"
    by (auto simp: set_star_rest split: list.splits if_splits)
  show ?thesis
    by (auto simp: re_match_Cat * simp del: rx_rest.simps(3))
qed

lemma proper_name_snoc:
  "proper_name (a # p @ [b]) \<longleftrightarrow> is_alnum a \<and> is_alnum b \<and> (\<forall>c\<in>set p. name_char c)"
  by (auto simp: proper_name_def alnum_name_char)

lemma school_name_re:
  "re_match SCHOOL_NAME_RE s \<longleftrightarrow> proper_name s \<or> (\<exists>t. s = t @ [newline] \<and> proper_name t)"
  (is "?l \<longleftrightarrow> ?r")
proof (cases s)
  case Nil
  then show ?thesis by (simp add: SCHOOL_NAME_RE_def re_match_def proper_name_def)
next
  case (Cons a t)
  have head: "?l \<longleftrightarrow> is_alnum a \<and>
      re_match (Cat (Opt (Cat (StarCls name_char) (Cat (Cls is_alnum) Eos))) Eos) t"
    unfolding SCHOOL_NAME_RE_def by (subst re_match_Cat) (simp add: Cons)
  have single: "proper_name [a] \<longleftrightarrow> is_alnum a"
    by (auto simp: proper_name_def alnum_name_char)
  show ?thesis
  proof (cases t rule: rev_cases)
    case Nil
    then show ?thesis unfolding head re_match_tail
      by (auto simp: Cons single Cons_eq_append_conv) (auto simp: proper_name_def)
  next
    case (snoc u b)
    let ?body = "\<lambda>v. \<exists>p c. v = p @ [c] \<and> (\<forall>x\<in>set p. name_char x) \<and> is_alnum c"
    have tail: "?l \<longleftrightarrow> is_alnum a \<and> (t = [newline] \<or> ?body t \<or> b = newline \<and> ?body u)"
      unfolding head re_match_tail using snoc by blast
    have body: "is_alnum a \<and> (v = [] \<or> ?body v) \<longleftrightarrow> proper_name (a # v)" for v
      by (cases v rule: rev_cases) (auto simp: single proper_name_snoc)
    show ?thesis
    proof (cases "b = newline")
      case True
      then have "?l \<longleftrightarrow> is_alnum a \<and> (u = [] \<or> ?body u)" using tail snoc by auto
      then have "?l \<longleftrightarrow> proper_name (a # u)" using body by simp
      moreover have "\<not> proper_name s" using Cons snoc True by (simp add: proper_name_def)
      ultimately show ?thesis using Cons snoc True by auto
    next
      case False
      then have "?l \<longleftrightarrow> proper_name s" using tail body [of t] Cons snoc by auto
      then show ?thesis using Cons snoc False by auto
    qed
  qed
qed

section \<open>Acceptance\<close>

lemma school_validate_iff:
  "SchoolValidator_validate s = Inr () \<longleftrightarrow>
     (\<exists>n r q. s_name s = Loaded n \<and> s_record_uid s = Loaded r \<and> s_source_uid s = Loaded q \<and>
        re_match SCHOOL_NAME_RE n \<and> n \<noteq> [] \<and> r \<noteq> [] \<and> q \<noteq> [])"
  by (auto simp: SchoolValidator_validate_def accessors res_bind_eq_Inr)

lemma group_validate_iff:
  "GroupValidator_validate g = Inr () \<longleftrightarrow>
     (\<exists>n r q rs. g_name g = Loaded n \<and> g_record_uid g = Loaded r \<and> g_source_uid g = Loaded q \<and>
        g_roles g = Loaded rs \<and> n \<noteq> [] \<and> r \<noteq> [] \<and> q \<noteq> [] \<and> rs \<noteq> [])"
  by (auto simp: GroupValidator_validate_def accessors res_bind_eq_Inr)

lemma user_validate_iff:
  "UserValidator_validate u = Inr () \<longleftrightarrow>
     (\<exists>n f l r q. u_name u = Loaded n \<and> u_firstname u = Loaded f \<and> u_lastname u = Loaded l \<and>
        u_record_uid u = Loaded r \<and> u_source_uid u = Loaded q \<and>
        n \<noteq> [] \<and> f \<noteq> [] \<and> l \<noteq> [] \<and> r \<noteq> [] \<and> q \<noteq> [] \<and>
        \<not> re_search_cls WIN_INVALID_CHARS_RE n \<and> last n \<notin> {CHR '' '', CHR ''.''} \<and>
        length n \<le> 255 \<and> \<not> is_reserved n)"
  by (auto simp: UserValidator_validate_def accessors res_bind_eq_Inr not_less)

section \<open>Reserved names, case-insensitively\<close>

definition ascii_upper :: "char \<Rightarrow> char" where
  "ascii_upper c = (if 97 \<le> cp c \<and> cp c \<le> 122 then char_of (cp c - 32) else c)"

text \<open>Upper-case letters and digits, never two \<open>S\<close> in a row: all reserved names are of this form.\<close>

fun plain_upper :: "string \<Rightarrow> bool" where
  "plain_upper [] = True"
| "plain_upper (a # r) \<longleftrightarrow>
     a \<in> set ''ABCDEFGHIJKLMNOPQRSTUVWXYZ0123456789'' \<and> (a = CHR ''S'' \<longrightarrow> r = [] \<or> hd r \<noteq> CHR ''S'') \<and>
     plain_upper r"

lemma plain_char:
  "a \<in> set ''ABCDEFGHIJKLMNOPQRSTUVWXYZ0123456789'' \<Longrightarrow> 65 \<le> cp a \<and> cp a \<le> 90 \<or> is_ascii_digit a"
  by (auto simp: is_ascii_digit_def)

lemma cp_S: "cp a = 83 \<Longrightarrow> a = CHR ''S''"
  using of_char_eqI [of a "CHR ''S''"] by simp

lemma upper_char_plain:
  assumes "upper_char c = [cp a]" "65 \<le> cp a \<and> cp a \<le> 90 \<or> is_ascii_digit a"
  shows "a = ascii_upper c"
proof -
  from assms have "cp a = (if 97 \<le> cp c \<and> cp c \<le> 122 then cp c - 32 else cp c)"
    by (auto simp: upper_char_def Let_def is_ascii_digit_def split: if_splits)
  then have "char_of (cp a) = (if 97 \<le> cp c \<and> cp c \<le> 122 then char_of (cp c - 32) else (char_of (cp c) :: char))"
    by simp
  then show ?thesis by (simp add: ascii_upper_def split: if_splits)
qed

lemma upper_char_ascii:
  assumes "a = ascii_upper c" "65 \<le> cp a \<and> cp a \<le> 90 \<or> is_ascii_digit a"
  shows "upper_char c = [cp a]"
proof (cases "97 \<le> cp c \<and> cp c \<le> 122")
  case True
  then have "cp a = (cp c - 32) mod 256" using assms(1) by (simp add: ascii_upper_def)
  also have "\<dots> = cp c - 32" using True by (intro mod_less) linarith
  finally have "cp a = cp c - 32" .
  with True show ?thesis by (simp add: upper_char_def Let_def)
next
  case False
  then have "a = c" using assms(1) unfolding ascii_upper_def by (simp only: if_False)
  with assms(2) show ?thesis by (auto simp: upper_char_def Let_def is_ascii_digit_def)
qed

lemma py_upper_plain:
  "plain_upper r \<Longrightarrow> py_upper s = map of_char r \<longleftrightarrow> map ascii_upper s = r"
proof (induction s arbitrary: r)
  case Nil
  then show ?case by (auto simp: py_upper_def)
next
  case (Cons c s)
  show ?case
  proof (cases r)
    case Nil
    have "upper_char c \<noteq> []" by (simp add: upper_char_def Let_def)
    with Nil show ?thesis by (simp add: py_upper_def)
  next
    case (Cons a q)
    with Cons.prems have a: "65 \<le> cp a \<and> cp a \<le> 90 \<or> is_ascii_digit a" and q: "plain_upper q"
      and ss: "a = CHR ''S'' \<Longrightarrow> q = [] \<or> hd q \<noteq> CHR ''S''"
      using plain_char by (simp_all only: plain_upper.simps)
    have IH: "py_upper s = map of_char q \<longleftrightarrow> map ascii_upper s = q" by (rule Cons.IH [OF q])
    show ?thesis
    proof (cases "cp c = 223")
      case True
      then have up: "upper_char c = [83, 83]" by (simp add: upper_char_def Let_def)
      have "\<not> (cp a = 83 \<and> q \<noteq> [] \<and> cp (hd q) = 83)"
        using ss cp_S by blast
      then have "py_upper (c # s) \<noteq> map of_char r"
        using Cons up by (cases q) (auto simp: py_upper_def)
      moreover have "ascii_upper c \<noteq> a" using True a by (auto simp: ascii_upper_def is_ascii_digit_def)
      ultimately show ?thesis using Cons by simp
    next
      case False
      then have "\<exists>n. upper_char c = [n]" by (simp add: upper_char_def Let_def)
      then obtain n where n: "upper_char c = [n]" ..
      have "n = cp a \<longleftrightarrow> ascii_upper c = a"
        using upper_char_plain [of c a] upper_char_ascii [of a c] a n by auto
      then show ?thesis using Cons n IH by (auto simp: py_upper_def)
    qed
  qed
qed

lemma reserved_plain: "r \<in> set WIN_RESERVED_NAMES \<Longrightarrow> plain_upper r"
proof -
  have "list_all plain_upper WIN_RESERVED_NAMES"
    by code_simp
  then show "r \<in> set WIN_RESERVED_NAMES \<Longrightarrow> plain_upper r" by (simp add: list_all_iff)
qed

lemma hd_py_split:
  "hd (py_split c s) = takeWhile (\<lambda>x. x \<noteq> c) s"
  by (induction s) (auto split: list.splits simp: hd_def)

lemma is_reserved_iff:
  "is_reserved n \<longleftrightarrow> map ascii_upper (takeWhile (\<lambda>c. c \<noteq> CHR ''.'') n) \<in> set WIN_RESERVED_NAMES"
proof -
  have "(\<exists>r\<in>set WIN_RESERVED_NAMES. py_upper t = map of_char r) \<longleftrightarrow>
      (\<exists>r\<in>set WIN_RESERVED_NAMES. map ascii_upper t = r)" for t
    by (intro bex_cong refl py_upper_plain reserved_plain)
  then show ?thesis unfolding is_reserved_def hd_py_split set_map image_iff by simp
qed

section \<open>Properties\<close>

text \<open>C24: a school passes validation iff its name, record and source identifiers are loaded, the
  identifiers are not empty and the name is alphanumeric at both ends with letters, digits, hyphens
  and underscores in between, except that one newline after such a name is accepted as well.\<close>

theorem school_validator_accepts:
  "SchoolValidator_validate s = Inr () \<longleftrightarrow>
     (\<exists>n r q. s_name s = Loaded n \<and> s_record_uid s = Loaded r \<and> s_source_uid s = Loaded q \<and>
        r \<noteq> [] \<and> q \<noteq> [] \<and> (\<exists>t. proper_name t \<and> (n = t \<or> n = t @ [newline])))"
proof -
  have "re_match SCHOOL_NAME_RE n \<and> n \<noteq> [] \<longleftrightarrow> (\<exists>t. proper_name t \<and> (n = t \<or> n = t @ [newline]))" for n
    unfolding school_name_re by (auto simp: proper_name_def)
  then show ?thesis unfolding school_validate_iff by (metis (no_types, lifting))
qed

text \<open>A user passes validation iff all required fields are loaded and not empty and the name is
  a legal Windows directory name: at most 255 characters, none of them forbidden, no space or dot at
  the end, and the part before the first dot is no reserved name in any mix of cases.\<close>

theorem user_validator_accepts:
  "UserValidator_validate u = Inr () \<longleftrightarrow>
     (\<exists>n f l r q. u_name u = Loaded n \<and> u_firstname u = Loaded f \<and> u_lastname u = Loaded l \<and>
        u_record_uid u = Loaded r \<and> u_source_uid u = Loaded q \<and> [] \<notin> {n, f, l, r, q} \<and>
        length n \<le> 255 \<and> list_all (\<lambda>c. 32 \<le> cp c \<and> c \<notin> set (CHR 0x22 # CHR 0x5C # ''<>:/|?*'')) n \<and>
        last n \<noteq> CHR '' '' \<and> last n \<noteq> CHR ''.'' \<and>
        map ascii_upper (takeWhile (\<lambda>c. c \<noteq> CHR ''.'') n) \<notin> set WIN_RESERVED_NAMES)"
proof -
  have *: "re_search_cls WIN_INVALID_CHARS_RE n \<longleftrightarrow>
      \<not> list_all (\<lambda>c. 32 \<le> cp c \<and> c \<notin> set (CHR 0x22 # CHR 0x5C # ''<>:/|?*'')) n" for n
    unfolding re_search_cls_def WIN_INVALID_CHARS_RE_def list_all_iff not_less [symmetric] by blast
  have **: "[] \<notin> {n, f, l, r, q} \<longleftrightarrow> n \<noteq> [] \<and> f \<noteq> [] \<and> l \<noteq> [] \<and> r \<noteq> [] \<and> q \<noteq> []"
    "last n \<notin> {CHR '' '', CHR ''.''} \<longleftrightarrow> last n \<noteq> CHR '' '' \<and> last n \<noteq> CHR ''.''"
    for n f l r q :: string
    by auto
  show ?thesis
    unfolding user_validate_iff is_reserved_iff * ** by (intro ex_cong1) blast
qed

end
