(* ===== verification/Query_Filter.thy ===== *)
theory Query_Filter
  imports Domain_Query
begin

text \<open>
  \<open>core/adapters/sqlalchemy/query_filter.py\<close>: from a query expression to a SQL statement. The
  SQLAlchemy objects the code builds are a syntax tree here: a column is its table, key and type, an
  expression is the constructor call that makes it, a statement is the record of the clauses
  added to it. A Python set of strings is a list without repetitions, in one iteration order.
\<close>

section \<open>Columns, expressions, statements\<close>

datatype coltype =
    CDate | CDateTime | CFloat | CInteger | CNumeric | CUuid | CString | CBoolean | CJson

datatype column =
    Column (c_table: string) (c_key: string) (c_type: coltype)
  | JsonItem column string coltype

datatype sexpr =
    ECmp operator column fval
  | EIn column "fval list"
  | ELike column string
  | EILike column string
  | EJsonContains column string string string
  | EAnd "sexpr list"
  | EOr "sexpr list"
  | ENot sexpr

datatype join_type = LEFT_OUTER | INNER

record join_spec =
  relation_name :: string
  target_model :: string
  join_path :: "string list"
  join_kind :: join_type
  exposed_fields :: "string list"

record stmt =
  st_model :: string
  st_options :: "string list"
  st_joins :: "(string \<times> bool) list"
  st_distinct :: bool
  st_where :: "sexpr list"
  st_order :: "(column \<times> bool) list"
  st_limit :: "int option"
  st_offset :: "int option"

definition select :: "string \<Rightarrow> stmt" where
  "select model = \<lparr>st_model = model, st_options = [], st_joins = [], st_distinct = False,
     st_where = [], st_order = [], st_limit = None, st_offset = None\<rparr>"

type_synonym field_map = "(string \<times> column) list"
type_synonym registry = "(string \<times> join_spec) list"

text \<open>\<open>_get_column_type\<close>.\<close>

fun get_column_type :: "column \<Rightarrow> coltype" where
  "get_column_type (Column t k ty) = ty"
| "get_column_type (JsonItem c k ty) = ty"

definition RANGE_CAPABLE_TYPES :: "coltype list" where
  "RANGE_CAPABLE_TYPES = [CDate, CDateTime, CFloat, CInteger, CNumeric]"

definition RANGE_OPERATORS :: "operator list" where
  "RANGE_OPERATORS = [GT, GTE, LT, LTE]"

definition UUID_COERCED_OPERATORS :: "operator list" where
  "UUID_COERCED_OPERATORS = [EQ, NE, IN]"

section \<open>Joins\<close>

definition add_to :: "'a \<Rightarrow> 'a list \<Rightarrow> 'a list" where
  "add_to x xs = (if x \<in> set xs then xs else xs @ [x])"

lemma set_add_to [simp]: "set (add_to x xs) = insert x (set xs)"
  by (auto simp: add_to_def)

lemma distinct_add_to [simp]: "distinct (add_to x xs) = distinct xs"
  by (simp add: add_to_def)

definition collect_sort_fields :: "sort_spec list \<Rightarrow> string list" where
  "collect_sort_fields specs =
     remdups (map sort_field (filter (\<lambda>s. CHR ''.'' \<in> set (sort_field s)) specs))"

text \<open>The \<open>while stack\<close> loop of \<open>_collect_query_fields\<close>; the head of the list is the top.\<close>

function collect_loop :: "query_expr list \<Rightarrow> string list \<Rightarrow> string list" where
  "collect_loop [] found = found"
| "collect_loop (QFilter f # stack) found = collect_loop stack (add_to (f_field f) found)"
| "collect_loop (And qs # stack) found = collect_loop (rev qs @ stack) found"
| "collect_loop (Or qs # stack) found = collect_loop (rev qs @ stack) found"
| "collect_loop (QNot q # stack) found = collect_loop (q # stack) found"
  by pat_completeness auto
termination
  by (relation "measure (\<lambda>(s, f). sum_list (map (\<lambda>q. size q + 1) s))")
     (auto simp: size_list_conv_sum_list rev_map [symmetric] sum_list_rev sum_list_Suc)

definition collect_query_fields :: "query_expr \<Rightarrow> string list" where
  "collect_query_fields q = collect_loop [q] []"

definition extract_registered_nested_roots :: "string list \<Rightarrow> registry \<Rightarrow> string list" where
  "extract_registered_nested_roots names registry =
     fold (\<lambda>field roots. case py_partition CHR ''.'' field of (root, sep, _) \<Rightarrow>
             if sep \<and> root \<in> fst ` set registry then add_to root roots else roots)
       names []"

text \<open>\<open>_get_required_joins\<close> for a query expression and for sort specs.\<close>

definition get_required_joins :: "query_expr + sort_spec list \<Rightarrow> registry option \<Rightarrow> string list" where
  "get_required_joins expr registry =
     (case registry of
        None \<Rightarrow> []
      | Some reg \<Rightarrow>
          (case expr of
             Inr specs \<Rightarrow> extract_registered_nested_roots (collect_sort_fields specs) reg
           | Inl q \<Rightarrow> extract_registered_nested_roots (collect_query_fields q) reg))"

definition join_models :: "join_spec \<Rightarrow> stmt \<Rightarrow> stmt" where
  "join_models spec stmt = fold (\<lambda>m s. s\<lparr>st_joins := st_joins s @ [(m, join_kind spec = LEFT_OUTER)]\<rparr>)
     (join_path spec) stmt"

fun join_loop :: "string list \<Rightarrow> registry \<Rightarrow> stmt \<Rightarrow> bool \<Rightarrow> stmt \<times> bool" where
  "join_loop [] reg stmt applied = (stmt, applied)"
| "join_loop (n # ns) reg stmt applied =
     (case map_of reg n of
        None \<Rightarrow> join_loop ns reg stmt applied
      | Some spec \<Rightarrow> join_loop ns reg (join_models spec stmt) (applied \<or> join_path spec \<noteq> []))"

definition apply_nested_joins :: "stmt \<Rightarrow> string list \<Rightarrow> registry option \<Rightarrow> stmt" where
  "apply_nested_joins stmt required_joins registry =
     (case registry of
        None \<Rightarrow> stmt
      | Some reg \<Rightarrow>
          if required_joins = [] then stmt
          else (case join_loop required_joins reg stmt False of
                  (s, applied_join) \<Rightarrow> if applied_join then s\<lparr>st_distinct := True\<rparr> else s))"

section \<open>Filters\<close>

definition supports_range_filters :: "column \<Rightarrow> bool" where
  "supports_range_filters c \<longleftrightarrow> get_column_type c \<in> set RANGE_CAPABLE_TYPES"

text \<open>\<open>_JsonArrayContains.__init__\<close>: the column, the key, the JSON path and the value.\<close>

definition JsonArrayContains :: "column \<Rightarrow> string \<Rightarrow> string \<Rightarrow> sexpr" where
  "JsonArrayContains json_column json_key value =
     (let escaped_key = replace_char CHR 0x22 [CHR 0x5C, CHR 0x22] json_key
      in EJsonContains json_column json_key
           (CHR ''$'' # CHR ''.'' # CHR 0x22 # escaped_key @ [CHR 0x22]) value)"

definition build_json_contains_expression ::
  "qfilter \<Rightarrow> field_map option \<Rightarrow> err + sexpr" where
  "build_json_contains_expression f json_field_map =
     (case py_partition CHR ''.'' (f_field f) of (root, sep, json_key) \<Rightarrow>
      (case (if sep \<and> json_field_map \<noteq> None \<and> json_field_map \<noteq> Some []
             then map_of (the json_field_map) root else None) of
         None \<Rightarrow> Inl (UnsupportedFilterOperator (f_field f) (f_op f))
       | Some json_column \<Rightarrow>
           (case f_value f of
              VStr v \<Rightarrow> Inr (JsonArrayContains json_column json_key v)
            | v \<Rightarrow> Inl (InvalidJsonFilter (f_field f) v))))"

definition json_extracted_column :: "column \<Rightarrow> string \<Rightarrow> qfilter \<Rightarrow> err + column" where
  "json_extracted_column json_column json_key f =
     (case f_value f of
        VBool _ \<Rightarrow> Inr (JsonItem json_column json_key CBoolean)
      | VInt _ \<Rightarrow> Inr (JsonItem json_column json_key CInteger)
      | VFloat _ \<Rightarrow> Inr (JsonItem json_column json_key CFloat)
      | VStr _ \<Rightarrow> Inr (JsonItem json_column json_key CString)
      | v \<Rightarrow> Inl (InvalidJsonFilter (f_field f) v))"

text \<open>The last part of \<open>_get_filter_column\<close>: the registry decides on a nested field.\<close>

definition nested_filter_column :: "qfilter \<Rightarrow> field_map \<Rightarrow> registry option \<Rightarrow> err + column" where
  "nested_filter_column f field_map registry =
     (case registry of
        None \<Rightarrow> Inl (UnsupportedFilterField (f_field f))
      | Some reg \<Rightarrow>
          if CHR ''.'' \<in> set (f_field f) \<and> reg \<noteq> [] then
            (case py_partition CHR ''.'' (f_field f) of (root, _, field_part) \<Rightarrow>
               (case map_of reg root of
                  None \<Rightarrow> Inl (UnsupportedNestedField (f_field f))
                | Some spec \<Rightarrow>
                    if field_part \<notin> set (exposed_fields spec)
                    then Inl (UnsupportedNestedField (f_field f))
                    else of_opt (UnsupportedNestedField (f_field f)) (map_of field_map (f_field f))))
          else Inl (UnsupportedFilterField (f_field f)))"

definition get_filter_column ::
  "qfilter \<Rightarrow> field_map \<Rightarrow> registry option \<Rightarrow> field_map option \<Rightarrow> err + column" where
  "get_filter_column f field_map registry json_field_map =
     (case map_of field_map (f_field f) of
        Some c \<Rightarrow> Inr c
      | None \<Rightarrow>
          (case py_partition CHR ''.'' (f_field f) of (root, sep, json_key) \<Rightarrow>
             (case (if sep \<and> json_field_map \<noteq> None then map_of (the json_field_map) root else None) of
                Some json_column \<Rightarrow> json_extracted_column json_column json_key f
              | None \<Rightarrow> nested_filter_column f field_map registry)))"

fun is_text :: "fval \<Rightarrow> bool" where
  "is_text (VStr s) = True"
| "is_text _ = False"

lemma is_text_iff [simp]: "is_text v \<longleftrightarrow> (\<exists>s. v = VStr s)"
  by (cases v) auto

definition validate_filter_value :: "qfilter \<Rightarrow> column \<Rightarrow> err + unit" where
  "validate_filter_value f column =
     (if f_op f = IN then
        (case f_value f of VIter _ \<Rightarrow> Inr () | v \<Rightarrow> Inl (InvalidInFilter (f_field f) v))
      else if f_op f \<in> {MATCHES, MATCHES_CI} \<and> \<not> is_text (f_value f) then
        Inl (InvalidPatternFilter (f_field f) (f_value f))
      else if f_op f \<in> set RANGE_OPERATORS \<and> (f_value f = VNone \<or> \<not> supports_range_filters column)
        then Inl (InvalidRangeFilter (f_field f) (f_op f) (f_value f))
      else Inr ())"

definition coerce_uuid :: "string \<Rightarrow> fval \<Rightarrow> err + fval" where
  "coerce_uuid field value =
     (case value of
        VStr s \<Rightarrow> (case uuid_parse s of
                     Some u \<Rightarrow> Inr (VUuid u) | None \<Rightarrow> Inl (InvalidUuidFilter field value))
      | _ \<Rightarrow> Inr value)"

text \<open>The items of a filter value when it is iterated over.\<close>

fun iter_values :: "fval \<Rightarrow> fval list" where
  "iter_values (VIter vs) = vs"
| "iter_values (VStr s) = map (\<lambda>c. VStr [c]) s"
| "iter_values _ = []"

definition coerce_filter_value :: "qfilter \<Rightarrow> column \<Rightarrow> err + fval" where
  "coerce_filter_value f column =
     (if f_op f \<notin> set UUID_COERCED_OPERATORS \<or> get_column_type column \<noteq> CUuid then Inr (f_value f)
      else if f_op f = IN then
        res_bind (res_map (coerce_uuid (f_field f)) (iter_values (f_value f))) (\<lambda>vs. Inr (VIter vs))
      else coerce_uuid (f_field f) (f_value f))"

definition glob_to_sql_pattern :: "string \<Rightarrow> string" where
  "glob_to_sql_pattern user_glob =
     (let e = CHR 0x5C;
          escaped = replace_char e [e, e] user_glob;
          escaped = replace_char CHR ''%'' [e, CHR ''%''] escaped;
          escaped = replace_char CHR ''_'' [e, CHR ''_''] escaped
      in replace_char CHR ''*'' ''%'' escaped)"

definition str_of :: "fval \<Rightarrow> string" where
  "str_of v = (case v of VStr s \<Rightarrow> s | _ \<Rightarrow> [])"

fun filter_operator_builder :: "operator \<Rightarrow> (column \<Rightarrow> fval \<Rightarrow> sexpr) option" where
  "filter_operator_builder EQ = Some (ECmp EQ)"
| "filter_operator_builder NE = Some (ECmp NE)"
| "filter_operator_builder IN = Some (\<lambda>c v. EIn c (iter_values v))"
| "filter_operator_builder MATCHES = Some (\<lambda>c v. ELike c (glob_to_sql_pattern (str_of v)))"
| "filter_operator_builder MATCHES_CI = Some (\<lambda>c v. EILike c (glob_to_sql_pattern (str_of v)))"
| "filter_operator_builder GT = Some (ECmp GT)"
| "filter_operator_builder GTE = Some (ECmp GTE)"
| "filter_operator_builder LT = Some (ECmp LT)"
| "filter_operator_builder LTE = Some (ECmp LTE)"
| "filter_operator_builder CONTAINS = None"

definition build_filter_expression ::
  "qfilter \<Rightarrow> field_map \<Rightarrow> registry option \<Rightarrow> field_map option \<Rightarrow> err + sexpr" where
  "build_filter_expression f field_map registry json_field_map =
     (if f_op f = CONTAINS then build_json_contains_expression f json_field_map
      else res_bind (get_filter_column f field_map registry json_field_map) (\<lambda>column.
           res_bind (validate_filter_value f column) (\<lambda>_.
             (case filter_operator_builder (f_op f) of
                None \<Rightarrow> Inl (UnsupportedFilterOperator (f_field f) (f_op f))
              | Some builder \<Rightarrow>
                  res_bind (coerce_filter_value f column) (\<lambda>v. Inr (builder column v))))))"

fun build_expression ::
  "query_expr \<Rightarrow> field_map \<Rightarrow> registry option \<Rightarrow> field_map option \<Rightarrow> err + sexpr" where
  "build_expression (QFilter f) fm reg jm = build_filter_expression f fm reg jm"
| "build_expression (And qs) fm reg jm =
     (if qs = [] then Inl EmptyAndClause
      else res_bind (res_map (\<lambda>q. build_expression q fm reg jm) qs) (\<lambda>es. Inr (EAnd es)))"
| "build_expression (Or qs) fm reg jm =
     (if qs = [] then Inl EmptyOrClause
      else res_bind (res_map (\<lambda>q. build_expression q fm reg jm) qs) (\<lambda>es. Inr (EOr es)))"
| "build_expression (QNot q) fm reg jm =
     res_bind (build_expression q fm reg jm) (\<lambda>e. Inr (ENot e))"

section \<open>Statements\<close>

definition apply_search_query ::
  "stmt \<Rightarrow> search_query option \<Rightarrow> field_map \<Rightarrow> registry option \<Rightarrow> field_map option \<Rightarrow> err + stmt" where
  "apply_search_query stmt query fm reg jm =
     (case query of
        None \<Rightarrow> Inr stmt
      | Some sq \<Rightarrow>
          (case q_where sq of
             None \<Rightarrow> Inr stmt
           | Some q \<Rightarrow>
               (let stmt = apply_nested_joins stmt (get_required_joins (Inl q) reg) reg
                in res_bind (build_expression q fm reg jm)
                     (\<lambda>e. Inr (stmt\<lparr>st_where := st_where stmt @ [e]\<rparr>)))))"

fun order_loop :: "sort_spec list \<Rightarrow> field_map \<Rightarrow> stmt \<Rightarrow> err + stmt" where
  "order_loop [] fm stmt = Inr stmt"
| "order_loop (s # ss) fm stmt =
     (case map_of fm (sort_field s) of
        None \<Rightarrow> Inl (UnsupportedSortField (sort_field s))
      | Some c \<Rightarrow> order_loop ss fm (stmt\<lparr>st_order := st_order stmt @ [(c, ascending s)]\<rparr>))"

definition sort_specs :: "sort_spec list \<Rightarrow> field_map \<Rightarrow> string \<Rightarrow> sort_spec list" where
  "sort_specs sort_by fm default_field =
     (let specs = (if sort_by = [] then [SortSpec default_field True] else sort_by)
      in if default_field \<in> fst ` set fm \<and> (\<forall>s\<in>set specs. sort_field s \<noteq> default_field)
         then specs @ [SortSpec default_field True] else specs)"

definition apply_sort ::
  "stmt \<Rightarrow> sort_spec list \<Rightarrow> field_map \<Rightarrow> string \<Rightarrow> registry option \<Rightarrow> err + stmt" where
  "apply_sort stmt sort_by fm default_field reg =
     (let specs = (if sort_by = [] then [SortSpec default_field True] else sort_by);
          stmt = apply_nested_joins stmt (get_required_joins (Inr specs) reg) reg
      in order_loop (sort_specs sort_by fm default_field) fm stmt)"

section \<open>Required joins\<close>

lemma set_collect_loop:
  "set (collect_loop stack found) = set found \<union> f_field ` set (concat (map iter_filters stack))"
  by (induction stack found rule: collect_loop.induct) (auto simp: image_Un)

lemma set_collect_query_fields: "set (collect_query_fields q) = f_field ` set (iter_filters q)"
  by (simp add: collect_query_fields_def set_collect_loop)

definition nested_root :: "string \<Rightarrow> string \<Rightarrow> bool" where
  "nested_root r field \<longleftrightarrow> CHR ''.'' \<notin> set r \<and> (\<exists>rest. field = r @ CHR ''.'' # rest)"

lemma nested_root_partition:
  "nested_root r field \<longleftrightarrow> (\<exists>rest. py_partition CHR ''.'' field = (r, True, rest))"
proof -
  consider "CHR ''.'' \<notin> set field" "py_partition CHR ''.'' field = (field, False, [])"
    | a t where "CHR ''.'' \<notin> set a" "field = a @ CHR ''.'' # t" "py_partition CHR ''.'' field = (a, True, t)"
    using py_partition_cases [of "CHR ''.''" field] by blast
  then show ?thesis
  proof cases
    case 1
    then show ?thesis by (auto simp: nested_root_def)
  next
    case 2
    then show ?thesis unfolding nested_root_def by (metis Pair_inject py_partition_append)
  qed
qed

lemma set_extract_roots_fold:
  "set (fold (\<lambda>field roots. case py_partition CHR ''.'' field of (root, sep, _) \<Rightarrow>
             if sep \<and> root \<in> fst ` set reg then add_to root roots else roots) names acc) =
   set acc \<union> {r \<in> fst ` set reg. \<exists>n\<in>set names. nested_root r n}"
proof (induction names arbitrary: acc)
  case (Cons n names)
  obtain a b c where p: "py_partition CHR ''.'' n = (a, b, c)" by (cases "py_partition CHR ''.'' n")
  show ?case
    by (simp add: Cons p nested_root_partition) auto
qed simp

lemma set_extract_roots:
  "set (extract_registered_nested_roots names reg) =
     {r \<in> fst ` set reg. \<exists>n\<in>set names. nested_root r n}"
  unfolding extract_registered_nested_roots_def by (simp add: set_extract_roots_fold)

lemma set_get_required_joins:
  "set (get_required_joins (Inl q) (Some reg)) =
     {r \<in> fst ` set reg. \<exists>f\<in>set (iter_filters q). nested_root r (f_field f)}"
  "set (get_required_joins (Inr specs) (Some reg)) =
     {r \<in> fst ` set reg. \<exists>s\<in>set specs. nested_root r (sort_field s)}"
  "get_required_joins x None = []"
proof -
  show "set (get_required_joins (Inr specs) (Some reg)) =
     {r \<in> fst ` set reg. \<exists>s\<in>set specs. nested_root r (sort_field s)}"
    by (auto simp: get_required_joins_def set_extract_roots collect_sort_fields_def nested_root_def)
qed (auto simp: get_required_joins_def set_extract_roots set_collect_query_fields)

lemma join_models_same [simp]:
  "st_distinct (join_models spec s) = st_distinct s" "st_where (join_models spec s) = st_where s"
  "st_order (join_models spec s) = st_order s" "st_options (join_models spec s) = st_options s"
  "st_joins (join_models spec s) =
     st_joins s @ map (\<lambda>m. (m, join_kind spec = LEFT_OUTER)) (join_path spec)"
proof -
  have "st_distinct (fold f ms s) = st_distinct s \<and> st_where (fold f ms s) = st_where s \<and>
      st_order (fold f ms s) = st_order s \<and> st_options (fold f ms s) = st_options s \<and>
      st_joins (fold f ms s) = st_joins s @ map (\<lambda>m. (m, b)) ms"
    if "f = (\<lambda>m s. s\<lparr>st_joins := st_joins s @ [(m, b)]\<rparr>)" for f ms s and b :: bool
    using that by (induction ms arbitrary: s) auto
  then show "st_distinct (join_models spec s) = st_distinct s"
    "st_where (join_models spec s) = st_where s"
    "st_order (join_models spec s) = st_order s" "st_options (join_models spec s) = st_options s"
    "st_joins (join_models spec s) =
     st_joins s @ map (\<lambda>m. (m, join_kind spec = LEFT_OUTER)) (join_path spec)"
    unfolding join_models_def by blast+
qed

lemma join_loop_result:
  assumes "join_loop ns reg s b = (t, c)"
  shows "st_joins t = st_joins s @ concat (map (\<lambda>n. case map_of reg n of None \<Rightarrow> []
            | Some spec \<Rightarrow> map (\<lambda>m. (m, join_kind spec = LEFT_OUTER)) (join_path spec)) ns)"
    and "c \<longleftrightarrow> b \<or> st_joins t \<noteq> st_joins s"
    and "st_distinct t = st_distinct s" "st_where t = st_where s" "st_order t = st_order s"
  using assms by (induction ns reg s b rule: join_loop.induct) (auto split: option.splits)

lemma apply_nested_joins_result:
  "st_joins (apply_nested_joins s ns (Some reg)) =
     st_joins s @ concat (map (\<lambda>n. case map_of reg n of None \<Rightarrow> []
        | Some spec \<Rightarrow> map (\<lambda>m. (m, join_kind spec = LEFT_OUTER)) (join_path spec)) ns)"
  "st_distinct (apply_nested_joins s ns reg') \<longleftrightarrow>
     st_distinct s \<or> st_joins (apply_nested_joins s ns reg') \<noteq> st_joins s"
  "st_where (apply_nested_joins s ns reg') = st_where s"
  "st_order (apply_nested_joins s ns reg') = st_order s"
  using join_loop_result [of ns _ s False]
  by (auto simp: apply_nested_joins_def split: prod.splits option.splits)

section \<open>Building expressions\<close>

text \<open>The checks \<open>build_expression\<close> makes, in the order it makes them.\<close>

fun build_checks ::
  "field_map \<Rightarrow> registry option \<Rightarrow> field_map option \<Rightarrow> query_expr \<Rightarrow> err option list" where
  "build_checks fm reg jm (QFilter f) =
     [case build_filter_expression f fm reg jm of Inl e \<Rightarrow> Some e | Inr _ \<Rightarrow> None]"
| "build_checks fm reg jm (And qs) =
     (if qs = [] then [Some EmptyAndClause] else concat (map (build_checks fm reg jm) qs))"
| "build_checks fm reg jm (Or qs) =
     (if qs = [] then [Some EmptyOrClause] else concat (map (build_checks fm reg jm) qs))"
| "build_checks fm reg jm (QNot q) = build_checks fm reg jm q"

fun first_error :: "'e option list \<Rightarrow> 'e option" where
  "first_error [] = None"
| "first_error (None # xs) = first_error xs"
| "first_error (Some e # xs) = Some e"

lemma first_error_append:
  "first_error (xs @ ys) = (case first_error xs of None \<Rightarrow> first_error ys | Some e \<Rightarrow> Some e)"
  by (induction xs rule: first_error.induct) auto

lemma first_error_None: "first_error xs = None \<longleftrightarrow> (\<forall>x\<in>set xs. x = None)"
  by (induction xs rule: first_error.induct) auto

definition error_of :: "'e + 'a \<Rightarrow> 'e option" where
  "error_of r = (case r of Inl e \<Rightarrow> Some e | Inr _ \<Rightarrow> None)"

lemma error_of_bind: "error_of (res_bind r (\<lambda>x. Inr (g x))) = error_of r"
  by (cases r) (auto simp: error_of_def)

lemma error_of_res_map:
  "(\<And>x. x \<in> set xs \<Longrightarrow> error_of (f x) = first_error (c x)) \<Longrightarrow>
   error_of (res_map f xs) = first_error (concat (map c xs))"
proof (induction xs)
  case (Cons x xs)
  have "error_of (f x) = first_error (c x)" by (rule Cons.prems) simp
  moreover have "error_of (res_map f xs) = first_error (concat (map c xs))"
    by (rule Cons.IH) (rule Cons.prems, simp)
  ultimately show ?case
    by (cases "f x") (auto simp: error_of_def res_bind_def first_error_append split: sum.splits option.splits)
qed (simp add: error_of_def)

lemma build_expression_first_error:
  "error_of (build_expression q fm reg jm) = first_error (build_checks fm reg jm q)"
proof (induction q)
  case (QFilter f)
  then show ?case by (auto simp: error_of_def split: sum.splits)
next
  case (And qs)
  then show ?case
    by (auto simp: error_of_bind error_of_res_map [where c = "build_checks fm reg jm"])
       (simp add: error_of_def)
next
  case (Or qs)
  then show ?case
    by (auto simp: error_of_bind error_of_res_map [where c = "build_checks fm reg jm"])
       (simp add: error_of_def)
next
  case (QNot q)
  then show ?case by (simp add: error_of_bind)
qed

text \<open>No clause list of the query is empty.\<close>

fun no_empty_clause :: "query_expr \<Rightarrow> bool" where
  "no_empty_clause (QFilter f) = True"
| "no_empty_clause (And qs) \<longleftrightarrow> qs \<noteq> [] \<and> list_all no_empty_clause qs"
| "no_empty_clause (Or qs) \<longleftrightarrow> qs \<noteq> [] \<and> list_all no_empty_clause qs"
| "no_empty_clause (QNot q) = no_empty_clause q"

lemma build_checks_None:
  "(\<forall>x\<in>set (build_checks fm reg jm q). x = None) \<longleftrightarrow>
     no_empty_clause q \<and> (\<forall>f\<in>set (iter_filters q). \<exists>e. build_filter_expression f fm reg jm = Inr e)"
proof (induction q)
  case (QFilter f)
  then show ?case by (auto split: sum.splits)
next
  case (And qs)
  then show ?case by (simp add: list_all_iff) blast
next
  case (Or qs)
  then show ?case by (simp add: list_all_iff) blast
qed simp

lemma build_expression_ok_iff:
  "(\<exists>e. build_expression q fm reg jm = Inr e) \<longleftrightarrow>
     no_empty_clause q \<and> (\<forall>f\<in>set (iter_filters q). \<exists>e. build_filter_expression f fm reg jm = Inr e)"
proof -
  have "(\<exists>e. build_expression q fm reg jm = Inr e) \<longleftrightarrow> error_of (build_expression q fm reg jm) = None"
    by (auto simp: error_of_def split: sum.splits)
  then show ?thesis
    by (simp add: build_expression_first_error first_error_None build_checks_None)
qed

section \<open>What the built expression means\<close>

text \<open>
  SQL's three-valued logic: \<open>None\<close> is \<open>NULL\<close>. \<open>leaf\<close> gives the truth value of an atomic
  expression on a row, \<open>atom\<close> that of a filter.
\<close>

definition k_not :: "bool option \<Rightarrow> bool option" where
  "k_not a = map_option Not a"

definition k_all :: "bool option list \<Rightarrow> bool option" where
  "k_all xs = (if Some False \<in> set xs then Some False else if None \<in> set xs then None else Some True)"

definition k_any :: "bool option list \<Rightarrow> bool option" where
  "k_any xs = (if Some True \<in> set xs then Some True else if None \<in> set xs then None else Some False)"

fun eval_sexpr :: "(sexpr \<Rightarrow> bool option) \<Rightarrow> sexpr \<Rightarrow> bool option" where
  "eval_sexpr leaf (EAnd es) = k_all (map (eval_sexpr leaf) es)"
| "eval_sexpr leaf (EOr es) = k_any (map (eval_sexpr leaf) es)"
| "eval_sexpr leaf (ENot e) = k_not (eval_sexpr leaf e)"
| "eval_sexpr leaf e = leaf e"

fun eval_query :: "(qfilter \<Rightarrow> bool option) \<Rightarrow> query_expr \<Rightarrow> bool option" where
  "eval_query atom (QFilter f) = atom f"
| "eval_query atom (And qs) = k_all (map (eval_query atom) qs)"
| "eval_query atom (Or qs) = k_any (map (eval_query atom) qs)"
| "eval_query atom (QNot q) = k_not (eval_query atom q)"

lemma eval_res_map:
  assumes "res_map b qs = Inr es" "\<And>q e. q \<in> set qs \<Longrightarrow> b q = Inr e \<Longrightarrow> ev e = qv q"
  shows "map ev es = map qv qs"
  using assms
proof (induction qs arbitrary: es)
  case (Cons q qs)
  from Cons.prems(1) obtain e fs where b: "b q = Inr e" "res_map b qs = Inr fs" "es = e # fs"
    by (auto simp: res_bind_eq_Inr)
  have "map ev fs = map qv qs" by (rule Cons.IH [OF b(2)]) (rule Cons.prems(2), auto)
  with b Cons.prems(2) [of q e] show ?case by simp
qed simp

lemma build_expression_eval:
  assumes "build_expression q fm reg jm = Inr e"
    and leaf: "\<And>f l. f \<in> set (iter_filters q) \<Longrightarrow> build_filter_expression f fm reg jm = Inr l \<Longrightarrow>
           eval_sexpr leaf l = atom f"
  shows "eval_sexpr leaf e = eval_query atom q"
  using assms
proof (induction q arbitrary: e)
  case (And qs)
  from And.prems(1) obtain es where es: "res_map (\<lambda>q. build_expression q fm reg jm) qs = Inr es" "e = EAnd es"
    by (auto simp: res_bind_eq_Inr split: if_splits)
  have "map (eval_sexpr leaf) es = map (eval_query atom) qs"
    by (rule eval_res_map [OF es(1)]) (rule And.IH, assumption+, rule And.prems(2), auto)
  with es show ?case by simp
next
  case (Or qs)
  from Or.prems(1) obtain es where es: "res_map (\<lambda>q. build_expression q fm reg jm) qs = Inr es" "e = EOr es"
    by (auto simp: res_bind_eq_Inr split: if_splits)
  have "map (eval_sexpr leaf) es = map (eval_query atom) qs"
    by (rule eval_res_map [OF es(1)]) (rule Or.IH, assumption+, rule Or.prems(2), auto)
  with es show ?case by simp
qed (auto simp: res_bind_eq_Inr)

section \<open>Globs\<close>

text \<open>A glob: \<open>*\<close> stands for any text, every other character for itself.\<close>

fun glob_match :: "string \<Rightarrow> string \<Rightarrow> bool" where
  "glob_match [] s \<longleftrightarrow> s = []"
| "glob_match (c # g) s \<longleftrightarrow>
     (if c = CHR ''*'' then \<exists>k\<in>set [0..<Suc (length s)]. glob_match g (drop k s)
      else (case s of [] \<Rightarrow> False | d # t \<Rightarrow> c = d \<and> glob_match g t))"

text \<open>
  What the SQL standard says of \<open>s LIKE pattern ESCAPE e\<close> for a well-formed pattern; the
  database is not under \<open>src/\<close>, so \<open>like\<close> is a parameter.
\<close>

definition sql_like_laws :: "(char \<Rightarrow> string \<Rightarrow> string \<Rightarrow> bool) \<Rightarrow> bool" where
  "sql_like_laws like \<longleftrightarrow>
     (\<forall>e s. like e [] s \<longleftrightarrow> s = []) \<and>
     (\<forall>e c p s. like e (e # c # p) s \<longleftrightarrow> (\<exists>t. s = c # t \<and> like e p t)) \<and>
     (\<forall>e p s. e \<noteq> CHR ''%'' \<longrightarrow>
        (like e (CHR ''%'' # p) s \<longleftrightarrow> (\<exists>k\<le>length s. like e p (drop k s)))) \<and>
     (\<forall>e c p s. c \<notin> {e, CHR ''%'', CHR ''_''} \<longrightarrow>
        (like e (c # p) s \<longleftrightarrow> (\<exists>t. s = c # t \<and> like e p t)))"

lemma ex_upto: "(\<exists>k\<in>set [0..<Suc n]. P k) \<longleftrightarrow> (\<exists>k\<le>n. P k)"
  by (auto simp del: upt_Suc simp: less_Suc_eq_le)

fun sql_like :: "char \<Rightarrow> string \<Rightarrow> string \<Rightarrow> bool" where
  "sql_like e [] s \<longleftrightarrow> s = []"
| "sql_like e [c] s \<longleftrightarrow>
     (if c = e then False else if c = CHR ''%'' then True
      else if c = CHR ''_'' then length s = 1 else s = [c])"
| "sql_like e (c # d # p) s \<longleftrightarrow>
     (if c = e then (case s of [] \<Rightarrow> False | x # t \<Rightarrow> x = d \<and> sql_like e p t)
      else if c = CHR ''%'' then \<exists>k\<in>set [0..<Suc (length s)]. sql_like e (d # p) (drop k s)
      else (case s of [] \<Rightarrow> False | x # t \<Rightarrow> (c = CHR ''_'' \<or> x = c) \<and> sql_like e (d # p) t))"

lemma sql_like_lawful: "sql_like_laws sql_like"
  unfolding sql_like_laws_def
proof (intro conjI allI impI)
  show "sql_like e (e # c # p) s \<longleftrightarrow> (\<exists>t. s = c # t \<and> sql_like e p t)" for e c p s
    by (cases s) auto
  show "sql_like e (CHR ''%'' # p) s \<longleftrightarrow> (\<exists>k\<le>length s. sql_like e p (drop k s))"
    if "e \<noteq> CHR ''%''" for e p s
  proof (cases p)
    case Nil
    with that show ?thesis by (auto intro: exI [of _ "length s"])
  next
    case (Cons d q)
    with that show ?thesis by (simp only: sql_like.simps ex_upto) auto
  qed
  show "sql_like e (c # p) s \<longleftrightarrow> (\<exists>t. s = c # t \<and> sql_like e p t)"
    if "c \<notin> {e, CHR ''%'', CHR ''_''}" for e c p s
    using that by (cases p; cases s) auto
qed simp

definition glob_char :: "char \<Rightarrow> string" where
  "glob_char c =
     (if c = CHR 0x5C then [c, c] else if c = CHR ''%'' \<or> c = CHR ''_'' then [CHR 0x5C, c]
      else if c = CHR ''*'' then ''%'' else [c])"

lemma glob_to_sql_chars: "glob_to_sql_pattern g = concat (map glob_char g)"
  by (induction g) (simp_all add: glob_to_sql_pattern_def glob_char_def Let_def)

lemma glob_like:
  assumes like: "sql_like_laws like"
  shows "like CHR 0x5C (glob_to_sql_pattern g) s = glob_match g s"
proof (induction g arbitrary: s)
  case Nil
  then show ?case using like by (simp add: glob_to_sql_chars sql_like_laws_def)
next
  case (Cons c g)
  let ?e = "CHR 0x5C" and ?p = "glob_to_sql_pattern g"
  have esc: "like ?e (?e # d # ?p) s \<longleftrightarrow> (\<exists>t. s = d # t \<and> like ?e ?p t)" for d
    using like by (simp add: sql_like_laws_def)
  have cons: "glob_to_sql_pattern (c # g) = glob_char c @ ?p" by (simp add: glob_to_sql_chars)
  show ?case
  proof (cases "c = CHR ''*''")
    case True
    have "like ?e (CHR ''%'' # ?p) s \<longleftrightarrow> (\<exists>k\<le>length s. like ?e ?p (drop k s))"
      using like by (simp add: sql_like_laws_def)
    then have "like ?e (glob_to_sql_pattern (c # g)) s \<longleftrightarrow> (\<exists>k\<le>length s. glob_match g (drop k s))"
      unfolding cons using True by (simp add: glob_char_def Cons)
    then show ?thesis unfolding True glob_match.simps ex_upto by simp
  next
    case False
    have "like ?e (glob_char c @ ?p) s \<longleftrightarrow> (\<exists>t. s = c # t \<and> like ?e ?p t)"
    proof (cases "c \<in> {?e, CHR ''%'', CHR ''_''}")
      case True
      then have "glob_char c = [?e, c]" by (auto simp: glob_char_def)
      then show ?thesis using esc by simp
    next
      case other: False
      then have "glob_char c = [c]" using False by (simp add: glob_char_def)
      then show ?thesis using like other by (simp add: sql_like_laws_def)
    qed
    with False show ?thesis by (cases s) (auto simp: cons Cons)
  qed
qed

section \<open>Sorting\<close>

lemma order_loop_result:
  "order_loop ss fm s = Inr t \<longleftrightarrow>
     (\<forall>x\<in>set ss. sort_field x \<in> fst ` set fm) \<and>
     t = s\<lparr>st_order := st_order s @ map (\<lambda>x. (the (map_of fm (sort_field x)), ascending x)) ss\<rparr>"
proof (induction ss arbitrary: s)
  case (Cons x ss)
  show ?case
  proof (cases "map_of fm (sort_field x)")
    case None
    then show ?thesis by (simp add: map_of_eq_None_iff [symmetric] del: map_of_eq_None_iff)
  next
    case (Some c)
    then have "sort_field x \<in> fst ` set fm" by (metis domI dom_map_of_conv_image_fst)
    with Some show ?thesis by (simp add: Cons)
  qed
qed auto

lemma sort_specs_default:
  assumes "default_field \<in> fst ` set fm"
  shows "\<exists>pre s post. sort_specs sort_by fm default_field = pre @ s # post \<and> sort_field s = default_field"
proof -
  have "\<exists>s\<in>set (sort_specs sort_by fm default_field). sort_field s = default_field"
    using assms by (auto simp: sort_specs_def Let_def)
  then show ?thesis by (metis split_list)
qed

lemma sort_specs_prefix:
  "sort_by \<noteq> [] \<Longrightarrow> \<exists>extra. sort_specs sort_by fm default_field = sort_by @ extra \<and>
     (extra = [] \<or> extra = [SortSpec default_field True])"
  by (auto simp: sort_specs_def Let_def)

section \<open>Filters on a row\<close>

text \<open>
  What the database knows about a row: the value of a column, the comparisons, \<open>LIKE\<close> and the
  containment test of the JSON column. All of them are parameters.
\<close>

record row_sem =
  rs_value :: "column \<Rightarrow> fval"
  rs_cmp :: "operator \<Rightarrow> fval \<Rightarrow> fval \<Rightarrow> bool option"
  rs_like :: "char \<Rightarrow> string \<Rightarrow> string \<Rightarrow> bool"
  rs_json :: "column \<Rightarrow> string \<Rightarrow> string \<Rightarrow> bool option"

definition on_text :: "(string \<Rightarrow> bool) \<Rightarrow> fval \<Rightarrow> bool option" where
  "on_text P v = (case v of VStr s \<Rightarrow> Some (P s) | _ \<Rightarrow> None)"

fun sql_leaf :: "row_sem \<Rightarrow> sexpr \<Rightarrow> bool option" where
  "sql_leaf R (ECmp op c v) = rs_cmp R op (rs_value R c) v"
| "sql_leaf R (EIn c vs) = k_any (map (rs_cmp R EQ (rs_value R c)) vs)"
| "sql_leaf R (ELike c p) = on_text (rs_like R CHR 0x5C p) (rs_value R c)"
| "sql_leaf R (EILike c p) =
     on_text (\<lambda>s. rs_like R CHR 0x5C (py_lower p) (py_lower s)) (rs_value R c)"
| "sql_leaf R (EJsonContains c k path v) = rs_json R c k v"
| "sql_leaf R e = None"

text \<open>What a filter asks for: patterns are globs, ids are compared as ids.\<close>

definition column_of :: "qfilter \<Rightarrow> field_map \<Rightarrow> registry option \<Rightarrow> field_map option \<Rightarrow> column option" where
  "column_of f fm reg jm =
     (case get_filter_column f fm reg jm of Inr c \<Rightarrow> Some c | Inl _ \<Rightarrow> None)"

definition wanted_value :: "qfilter \<Rightarrow> column \<Rightarrow> fval" where
  "wanted_value f c =
     (if get_column_type c = CUuid
      then (case coerce_uuid (f_field f) (f_value f) of Inr v \<Rightarrow> v | Inl _ \<Rightarrow> f_value f)
      else f_value f)"

definition filter_sem ::
  "row_sem \<Rightarrow> field_map \<Rightarrow> registry option \<Rightarrow> field_map option \<Rightarrow> qfilter \<Rightarrow> bool option" where
  "filter_sem R fm reg jm f =
     (let value = (\<lambda>c. rs_value R c); col = column_of f fm reg jm in
      case f_op f of
        CONTAINS \<Rightarrow>
          (case (py_partition CHR ''.'' (f_field f), jm, f_value f) of
             ((root, _, key), Some m, VStr v) \<Rightarrow>
               (case map_of m root of Some c \<Rightarrow> rs_json R c key v | None \<Rightarrow> None)
           | _ \<Rightarrow> None)
      | MATCHES \<Rightarrow> (case col of Some c \<Rightarrow> on_text (glob_match (str_of (f_value f))) (value c) | None \<Rightarrow> None)
      | MATCHES_CI \<Rightarrow>
          (case col of
             Some c \<Rightarrow> on_text (\<lambda>s. glob_match (py_lower (str_of (f_value f))) (py_lower s)) (value c)
           | None \<Rightarrow> None)
      | IN \<Rightarrow>
          (case col of
             Some c \<Rightarrow> k_any (map (\<lambda>v. rs_cmp R EQ (value c) (wanted_value (Filter (f_field f) EQ v) c))
                               (iter_values (f_value f)))
           | None \<Rightarrow> None)
      | op \<Rightarrow>
          (case col of
             Some c \<Rightarrow> rs_cmp R op (value c) (if op \<in> {EQ, NE} then wanted_value f c else f_value f)
           | None \<Rightarrow> None))"

lemma lower_char_special:
  "lower_char c = CHR ''*'' \<longleftrightarrow> c = CHR ''*''"
  "lower_char c = CHR 0x5C \<longleftrightarrow> c = CHR 0x5C"
  "lower_char c = CHR ''%'' \<longleftrightarrow> c = CHR ''%''"
  "lower_char c = CHR ''_'' \<longleftrightarrow> c = CHR ''_''"
proof -
  have *: "lower_char c = d \<longleftrightarrow> c = d"
    if d: "\<not> (97 \<le> cp d \<and> cp d \<le> 122)" "\<not> (65 \<le> cp d \<and> cp d \<le> 90)" "cp d < 192" for d
  proof (cases "65 \<le> cp c \<and> cp c \<le> 90 \<or> 192 \<le> cp c \<and> cp c \<le> 222 \<and> cp c \<noteq> 215")
    case True
    then have "cp (lower_char c) = cp c + 32" by (auto simp: lower_char_def Let_def)
    with True d have "cp (lower_char c) \<noteq> cp d \<and> cp c \<noteq> cp d" by auto
    then show ?thesis by metis
  next
    case False
    then show ?thesis by (auto simp: lower_char_def Let_def)
  qed
  show "lower_char c = CHR ''*'' \<longleftrightarrow> c = CHR ''*''"
    "lower_char c = CHR 0x5C \<longleftrightarrow> c = CHR 0x5C"
    "lower_char c = CHR ''%'' \<longleftrightarrow> c = CHR ''%''"
    "lower_char c = CHR ''_'' \<longleftrightarrow> c = CHR ''_''"
    by (rule *; simp)+
qed

lemma lower_glob: "py_lower (glob_to_sql_pattern g) = glob_to_sql_pattern (py_lower g)"
proof -
  have "lower_char CHR 0x5C = CHR 0x5C" "lower_char CHR ''%'' = CHR ''%''" "lower_char CHR ''_'' = CHR ''_''"
    by (simp_all add: lower_char_special)
  then have "map lower_char (glob_char c) = glob_char (lower_char c)" for c
    unfolding glob_char_def lower_char_special by (simp add: lower_char_special)
  then show ?thesis
    by (induction g) (simp_all add: glob_to_sql_chars py_lower_def)
qed

lemma coerced_items:
  assumes "res_map (coerce_uuid n) vs = Inr ws" "get_column_type c = CUuid"
  shows "ws = map (\<lambda>v. wanted_value (Filter n EQ v) c) vs"
  using assms(1)
proof (induction vs arbitrary: ws)
  case (Cons v vs)
  from Cons.prems obtain w us where w: "coerce_uuid n v = Inr w" and us: "res_map (coerce_uuid n) vs = Inr us"
    and ws: "ws = w # us" by (auto simp: res_bind_eq_Inr)
  have "w = wanted_value (Filter n EQ v) c" using w assms(2) by (simp add: wanted_value_def)
  with Cons.IH [OF us] ws show ?case by simp
qed simp

lemma leaf_sem:
  assumes b: "build_filter_expression f fm reg jm = Inr l" and like: "sql_like_laws (rs_like R)"
  shows "eval_sexpr (sql_leaf R) l = filter_sem R fm reg jm f"
proof (cases "f_op f = CONTAINS")
  case True
  obtain r s k where p: "py_partition CHR ''.'' (f_field f) = (r, s, k)"
    by (cases "py_partition CHR ''.'' (f_field f)")
  from b True p show ?thesis
    by (auto simp: build_filter_expression_def build_json_contains_expression_def filter_sem_def
        JsonArrayContains_def Let_def split: option.splits fval.splits if_splits)
next
  case False
  with b obtain c bl v where c: "get_filter_column f fm reg jm = Inr c"
    and ok: "validate_filter_value f c = Inr ()" and bl: "filter_operator_builder (f_op f) = Some bl"
    and v: "coerce_filter_value f c = Inr v" and l: "l = bl c v"
    by (auto simp: build_filter_expression_def res_bind_eq_Inr split: option.splits)
  have col: "column_of f fm reg jm = Some c" by (simp add: column_of_def c)
  note defs = coerce_filter_value_def UUID_COERCED_OPERATORS_def filter_sem_def col Let_def
  show ?thesis
  proof (cases "f_op f")
    case IN
    from ok IN obtain vs where vs: "f_value f = VIter vs"
      by (auto simp: validate_filter_value_def split: fval.splits)
    show ?thesis
    proof (cases "get_column_type c = CUuid")
      case True
      with v IN vs obtain ws where ws: "res_map (coerce_uuid (f_field f)) vs = Inr ws" "v = VIter ws"
        by (auto simp: defs res_bind_eq_Inr)
      with coerced_items [OF ws(1) True] IN vs bl l show ?thesis by (auto simp: defs comp_def)
    next
      case ty: False
      with v IN vs bl l show ?thesis by (auto simp: defs wanted_value_def comp_def)
    qed
  next
    case MATCHES
    from v MATCHES have "v = f_value f" by (auto simp: defs)
    moreover have "rs_like R CHR 0x5C (glob_to_sql_pattern g) = glob_match g" for g
      using glob_like [OF like] by blast
    ultimately show ?thesis using MATCHES bl l by (auto simp: defs)
  next
    case MATCHES_CI
    from v MATCHES_CI have "v = f_value f" by (auto simp: defs)
    with MATCHES_CI bl l glob_like [OF like] show ?thesis by (auto simp: defs lower_glob)
  qed (use False v bl l in \<open>auto simp: defs wanted_value_def split: if_splits\<close>)
qed

section \<open>Properties\<close>

text \<open>A query expression is translated to SQL exactly when no \<open>And\<close> or \<open>Or\<close> in it is empty and
  every filter in it can be translated; otherwise the exception raised is that of the leftmost
  offending part.\<close>

theorem build_expression_accepts:
  "((\<exists>e. build_expression q fm reg jm = Inr e) \<longleftrightarrow>
      no_empty_clause q \<and>
      list_all (\<lambda>f. \<exists>e. build_filter_expression f fm reg jm = Inr e) (iter_filters q)) \<and>
   error_of (build_expression q fm reg jm) = first_error (build_checks fm reg jm q)"
  by (simp add: build_expression_ok_iff build_expression_first_error list_all_iff)

text \<open>C1: the SQL expression built for a query selects a row exactly when the row satisfies the query,
  in SQL's three-valued logic: globs match by their own rule although they are passed to \<open>LIKE\<close>
  in escaped form, ids are compared as ids although they were given as text.\<close>

theorem build_expression_means_query:
  assumes "build_expression q fm reg jm = Inr e" and "sql_like_laws (rs_like R)"
  shows "eval_sexpr (sql_leaf R) e = eval_query (filter_sem R fm reg jm) q"
  by (rule build_expression_eval [OF assms(1)]) (rule leaf_sem [OF _ assms(2)])

lemma build_expression_means_query_witness:
  "\<exists>e. build_expression (QNot (QFilter (Filter ''name'' MATCHES (VStr ''a*''))))
         [(''name'', Column ''user'' ''name'' CString)] None None = Inr e \<and>
     eval_sexpr (sql_leaf \<lparr>rs_value = (\<lambda>c. VStr ''abc''), rs_cmp = (\<lambda>op a b. None),
        rs_like = sql_like, rs_json = (\<lambda>c k v. None)\<rparr>) e =
     eval_query (filter_sem \<lparr>rs_value = (\<lambda>c. VStr ''abc''), rs_cmp = (\<lambda>op a b. None),
        rs_like = sql_like, rs_json = (\<lambda>c k v. None)\<rparr>
        [(''name'', Column ''user'' ''name'' CString)] None None)
       (QNot (QFilter (Filter ''name'' MATCHES (VStr ''a*''))))"
proof -
  let ?q = "QNot (QFilter (Filter ''name'' MATCHES (VStr ''a*'')))"
  let ?fm = "[(''name'', Column ''user'' ''name'' CString)]"
  have "build_expression ?q ?fm None None = Inr (ENot (ELike (Column ''user'' ''name'' CString) ''a%''))"
    by (simp add: build_filter_expression_def get_filter_column_def validate_filter_value_def
        coerce_filter_value_def UUID_COERCED_OPERATORS_def RANGE_OPERATORS_def str_of_def
        glob_to_sql_chars glob_char_def)
  from build_expression_means_query [OF this,
      of "\<lparr>rs_value = (\<lambda>c. VStr ''abc''), rs_cmp = (\<lambda>op a b. None), rs_like = sql_like, rs_json = (\<lambda>c k v. None)\<rparr>"]
    this show ?thesis using sql_like_lawful by auto
qed

text \<open>A search joins exactly the relations of the registry that some filter of the query names as
  the part before its first dot, the filter is added after the joins, and duplicates are removed
  exactly when something was joined.\<close>

theorem apply_search_query_joins:
  "apply_search_query s (Some (SearchQuery (Some q))) fm (Some reg) jm =
     res_bind (build_expression q fm (Some reg) jm) (\<lambda>e.
       Inr ((apply_nested_joins s (get_required_joins (Inl q) (Some reg)) (Some reg))
            \<lparr>st_where := st_where s @ [e]\<rparr>)) \<and>
   set (get_required_joins (Inl q) (Some reg)) =
     {r \<in> fst ` set reg. \<exists>f\<in>set (iter_filters q). nested_root r (f_field f)} \<and>
   st_distinct (apply_nested_joins s (get_required_joins (Inl q) (Some reg)) (Some reg)) =
     (if st_joins (apply_nested_joins s (get_required_joins (Inl q) (Some reg)) (Some reg)) = st_joins s
      then st_distinct s else True)"
  by (simp add: apply_search_query_def Let_def set_get_required_joins apply_nested_joins_result(2,3))

text \<open>C23: when \<open>public_id\<close> (the default field) can be sorted on, every accepted sort orders by the
  caller's fields first and always by the default field too, so that paging over the result is
  stable; a sort is refused exactly when it names a field outside the map.\<close>

theorem apply_sort_total_order:
  assumes "map_of fm d = Some c"
  shows "((\<exists>e. apply_sort s sort_by fm d reg = Inl e) \<longleftrightarrow>
            (\<exists>x\<in>set sort_by. sort_field x \<notin> fst ` set fm)) \<and>
         (\<forall>t. apply_sort s sort_by fm d reg = Inr t \<longrightarrow>
            (\<exists>extra. st_order t = st_order s @
               map (\<lambda>x. (the (map_of fm (sort_field x)), ascending x)) sort_by @ extra) \<and>
            (\<exists>asc. (c, asc) \<in> set (drop (length (st_order s)) (st_order t))))"
proof (intro conjI allI impI)
  have d: "d \<in> fst ` set fm" using assms by (metis domI dom_map_of_conv_image_fst)
  let ?s = "apply_nested_joins s (get_required_joins (Inr (if sort_by = [] then [SortSpec d True] else sort_by)) reg) reg"
  have sort: "apply_sort s sort_by fm d reg = order_loop (sort_specs sort_by fm d) fm ?s"
    by (simp add: apply_sort_def Let_def)
  have specs: "\<exists>extra. sort_specs sort_by fm d = sort_by @ extra \<and> (\<forall>x\<in>set extra. sort_field x = d)"
    by (auto simp: sort_specs_def Let_def)
  show "(\<exists>e. apply_sort s sort_by fm d reg = Inl e) \<longleftrightarrow> (\<exists>x\<in>set sort_by. sort_field x \<notin> fst ` set fm)"
  proof -
    have "(\<exists>e. apply_sort s sort_by fm d reg = Inl e) \<longleftrightarrow> \<not> (\<exists>t. apply_sort s sort_by fm d reg = Inr t)"
      by (cases "apply_sort s sort_by fm d reg") auto
    also have "\<dots> \<longleftrightarrow> (\<exists>x\<in>set (sort_specs sort_by fm d). sort_field x \<notin> fst ` set fm)"
      unfolding sort order_loop_result by blast
    also have "\<dots> \<longleftrightarrow> (\<exists>x\<in>set sort_by. sort_field x \<notin> fst ` set fm)"
    proof -
      obtain extra where "sort_specs sort_by fm d = sort_by @ extra" "\<forall>x\<in>set extra. sort_field x = d"
        using specs by blast
      then show ?thesis using d by (metis Un_iff set_append)
    qed
    finally show ?thesis .
  qed
  fix t
  assume "apply_sort s sort_by fm d reg = Inr t"
  then have t: "st_order t = st_order s @
      map (\<lambda>x. (the (map_of fm (sort_field x)), ascending x)) (sort_specs sort_by fm d)"
    unfolding sort order_loop_result by (auto simp: apply_nested_joins_result)
  obtain pre x post where x: "sort_specs sort_by fm d = pre @ x # post" "sort_field x = d"
    using sort_specs_default [OF d] by blast
  then have "(c, ascending x) \<in> set (drop (length (st_order s)) (st_order t))"
    using assms by (simp add: t)
  then show "\<exists>asc. (c, asc) \<in> set (drop (length (st_order s)) (st_order t))" by blast
  show "\<exists>extra. st_order t = st_order s @
      map (\<lambda>x. (the (map_of fm (sort_field x)), ascending x)) sort_by @ extra"
    using specs t by auto
qed

lemma apply_sort_total_order_witness:
  "(\<exists>t. apply_sort (select ''User'') [SortSpec ''name'' False]
         [(''public_id'', Column ''user'' ''public_id'' CUuid), (''name'', Column ''user'' ''name'' CString)]
         ''public_id'' None = Inr t \<and>
      (\<exists>asc. (Column ''user'' ''public_id'' CUuid, asc) \<in> set (drop 0 (st_order t)))) \<and>
   \<not> (\<exists>e. apply_sort (select ''User'') [SortSpec ''name'' False]
         [(''public_id'', Column ''user'' ''public_id'' CUuid), (''name'', Column ''user'' ''name'' CString)]
         ''public_id'' None = Inl e)"
proof -
  let ?fm = "[(''public_id'', Column ''user'' ''public_id'' CUuid), (''name'', Column ''user'' ''name'' CString)]"
  let ?r = "apply_sort (select ''User'') [SortSpec ''name'' False] ?fm ''public_id'' None"
  have m: "map_of ?fm ''public_id'' = Some (Column ''user'' ''public_id'' CUuid)" by simp
  note order = apply_sort_total_order [OF m, of "select ''User''" "[SortSpec ''name'' False]" None]
  have no: "\<not> (\<exists>e. ?r = Inl e)"
    using order by simp
  then obtain t where t: "?r = Inr t" by (cases ?r) auto
  have "\<exists>asc. (Column ''user'' ''public_id'' CUuid, asc) \<in> set (drop (length (st_order (select ''User''))) (st_order t))"
    using order t by blast
  with no t show ?thesis by (simp add: select_def)
qed

end
