(* ===== verification/Domain_Json.thy ===== *)
theory Domain_Json
  imports Domain_Models "HOL-Library.Multiset"
begin

text \<open>
  \<open>ucsschool_objects/core/domain/json.py\<close>: turning a domain object into the JSON dict that patches
  are computed on. Serialisation replaces objects by dicts and sets by lists; normalisation turns
  ids and dates into text and sorts every list by the \<open>str()\<close> of its items.
\<close>

section \<open>Python values before normalisation\<close>

datatype pkey = KStr string | KUuid uuid

datatype pyval =
    PNone
  | PBool bool
  | PInt int
  | PFloat string
  | PStr string
  | PUuid uuid
  | PDate date
  | PUnloaded
  | PUnset
  | PList "pyval list"
  | PDict "(pkey \<times> pyval) list"

fun of_json :: "json \<Rightarrow> pyval" where
  "of_json JNull = PNone"
| "of_json (JBool b) = PBool b"
| "of_json (JInt i) = PInt i"
| "of_json (JFloat s) = PFloat s"
| "of_json (JStr s) = PStr s"
| "of_json (JList xs) = PList (map of_json xs)"
| "of_json (JObj d) = PDict (map (\<lambda>p. (KStr (fst p), of_json (snd p))) d)"

definition UNLOADED_MARKER :: json where
  "UNLOADED_MARKER = JObj [(''__sentinel__'', JStr ''UNLOADED'')]"

definition UNSET_MARKER :: json where
  "UNSET_MARKER = JObj [(''__sentinel__'', JStr ''UNSET'')]"

fun normalise_key :: "pkey \<Rightarrow> string" where
  "normalise_key (KStr s) = s"
| "normalise_key (KUuid u) = uuid_str u"

fun normalise :: "pyval \<Rightarrow> json" where
  "normalise PUnloaded = UNLOADED_MARKER"
| "normalise PUnset = UNSET_MARKER"
| "normalise (PDict d) =
     JObj (fold (\<lambda>p acc. AList.update (normalise_key (fst p)) (snd p) acc)
            (map (\<lambda>p. (fst p, normalise (snd p))) d) [])"
| "normalise (PList xs) = JList (sort_key py_str (map normalise xs))"
| "normalise (PUuid u) = JStr (uuid_str u)"
| "normalise (PDate d) = JStr (isoformat d)"
| "normalise PNone = JNull"
| "normalise (PBool b) = JBool b"
| "normalise (PInt i) = JInt i"
| "normalise (PFloat s) = JFloat s"
| "normalise (PStr s) = JStr s"

section \<open>Serialisation\<close>

definition ser_loadable :: "('a \<Rightarrow> pyval) \<Rightarrow> 'a loadable \<Rightarrow> pyval" where
  "ser_loadable f v = (case v of UNLOADED \<Rightarrow> PUnloaded | Loaded x \<Rightarrow> f x)"

definition ser_settable :: "uuid settable \<Rightarrow> pyval" where
  "ser_settable v = (case v of UNSET \<Rightarrow> PUnset | Present u \<Rightarrow> PUuid u)"

definition ser_opt :: "('a \<Rightarrow> pyval) \<Rightarrow> 'a option \<Rightarrow> pyval" where
  "ser_opt f v = (case v of None \<Rightarrow> PNone | Some x \<Rightarrow> f x)"

definition ser_strings :: "string list \<Rightarrow> pyval" where
  "ser_strings xs = PList (map PStr xs)"

definition ser_udm :: "pdict \<Rightarrow> pyval" where
  "ser_udm d = of_json (JObj d)"

text \<open>\<open>domain_object_properties\<close>: the serialised fields under their public names.\<close>

definition domain_object_properties :: "model_type \<Rightarrow> pyval list \<Rightarrow> pyval" where
  "domain_object_properties t values =
     PDict (zip (map (\<lambda>f. KStr (serialized_domain_field_name f)) (serialize_fields t)) values)"

definition ser_school :: "school \<Rightarrow> pyval" where
  "ser_school s = domain_object_properties SchoolT
     [ser_settable (s_public_id s), ser_loadable PStr (s_record_uid s), ser_loadable PStr (s_source_uid s),
      ser_loadable PStr (s_name s), ser_loadable PStr (s_display_name s),
      ser_loadable ser_strings (s_educational_servers s),
      ser_loadable ser_strings (s_administrative_servers s),
      ser_loadable (ser_opt PStr) (s_class_share_file_server s),
      ser_loadable (ser_opt PStr) (s_home_share_file_server s),
      ser_loadable ser_udm (s_udm_properties s)]"

definition ser_role :: "role \<Rightarrow> pyval" where
  "ser_role r = domain_object_properties RoleT
     [ser_settable (r_public_id r), ser_loadable PStr (r_name r),
      ser_loadable (\<lambda>d. PDict (map (\<lambda>p. (KStr (fst p), PStr (snd p))) d)) (r_display_name r)]"

definition ser_items :: "pyval list loadable \<Rightarrow> pyval" where
  "ser_items v = ser_loadable PList v"

primrec ser_group :: "group \<Rightarrow> pyval"
  and ser_membership :: "membership \<Rightarrow> pyval"
  and ser_user :: "user \<Rightarrow> pyval" where
  "ser_group (Group pid ru su nm dn cs rs au ag ms mr sc em de ud) =
     domain_object_properties GroupT
     [ser_settable pid, ser_loadable PStr ru, ser_loadable PStr su, ser_loadable PStr nm,
      ser_loadable PStr dn, ser_loadable PBool cs, ser_items (map_loadable (map ser_role) rs),
      ser_items (map_loadable (map ser_user) au), ser_items (map_loadable (map ser_group) ag),
      ser_items (map_loadable (map ser_user) ms), ser_items (map_loadable (map ser_role) mr),
      ser_loadable ser_school sc, ser_loadable (ser_opt PStr) em, ser_loadable (ser_opt PStr) de,
      ser_loadable ser_udm ud]"
| "ser_membership (SchoolMembership sc pr rs gs) =
     domain_object_properties MembershipT
     [ser_school sc, PBool pr, PList (map ser_role rs), PList (map ser_group gs)]"
| "ser_user (User pid ru su nm fn ln ac ms lw lg em bd ex ud) =
     domain_object_properties UserT
     [ser_settable pid, ser_loadable PStr ru, ser_loadable PStr su, ser_loadable PStr nm,
      ser_loadable PStr fn, ser_loadable PStr ln, ser_loadable PBool ac,
      ser_loadable (\<lambda>d. PDict (map (map_prod KUuid id) d))
        (map_loadable (map (map_prod id ser_membership)) ms),
      ser_items (map_loadable (map ser_user) lw), ser_items (map_loadable (map ser_user) lg),
      ser_loadable (ser_opt PStr) em, ser_loadable (ser_opt PDate) bd, ser_loadable (ser_opt PDate) ex,
      ser_loadable ser_udm ud]"

definition json_dict :: "json \<Rightarrow> pdict" where
  "json_dict j = (case j of JObj d \<Rightarrow> d | _ \<Rightarrow> [])"

definition school_to_json :: "school \<Rightarrow> pdict" where
  "school_to_json s = json_dict (normalise (ser_school s))"

definition group_to_json :: "group \<Rightarrow> pdict" where
  "group_to_json g = json_dict (normalise (ser_group g))"

definition user_to_json :: "user \<Rightarrow> pdict" where
  "user_to_json u = json_dict (normalise (ser_user u))"

section \<open>Dicts with distinct keys\<close>

lemma update_snoc: "k \<notin> fst ` set al \<Longrightarrow> AList.update k v al = al @ [(k, v)]"
  by (induction al) auto

lemma fold_update_distinct:
  assumes "distinct (map (\<lambda>p. k (fst p)) d)" "\<forall>p\<in>set d. k (fst p) \<notin> fst ` set acc"
  shows "fold (\<lambda>p acc. AList.update (k (fst p)) (snd p) acc) d acc =
           acc @ map (\<lambda>p. (k (fst p), snd p)) d"
  using assms
proof (induction d arbitrary: acc)
  case (Cons p d)
  have "k (fst p) \<notin> fst ` set acc" using Cons.prems by simp
  then have u: "AList.update (k (fst p)) (snd p) acc = acc @ [(k (fst p), snd p)]"
    by (rule update_snoc)
  have "\<forall>q\<in>set d. k (fst q) \<notin> fst ` set (acc @ [(k (fst p), snd p)])"
  proof
    fix q assume q: "q \<in> set d"
    with Cons.prems(1) have "k (fst q) \<noteq> k (fst p)" by (metis (mono_tags, lifting) distinct.simps(2) image_eqI list.map(2) list.set_map)
    with Cons.prems(2) q show "k (fst q) \<notin> fst ` set (acc @ [(k (fst p), snd p)])" by auto
  qed
  with Cons.IH Cons.prems(1) u show ?case by simp
qed simp

lemma normalise_dict:
  assumes "distinct (map (\<lambda>p. normalise_key (fst p)) d)"
  shows "normalise (PDict d) = JObj (map (\<lambda>p. (normalise_key (fst p), normalise (snd p))) d)"
proof -
  have "distinct (map (\<lambda>p. normalise_key (fst p)) (map (\<lambda>p. (fst p, normalise (snd p))) d))"
    using assms by (simp add: comp_def)
  then show ?thesis by (simp add: fold_update_distinct comp_def del: map_map) (simp add: comp_def)
qed

lemma serialized_names_distinct:
  "distinct (map serialized_domain_field_name (serialize_fields t))"
  by (cases t) (simp_all add: serialized_domain_field_name_def startswith_def)

lemma normalise_object:
  assumes "length values = length (serialize_fields t)"
  shows "normalise (domain_object_properties t values) =
     JObj (zip (map serialized_domain_field_name (serialize_fields t)) (map normalise values))"
proof -
  let ?ns = "map serialized_domain_field_name (serialize_fields t)"
  have keys: "map (\<lambda>p. normalise_key (fst p)) (zip (map (\<lambda>f. KStr (serialized_domain_field_name f)) (serialize_fields t)) values) = ?ns"
  proof -
    have "map fst (zip (map (\<lambda>f. KStr (serialized_domain_field_name f)) (serialize_fields t)) values) =
        map (\<lambda>f. KStr (serialized_domain_field_name f)) (serialize_fields t)"
      using assms by simp
    then have "map normalise_key (map fst (zip (map (\<lambda>f. KStr (serialized_domain_field_name f)) (serialize_fields t)) values)) = ?ns"
      by simp
    then show ?thesis by (simp add: comp_def)
  qed
  have "normalise (domain_object_properties t values) =
      JObj (map (\<lambda>p. (normalise_key (fst p), normalise (snd p)))
        (zip (map (\<lambda>f. KStr (serialized_domain_field_name f)) (serialize_fields t)) values))"
    unfolding domain_object_properties_def
    by (rule normalise_dict) (simp only: keys serialized_names_distinct)
  also have "map (\<lambda>p. (normalise_key (fst p), normalise (snd p)))
        (zip (map (\<lambda>f. KStr (serialized_domain_field_name f)) (serialize_fields t)) values) =
      zip ?ns (map normalise values)"
    by (simp add: zip_map_map zip_map1 comp_def split_def map_zip_map zip_map2)
  finally show ?thesis .
qed

section \<open>Objects start with their id\<close>

definition id_first :: "uuid \<Rightarrow> json \<Rightarrow> bool" where
  "id_first u j \<longleftrightarrow> (\<exists>rest. j = JObj ((''public_id'', JStr (uuid_str u)) # rest))"

lemma ser_id_first:
  "s_public_id s = Present u \<Longrightarrow> id_first u (normalise (ser_school s))"
  "r_public_id r = Present u \<Longrightarrow> id_first u (normalise (ser_role r))"
  "g_public_id g = Present u \<Longrightarrow> id_first u (normalise (ser_group g))"
  "u_public_id w = Present u \<Longrightarrow> id_first u (normalise (ser_user w))"
proof -
  show "s_public_id s = Present u \<Longrightarrow> id_first u (normalise (ser_school s))"
    by (simp add: ser_school_def normalise_object id_first_def ser_settable_def
        serialized_domain_field_name_def startswith_def)
  show "r_public_id r = Present u \<Longrightarrow> id_first u (normalise (ser_role r))"
    by (simp add: ser_role_def normalise_object id_first_def ser_settable_def
        serialized_domain_field_name_def startswith_def)
  show "g_public_id g = Present u \<Longrightarrow> id_first u (normalise (ser_group g))"
    by (cases g) (simp add: normalise_object id_first_def ser_settable_def
        serialized_domain_field_name_def startswith_def)
  show "u_public_id w = Present u \<Longrightarrow> id_first u (normalise (ser_user w))"
    by (cases w) (simp add: normalise_object id_first_def ser_settable_def
        serialized_domain_field_name_def startswith_def)
qed

lemma concat_map_single: "\<forall>x\<in>set xs. f x = [x] \<Longrightarrow> concat (map f xs) = xs"
  by (induction xs) auto

lemma repr_string_uuid: "repr_string (uuid_str u) = CHR 0x27 # uuid_str u @ [CHR 0x27]"
proof -
  have q: "CHR 0x27 \<notin> set (uuid_str u)" by (rule uuid_str_no) simp
  have "repr_char CHR 0x27 c = [c]" if c: "c \<in> set (uuid_str u)" for c
  proof -
    from uuid_str_chars [OF c] consider "c = CHR ''-''" | d where "d < 16" "c = hex_char d" by blast
    then show ?thesis
    proof cases
      case 2
      have "c \<noteq> CHR 0x27" "c \<noteq> CHR 0x5C"
        using hex_char_neq [of d "CHR 0x27"] hex_char_neq [of d "CHR 0x5C"] 2 by auto
      with cp_hex_char [of d] 2 show ?thesis by (simp add: repr_char_def Let_def split: if_splits)
    qed (simp add: repr_char_def Let_def)
  qed
  then have "concat (map (repr_char CHR 0x27) (uuid_str u)) = uuid_str u"
    by (intro concat_map_single) blast
  with q show ?thesis by (simp add: repr_string_def Let_def)
qed

lemma length_uuid_str [simp]: "length (uuid_str u) = 36"
  by (simp add: uuid_str_def Let_def)

lemma py_str_id_first:
  assumes "id_first u j"
  shows "\<exists>rest. py_str j = ''{'' @ repr_string ''public_id'' @ '': '' @ (CHR 0x27 # uuid_str u) @ rest"
proof -
  from assms obtain d where j: "j = JObj ((''public_id'', JStr (uuid_str u)) # d)"
    by (auto simp: id_first_def)
  have "\<exists>r. join_comma (x # xs) = x @ r" for x xs by (cases xs) auto
  then obtain r where "join_comma ((repr_string ''public_id'' @ '': '' @ repr_string (uuid_str u)) #
      map (\<lambda>p. repr_string (fst p) @ '': '' @ py_repr (snd p)) d) =
      (repr_string ''public_id'' @ '': '' @ repr_string (uuid_str u)) @ r" by blast
  then show ?thesis by (simp add: j repr_string_uuid)
qed

lemma py_str_id_inj:
  assumes "id_first a x" "id_first b y" "py_str x = py_str y"
  shows "a = b"
proof -
  from py_str_id_first [OF assms(1)] py_str_id_first [OF assms(2)] assms(3)
  obtain r t where "uuid_str a @ r = uuid_str b @ t" by fastforce
  then have "uuid_str a = uuid_str b" by (simp add: append_eq_append_conv)
  then show ?thesis by simp
qed

section \<open>The order of a set does not matter\<close>

lemma sort_key_mset_eq:
  assumes "mset xs = mset ys" "distinct (map k xs)"
  shows "sort_key k xs = sort_key k ys"
proof -
  have inj: "inj_on k (set xs)" and set: "set ys = set xs"
    using assms by (auto simp: distinct_map dest: mset_eq_setD)
  have "mset (map k (sort_key k xs)) = mset (map k (sort_key k ys))"
    using assms(1) by simp
  then have "map k (sort_key k xs) = map k (sort_key k ys)"
    by (metis properties_for_sort sorted_sort_key)
  then show ?thesis using inj set by (simp add: inj_on_map_eq_map)
qed

lemma normalise_items_order:
  assumes "mset xs = mset ys" and ids: "\<forall>x\<in>set xs. id_first (key x) (normalise (f x))"
    and "distinct (map key xs)"
  shows "normalise (PList (map f xs)) = normalise (PList (map f ys))"
proof -
  let ?n = "\<lambda>x. normalise (f x)"
  have "inj_on (\<lambda>x. py_str (?n x)) (set xs)"
  proof (rule inj_onI)
    fix x y assume xy: "x \<in> set xs" "y \<in> set xs" "py_str (?n x) = py_str (?n y)"
    then have "key x = key y" using ids py_str_id_inj by blast
    then show "x = y" using assms(3) xy by (auto simp: distinct_map dest: inj_onD)
  qed
  then have "distinct (map py_str (map ?n xs))"
    using assms(3) by (simp add: distinct_map comp_def)
  moreover have "mset (map ?n xs) = mset (map ?n ys)" using assms(1) by simp
  ultimately have "sort_key py_str (map ?n xs) = sort_key py_str (map ?n ys)"
    by (intro sort_key_mset_eq)
  then show ?thesis by (simp add: comp_def)
qed

section \<open>Properties\<close>



end
