(* ===== verification/Domain_Patch.thy ===== *)
theory Domain_Patch
  imports Domain_Json
begin

text \<open>
  \<open>ucsschool_objects/core/domain/patch.py\<close>: the JSON Patch between two states of an object, with
  some collections replaced as a whole. The \<open>jsonpatch\<close> package is not under \<open>src/\<close>: its
  \<open>from_diff\<close> and \<open>apply\<close> are the parameters \<open>jp_diff\<close> and \<open>jp_apply\<close>.
\<close>

section \<open>Operations\<close>

record operation =
  op_kind :: string
  op_path :: string
  op_from :: "string option"
  op_value :: "json option"

definition replace_op :: "string \<Rightarrow> json \<Rightarrow> operation" where
  "replace_op path v = \<lparr>op_kind = ''replace'', op_path = path, op_from = None, op_value = Some v\<rparr>"

type_synonym jp_diff = "pdict \<Rightarrow> pdict \<Rightarrow> operation list"
type_synonym jp_apply = "operation list \<Rightarrow> pdict \<Rightarrow> pdict option"

text \<open>What the documentation of \<open>jsonpatch\<close> says of documents (dicts without repeated keys): the diff
  of a document with itself is empty, an empty diff means equal documents, and applying a diff to its
  source gives a document, again without repeated keys, equal to the target.\<close>

definition json_patch_laws :: "jp_diff \<Rightarrow> jp_apply \<Rightarrow> bool" where
  "json_patch_laws jp_diff jp_apply \<longleftrightarrow>
     (\<forall>a. json_wf (JObj a) \<longrightarrow> jp_diff a a = []) \<and>
     (\<forall>a b. json_wf (JObj a) \<and> json_wf (JObj b) \<longrightarrow>
        (jp_diff a b = [] \<longrightarrow> json_eq (JObj a) (JObj b)) \<and>
        (\<exists>c. jp_apply (jp_diff a b) a = Some c \<and> json_wf (JObj c) \<and> json_eq (JObj c) (JObj b)))"

text \<open>A coarse implementation with these laws: replace the whole document when it changed.\<close>

definition whole_diff :: jp_diff where
  "whole_diff a b = (if a = b then [] else [replace_op [] (JObj b)])"

definition whole_apply :: jp_apply where
  "whole_apply ops a = fold (\<lambda>op d. case op_value op of Some (JObj b) \<Rightarrow> Some b | _ \<Rightarrow> None) ops (Some a)"

lemma whole_diff_lawful: "json_patch_laws whole_diff whole_apply"
  unfolding json_patch_laws_def
  by (auto simp: whole_diff_def whole_apply_def replace_op_def json_eq_refl
      simp del: json_eq.simps json_wf.simps)

section \<open>Building a patch\<close>

text \<open>\<open>_reference_key\<close>: the set of ids of a list of references, or a value to compare as it is.\<close>

datatype ref_key = RSet "string set" | RVal json

definition public_id_text :: "json \<Rightarrow> string option" where
  "public_id_text item =
     (case item of
        JObj d \<Rightarrow> (case map_of d ''public_id'' of Some (JStr s) \<Rightarrow> Some s | _ \<Rightarrow> None)
      | _ \<Rightarrow> None)"

definition reference_key :: "json \<Rightarrow> ref_key" where
  "reference_key value =
     (case value of
        JList items \<Rightarrow>
          (if list_all (\<lambda>i. public_id_text i \<noteq> None) items
           then RSet (set (map (\<lambda>i. the (public_id_text i)) items)) else RVal value)
      | JObj d \<Rightarrow> (case map_of d ''public_id'' of Some k \<Rightarrow> RVal k | None \<Rightarrow> RVal value)
      | _ \<Rightarrow> RVal value)"

fun ref_key_eq :: "ref_key \<Rightarrow> ref_key \<Rightarrow> bool" where
  "ref_key_eq (RSet a) (RSet b) \<longleftrightarrow> a = b"
| "ref_key_eq (RVal a) (RVal b) \<longleftrightarrow> json_eq a b"
| "ref_key_eq _ _ \<longleftrightarrow> False"

text \<open>The two dicts are changed in place, so each step returns them with the operations so far.\<close>

type_synonym patch_state = "pdict \<times> pdict \<times> operation list"

definition pop_replace_op :: "string \<Rightarrow> string \<Rightarrow> patch_state \<Rightarrow> patch_state" where
  "pop_replace_op field path st =
     (case st of (src, dst, ops) \<Rightarrow>
      (case (dict_pop src field, dict_pop dst field) of ((src_val, src'), (dst_val, dst')) \<Rightarrow>
         (src', dst',
          if ref_key_eq (reference_key src_val) (reference_key dst_val) then ops
          else ops @ [replace_op path dst_val])))"

text \<open>Rewriting the child dicts under \<open>key\<close>: what the in-place change of a nested dict amounts to.\<close>

definition at_child :: "string \<Rightarrow> (patch_state \<Rightarrow> patch_state) \<Rightarrow> patch_state \<Rightarrow> patch_state" where
  "at_child key step st =
     (case st of (src, dst, ops) \<Rightarrow>
      (case (map_of src key, map_of dst key) of
         (Some (JObj s), Some (JObj d)) \<Rightarrow>
           (case step (s, d, ops) of (s', d', ops') \<Rightarrow>
              (AList.update key (JObj s') src, AList.update key (JObj d') dst, ops'))
       | _ \<Rightarrow> (src, dst, ops)))"

text \<open>\<open>_collect_replace_ops\<close> and \<open>_descend_replace_ops\<close>.\<close>

fun collect_replace_ops :: "string list \<Rightarrow> string \<Rightarrow> patch_state \<Rightarrow> patch_state" where
  "collect_replace_ops [] prefix st = st"
| "collect_replace_ops [head] prefix st = pop_replace_op head (prefix @ ''/'' @ head) st"
| "collect_replace_ops (head # next # parts) prefix st =
     (if head = ''*'' then
        fold (\<lambda>key. at_child key (collect_replace_ops (next # parts) (prefix @ ''/'' @ key)))
          (sorted_list_of_set (set (map fst (fst st)) \<inter> set (map fst (fst (snd st))))) st
      else at_child head (collect_replace_ops (next # parts) (prefix @ ''/'' @ head)) st)"

definition patch_ops :: "jp_diff \<Rightarrow> pdict \<Rightarrow> pdict \<Rightarrow> string set \<Rightarrow> operation list" where
  "patch_ops jp_diff src_dict dst_dict replace_fields =
     (case fold (\<lambda>field_path. collect_replace_ops (py_split CHR ''/'' field_path) [])
             (sorted_list_of_set replace_fields) (src_dict, dst_dict, []) of
        (src, dst, ops) \<Rightarrow> ops @ jp_diff src dst)"

definition create_school_patch :: "jp_diff \<Rightarrow> school \<Rightarrow> school \<Rightarrow> string set \<Rightarrow> operation list" where
  "create_school_patch jp_diff src dst replace_fields =
     patch_ops jp_diff (school_to_json src) (school_to_json dst) replace_fields"

definition create_group_patch :: "jp_diff \<Rightarrow> group \<Rightarrow> group \<Rightarrow> string set \<Rightarrow> operation list" where
  "create_group_patch jp_diff src dst replace_fields =
     patch_ops jp_diff (group_to_json src) (group_to_json dst) replace_fields"

definition create_user_patch :: "jp_diff \<Rightarrow> user \<Rightarrow> user \<Rightarrow> string set \<Rightarrow> operation list" where
  "create_user_patch jp_diff src dst replace_fields =
     patch_ops jp_diff (user_to_json src) (user_to_json dst) replace_fields"

section \<open>track\_changes\<close>

datatype tracked = TSchool school | TGroup group | TUser user

record tracker =
  tr_obj :: tracked
  tr_original :: "tracked option"
  tr_replace_fields :: "string set"

definition track_changes :: "tracked \<Rightarrow> string set \<Rightarrow> tracker" where
  "track_changes obj replace_fields =
     \<lparr>tr_obj = obj, tr_original = None, tr_replace_fields = replace_fields\<rparr>"

text \<open>Values are immutable here, so \<open>copy.deepcopy\<close> is the value itself.\<close>

definition track_enter :: "tracker \<Rightarrow> tracker" where
  "track_enter t = t\<lparr>tr_original := Some (tr_obj t)\<rparr>"

definition tracker_patch :: "jp_diff \<Rightarrow> tracker \<Rightarrow> err + operation list" where
  "tracker_patch jp_diff t =
     (case tr_original t of
        None \<Rightarrow> Inl (RuntimeError ''tracker.patch requires a baseline'')
      | Some original \<Rightarrow>
          (case (tr_obj t, original) of
             (TSchool b, TSchool a) \<Rightarrow> Inr (create_school_patch jp_diff a b (tr_replace_fields t))
           | (TGroup b, TGroup a) \<Rightarrow> Inr (create_group_patch jp_diff a b (tr_replace_fields t))
           | (TUser b, TUser a) \<Rightarrow> Inr (create_user_patch jp_diff a b (tr_replace_fields t))
           | _ \<Rightarrow> Inl (TypeError ''track_changes does not support this object'')))"

section \<open>Normalised values are well formed\<close>

lemma distinct_fold_update:
  "distinct (map fst acc) \<Longrightarrow>
   distinct (map fst (fold (\<lambda>p acc. AList.update (k p) (v p) acc) d acc))"
  by (induction d arbitrary: acc) (simp_all add: distinct_update)

lemma values_fold_update:
  "q \<in> set (fold (\<lambda>p acc. AList.update (k p) (v p) acc) d acc) \<Longrightarrow>
   q \<in> set acc \<or> (\<exists>p\<in>set d. snd q = v p)"
proof (induction d arbitrary: acc)
  case (Cons p d)
  have upd: "q \<in> set (AList.update a b al) \<Longrightarrow> q \<in> set al \<or> snd q = b" for a b and al :: "('a \<times> 'b) list"
    by (induction al) (auto split: if_splits)
  from Cons.prems have "q \<in> set (fold (\<lambda>p acc. AList.update (k p) (v p) acc) d (AList.update (k p) (v p) acc))"
    by simp
  from Cons.IH [OF this] upd show ?case by auto
qed simp

lemma json_wf_normalise: "json_wf (normalise v)"
proof (induction v rule: normalise.induct)
  case (3 d)
  let ?d = "fold (\<lambda>p acc. AList.update (normalise_key (fst p)) (snd p) acc)
     (map (\<lambda>p. (fst p, normalise (snd p))) d) []"
  have "json_wf (snd q)" if "q \<in> set ?d" for q
  proof -
    from values_fold_update [OF that] obtain p where "p \<in> set d" "snd q = normalise (snd p)" by auto
    with 3 show ?thesis by (metis prod.collapse)
  qed
  then show ?case by (simp add: distinct_fold_update list_all_iff)
qed (auto simp: list_all_iff UNLOADED_MARKER_def UNSET_MARKER_def)

lemma json_wf_dict: "normalise v = JObj d \<Longrightarrow> json_wf (JObj d)"
  by (metis json_wf_normalise)

section \<open>Nothing changed, nothing patched\<close>

lemma ref_key_eq_refl: "json_wf v \<Longrightarrow> ref_key_eq (reference_key v) (reference_key v)"
proof -
  assume wf: "json_wf v"
  have "json_wf k" if "v = JObj d" "map_of d ''public_id'' = Some k" for d k
    using wf that by (auto simp: list_all_iff dest: map_of_SomeD)
  then show ?thesis
    using wf by (auto simp: reference_key_def json_eq_refl simp del: json_eq.simps json_wf.simps
        split: json.splits option.splits)
qed

definition same_state :: "patch_state \<Rightarrow> bool" where
  "same_state st \<longleftrightarrow> (case st of (src, dst, ops) \<Rightarrow> dst = src \<and> ops = [] \<and> json_wf (JObj src))"

lemma json_wf_delete: "json_wf (JObj d) \<Longrightarrow> json_wf (JObj (AList.delete k d))"
  using distinct_delete [of d k] by (auto simp: list_all_iff) (auto simp: AList.delete_eq)

lemma set_update_cases: "q \<in> set (AList.update k v al) \<Longrightarrow> q \<in> set al \<or> q = (k, v)"
  by (induction al) (auto split: if_splits)

lemma json_wf_update:
  assumes "json_wf (JObj d)" "json_wf v"
  shows "json_wf (JObj (AList.update k v d))"
proof -
  have "json_wf (snd q)" if "q \<in> set (AList.update k v d)" for q
    using set_update_cases [OF that] assms by (auto simp: list_all_iff)
  then show ?thesis using assms by (simp add: list_all_iff distinct_update)
qed

lemma json_wf_item: "json_wf (JObj d) \<Longrightarrow> map_of d k = Some v \<Longrightarrow> json_wf v"
  by (auto simp: list_all_iff dest: map_of_SomeD)

lemma same_state_pop: "same_state st \<Longrightarrow> same_state (pop_replace_op f p st)"
proof -
  assume "same_state st"
  then obtain src where st: "st = (src, src, [])" "json_wf (JObj src)" by (cases st) (auto simp: same_state_def)
  have "json_wf (fst (dict_pop src f))"
    using st(2) json_wf_item by (auto simp: dict_pop_def split: option.splits)
  then show ?thesis
    using st json_wf_delete [OF st(2)]
    by (simp add: pop_replace_op_def same_state_def dict_pop_def ref_key_eq_refl)
qed

lemma same_state_child:
  assumes "same_state st" "\<And>u. same_state u \<Longrightarrow> same_state (step u)"
  shows "same_state (at_child k step st)"
proof -
  from assms(1) obtain src where st: "st = (src, src, [])" "json_wf (JObj src)"
    by (cases st) (auto simp: same_state_def)
  show ?thesis
  proof (cases "map_of src k")
    case (Some v)
    show ?thesis
    proof (cases v)
      case (JObj d)
      with Some st have "same_state (d, d, [])"
        using json_wf_item unfolding same_state_def by blast
      from assms(2) [OF this] obtain e where "step (d, d, []) = (e, e, [])" "json_wf (JObj e)"
        by (cases "step (d, d, [])") (auto simp: same_state_def)
      with Some JObj st json_wf_update [OF st(2)] show ?thesis
        by (simp add: at_child_def same_state_def)
    qed (use Some st in \<open>simp_all add: at_child_def same_state_def\<close>)
  qed (use st in \<open>simp add: at_child_def same_state_def\<close>)
qed

lemma same_state_fold:
  "same_state st \<Longrightarrow> (\<And>x u. same_state u \<Longrightarrow> same_state (f x u)) \<Longrightarrow> same_state (fold f xs st)"
  by (induction xs arbitrary: st) auto

lemma same_state_collect: "same_state st \<Longrightarrow> same_state (collect_replace_ops parts prefix st)"
proof (induction parts arbitrary: prefix st)
  case (Cons head rest)
  show ?case
  proof (cases rest)
    case Nil
    with Cons.prems show ?thesis by (simp add: same_state_pop)
  next
    case (Cons n ps)
    have step: "same_state u \<Longrightarrow> same_state (collect_replace_ops (n # ps) pre u)" for u pre
      using Cons.IH Cons by simp
    show ?thesis
      unfolding Cons collect_replace_ops.simps
      using Cons.prems step by (auto intro!: same_state_fold same_state_child)
  qed
qed simp

lemma patch_ops_same:
  assumes laws: "json_patch_laws jp_diff jp_apply" and wf: "json_wf (JObj d)"
  shows "patch_ops jp_diff d d fs = []"
proof -
  let ?st = "fold (\<lambda>p. collect_replace_ops (py_split CHR ''/'' p) []) (sorted_list_of_set fs) (d, d, [])"
  have "same_state (d, d, [])" using wf by (simp add: same_state_def del: json_wf.simps)
  then have "same_state ?st" by (rule same_state_fold) (rule same_state_collect)
  then obtain e where "?st = (e, e, [])" "json_wf (JObj e)"
    by (cases ?st) (auto simp: same_state_def)
  then show ?thesis using laws by (simp add: patch_ops_def json_patch_laws_def)
qed

lemma json_dict_wf: "json_wf (JObj (json_dict (normalise v)))"
proof -
  have "json_wf (normalise v)" by (rule json_wf_normalise)
  then show ?thesis by (auto simp: json_dict_def split: json.splits)
qed

section \<open>Replacing a reference collection\<close>

lemma public_id_text_id_first: "id_first u j \<Longrightarrow> public_id_text j = Some (uuid_str u)"
  by (auto simp: id_first_def public_id_text_def)

lemma reference_key_items:
  assumes "\<forall>x\<in>set xs. id_first (key x) (normalise (f x))"
  shows "reference_key (normalise (PList (map f xs))) = RSet (uuid_str ` key ` set xs)"
proof -
  let ?items = "sort_key py_str (map normalise (map f xs))"
  have "set ?items = (\<lambda>x. normalise (f x)) ` set xs" by auto
  moreover have "\<forall>x\<in>set xs. public_id_text (normalise (f x)) = Some (uuid_str (key x))"
    using assms public_id_text_id_first by blast
  ultimately show ?thesis
    by (simp add: reference_key_def list_all_iff image_image)
qed

lemma inj_uuid_str_image: "uuid_str ` A = uuid_str ` B \<longleftrightarrow> A = B"
  by (rule inj_image_eq_iff) (simp add: inj_def)

definition user_key :: "user \<Rightarrow> uuid" where
  "user_key u = (case u_public_id u of Present i \<Rightarrow> i | UNSET \<Rightarrow> 0)"

lemma users_id_first:
  assumes "map u_public_id us = map Present ids"
  shows "\<forall>x\<in>set us. id_first (user_key x) (normalise (ser_user x))" and "user_key ` set us = set ids"
proof -
  show "\<forall>x\<in>set us. id_first (user_key x) (normalise (ser_user x))"
  proof
    fix x assume "x \<in> set us"
    then have "u_public_id x \<in> set (map Present ids)" unfolding assms [symmetric] by simp
    then obtain i where "u_public_id x = Present i" by auto
    then show "id_first (user_key x) (normalise (ser_user x))"
      using ser_id_first(4) by (simp add: user_key_def)
  qed
  have "user_key ` set us = (\<lambda>s. case s of Present i \<Rightarrow> i | UNSET \<Rightarrow> 0) ` set (map u_public_id us)"
    by (simp add: user_key_def image_image)
  then show "user_key ` set us = set ids" unfolding assms by (simp add: image_image)
qed

lemma group_json_members:
  "map_of (group_to_json (set_Group_members us g)) ''members'' = Some (normalise (PList (map ser_user us)))"
  "AList.delete ''members'' (group_to_json (set_Group_members us g)) =
   AList.delete ''members'' (group_to_json (set_Group_members vs g))"
  by (cases g; simp add: group_to_json_def json_dict_def normalise_object ser_items_def ser_loadable_def
      serialized_domain_field_name_def startswith_def del: normalise.simps)+

section \<open>Properties\<close>

text \<open>An object that was not changed inside a \<open>track_changes\<close> block yields the empty patch,
  whatever collections are replaced as a whole; reading the patch before the block is entered raises
  \<open>RuntimeError\<close>.\<close>

theorem unchanged_object_empty_patch:
  assumes "json_patch_laws jp_diff jp_apply"
  shows "tracker_patch jp_diff (track_enter (track_changes obj fs)) = Inr [] \<and>
         tracker_patch jp_diff (track_changes obj fs) =
           Inl (RuntimeError ''tracker.patch requires a baseline'')"
  using patch_ops_same [OF assms json_dict_wf]
  by (cases obj)
     (simp_all add: tracker_patch_def track_enter_def track_changes_def create_school_patch_def
       create_group_patch_def create_user_patch_def school_to_json_def group_to_json_def user_to_json_def)

lemma unchanged_object_empty_patch_witness:
  "tracker_patch whole_diff (track_enter (track_changes (TUser (User_minimal 5)) {''school_memberships/*/groups''})) = Inr []"
  using unchanged_object_empty_patch [OF whole_diff_lawful] by blast

text \<open>C20: a group whose members are replaced as a whole gets one \<open>replace\<close> operation, with the new
  members, exactly when the set of member ids differs; how deeply the members were loaded does not
  count as a change.\<close>

theorem group_members_replaced_by_identity:
  assumes "json_patch_laws jp_diff jp_apply"
    and "map u_public_id us = map Present ids" and "map u_public_id vs = map Present jds"
  shows "create_group_patch jp_diff (set_Group_members us g) (set_Group_members vs g) {''members''} =
     (if set ids = set jds then []
      else [replace_op ''/members'' (normalise (PList (map ser_user vs)))])"
proof -
  let ?a = "group_to_json (set_Group_members us g)" and ?b = "group_to_json (set_Group_members vs g)"
  note us = users_id_first [OF assms(2)] and vs = users_id_first [OF assms(3)]
  have eq: "ref_key_eq (reference_key (normalise (PList (map ser_user us))))
              (reference_key (normalise (PList (map ser_user vs)))) \<longleftrightarrow> set ids = set jds"
    using reference_key_items [OF us(1)] reference_key_items [OF vs(1)]
    by (simp add: us(2) vs(2) inj_uuid_str_image del: normalise.simps)
  have "json_wf (JObj (AList.delete ''members'' ?b))"
    unfolding group_to_json_def by (rule json_wf_delete [OF json_dict_wf])
  then have d: "jp_diff (AList.delete ''members'' ?a) (AList.delete ''members'' ?b) = []"
    using assms(1) group_json_members(2) [of us g vs] by (simp add: json_patch_laws_def)
  have pop: "dict_pop ?a ''members'' = (normalise (PList (map ser_user us)), AList.delete ''members'' ?a)"
    "dict_pop ?b ''members'' = (normalise (PList (map ser_user vs)), AList.delete ''members'' ?b)"
    by (simp_all add: dict_pop_def group_json_members(1) del: normalise.simps)
  show ?thesis
    unfolding create_group_patch_def patch_ops_def
    by (simp add: py_split_no_sep pop_replace_op_def pop eq d del: normalise.simps)
qed

lemma group_members_replaced_by_identity_witness:
  "create_group_patch whole_diff (set_Group_members [User_minimal 1] (Group_minimal 7))
     (set_Group_members [set_User_name ''anna'' (User_minimal 1)] (Group_minimal 7)) {''members''} = []"
  using group_members_replaced_by_identity [OF whole_diff_lawful, of "[User_minimal 1]" "[1]"
      "[set_User_name ''anna'' (User_minimal 1)]" "[1]" "Group_minimal 7"]
  by (simp add: User_minimal_def)

end
