(* ===== verification/Kelvin_Db.thy ===== *)
theory Kelvin_Db
  imports Domain_Query Py_Json
begin

text \<open>
  \<open>ucsschool_objects/database_models.py\<close>: the tables, their constraints and the effect of deleting a
  row, and the part of a session the code relies on. A row is known by its \<open>public_id\<close>, which is as
  unique as the surrogate \<open>id\<close>; foreign keys and association tables hold public ids. A membership is
  known by its user and school. An association table whose rows belong to one side is a list in
  the owning row.

  The session runs with \<open>autoflush=False\<close>: \<open>st_db\<close> is what a query sees, \<open>st_pending\<close> the DN mapping
  rows that were added to the session and are inserted by the next flush.
\<close>

section \<open>Tables\<close>

record school_row =
  sr_public_id :: uuid
  sr_record_uid :: string
  sr_source_uid :: string
  sr_name :: string
  sr_display_name :: string
  sr_educational_servers :: "string list"
  sr_administrative_servers :: "string list"
  sr_class_share_file_server :: "string option"
  sr_home_share_file_server :: "string option"
  sr_udm_properties :: pdict

record role_row =
  rr_public_id :: uuid
  rr_name :: string
  rr_display_name :: "(string \<times> string) list"

record group_row =
  gr_public_id :: uuid
  gr_record_uid :: string
  gr_source_uid :: string
  gr_name :: string
  gr_display_name :: string
  gr_has_share :: bool
  gr_email :: "string option"
  gr_description :: "string option"
  gr_udm_properties :: pdict
  gr_school :: uuid
  gr_roles :: "uuid list"
  gr_member_roles :: "uuid list"
  gr_senders_users :: "uuid list"
  gr_senders_groups :: "uuid list"

record user_row =
  ur_public_id :: uuid
  ur_record_uid :: string
  ur_source_uid :: string
  ur_name :: string
  ur_firstname :: string
  ur_lastname :: string
  ur_email :: "string option"
  ur_birthday :: "date option"
  ur_expiration_date :: "date option"
  ur_active :: bool
  ur_udm_properties :: pdict

record membership_row =
  mr_user :: uuid
  mr_school :: uuid
  mr_is_primary :: bool
  mr_roles :: "uuid list"
  mr_groups :: "uuid list"

text \<open>\<open>db_legal\<close>: (guardian, ward) pairs; the mapping tables hold (public id, DN) pairs.\<close>

record db =
  db_schools :: "school_row list"
  db_roles :: "role_row list"
  db_groups :: "group_row list"
  db_users :: "user_row list"
  db_memberships :: "membership_row list"
  db_legal :: "(uuid \<times> uuid) list"
  db_school_dns :: "(uuid \<times> string) list"
  db_group_dns :: "(uuid \<times> string) list"
  db_user_dns :: "(uuid \<times> string) list"

definition empty_db :: db where
  "empty_db = \<lparr>db_schools = [], db_roles = [], db_groups = [], db_users = [], db_memberships = [],
     db_legal = [], db_school_dns = [], db_group_dns = [], db_user_dns = []\<rparr>"

definition school_of :: "db \<Rightarrow> uuid \<Rightarrow> school_row option" where
  "school_of d i = find_by sr_public_id i (db_schools d)"

definition role_of :: "db \<Rightarrow> uuid \<Rightarrow> role_row option" where
  "role_of d i = find_by rr_public_id i (db_roles d)"

definition group_of :: "db \<Rightarrow> uuid \<Rightarrow> group_row option" where
  "group_of d i = find_by gr_public_id i (db_groups d)"

definition user_of :: "db \<Rightarrow> uuid \<Rightarrow> user_row option" where
  "user_of d i = find_by ur_public_id i (db_users d)"

abbreviation mr_key :: "membership_row \<Rightarrow> uuid \<times> uuid" where
  "mr_key m \<equiv> (mr_user m, mr_school m)"

section \<open>Constraints\<close>

definition given :: "'a option list \<Rightarrow> 'a list" where
  "given xs = map the (filter (\<lambda>x. x \<noteq> None) xs)"

text \<open>The hook \<open>sync_primary_user_constraint\<close> computes the column that carries the constraint.\<close>

definition primary_user_constraint :: "membership_row \<Rightarrow> uuid option" where
  "primary_user_constraint m = (if mr_is_primary m then Some (mr_user m) else None)"

definition schools_ok :: "db \<Rightarrow> bool" where
  "schools_ok d \<longleftrightarrow> distinct (map sr_public_id (db_schools d)) \<and> distinct (map sr_name (db_schools d)) \<and>
     distinct (map (\<lambda>s. (sr_record_uid s, sr_source_uid s)) (db_schools d))"

definition roles_ok :: "db \<Rightarrow> bool" where
  "roles_ok d \<longleftrightarrow> distinct (map rr_public_id (db_roles d)) \<and> distinct (map rr_name (db_roles d))"

definition groups_ok :: "db \<Rightarrow> bool" where
  "groups_ok d \<longleftrightarrow> distinct (map gr_public_id (db_groups d)) \<and> distinct (map gr_name (db_groups d)) \<and>
     distinct (map (\<lambda>g. (gr_record_uid g, gr_source_uid g)) (db_groups d)) \<and>
     distinct (given (map gr_email (db_groups d))) \<and>
     list_all (\<lambda>g. gr_school g \<in> sr_public_id ` set (db_schools d) \<and>
        set (gr_roles g) \<union> set (gr_member_roles g) \<subseteq> rr_public_id ` set (db_roles d) \<and>
        set (gr_senders_users g) \<subseteq> ur_public_id ` set (db_users d) \<and>
        set (gr_senders_groups g) \<subseteq> gr_public_id ` set (db_groups d)) (db_groups d)"

definition users_ok :: "db \<Rightarrow> bool" where
  "users_ok d \<longleftrightarrow> distinct (map ur_public_id (db_users d)) \<and> distinct (map ur_name (db_users d)) \<and>
     distinct (map (\<lambda>u. (ur_record_uid u, ur_source_uid u)) (db_users d)) \<and>
     distinct (given (map ur_email (db_users d)))"

definition memberships_ok :: "db \<Rightarrow> bool" where
  "memberships_ok d \<longleftrightarrow> distinct (map mr_key (db_memberships d)) \<and>
     distinct (given (map primary_user_constraint (db_memberships d))) \<and>
     list_all (\<lambda>m. mr_user m \<in> ur_public_id ` set (db_users d) \<and>
        mr_school m \<in> sr_public_id ` set (db_schools d) \<and>
        set (mr_roles m) \<subseteq> rr_public_id ` set (db_roles d) \<and>
        set (mr_groups m) \<subseteq> gr_public_id ` set (db_groups d)) (db_memberships d)"

definition legal_ok :: "db \<Rightarrow> bool" where
  "legal_ok d \<longleftrightarrow> distinct (db_legal d) \<and>
     fst ` set (db_legal d) \<union> snd ` set (db_legal d) \<subseteq> ur_public_id ` set (db_users d)"

definition mapping_ok :: "uuid list \<Rightarrow> (uuid \<times> string) list \<Rightarrow> bool" where
  "mapping_ok ids rows \<longleftrightarrow> distinct (map fst rows) \<and> distinct (map snd rows) \<and> fst ` set rows \<subseteq> set ids"

definition dns_ok :: "db \<Rightarrow> bool" where
  "dns_ok d \<longleftrightarrow> mapping_ok (map sr_public_id (db_schools d)) (db_school_dns d) \<and>
     mapping_ok (map gr_public_id (db_groups d)) (db_group_dns d) \<and>
     mapping_ok (map ur_public_id (db_users d)) (db_user_dns d)"

definition db_ok :: "db \<Rightarrow> bool" where
  "db_ok d \<longleftrightarrow> schools_ok d \<and> roles_ok d \<and> groups_ok d \<and> users_ok d \<and> memberships_ok d \<and> legal_ok d \<and>
     dns_ok d"

section \<open>DELETE with the cascades of the schema\<close>

text \<open>Deleting a school that a group still refers to violates the \<open>NO ACTION\<close> foreign key.\<close>

definition db_delete_school :: "uuid \<Rightarrow> db \<Rightarrow> err + db" where
  "db_delete_school i d =
     (if \<exists>g\<in>set (db_groups d). gr_school g = i then Inl (IntegrityError ''group.school_id'')
      else Inr (d\<lparr>db_schools := filter (\<lambda>s. sr_public_id s \<noteq> i) (db_schools d),
                 db_memberships := filter (\<lambda>m. mr_school m \<noteq> i) (db_memberships d),
                 db_school_dns := filter (\<lambda>r. fst r \<noteq> i) (db_school_dns d)\<rparr>))"

definition db_delete_group :: "uuid \<Rightarrow> db \<Rightarrow> db" where
  "db_delete_group i d =
     d\<lparr>db_groups := map (\<lambda>g. g\<lparr>gr_senders_groups := filter (\<lambda>j. j \<noteq> i) (gr_senders_groups g)\<rparr>)
                     (filter (\<lambda>g. gr_public_id g \<noteq> i) (db_groups d)),
       db_memberships := map (\<lambda>m. m\<lparr>mr_groups := filter (\<lambda>j. j \<noteq> i) (mr_groups m)\<rparr>) (db_memberships d),
       db_group_dns := filter (\<lambda>r. fst r \<noteq> i) (db_group_dns d)\<rparr>"

definition db_delete_user :: "uuid \<Rightarrow> db \<Rightarrow> db" where
  "db_delete_user i d =
     d\<lparr>db_users := filter (\<lambda>u. ur_public_id u \<noteq> i) (db_users d),
       db_groups := map (\<lambda>g. g\<lparr>gr_senders_users := filter (\<lambda>j. j \<noteq> i) (gr_senders_users g)\<rparr>) (db_groups d),
       db_memberships := filter (\<lambda>m. mr_user m \<noteq> i) (db_memberships d),
       db_legal := filter (\<lambda>p. fst p \<noteq> i \<and> snd p \<noteq> i) (db_legal d),
       db_user_dns := filter (\<lambda>r. fst r \<noteq> i) (db_user_dns d)\<rparr>"

section \<open>Sessions\<close>

datatype object_type = SCHOOL | GROUP | USER

record storage =
  st_db :: db
  st_pending :: "(object_type \<times> string \<times> uuid) list"

definition dn_rows :: "object_type \<Rightarrow> db \<Rightarrow> (uuid \<times> string) list" where
  "dn_rows t d = (case t of SCHOOL \<Rightarrow> db_school_dns d | GROUP \<Rightarrow> db_group_dns d | USER \<Rightarrow> db_user_dns d)"

definition set_dn_rows :: "object_type \<Rightarrow> (uuid \<times> string) list \<Rightarrow> db \<Rightarrow> db" where
  "set_dn_rows t rows d =
     (case t of SCHOOL \<Rightarrow> d\<lparr>db_school_dns := rows\<rparr> | GROUP \<Rightarrow> d\<lparr>db_group_dns := rows\<rparr>
              | USER \<Rightarrow> d\<lparr>db_user_dns := rows\<rparr>)"

definition ids_of :: "object_type \<Rightarrow> db \<Rightarrow> uuid list" where
  "ids_of t d = (case t of SCHOOL \<Rightarrow> map sr_public_id (db_schools d)
     | GROUP \<Rightarrow> map gr_public_id (db_groups d) | USER \<Rightarrow> map ur_public_id (db_users d))"

definition insert_pending :: "object_type \<times> string \<times> uuid \<Rightarrow> db \<Rightarrow> db" where
  "insert_pending p d = (case p of (t, dn, i) \<Rightarrow> set_dn_rows t (dn_rows t d @ [(i, dn)]) d)"

text \<open>\<open>session.flush()\<close>: the pending rows are inserted, then the constraints decide.\<close>

definition flush :: "storage \<Rightarrow> err + storage" where
  "flush st =
     (let d = fold insert_pending (st_pending st) (st_db st)
      in if db_ok d then Inr \<lparr>st_db = d, st_pending = []\<rparr> else Inl (IntegrityError ''flush''))"

section \<open>Lemmas\<close>

lemma distinct_map_filter_given:
  "distinct (given (map f xs)) \<Longrightarrow> distinct (given (map f (filter P xs)))"
  by (induction xs) (auto simp: given_def split: if_splits)

lemma given_map_comp: "given (map f (map g xs)) = given (map (f \<circ> g) xs)"
  by simp

lemma dns_ok_iff: "dns_ok d \<longleftrightarrow> (\<forall>t. mapping_ok (ids_of t d) (dn_rows t d))"
  by (auto simp: dns_ok_def ids_of_def dn_rows_def split: object_type.splits)

lemma dn_rows_set [simp]:
  "dn_rows t (set_dn_rows t' rows d) = (if t = t' then rows else dn_rows t d)"
  by (cases t; cases t') (simp_all add: dn_rows_def set_dn_rows_def)

lemma ids_of_set [simp]: "ids_of t (set_dn_rows t' rows d) = ids_of t d"
  by (cases t; cases t') (simp_all add: ids_of_def set_dn_rows_def)

lemma set_dn_rows_same [simp]:
  "db_schools (set_dn_rows t rows d) = db_schools d" "db_roles (set_dn_rows t rows d) = db_roles d"
  "db_groups (set_dn_rows t rows d) = db_groups d" "db_users (set_dn_rows t rows d) = db_users d"
  "db_memberships (set_dn_rows t rows d) = db_memberships d" "db_legal (set_dn_rows t rows d) = db_legal d"
  by (cases t; simp add: set_dn_rows_def)+

lemma db_ok_set_dn_rows:
  "db_ok d \<Longrightarrow> mapping_ok (ids_of t d) rows \<Longrightarrow> db_ok (set_dn_rows t rows d)"
  unfolding db_ok_def dns_ok_iff schools_ok_def roles_ok_def groups_ok_def users_ok_def
    memberships_ok_def legal_ok_def by simp

lemma mapping_ok_filter: "mapping_ok ids rows \<Longrightarrow> mapping_ok ids (filter P rows)"
  by (auto simp: mapping_ok_def distinct_map_filter)

lemma mapping_ok_delete:
  "mapping_ok ids rows \<Longrightarrow> mapping_ok (filter (\<lambda>j. j \<noteq> i) ids) (filter (\<lambda>r. fst r \<noteq> i) rows)"
  by (auto simp: mapping_ok_def distinct_map_filter)

lemma flush_ok_db: "flush st = Inr st' \<Longrightarrow> db_ok (st_db st') \<and> st_pending st' = []"
  by (auto simp: flush_def Let_def split: if_splits)

section \<open>Deleting keeps the constraints\<close>

named_theorems table_oks \<open>the constraints of each table\<close>

lemmas [table_oks] = schools_ok_def roles_ok_def groups_ok_def users_ok_def memberships_ok_def
  legal_ok_def dns_ok_def

lemma distinct_map_filterI: "distinct (map f xs) \<Longrightarrow> distinct (map f (filter P xs))"
  by (simp add: distinct_map_filter)

lemma filter_map_ids: "map f (filter (\<lambda>x. f x \<noteq> i) xs) = filter (\<lambda>j. j \<noteq> i) (map f xs)"
  by (induction xs) auto

lemma primary_user_constraint_groups [simp]:
  "primary_user_constraint (m\<lparr>mr_groups := x\<rparr>) = primary_user_constraint m"
  by (simp add: primary_user_constraint_def)

lemma image_other_keys [simp]: "f ` {x \<in> A. f x \<noteq> i} = f ` A - {i}"
  by auto

lemma db_delete_school_ok:
  assumes "db_ok d" "db_delete_school i d = Inr e"
  shows "db_ok e"
proof -
  from assms(2) have no: "\<forall>g\<in>set (db_groups d). gr_school g \<noteq> i"
    and e: "e = d\<lparr>db_schools := filter (\<lambda>s. sr_public_id s \<noteq> i) (db_schools d),
                 db_memberships := filter (\<lambda>m. mr_school m \<noteq> i) (db_memberships d),
                 db_school_dns := filter (\<lambda>r. fst r \<noteq> i) (db_school_dns d)\<rparr>"
    by (auto simp: db_delete_school_def split: if_splits)
  have "schools_ok e" using assms(1) by (simp add: db_ok_def e schools_ok_def distinct_map_filterI)
  moreover have "groups_ok e"
    using assms(1) no by (auto simp: db_ok_def e groups_ok_def list_all_iff )
  moreover have "memberships_ok e"
    using assms(1)
    by (auto simp: db_ok_def e memberships_ok_def list_all_iff distinct_map_filterI distinct_map_filter_given)
  moreover have "dns_ok e"
    using assms(1) by (simp add: db_ok_def e dns_ok_def mapping_ok_delete filter_map_ids)
  ultimately show ?thesis
    using assms(1) by (simp add: db_ok_def e roles_ok_def users_ok_def legal_ok_def)
qed

lemma db_delete_group_ok:
  assumes "db_ok d"
  shows "db_ok (db_delete_group i d)" (is "db_ok ?e")
proof -
  have map_same: "map f (map (\<lambda>g. g\<lparr>gr_senders_groups := h g\<rparr>) gs) = map f gs"
    if "\<And>g x. f (g\<lparr>gr_senders_groups := x\<rparr>) = f g" for f :: "group_row \<Rightarrow> 'a" and h gs
    by (simp add: that)
  have map_mr: "map f (map (\<lambda>m. m\<lparr>mr_groups := h m\<rparr>) ms) = map f ms"
    if "\<And>m x. f (m\<lparr>mr_groups := x\<rparr>) = f m" for f :: "membership_row \<Rightarrow> 'a" and h ms
    by (simp add: that)
  have "groups_ok ?e"
    using assms unfolding db_ok_def groups_ok_def db_delete_group_def
    by (auto simp: list_all_iff comp_def image_image distinct_map_filterI distinct_map_filter_given simp del: distinct_map)
  moreover have "memberships_ok ?e"
    using assms unfolding db_ok_def memberships_ok_def db_delete_group_def
    by (auto simp: list_all_iff comp_def image_image simp del: distinct_map)
  moreover have "dns_ok ?e"
  proof -
    have ids: "map gr_public_id (db_groups ?e) = filter (\<lambda>j. j \<noteq> i) (map gr_public_id (db_groups d))"
      by (simp add: db_delete_group_def comp_def filter_map_ids)
    show ?thesis
      using assms unfolding db_ok_def dns_ok_def ids
      by (simp add: db_delete_group_def mapping_ok_delete)
  qed
  ultimately show ?thesis
    using assms by (simp add: db_ok_def schools_ok_def roles_ok_def users_ok_def legal_ok_def db_delete_group_def)
qed

lemma db_delete_user_ok:
  assumes "db_ok d"
  shows "db_ok (db_delete_user i d)" (is "db_ok ?e")
proof -
  have "groups_ok ?e"
    using assms unfolding db_ok_def groups_ok_def db_delete_user_def
    by (auto simp: list_all_iff comp_def image_image simp del: distinct_map)
  moreover have "users_ok ?e"
    using assms by (simp add: db_ok_def users_ok_def db_delete_user_def distinct_map_filterI distinct_map_filter_given)
  moreover have "memberships_ok ?e"
    using assms
    by (auto simp: db_ok_def db_delete_user_def memberships_ok_def list_all_iff image_image distinct_map_filterI distinct_map_filter_given)
  moreover have "legal_ok ?e"
    using assms by (auto simp: db_ok_def legal_ok_def db_delete_user_def image_iff)
  moreover have "dns_ok ?e"
    using assms by (simp add: db_ok_def dns_ok_def db_delete_user_def mapping_ok_delete filter_map_ids comp_def)
  ultimately show ?thesis
    using assms by (simp add: db_ok_def schools_ok_def roles_ok_def db_delete_user_def)
qed

end
