(* ===== verification/Dn_Mapper.thy ===== *)
theory Dn_Mapper
  imports Kelvin_Db
begin

text \<open>
  The port \<open>core/domain/ports/dn_mapper.py\<close> as a locale and its implementation
  \<open>core/adapters/sqlalchemy/dn_mapper.py\<close>, one table per object type.
\<close>

section \<open>The port\<close>

text \<open>
  \<open>assign\<close> is \<open>set_mapping\<close> followed by the flush that makes it visible. \<open>known t s i\<close>: the object
  exists, so that its mapping row satisfies the foreign key.
\<close>

locale dn_id_mapper =
  fixes inv :: "'s \<Rightarrow> bool"
    and known :: "object_type \<Rightarrow> 's \<Rightarrow> uuid \<Rightarrow> bool"
    and dns_to_ids :: "object_type \<Rightarrow> string list \<Rightarrow> 's \<Rightarrow> (string \<times> uuid) list"
    and ids_to_dns :: "object_type \<Rightarrow> uuid list \<Rightarrow> 's \<Rightarrow> (uuid \<times> string) list"
    and assign :: "object_type \<Rightarrow> string \<Rightarrow> uuid option \<Rightarrow> 's \<Rightarrow> 's"
  assumes lookup_subset: "inv s \<Longrightarrow> map_of (dns_to_ids t dns s) d =
      (if d \<in> set dns then map_of (dns_to_ids t [d] s) d else None)"
    and inverse: "inv s \<Longrightarrow> map_of (dns_to_ids t [d] s) d = Some i \<longleftrightarrow> map_of (ids_to_dns t [i] s) i = Some d"
    and assign_inv: "inv s \<Longrightarrow> (\<And>i. p = Some i \<Longrightarrow> known t s i) \<Longrightarrow> inv (assign t d p s)"
    and assign_known: "inv s \<Longrightarrow> (\<And>i. p = Some i \<Longrightarrow> known t s i) \<Longrightarrow> known u (assign t d p s) = known u s"
    and assign_lookup: "inv s \<Longrightarrow> (\<And>i. p = Some i \<Longrightarrow> known t s i) \<Longrightarrow>
      map_of (dns_to_ids u [e] (assign t d p s)) e =
        (if u \<noteq> t then map_of (dns_to_ids u [e] s) e
         else if e = d then p
         else if p \<noteq> None \<and> map_of (dns_to_ids u [e] s) e = p then None
         else map_of (dns_to_ids u [e] s) e)"
begin

definition lookup :: "object_type \<Rightarrow> 's \<Rightarrow> string \<Rightarrow> uuid option" where
  "lookup t s d = map_of (dns_to_ids t [d] s) d"

definition dn_of :: "object_type \<Rightarrow> 's \<Rightarrow> uuid \<Rightarrow> string option" where
  "dn_of t s i = map_of (ids_to_dns t [i] s) i"

lemma lookup_dn_of: "inv s \<Longrightarrow> lookup t s d = Some i \<longleftrightarrow> dn_of t s i = Some d"
  unfolding lookup_def dn_of_def by (rule inverse)

text \<open>The mapping is injective, so it is a partial bijection.\<close>

lemma lookup_inj: "inv s \<Longrightarrow> lookup t s d = Some i \<Longrightarrow> lookup t s e = Some i \<Longrightarrow> d = e"
  using lookup_dn_of [of s t d i] lookup_dn_of [of s t e i] by auto

lemma lookup_assign:
  "inv s \<Longrightarrow> known t s i \<Longrightarrow> lookup t (assign t d (Some i) s) e =
     (if e = d then Some i else if lookup t s e = Some i then None else lookup t s e)"
  unfolding lookup_def by (subst assign_lookup) auto

lemma lookup_clear: "inv s \<Longrightarrow> lookup t (assign t d None s) e = (if e = d then None else lookup t s e)"
  unfolding lookup_def by (subst assign_lookup) auto

lemma lookup_other: "inv s \<Longrightarrow> known t s i \<Longrightarrow> u \<noteq> t \<Longrightarrow> lookup u (assign t d (Some i) s) e = lookup u s e"
  unfolding lookup_def by (subst assign_lookup) auto

lemma assign_some:
  "inv s \<Longrightarrow> known t s i \<Longrightarrow> inv (assign t d (Some i) s)"
  "inv s \<Longrightarrow> known t s i \<Longrightarrow> known u (assign t d (Some i) s) = known u s"
  by (rule assign_inv, auto) (subst assign_known, auto)

text \<open>A rename: the new DN leads to the object and the old one to nothing.\<close>

lemma rename:
  assumes "inv s" "known t s i" "lookup t s old = Some i" "old \<noteq> new"
  shows "lookup t (assign t new (Some i) s) new = Some i \<and>
         lookup t (assign t new (Some i) s) old = None \<and>
         dn_of t (assign t new (Some i) s) i = Some new"
proof -
  have "inv (assign t new (Some i) s)" using assms by (intro assign_inv) auto
  with assms show ?thesis by (simp add: lookup_assign lookup_dn_of [symmetric])
qed

text \<open>Setting the same mapping again changes no lookup.\<close>

lemma assign_again:
  assumes "inv s" "known t s i"
  shows "lookup t (assign t d (Some i) (assign t d (Some i) s)) e = lookup t (assign t d (Some i) s) e"
proof -
  have "inv (assign t d (Some i) s)" "known t (assign t d (Some i) s) i"
    using assms by (simp_all add: assign_some)
  with assms show ?thesis by (auto simp: lookup_assign)
qed

text \<open>Two objects that exchange their DNs: the second assignment must not lose the first.\<close>

lemma swap:
  assumes s: "inv s" "known t s i" "known t s j" and i: "lookup t s a = Some i" and j: "lookup t s b = Some j"
    and "i \<noteq> j"
  shows "lookup t (assign t a (Some j) (assign t b (Some i) s)) a = Some j \<and>
         lookup t (assign t a (Some j) (assign t b (Some i) s)) b = Some i"
proof -
  have "a \<noteq> b" using i j \<open>i \<noteq> j\<close> by auto
  moreover have "inv (assign t b (Some i) s)" "known t (assign t b (Some i) s) j"
    using s by (simp_all add: assign_some)
  ultimately show ?thesis using assms by (auto simp: lookup_assign)
qed

end

section \<open>SQLAlchemyDNIDMapper\<close>

definition dns_to_public_ids :: "object_type \<Rightarrow> string list \<Rightarrow> storage \<Rightarrow> (string \<times> uuid) list" where
  "dns_to_public_ids t dns st =
     map (\<lambda>r. (snd r, fst r)) (filter (\<lambda>r. snd r \<in> set dns) (dn_rows t (st_db st)))"

definition public_ids_to_dns :: "object_type \<Rightarrow> uuid list \<Rightarrow> storage \<Rightarrow> (uuid \<times> string) list" where
  "public_ids_to_dns t public_ids st = filter (\<lambda>r. fst r \<in> set public_ids) (dn_rows t (st_db st))"

text \<open>The DELETE is executed at once, the new row waits in the session.\<close>

definition set_mapping :: "object_type \<Rightarrow> string \<Rightarrow> uuid option \<Rightarrow> storage \<Rightarrow> storage" where
  "set_mapping t dn public_id st =
     (case public_id of
        None \<Rightarrow> st\<lparr>st_db := set_dn_rows t (filter (\<lambda>r. snd r \<noteq> dn) (dn_rows t (st_db st))) (st_db st)\<rparr>
      | Some i \<Rightarrow>
          st\<lparr>st_db := set_dn_rows t (filter (\<lambda>r. \<not> (snd r = dn \<or> fst r = i)) (dn_rows t (st_db st))) (st_db st),
             st_pending := st_pending st @ [(t, dn, i)]\<rparr>)"

section \<open>The implementation meets the port\<close>

text \<open>A settled session: nothing pending, the constraints of the database hold.\<close>

definition settled :: "storage \<Rightarrow> bool" where
  "settled st \<longleftrightarrow> st_pending st = [] \<and> db_ok (st_db st)"

definition exists_id :: "object_type \<Rightarrow> storage \<Rightarrow> uuid \<Rightarrow> bool" where
  "exists_id t st i \<longleftrightarrow> i \<in> set (ids_of t (st_db st))"

definition assign_mapping :: "object_type \<Rightarrow> string \<Rightarrow> uuid option \<Rightarrow> storage \<Rightarrow> storage" where
  "assign_mapping t dn p st = (case flush (set_mapping t dn p st) of Inr st' \<Rightarrow> st' | Inl _ \<Rightarrow> st)"

lemma settled_mapping_ok: "settled st \<Longrightarrow> mapping_ok (ids_of t (st_db st)) (dn_rows t (st_db st))"
  by (simp add: settled_def db_ok_def dns_ok_iff)

definition new_rows :: "string \<Rightarrow> uuid option \<Rightarrow> (uuid \<times> string) list \<Rightarrow> (uuid \<times> string) list" where
  "new_rows dn p rows =
     (case p of None \<Rightarrow> filter (\<lambda>r. snd r \<noteq> dn) rows
      | Some i \<Rightarrow> filter (\<lambda>r. \<not> (snd r = dn \<or> fst r = i)) rows @ [(i, dn)])"

lemma new_rows_ok:
  assumes "mapping_ok ids rows" "\<And>i. p = Some i \<Longrightarrow> i \<in> set ids"
  shows "mapping_ok ids (new_rows dn p rows)"
  using assms by (auto simp: mapping_ok_def new_rows_def distinct_map_filter split: option.splits)

text \<open>Flushing an assignment for an existing object never violates a constraint.\<close>

lemma flush_set_mapping:
  assumes st: "settled st" and known: "\<And>i. p = Some i \<Longrightarrow> exists_id t st i"
  shows "flush (set_mapping t dn p st) =
     Inr \<lparr>st_db = set_dn_rows t (new_rows dn p (dn_rows t (st_db st))) (st_db st), st_pending = []\<rparr>"
proof -
  have rows: "fold insert_pending (st_pending (set_mapping t dn p st)) (st_db (set_mapping t dn p st)) =
      set_dn_rows t (new_rows dn p (dn_rows t (st_db st))) (st_db st)"
    using st by (cases t; cases p)
      (simp_all add: settled_def set_mapping_def insert_pending_def new_rows_def set_dn_rows_def dn_rows_def)
  have "db_ok (set_dn_rows t (new_rows dn p (dn_rows t (st_db st))) (st_db st))"
    using st settled_mapping_ok [OF st] known
    by (intro db_ok_set_dn_rows new_rows_ok) (auto simp: settled_def exists_id_def)
  then show ?thesis by (simp add: flush_def rows)
qed

lemma assign_mapping_rows:
  assumes "settled st" "\<And>i. p = Some i \<Longrightarrow> exists_id t st i"
  shows "assign_mapping t dn p st =
     \<lparr>st_db = set_dn_rows t (new_rows dn p (dn_rows t (st_db st))) (st_db st), st_pending = []\<rparr>"
  using flush_set_mapping [OF assms] by (simp add: assign_mapping_def)

lemma map_of_swapped:
  assumes "distinct (map snd rows)"
  shows "map_of (map (\<lambda>r. (snd r, fst r)) rows) d = Some i \<longleftrightarrow> (i, d) \<in> set rows"
  using assms by (subst map_of_eq_Some_iff) (force simp: comp_def image_iff)+

lemma lookup_iff:
  assumes "settled st"
  shows "map_of (dns_to_public_ids t dns st) d = Some i \<longleftrightarrow> d \<in> set dns \<and> (i, d) \<in> set (dn_rows t (st_db st))"
proof -
  have "distinct (map snd (filter (\<lambda>r. snd r \<in> set dns) (dn_rows t (st_db st))))"
    using settled_mapping_ok [OF assms] by (simp add: mapping_ok_def distinct_map_filter)
  then show ?thesis unfolding dns_to_public_ids_def by (subst map_of_swapped) auto
qed

lemma dn_of_iff:
  assumes "settled st"
  shows "map_of (public_ids_to_dns t ids st) i = Some d \<longleftrightarrow> i \<in> set ids \<and> (i, d) \<in> set (dn_rows t (st_db st))"
proof -
  have "distinct (map fst (filter (\<lambda>r. fst r \<in> set ids) (dn_rows t (st_db st))))"
    using settled_mapping_ok [OF assms] by (simp add: mapping_ok_def distinct_map_filter)
  then show ?thesis unfolding public_ids_to_dns_def by (subst map_of_eq_Some_iff) auto
qed

lemma option_eqI: "(\<And>i. a = Some i \<longleftrightarrow> b = Some i) \<Longrightarrow> a = b"
  by (cases a; cases b) auto

interpretation sql_dn: dn_id_mapper settled exists_id dns_to_public_ids public_ids_to_dns assign_mapping
proof
  fix s t dns d p u e i
  assume st: "settled s"
  show "map_of (dns_to_public_ids t dns s) d =
      (if d \<in> set dns then map_of (dns_to_public_ids t [d] s) d else None)"
    by (rule option_eqI) (simp add: lookup_iff st)
  show "map_of (dns_to_public_ids t [d] s) d = Some i \<longleftrightarrow> map_of (public_ids_to_dns t [i] s) i = Some d"
    by (simp add: lookup_iff dn_of_iff st)
  assume known: "\<And>i. p = Some i \<Longrightarrow> exists_id t s i"
  note rows = assign_mapping_rows [OF st known]
  show inv: "settled (assign_mapping t d p s)"
    using flush_ok_db [OF flush_set_mapping [OF st known]] by (simp add: rows settled_def)
  show "exists_id u (assign_mapping t d p s) = exists_id u s"
    by (rule ext) (simp add: exists_id_def rows)
  have ok: "mapping_ok (ids_of t (st_db s)) (dn_rows t (st_db s))" by (rule settled_mapping_ok [OF st])
  show "map_of (dns_to_public_ids u [e] (assign_mapping t d p s)) e =
        (if u \<noteq> t then map_of (dns_to_public_ids u [e] s) e
         else if e = d then p
         else if p \<noteq> None \<and> map_of (dns_to_public_ids u [e] s) e = p then None
         else map_of (dns_to_public_ids u [e] s) e)"
  proof (rule option_eqI)
    fix j
    have "map_of (dns_to_public_ids u [e] (assign_mapping t d p s)) e = Some j \<longleftrightarrow>
        (j, e) \<in> set (dn_rows u (st_db (assign_mapping t d p s)))"
      by (simp add: lookup_iff [OF inv])
    also have "\<dots> \<longleftrightarrow> (j, e) \<in> set (if t = u then new_rows d p (dn_rows u (st_db s)) else dn_rows u (st_db s))"
      by (simp add: rows)
    also have "\<dots> \<longleftrightarrow> (if u \<noteq> t then map_of (dns_to_public_ids u [e] s) e
         else if e = d then p
         else if p \<noteq> None \<and> map_of (dns_to_public_ids u [e] s) e = p then None
         else map_of (dns_to_public_ids u [e] s) e) = Some j"
    proof (cases "t = u \<and> e \<noteq> d \<and> p \<noteq> None")
      case True
      then obtain i where i: "p = Some i" by auto
      have look: "map_of (dns_to_public_ids u [e] s) e = Some k \<longleftrightarrow> (k, e) \<in> set (dn_rows u (st_db s))" for k
        by (simp add: lookup_iff [OF st])
      show ?thesis
      proof (cases "j = i")
        case True
        then show ?thesis using \<open>t = u \<and> e \<noteq> d \<and> p \<noteq> None\<close> i by (auto simp: new_rows_def)
      next
        case False
        then show ?thesis using \<open>t = u \<and> e \<noteq> d \<and> p \<noteq> None\<close> i look [of j] look [of i]
          by (auto simp: new_rows_def)
      qed
    qed (use st in \<open>auto simp: new_rows_def lookup_iff split: option.splits\<close>)
    finally show "(map_of (dns_to_public_ids u [e] (assign_mapping t d p s)) e = Some j) =
      ((if u \<noteq> t then map_of (dns_to_public_ids u [e] s) e
         else if e = d then p
         else if p \<noteq> None \<and> map_of (dns_to_public_ids u [e] s) e = p then None
         else map_of (dns_to_public_ids u [e] s) e) = Some j)" .
  qed
qed

section \<open>Properties\<close>

lemma lookup_single: "map_of (dns_to_public_ids t [d] st) d = sql_dn.lookup t st d"
  by (simp add: sql_dn.lookup_def)

lemma flush_assign:
  "settled st \<Longrightarrow> exists_id t st i \<Longrightarrow> flush (set_mapping t d (Some i) st) = Inr (assign_mapping t d (Some i) st)"
  using flush_set_mapping [of st "Some i" t d] by (simp add: assign_mapping_def)


text \<open>Two objects of one type can exchange their DNs: assigning the first the DN of the second and
  then the second the freed DN leaves each resolving to the other object.\<close>

theorem exchange_dns:
  assumes "settled st" and "exists_id t st i" and "exists_id t st j" and "i \<noteq> j"
    and "map_of (dns_to_public_ids t [a] st) a = Some i" and "map_of (dns_to_public_ids t [b] st) b = Some j"
  shows "\<exists>s1 s2. flush (set_mapping t b (Some i) st) = Inr s1 \<and> flush (set_mapping t a (Some j) s1) = Inr s2 \<and>
     map_of (dns_to_public_ids t [b] s2) b = Some i \<and> map_of (dns_to_public_ids t [a] s2) a = Some j"
proof -
  let ?s1 = "assign_mapping t b (Some i) st"
  have s1: "settled ?s1" "exists_id t ?s1 j" using assms by (simp_all add: sql_dn.assign_some)
  show ?thesis
    using sql_dn.swap [of st t i j a b] assms flush_assign [OF assms(1,2), of b] flush_assign [OF s1, of a]
    unfolding lookup_single by blast
qed

text \<open>Until the session is flushed, a DN that was just mapped does not resolve at all: its old row
  is gone and the new one is not inserted yet.\<close>

theorem set_mapping_hidden_until_flush:
  "map_of (dns_to_public_ids t dns (set_mapping t d (Some i) st)) d = None"
proof -
  have "d \<notin> fst ` set (dns_to_public_ids t dns (set_mapping t d (Some i) st))"
    by (auto simp: dns_to_public_ids_def set_mapping_def)
  then show ?thesis by (simp add: map_of_eq_None_iff)
qed

definition two_users :: storage where
  "two_users = \<lparr>st_db = empty_db
     \<lparr>db_users := [\<lparr>ur_public_id = 1, ur_record_uid = ''r1'', ur_source_uid = ''s'', ur_name = ''anna'',
          ur_firstname = ''A'', ur_lastname = ''B'', ur_email = None, ur_birthday = None,
          ur_expiration_date = None, ur_active = True, ur_udm_properties = []\<rparr>,
        \<lparr>ur_public_id = 2, ur_record_uid = ''r2'', ur_source_uid = ''s'', ur_name = ''bert'',
          ur_firstname = ''B'', ur_lastname = ''C'', ur_email = None, ur_birthday = None,
          ur_expiration_date = None, ur_active = True, ur_udm_properties = []\<rparr>],
      db_user_dns := [(1, ''uid=anna''), (2, ''uid=bert'')]\<rparr>, st_pending = []\<rparr>"

lemma two_users_settled: "settled two_users"
  by (simp add: settled_def two_users_def db_ok_def table_oks empty_db_def given_def mapping_ok_def)

lemma two_users_known: "exists_id USER two_users 1" "exists_id USER two_users 2"
  by (simp_all add: exists_id_def two_users_def ids_of_def)

lemma two_users_dns:
  "map_of (dns_to_public_ids USER [''uid=anna''] two_users) ''uid=anna'' = Some 1"
  "map_of (dns_to_public_ids USER [''uid=bert''] two_users) ''uid=bert'' = Some 2"
  by (simp_all add: dns_to_public_ids_def two_users_def dn_rows_def)


lemma exchange_dns_witness:
  "\<exists>s1 s2. flush (set_mapping USER ''uid=bert'' (Some 1) two_users) = Inr s1 \<and>
     flush (set_mapping USER ''uid=anna'' (Some 2) s1) = Inr s2 \<and>
     map_of (dns_to_public_ids USER [''uid=bert''] s2) ''uid=bert'' = Some 1 \<and>
     map_of (dns_to_public_ids USER [''uid=anna''] s2) ''uid=anna'' = Some 2"
  by (rule exchange_dns [OF two_users_settled two_users_known _ two_users_dns]) simp

end
