(* ===== verification/Shared_Manager.thy ===== *)
theory Shared_Manager
  imports Domain_Patch Kelvin_Db Query_Filter
begin

text \<open>
  \<open>core/adapters/sqlalchemy/managers/_shared.py\<close>: what the managers have in common. A relation is set
  by a callback in the code; here the functions return the public ids to store, or that nothing
  is to be changed. A query for rows by id is a look at the table.
\<close>

section \<open>Model classes and their columns\<close>

datatype model_class = SchoolModel | RoleModel | GroupModel | UserModel

fun model_name :: "model_class \<Rightarrow> string" where
  "model_name SchoolModel = ''School''"
| "model_name RoleModel = ''Role''"
| "model_name GroupModel = ''Group''"
| "model_name UserModel = ''User''"

fun model_ids :: "model_class \<Rightarrow> db \<Rightarrow> uuid list" where
  "model_ids SchoolModel d = map sr_public_id (db_schools d)"
| "model_ids RoleModel d = map rr_public_id (db_roles d)"
| "model_ids GroupModel d = map gr_public_id (db_groups d)"
| "model_ids UserModel d = map ur_public_id (db_users d)"

text \<open>The mapped columns (\<open>mapper.column_attrs\<close>) of the classes, with their types.\<close>

fun columns_of :: "model_class \<Rightarrow> (string \<times> coltype) list" where
  "columns_of SchoolModel =
     [(''id'', CInteger), (''public_id'', CUuid), (''record_uid'', CString), (''source_uid'', CString),
      (''name'', CString), (''display_name'', CString), (''educational_servers'', CJson),
      (''administrative_servers'', CJson), (''class_share_file_server'', CString),
      (''home_share_file_server'', CString), (''udm_properties'', CJson)]"
| "columns_of GroupModel =
     [(''id'', CInteger), (''public_id'', CUuid), (''record_uid'', CString), (''source_uid'', CString),
      (''name'', CString), (''display_name'', CString), (''has_share'', CBoolean), (''email'', CString),
      (''description'', CString), (''udm_properties'', CJson), (''school_id'', CInteger)]"
| "columns_of UserModel =
     [(''id'', CInteger), (''public_id'', CUuid), (''record_uid'', CString), (''source_uid'', CString),
      (''name'', CString), (''firstname'', CString), (''lastname'', CString), (''email'', CString),
      (''birthday'', CDate), (''expiration_date'', CDate), (''active'', CBoolean), (''udm_properties'', CJson)]"
| "columns_of RoleModel =
     [(''id'', CInteger), (''public_id'', CUuid), (''name'', CString), (''display_name'', CJson)]"

definition model_column :: "model_class \<Rightarrow> string \<Rightarrow> column" where
  "model_column c key = Column (model_name c) key (the (map_of (columns_of c) key))"

definition get_exposed_fields :: "model_class \<Rightarrow> string list" where
  "get_exposed_fields c = map fst (columns_of c)"

definition class_of_name :: "string \<Rightarrow> model_class option" where
  "class_of_name n =
     (if n = ''School'' then Some SchoolModel else if n = ''Role'' then Some RoleModel
      else if n = ''Group'' then Some GroupModel else if n = ''User'' then Some UserModel else None)"

definition compose_field_map :: "field_map \<Rightarrow> registry \<Rightarrow> field_map" where
  "compose_field_map base reg =
     fold (\<lambda>(relation, spec) fm.
       (case class_of_name (target_model spec) of
          None \<Rightarrow> fm
        | Some c \<Rightarrow>
            fold (\<lambda>f fm. if f \<in> fst ` set (columns_of c)
                         then AList.update (relation @ ''.'' @ f) (model_column c f) fm else fm)
              (exposed_fields spec) fm)) reg base"

text \<open>
  \<open>load_requested_scalar_attributes\<close>: with a load specification only the requested columns of the
  attribute map are loaded. The result lists the attributes that stay unloaded.
\<close>

definition load_requested_scalar_attributes ::
  "model_class \<Rightarrow> load_spec option \<Rightarrow> (string \<times> string) list \<Rightarrow> string list" where
  "load_requested_scalar_attributes c load attribute_map =
     (case load of
        None \<Rightarrow> []
      | Some l \<Rightarrow>
          (let requested = map snd (filter (\<lambda>p. spec_includes l (fst p)) attribute_map)
           in filter (\<lambda>k. k \<notin> {''id'', ''public_id''} \<and> k \<notin> set requested) (map fst (columns_of c))))"

definition school_scalar_columns :: "string list" where
  "school_scalar_columns =
     [''record_uid'', ''source_uid'', ''name'', ''display_name'', ''educational_servers'',
      ''administrative_servers'', ''class_share_file_server'', ''home_share_file_server'', ''udm_properties'']"

definition role_scalar_columns :: "string list" where
  "role_scalar_columns = [''name'', ''display_name'']"

text \<open>The columns that \<open>load_only(public\_id, *columns)\<close> leaves unloaded.\<close>

definition load_only :: "model_class \<Rightarrow> string list \<Rightarrow> string list" where
  "load_only c columns = filter (\<lambda>k. k \<notin> {''id'', ''public_id''} \<and> k \<notin> set columns) (map fst (columns_of c))"

definition check_nullable_value_presence :: "'a option loadable \<Rightarrow> string \<Rightarrow> string \<Rightarrow> err + 'a option" where
  "check_nullable_value_presence value object_type field_name =
     (case value of
        Loaded None \<Rightarrow> Inr None
      | _ \<Rightarrow> require_loaded value object_type field_name)"

section \<open>References\<close>

text \<open>A reference is a domain object or an item of a JSON value.\<close>

datatype ref_item = RefObj "uuid settable" | RefJson json

definition item_public_id :: "ref_item \<Rightarrow> err + uuid option" where
  "item_public_id item =
     (case item of
        RefObj (Present u) \<Rightarrow> Inr (Some u)
      | RefObj UNSET \<Rightarrow> Inl (ValueError ''badly formed hexadecimal UUID string'')
      | RefJson (JObj d) \<Rightarrow>
          (case map_of d ''public_id'' of
             None \<Rightarrow> Inr None
           | Some JNull \<Rightarrow> Inr None
           | Some raw \<Rightarrow>
               (case uuid_parse (py_str raw) of
                  None \<Rightarrow> Inl (ValueError ''badly formed hexadecimal UUID string'')
                | Some u \<Rightarrow> Inr (Some u)))
      | RefJson _ \<Rightarrow> Inl (AttributeError ''public_id''))"

definition extract_public_ids :: "ref_item list \<Rightarrow> err + uuid list" where
  "extract_public_ids items =
     res_bind (res_map item_public_id items) (\<lambda>ids. Inr (remdups (given ids)))"

text \<open>Iterating over a JSON value.\<close>

fun py_iter :: "json \<Rightarrow> err + json list" where
  "py_iter (JList xs) = Inr xs"
| "py_iter (JObj d) = Inr (map (\<lambda>p. JStr (fst p)) d)"
| "py_iter (JStr s) = Inr (map (\<lambda>c. JStr [c]) s)"
| "py_iter _ = Inl (TypeError ''object is not iterable'')"

definition extract_json_ids :: "json \<Rightarrow> err + uuid list" where
  "extract_json_ids v = res_bind (py_iter v) (\<lambda>xs. extract_public_ids (map RefJson xs))"

section \<open>Fetching rows\<close>

definition fetch_one_by_public_id :: "model_class \<Rightarrow> uuid \<Rightarrow> string \<Rightarrow> db \<Rightarrow> err + uuid" where
  "fetch_one_by_public_id c public_id object_type d =
     (if public_id \<in> set (model_ids c d) then Inr public_id
      else Inl (NotFound object_type (uuid_str public_id)))"

text \<open>The ids of the rows found, in the order of the table.\<close>

definition bulk_fetch_by_public_id :: "model_class \<Rightarrow> uuid list \<Rightarrow> string \<Rightarrow> db \<Rightarrow> err + uuid list" where
  "bulk_fetch_by_public_id c public_ids object_type d =
     (if public_ids = [] then Inr []
      else (let found = filter (\<lambda>i. i \<in> set public_ids) (model_ids c d);
                missing = filter (\<lambda>i. i \<notin> set found) (remdups public_ids)
            in case missing of
                 [] \<Rightarrow> Inr found
               | i # _ \<Rightarrow> Inl (NotFound object_type (uuid_str i))))"

section \<open>Applying a patch and syncing relations\<close>

definition apply_patch :: "jp_apply \<Rightarrow> operation list \<Rightarrow> pdict \<Rightarrow> err + pdict" where
  "apply_patch jp_apply operations current = of_opt JsonPatchException (jp_apply operations current)"

text \<open>\<open>Some ids\<close>: the callback is called with these rows; \<open>None\<close>: it is not called.\<close>

definition sync_collection :: "json \<Rightarrow> json \<Rightarrow> model_class \<Rightarrow> db \<Rightarrow> err + uuid list option" where
  "sync_collection patched_list current_list target d =
     res_bind (extract_json_ids current_list) (\<lambda>current_ids.
     res_bind (extract_json_ids patched_list) (\<lambda>patched_ids.
       if set current_ids = set patched_ids then Inr None
       else if patched_ids \<noteq> [] then
         res_bind (bulk_fetch_by_public_id target patched_ids (model_name target) d) (\<lambda>records. Inr (Some records))
       else Inr (Some [])))"

definition sync_scalar_relation ::
  "string \<Rightarrow> string \<Rightarrow> json \<Rightarrow> json \<Rightarrow> model_class \<Rightarrow> bool \<Rightarrow> db \<Rightarrow> err + uuid option option" where
  "sync_scalar_relation model relation patched_val current_val target mandatory d =
     (if json_eq patched_val current_val then Inr None
      else res_bind (extract_public_ids (if patched_val \<noteq> JNull then [RefJson patched_val] else [])) (\<lambda>ids.
        (case ids of
           [] \<Rightarrow> if mandatory then Inl (ValueError (model @ ''.'' @ relation @ '' must not be null.''))
                  else Inr (Some None)
         | public_id # _ \<Rightarrow>
             if public_id \<in> set (model_ids target d) then Inr (Some (Some public_id))
             else Inl NoResultFound)))"

section \<open>Lemmas\<close>

lemma bulk_fetch_ok_iff:
  "(\<exists>ids. bulk_fetch_by_public_id c wanted t d = Inr ids) \<longleftrightarrow> set wanted \<subseteq> set (model_ids c d)"
proof -
  have "filter (\<lambda>i. i \<notin> set (filter (\<lambda>i. i \<in> set wanted) (model_ids c d))) (remdups wanted) = [] \<longleftrightarrow>
      set wanted \<subseteq> set (model_ids c d)"
    by (auto simp: filter_empty_conv)
  then show ?thesis
    by (cases "filter (\<lambda>i. i \<notin> set (filter (\<lambda>i. i \<in> set wanted) (model_ids c d))) (remdups wanted)")
       (auto simp: bulk_fetch_by_public_id_def Let_def)
qed

lemma bulk_fetch_set:
  "bulk_fetch_by_public_id c wanted t d = Inr ids \<Longrightarrow> set ids = set wanted"
proof -
  assume a: "bulk_fetch_by_public_id c wanted t d = Inr ids"
  then have "set wanted \<subseteq> set (model_ids c d)" using bulk_fetch_ok_iff by blast
  with a show "set ids = set wanted"
    by (auto simp: bulk_fetch_by_public_id_def Let_def split: if_splits list.splits)
qed

lemma bulk_fetch_distinct:
  "bulk_fetch_by_public_id c wanted t d = Inr ids \<Longrightarrow> distinct (model_ids c d) \<Longrightarrow> distinct ids"
  by (auto simp: bulk_fetch_by_public_id_def Let_def split: if_splits list.splits)

lemma bulk_fetch_error:
  "bulk_fetch_by_public_id c wanted t d = Inl e \<Longrightarrow>
     \<exists>i. i \<in> set wanted \<and> i \<notin> set (model_ids c d) \<and> e = NotFound t (uuid_str i)"
proof -
  assume a: "bulk_fetch_by_public_id c wanted t d = Inl e"
  then obtain i rest where m: "filter (\<lambda>i. i \<notin> set (filter (\<lambda>i. i \<in> set wanted) (model_ids c d))) (remdups wanted) = i # rest"
    and e: "e = NotFound t (uuid_str i)"
    by (auto simp: bulk_fetch_by_public_id_def Let_def split: if_splits list.splits)
  then have "i \<in> set (filter (\<lambda>i. i \<notin> set (filter (\<lambda>i. i \<in> set wanted) (model_ids c d))) (remdups wanted))"
    by simp
  with e show ?thesis by auto
qed

lemma given_Some [simp]: "given (map Some xs) = xs"
  by (induction xs) (simp_all add: given_def)

lemma set_given [simp]: "set (given xs) = {x. Some x \<in> set xs}"
  by (force simp: given_def)

lemma item_public_id_id_first: "id_first u j \<Longrightarrow> item_public_id (RefJson j) = Inr (Some u)"
  by (auto simp: id_first_def item_public_id_def)

lemma extract_serialised:
  assumes "\<forall>x\<in>set xs. id_first (key x) (normalise (f x))"
  shows "\<exists>ids. extract_json_ids (normalise (PList (map f xs))) = Inr ids \<and> set ids = key ` set xs"
proof -
  let ?items = "map RefJson (sort_key py_str (map normalise (map f xs)))"
  have "\<forall>i\<in>set ?items. \<exists>u. item_public_id i = Inr (Some u)"
    using assms item_public_id_id_first by auto
  then have "res_map item_public_id ?items =
      Inr (map (\<lambda>i. Some (SOME u. item_public_id i = Inr (Some u))) ?items)"
    by (intro res_map_total) (metis (mono_tags, lifting) someI_ex)
  moreover have "set (map (\<lambda>i. Some (SOME u. item_public_id i = Inr (Some u))) ?items) = Some ` key ` set xs"
  proof -
    have "(SOME u. item_public_id (RefJson (normalise (f x))) = Inr (Some u)) = key x" if "x \<in> set xs" for x
      using item_public_id_id_first [of "key x"] assms that by simp
    then show ?thesis by (force simp: image_iff)
  qed
  ultimately show ?thesis
    by (auto simp: extract_json_ids_def extract_public_ids_def)
qed

section \<open>Properties\<close>

text \<open>C19: syncing a reference collection touches the relation only when the set of ids changed; a changed
  set is stored completely or, when some referenced row does not exist, refused with \<open>NotFound\<close> of
  one such row.\<close>

theorem sync_collection_outcome:
  assumes "extract_json_ids patched = Inr ps" and "extract_json_ids current = Inr cs"
    and "distinct (model_ids c d)"
  shows "if set cs = set ps then sync_collection patched current c d = Inr None
         else if set ps \<subseteq> set (model_ids c d)
           then \<exists>ids. sync_collection patched current c d = Inr (Some ids) \<and> set ids = set ps \<and> distinct ids
         else \<exists>i. i \<in> set ps - set (model_ids c d) \<and>
                sync_collection patched current c d = Inl (NotFound (model_name c) (uuid_str i))"
proof -
  let ?bulk = "bulk_fetch_by_public_id c ps (model_name c) d"
  have sync: "sync_collection patched current c d =
      (if set cs = set ps then Inr None
       else if ps \<noteq> [] then res_bind ?bulk (\<lambda>records. Inr (Some records)) else Inr (Some []))"
    using assms by (simp add: sync_collection_def)
  show ?thesis
  proof (cases ?bulk)
    case (Inl e)
    then have "\<not> set ps \<subseteq> set (model_ids c d)" using bulk_fetch_ok_iff [of c ps "model_name c" d] by auto
    moreover from this have "ps \<noteq> []" by auto
    ultimately show ?thesis using sync Inl bulk_fetch_error [OF Inl] by auto
  next
    case (Inr ids)
    then have "set ps \<subseteq> set (model_ids c d)" using bulk_fetch_ok_iff by blast
    with Inr sync bulk_fetch_set [OF Inr] bulk_fetch_distinct [OF Inr assms(3)] show ?thesis by auto
  qed
qed

lemma sync_collection_outcome_witness:
  "\<exists>i. sync_collection (JList [JObj [(''public_id'', JStr (uuid_str 3))]]) (JList []) UserModel empty_db =
       Inl (NotFound ''User'' (uuid_str i))"
proof -
  have ids: "extract_json_ids (JList [JObj [(''public_id'', JStr (uuid_str 3))]]) = Inr [3]"
    "extract_json_ids (JList []) = Inr []"
    by (simp_all add: extract_json_ids_def extract_public_ids_def item_public_id_def given_def)
  have "distinct (model_ids UserModel empty_db)" by (simp add: empty_db_def)
  from sync_collection_outcome [OF ids this] show ?thesis by (auto simp: empty_db_def)
qed

text \<open>The references in the JSON form of a set of users resolve to exactly the ids of these users,
  however deeply the users are loaded.\<close>

theorem serialised_references_resolve:
  assumes "map u_public_id us = map Present ids"
  shows "\<exists>xs. extract_json_ids (normalise (PList (map ser_user us))) = Inr xs \<and> set xs = set ids"
  using extract_serialised [OF users_id_first(1) [OF assms]] users_id_first(2) [OF assms] by simp

lemma serialised_references_resolve_witness:
  "\<exists>xs. extract_json_ids (normalise (PList (map ser_user [User_minimal 4, User_minimal 9]))) = Inr xs \<and>
     set xs = set [4, 9]"
  by (rule serialised_references_resolve) (simp add: User_minimal_def)

end
