(* ===== verification/Mappers.thy ===== *)
theory Mappers
  imports Shared_Manager Validators
begin

text \<open>
  \<open>core/adapters/sqlalchemy/mappers\<close>: rows to domain objects (\<open>to_domain.py\<close>), domain objects to rows
  (\<open>to_orm.py\<close>), patched dicts to the objects that are validated.

  An ORM instance is a row together with what the session did not load of it: \<open>unloaded\<close> gives, per
  table, the unloaded attributes of the instance with an id. Instances are unique per session (the
  identity map), so a row reached twice has the same unloaded attributes both times.
\<close>

section \<open>to\_domain\<close>

record unloaded =
  un_school :: "uuid \<Rightarrow> string list"
  un_role :: "uuid \<Rightarrow> string list"
  un_group :: "uuid \<Rightarrow> string list"
  un_user :: "uuid \<Rightarrow> string list"

text \<open>\<open>_convert_unloadable\<close>: \<open>UNLOADED\<close>, or the converted value of the attribute.\<close>

definition convert_unloadable :: "string list \<Rightarrow> string \<Rightarrow> 'a \<Rightarrow> 'a loadable" where
  "convert_unloadable missing attribute value =
     (if attribute \<in> set missing then UNLOADED else Loaded value)"

lemma convert_unloadable_simps [simp]:
  "convert_unloadable [] a v = Loaded v"
  "convert_unloadable missing a v = Loaded w \<longleftrightarrow> a \<notin> set missing \<and> v = w"
  by (simp_all add: convert_unloadable_def)

definition to_school :: "unloaded \<Rightarrow> school_row \<Rightarrow> school" where
  "to_school un row =
     (let c = un_school un (sr_public_id row) in
      \<lparr>s_public_id = Present (sr_public_id row),
       s_record_uid = convert_unloadable c ''record_uid'' (sr_record_uid row),
       s_source_uid = convert_unloadable c ''source_uid'' (sr_source_uid row),
       s_name = convert_unloadable c ''name'' (sr_name row),
       s_display_name = convert_unloadable c ''display_name'' (sr_display_name row),
       s_educational_servers =
         convert_unloadable c ''educational_servers'' (remdups (sr_educational_servers row)),
       s_administrative_servers =
         convert_unloadable c ''administrative_servers'' (remdups (sr_administrative_servers row)),
       s_class_share_file_server =
         convert_unloadable c ''class_share_file_server'' (sr_class_share_file_server row),
       s_home_share_file_server =
         convert_unloadable c ''home_share_file_server'' (sr_home_share_file_server row),
       s_udm_properties = convert_unloadable c ''udm_properties'' (sr_udm_properties row)\<rparr>)"

definition to_role :: "unloaded \<Rightarrow> role_row \<Rightarrow> role" where
  "to_role un row =
     (let c = un_role un (rr_public_id row) in
      \<lparr>r_public_id = Present (rr_public_id row),
       r_name = convert_unloadable c ''name'' (rr_name row),
       r_display_name = convert_unloadable c ''display_name'' (rr_display_name row)\<rparr>)"

text \<open>The rows a relation of an instance leads to.\<close>

definition related :: "(uuid \<Rightarrow> 'a option) \<Rightarrow> uuid list \<Rightarrow> 'a list" where
  "related f ids = given (map f ids)"

definition roles_set :: "db \<Rightarrow> unloaded \<Rightarrow> uuid list \<Rightarrow> role list" where
  "roles_set d un ids = dedup_by r_public_id (map (to_role un) (related (role_of d) ids))"

text \<open>Users of a relation: their own relations are not mapped.\<close>

definition to_related_user :: "unloaded \<Rightarrow> user_row \<Rightarrow> user" where
  "to_related_user un row =
     (let c = un_user un (ur_public_id row) in
      User (Present (ur_public_id row))
        (convert_unloadable c ''record_uid'' (ur_record_uid row))
        (convert_unloadable c ''source_uid'' (ur_source_uid row))
        (convert_unloadable c ''name'' (ur_name row))
        (convert_unloadable c ''firstname'' (ur_firstname row))
        (convert_unloadable c ''lastname'' (ur_lastname row))
        (convert_unloadable c ''active'' (ur_active row))
        UNLOADED UNLOADED UNLOADED
        (convert_unloadable c ''email'' (ur_email row))
        (convert_unloadable c ''birthday'' (ur_birthday row))
        (convert_unloadable c ''expiration_date'' (ur_expiration_date row))
        UNLOADED)"

definition related_users_set :: "db \<Rightarrow> unloaded \<Rightarrow> uuid list \<Rightarrow> user list" where
  "related_users_set d un ids = dedup_by u_public_id (map (to_related_user un) (related (user_of d) ids))"

text \<open>\<open>group.members\<close>: the users of the memberships that are linked to the group.\<close>

definition group_member_ids :: "db \<Rightarrow> uuid \<Rightarrow> uuid list" where
  "group_member_ids d i = map mr_user (filter (\<lambda>m. i \<in> set (mr_groups m)) (db_memberships d))"

text \<open>
  \<open>to_group\<close> calls itself on the allowed sender groups that are loaded. \<open>depth\<close> is the number of
  nested conversions Python's recursion limit allows; beyond it the call raises \<open>RecursionError\<close>,
  a subclass of \<open>RuntimeError\<close>.
\<close>

fun to_group :: "nat \<Rightarrow> db \<Rightarrow> unloaded \<Rightarrow> group_row \<Rightarrow> err + group" where
  "to_group 0 d un row = Inl (RuntimeError ''maximum recursion depth exceeded'')"
| "to_group (Suc depth) d un row =
     (let c = un_group un (gr_public_id row);
          school = (if ''school'' \<in> set c then Inr UNLOADED
                    else res_bind (of_opt (AttributeError ''school'') (school_of d (gr_school row)))
                           (\<lambda>s. Inr (Loaded (to_school un s))));
          roles = (if ''roles'' \<in> set c then UNLOADED else Loaded (roles_set d un (gr_roles row)));
          users = (if ''allowed_email_senders_users'' \<in> set c then UNLOADED
                   else Loaded (related_users_set d un (gr_senders_users row)));
          members = (if ''members'' \<in> set c then UNLOADED
                     else Loaded (related_users_set d un (group_member_ids d (gr_public_id row))));
          member_roles = (if ''member_roles'' \<in> set c then UNLOADED
                          else Loaded (roles_set d un (gr_member_roles row)))
      in res_bind school (\<lambda>school.
         res_bind (if ''allowed_email_senders_groups'' \<in> set c then Inr UNLOADED
                   else res_bind (res_map (to_group depth d un) (related (group_of d) (gr_senders_groups row)))
                          (\<lambda>gs. Inr (Loaded (dedup_by g_public_id gs)))) (\<lambda>groups.
         Inr (Group (Present (gr_public_id row))
           (convert_unloadable c ''record_uid'' (gr_record_uid row))
           (convert_unloadable c ''source_uid'' (gr_source_uid row))
           (convert_unloadable c ''name'' (gr_name row))
           (convert_unloadable c ''display_name'' (gr_display_name row))
           (convert_unloadable c ''has_share'' (gr_has_share row))
           roles users groups members member_roles school
           (convert_unloadable c ''email'' (gr_email row))
           (convert_unloadable c ''description'' (gr_description row))
           (convert_unloadable c ''udm_properties'' (gr_udm_properties row))))))"

definition to_school_membership :: "nat \<Rightarrow> db \<Rightarrow> unloaded \<Rightarrow> membership_row \<Rightarrow> err + membership" where
  "to_school_membership depth d un m =
     res_bind (of_opt (AttributeError ''school'') (school_of d (mr_school m))) (\<lambda>s.
     res_bind (res_map (to_group depth d un) (related (group_of d) (mr_groups m))) (\<lambda>gs.
       Inr (SchoolMembership (to_school un s) (mr_is_primary m) (roles_set d un (mr_roles m))
              (dedup_by g_public_id gs))))"

definition user_memberships :: "db \<Rightarrow> uuid \<Rightarrow> membership_row list" where
  "user_memberships d i = filter (\<lambda>m. mr_user m = i) (db_memberships d)"

definition wards_of :: "db \<Rightarrow> uuid \<Rightarrow> uuid list" where
  "wards_of d i = map snd (filter (\<lambda>p. fst p = i) (db_legal d))"

definition guardians_of :: "db \<Rightarrow> uuid \<Rightarrow> uuid list" where
  "guardians_of d i = map fst (filter (\<lambda>p. snd p = i) (db_legal d))"

text \<open>The dict of the memberships by the id of their school.\<close>

definition memberships_dict :: "membership list \<Rightarrow> err + (uuid \<times> membership) list" where
  "memberships_dict ms =
     res_fold (\<lambda>m acc. case s_public_id (m_school m) of
         Present i \<Rightarrow> Inr (AList.update i m acc)
       | UNSET \<Rightarrow> Inl (ValueError ''Mapped school membership has no UUID school public_id.'')) ms []"

definition to_user :: "nat \<Rightarrow> db \<Rightarrow> unloaded \<Rightarrow> user_row \<Rightarrow> err + user" where
  "to_user depth d un row =
     (let c = un_user un (ur_public_id row) in
      res_bind (if ''school_memberships'' \<in> set c then Inr UNLOADED
                else res_bind (res_map (to_school_membership depth d un) (user_memberships d (ur_public_id row)))
                       (\<lambda>ms. res_bind (memberships_dict ms) (\<lambda>x. Inr (Loaded x)))) (\<lambda>memberships.
      Inr (User (Present (ur_public_id row))
        (convert_unloadable c ''record_uid'' (ur_record_uid row))
        (convert_unloadable c ''source_uid'' (ur_source_uid row))
        (convert_unloadable c ''name'' (ur_name row))
        (convert_unloadable c ''firstname'' (ur_firstname row))
        (convert_unloadable c ''lastname'' (ur_lastname row))
        (convert_unloadable c ''active'' (ur_active row))
        memberships
        (if ''legal_wards'' \<in> set c then UNLOADED
         else Loaded (related_users_set d un (wards_of d (ur_public_id row))))
        (if ''legal_guardians'' \<in> set c then UNLOADED
         else Loaded (related_users_set d un (guardians_of d (ur_public_id row))))
        (convert_unloadable c ''email'' (ur_email row))
        (convert_unloadable c ''birthday'' (ur_birthday row))
        (convert_unloadable c ''expiration_date'' (ur_expiration_date row))
        (convert_unloadable c ''udm_properties'' (ur_udm_properties row)))))"

section \<open>Reading a patched dict\<close>

text \<open>
  \<open>cast(T, patched[k])\<close> checks nothing at run time. The model reads the value at its type: a
  missing key raises \<open>KeyError\<close> as in the code, a value of another JSON type \<open>TypeError\<close>, where
  the code fails later, in the validator or when the row is written.
\<close>

definition patched_item :: "pdict \<Rightarrow> string \<Rightarrow> err + json" where
  "patched_item d k = of_opt (KeyError k) (map_of d k)"

definition patched_str :: "pdict \<Rightarrow> string \<Rightarrow> err + string" where
  "patched_str d k = res_bind (patched_item d k) (\<lambda>v.
     case v of JStr s \<Rightarrow> Inr s | _ \<Rightarrow> Inl (TypeError k))"

definition patched_opt_str :: "pdict \<Rightarrow> string \<Rightarrow> err + string option" where
  "patched_opt_str d k = res_bind (patched_item d k) (\<lambda>v.
     case v of JNull \<Rightarrow> Inr None | JStr s \<Rightarrow> Inr (Some s) | _ \<Rightarrow> Inl (TypeError k))"

definition patched_bool :: "pdict \<Rightarrow> string \<Rightarrow> err + bool" where
  "patched_bool d k = res_bind (patched_item d k) (\<lambda>v.
     case v of JBool b \<Rightarrow> Inr b | _ \<Rightarrow> Inl (TypeError k))"

definition patched_strs :: "pdict \<Rightarrow> string \<Rightarrow> err + string list" where
  "patched_strs d k = res_bind (patched_item d k) (\<lambda>v. res_bind (py_iter v)
     (res_map (\<lambda>x. case x of JStr s \<Rightarrow> Inr s | _ \<Rightarrow> Inl (TypeError k))))"

definition patched_dict :: "pdict \<Rightarrow> string \<Rightarrow> err + pdict" where
  "patched_dict d k = res_bind (patched_item d k) (\<lambda>v.
     case v of JObj x \<Rightarrow> Inr x | _ \<Rightarrow> Inl (TypeError k))"

definition patched_date :: "pdict \<Rightarrow> string \<Rightarrow> err + date option" where
  "patched_date d k = res_bind (patched_item d k) (\<lambda>v.
     case v of
       JNull \<Rightarrow> Inr None
     | JStr s \<Rightarrow> (case date_fromisoformat s of
                    Some x \<Rightarrow> Inr (Some x) | None \<Rightarrow> Inl (ValueError ''Invalid isoformat string''))
     | _ \<Rightarrow> Inl (TypeError ''fromisoformat: argument must be str''))"

definition school_from_patch :: "pdict \<Rightarrow> uuid \<Rightarrow> err + school" where
  "school_from_patch patched public_id =
     res_bind (patched_str patched ''record_uid'') (\<lambda>ru.
     res_bind (patched_str patched ''source_uid'') (\<lambda>su.
     res_bind (patched_str patched ''name'') (\<lambda>nm.
     res_bind (patched_str patched ''display_name'') (\<lambda>dn.
     res_bind (patched_strs patched ''educational_servers'') (\<lambda>es.
     res_bind (patched_strs patched ''administrative_servers'') (\<lambda>as.
     res_bind (patched_opt_str patched ''class_share_file_server'') (\<lambda>cs.
     res_bind (patched_opt_str patched ''home_share_file_server'') (\<lambda>hs.
       Inr \<lparr>s_public_id = Present public_id, s_record_uid = Loaded ru, s_source_uid = Loaded su,
         s_name = Loaded nm, s_display_name = Loaded dn, s_educational_servers = Loaded (remdups es),
         s_administrative_servers = Loaded (remdups as), s_class_share_file_server = Loaded cs,
         s_home_share_file_server = Loaded hs, s_udm_properties = UNLOADED\<rparr>))))))))"

text \<open>The roles stay the JSON list of the patch; the validator only asks whether it is empty, so each
  item is kept as a role without a known id.\<close>

definition opaque_role :: role where
  "opaque_role = \<lparr>r_public_id = UNSET, r_name = UNLOADED, r_display_name = UNLOADED\<rparr>"

definition group_from_patch :: "pdict \<Rightarrow> uuid \<Rightarrow> err + group" where
  "group_from_patch patched public_id =
     res_bind (patched_str patched ''record_uid'') (\<lambda>ru.
     res_bind (patched_str patched ''source_uid'') (\<lambda>su.
     res_bind (patched_str patched ''name'') (\<lambda>nm.
     res_bind (patched_str patched ''display_name'') (\<lambda>dn.
     res_bind (patched_bool patched ''create_share'') (\<lambda>cs.
     res_bind (res_bind (patched_item patched ''roles'') py_iter) (\<lambda>rs.
     res_bind (patched_opt_str patched ''email'') (\<lambda>em.
     res_bind (patched_opt_str patched ''description'') (\<lambda>de.
       Inr (Group (Present public_id) (Loaded ru) (Loaded su) (Loaded nm) (Loaded dn) (Loaded cs)
         (Loaded (map (\<lambda>_. opaque_role) rs)) UNLOADED UNLOADED UNLOADED UNLOADED UNLOADED
         (Loaded em) (Loaded de) UNLOADED)))))))))"

definition user_from_patch :: "pdict \<Rightarrow> uuid \<Rightarrow> err + user" where
  "user_from_patch patched public_id =
     res_bind (patched_item patched ''birthday'') (\<lambda>_.
     res_bind (patched_item patched ''expiration_date'') (\<lambda>_.
     res_bind (patched_str patched ''record_uid'') (\<lambda>ru.
     res_bind (patched_str patched ''source_uid'') (\<lambda>su.
     res_bind (patched_str patched ''name'') (\<lambda>nm.
     res_bind (patched_str patched ''firstname'') (\<lambda>fn.
     res_bind (patched_str patched ''lastname'') (\<lambda>ln.
     res_bind (patched_opt_str patched ''email'') (\<lambda>em.
     res_bind (patched_bool patched ''active'') (\<lambda>ac.
     res_bind (patched_date patched ''birthday'') (\<lambda>bd.
     res_bind (patched_date patched ''expiration_date'') (\<lambda>ex.
       Inr (User (Present public_id) (Loaded ru) (Loaded su) (Loaded nm) (Loaded fn) (Loaded ln)
         (Loaded ac) UNLOADED UNLOADED UNLOADED (Loaded em) (Loaded bd) (Loaded ex) UNLOADED))))))))))))"

section \<open>to\_orm\<close>

text \<open>\<open>fresh\<close> is the id that \<open>uuid4\<close> yields for an object that has none.\<close>

definition row_id :: "uuid settable \<Rightarrow> uuid \<Rightarrow> uuid" where
  "row_id i fresh = (case i of Present u \<Rightarrow> u | UNSET \<Rightarrow> fresh)"

definition to_school_model :: "uuid \<Rightarrow> school \<Rightarrow> err + school_row" where
  "to_school_model fresh data =
     res_bind (School_record_uid data) (\<lambda>ru.
     res_bind (School_source_uid data) (\<lambda>su.
     res_bind (School_name data) (\<lambda>nm.
     res_bind (School_display_name data) (\<lambda>dn.
     res_bind (School_educational_servers data) (\<lambda>es.
     res_bind (School_administrative_servers data) (\<lambda>as.
     res_bind (School_class_share_file_server data) (\<lambda>cs.
     res_bind (School_home_share_file_server data) (\<lambda>hs.
     res_bind (School_udm_properties data) (\<lambda>ud.
       Inr \<lparr>sr_public_id = row_id (s_public_id data) fresh, sr_record_uid = ru, sr_source_uid = su,
         sr_name = nm, sr_display_name = dn, sr_educational_servers = es, sr_administrative_servers = as,
         sr_class_share_file_server = cs, sr_home_share_file_server = hs, sr_udm_properties = ud\<rparr>)))))))))"

definition to_role_model :: "uuid \<Rightarrow> role \<Rightarrow> err + role_row" where
  "to_role_model fresh data =
     res_bind (Role_name data) (\<lambda>nm.
     res_bind (Role_display_name data) (\<lambda>dn.
       Inr \<lparr>rr_public_id = row_id (r_public_id data) fresh, rr_name = nm, rr_display_name = dn\<rparr>))"

text \<open>The relations of a group are set by the manager; its row starts without them.\<close>

definition to_group_model :: "uuid \<Rightarrow> group \<Rightarrow> err + group_row" where
  "to_group_model fresh data =
     res_bind (Group_record_uid data) (\<lambda>ru.
     res_bind (Group_source_uid data) (\<lambda>su.
     res_bind (Group_name data) (\<lambda>nm.
     res_bind (Group_display_name data) (\<lambda>dn.
     res_bind (Group_create_share data) (\<lambda>cs.
     res_bind (Group_email data) (\<lambda>em.
     res_bind (Group_description data) (\<lambda>de.
     res_bind (Group_udm_properties data) (\<lambda>ud.
       Inr \<lparr>gr_public_id = row_id (g_public_id data) fresh, gr_record_uid = ru, gr_source_uid = su,
         gr_name = nm, gr_display_name = dn, gr_has_share = cs, gr_email = em, gr_description = de,
         gr_udm_properties = ud, gr_school = 0, gr_roles = [], gr_member_roles = [],
         gr_senders_users = [], gr_senders_groups = []\<rparr>))))))))"

definition to_user_model :: "uuid \<Rightarrow> user \<Rightarrow> err + user_row" where
  "to_user_model fresh data =
     res_bind (User_record_uid data) (\<lambda>ru.
     res_bind (User_source_uid data) (\<lambda>su.
     res_bind (User_name data) (\<lambda>nm.
     res_bind (User_firstname data) (\<lambda>fn.
     res_bind (User_lastname data) (\<lambda>ln.
     res_bind (User_active data) (\<lambda>ac.
     res_bind (User_email data) (\<lambda>em.
     res_bind (User_birthday data) (\<lambda>bd.
     res_bind (User_expiration_date data) (\<lambda>ex.
     res_bind (User_udm_properties data) (\<lambda>ud.
       Inr \<lparr>ur_public_id = row_id (u_public_id data) fresh, ur_record_uid = ru, ur_source_uid = su,
         ur_name = nm, ur_firstname = fn, ur_lastname = ln, ur_email = em, ur_birthday = bd,
         ur_expiration_date = ex, ur_active = ac, ur_udm_properties = ud\<rparr>))))))))))"

section \<open>Relations of an object to be created\<close>

record group_create_relations =
  gc_roles :: "uuid list"
  gc_school :: uuid
  gc_member_roles :: "uuid list"
  gc_members :: "membership_row list"
  gc_senders_users :: "uuid list"
  gc_senders_groups :: "uuid list"

text \<open>The ids among the references; the others are skipped or refused.\<close>

definition present_ids :: "uuid settable list \<Rightarrow> uuid list" where
  "present_ids refs = given (map (\<lambda>r. case r of Present u \<Rightarrow> Some u | UNSET \<Rightarrow> None) refs)"

definition extract_related_public_ids :: "uuid settable list \<Rightarrow> string \<Rightarrow> err + uuid list" where
  "extract_related_public_ids refs owner_name =
     res_map (\<lambda>r. case r of Present u \<Rightarrow> Inr u
       | UNSET \<Rightarrow> Inl (ValueError (owner_name @ '' entries must have a public_id.''))) refs"

definition membership_of :: "db \<Rightarrow> uuid \<Rightarrow> uuid \<Rightarrow> membership_row option" where
  "membership_of d u s = find_by mr_key (u, s) (db_memberships d)"

definition resolve_group_member_memberships :: "uuid list \<Rightarrow> uuid \<Rightarrow> db \<Rightarrow> err + membership_row list" where
  "resolve_group_member_memberships users school d =
     res_map (\<lambda>u. of_opt
         (NotFound ''SchoolMembership'' (''user='' @ uuid_str u @ '', school='' @ uuid_str school))
         (membership_of d u school)) users"

definition resolve_group_create_relations :: "group \<Rightarrow> db \<Rightarrow> err + group_create_relations" where
  "resolve_group_create_relations data d =
     res_bind (Group_roles data) (\<lambda>group_roles.
     res_bind (bulk_fetch_by_public_id RoleModel (present_ids (map r_public_id group_roles)) ''Role'' d) (\<lambda>roles.
     res_bind (Group_school data) (\<lambda>school.
     res_bind (case s_public_id school of Present i \<Rightarrow> Inr i
               | UNSET \<Rightarrow> Inl (ValueError ''Group.school must have a public_id for create().'')) (\<lambda>school_id.
     res_bind (fetch_one_by_public_id SchoolModel school_id ''School'' d) (\<lambda>school_model.
     res_bind (Group_members data) (\<lambda>members.
     res_bind (extract_related_public_ids (map u_public_id members) ''Group.members'') (\<lambda>member_ids.
     res_bind (bulk_fetch_by_public_id UserModel member_ids ''User'' d) (\<lambda>member_users.
     res_bind (resolve_group_member_memberships member_users school_model d) (\<lambda>memberships.
     res_bind (Group_member_roles data) (\<lambda>member_roles.
     res_bind (bulk_fetch_by_public_id RoleModel (present_ids (map r_public_id member_roles)) ''Role'' d) (\<lambda>mroles.
     res_bind (Group_allowed_email_senders_users data) (\<lambda>sender_users.
     res_bind (extract_related_public_ids (map u_public_id sender_users) ''Group.allowed_email_senders_users'') (\<lambda>su_ids.
     res_bind (bulk_fetch_by_public_id UserModel su_ids ''User'' d) (\<lambda>users.
     res_bind (Group_allowed_email_senders_groups data) (\<lambda>sender_groups.
     res_bind (extract_related_public_ids (map g_public_id sender_groups) ''Group.allowed_email_senders_groups'') (\<lambda>sg_ids.
     res_bind (bulk_fetch_by_public_id GroupModel sg_ids ''Group'' d) (\<lambda>groups.
       Inr \<lparr>gc_roles = roles, gc_school = school_model, gc_member_roles = mroles, gc_members = memberships,
            gc_senders_users = users, gc_senders_groups = groups\<rparr>)))))))))))))))))"

definition resolve_related_users :: "user list loadable \<Rightarrow> db \<Rightarrow> err + uuid list option" where
  "resolve_related_users users d =
     (case users of
        UNLOADED \<Rightarrow> Inr None
      | Loaded us \<Rightarrow>
          res_bind (bulk_fetch_by_public_id UserModel (present_ids (map u_public_id us)) ''User'' d)
            (\<lambda>ids. Inr (Some ids)))"

definition membership_school_id :: "membership \<Rightarrow> err + uuid" where
  "membership_school_id m =
     (case s_public_id (m_school m) of
        Present i \<Rightarrow> Inr i
      | UNSET \<Rightarrow> Inl (ValueError ''All membership schools must be loaded with public_id for create().''))"

definition membership_role_ids :: "membership \<Rightarrow> err + uuid list" where
  "membership_role_ids m =
     res_map (\<lambda>r. case r_public_id r of Present i \<Rightarrow> Inr i
       | UNSET \<Rightarrow> Inl (ValueError ''All membership roles must provide public_id for create().'')) (m_roles m)"

definition membership_group_ids :: "membership \<Rightarrow> err + uuid list" where
  "membership_group_ids m =
     res_map (\<lambda>g. case g_public_id g of Present i \<Rightarrow> Inr i
       | UNSET \<Rightarrow> Inl (ValueError ''All membership groups must provide public_id for create().'')) (m_groups m)"

definition validate_membership_entry ::
  "uuid \<Rightarrow> membership \<Rightarrow> err + (membership \<times> uuid \<times> uuid list \<times> uuid list)" where
  "validate_membership_entry membership_school m =
     res_bind (membership_school_id m) (\<lambda>school_id.
       if membership_school \<noteq> school_id
       then Inl (ValueError ''school_memberships keys must match membership school public_id.'')
       else res_bind (membership_role_ids m) (\<lambda>roles.
            res_bind (membership_group_ids m) (\<lambda>groups. Inr (m, school_id, roles, groups))))"

text \<open>The memberships of the user \<open>user\<close>; \<open>dict[id]\<close> of a fetched id is that id.\<close>

definition build_memberships ::
  "uuid \<Rightarrow> (uuid \<times> membership) list loadable \<Rightarrow> db \<Rightarrow> err + membership_row list" where
  "build_memberships user_id memberships d =
     (case memberships of
        UNLOADED \<Rightarrow> Inr []
      | Loaded ms \<Rightarrow>
          res_bind (res_map (\<lambda>p. validate_membership_entry (fst p) (snd p)) ms) (\<lambda>validated.
          res_bind (bulk_fetch_by_public_id SchoolModel (map (\<lambda>(m, s, r, g). s) validated) ''School'' d) (\<lambda>_.
          res_bind (bulk_fetch_by_public_id RoleModel (concat (map (\<lambda>(m, s, r, g). r) validated)) ''Role'' d) (\<lambda>_.
          res_bind (bulk_fetch_by_public_id GroupModel (concat (map (\<lambda>(m, s, r, g). g) validated)) ''Group'' d) (\<lambda>_.
            Inr (map (\<lambda>(m, s, r, g). \<lparr>mr_user = user_id, mr_school = s, mr_is_primary = m_is_primary m,
                        mr_roles = r, mr_groups = g\<rparr>) validated))))))"

record user_create_relations =
  uc_memberships :: "membership_row list"
  uc_legal_wards :: "uuid list option"
  uc_legal_guardians :: "uuid list option"

definition resolve_user_create_relations :: "uuid \<Rightarrow> user \<Rightarrow> db \<Rightarrow> err + user_create_relations" where
  "resolve_user_create_relations i data d =
     res_bind (build_memberships i (u_school_memberships data) d) (\<lambda>ms.
     res_bind (resolve_related_users (u_legal_wards data) d) (\<lambda>wards.
     res_bind (resolve_related_users (u_legal_guardians data) d) (\<lambda>guardians.
       Inr \<lparr>uc_memberships = ms, uc_legal_wards = wards, uc_legal_guardians = guardians\<rparr>)))"

section \<open>Lemmas\<close>

lemma school_model_round_trip:
  assumes "to_school_model fresh s = Inr row" "un_school un (sr_public_id row) = []"
    "distinct (sr_educational_servers row)" "distinct (sr_administrative_servers row)"
  shows "to_school un row = s\<lparr>s_public_id := Present (row_id (s_public_id s) fresh)\<rparr>"
  using assms by (auto simp: to_school_model_def accessors res_bind_eq_Inr to_school_def distinct_remdups_id)

lemma to_group_self_sender:
  assumes "''allowed_email_senders_groups'' \<notin> set (un_group un i)"
    and "group_of d i = Some row" "i \<in> set (gr_senders_groups row)" "gr_public_id row = i"
  shows "\<exists>e. to_group depth d un row = Inl e"
proof (induction depth)
  case (Suc depth)
  have "row \<in> set (related (group_of d) (gr_senders_groups row))"
    using assms(2,3) by (force simp: related_def)
  then have "\<exists>e. res_map (to_group depth d un) (related (group_of d) (gr_senders_groups row)) = Inl e"
    using Suc res_map_ok_iff [of "to_group depth d un" "related (group_of d) (gr_senders_groups row)"]
    by (cases "res_map (to_group depth d un) (related (group_of d) (gr_senders_groups row))") force+
  with assms show ?case by (auto simp: Let_def res_bind_def split: sum.splits)
qed simp

end
