(* ===== verification/Manager_Port.thy ===== *)
theory Manager_Port
  imports Mappers
begin

text \<open>
  The port \<open>core/domain/ports/manager.py\<close> as locales: what a client of a manager relies on when it
  reads, creates, modifies and deletes objects by their \<open>public_id\<close>.
\<close>

locale object_manager =
  fixes inv :: "'s \<Rightarrow> bool"
    and object_type :: string
    and ident :: "'o \<Rightarrow> uuid settable"
    and get :: "uuid \<Rightarrow> 's \<Rightarrow> err + 'o"
    and create :: "'o \<Rightarrow> 's \<Rightarrow> err + 's"
    and delete :: "uuid \<Rightarrow> 's \<Rightarrow> err + 's"
  assumes get_ident: "inv s \<Longrightarrow> get i s = Inr x \<Longrightarrow> ident x = Present i"
    and get_error: "inv s \<Longrightarrow> get i s = Inl e \<Longrightarrow> e = NotFound object_type (uuid_str i)"
    and create_inv: "inv s \<Longrightarrow> create x s = Inr s' \<Longrightarrow> inv s'"
    and create_present: "inv s \<Longrightarrow> create x s = Inr s' \<Longrightarrow> ident x = Present i \<Longrightarrow>
      (\<exists>y. get j s' = Inr y) \<longleftrightarrow> j = i \<or> (\<exists>y. get j s = Inr y)"
    and create_taken: "inv s \<Longrightarrow> get i s = Inr y \<Longrightarrow> ident x = Present i \<Longrightarrow> \<exists>e. create x s = Inl e"
    and delete_inv: "inv s \<Longrightarrow> delete i s = Inr s' \<Longrightarrow> inv s'"
    and delete_present: "inv s \<Longrightarrow> delete i s = Inr s' \<Longrightarrow>
      (\<exists>y. get j s' = Inr y) \<longleftrightarrow> j \<noteq> i \<and> (\<exists>y. get j s = Inr y)"
    and delete_missing: "inv s \<Longrightarrow> get i s = Inl e \<Longrightarrow> delete i s = Inl e"
begin

definition present :: "'s \<Rightarrow> uuid \<Rightarrow> bool" where
  "present s i \<longleftrightarrow> (\<exists>y. get i s = Inr y)"

lemma missing: "inv s \<Longrightarrow> \<not> present s i \<Longrightarrow> get i s = Inl (NotFound object_type (uuid_str i))"
  by (cases "get i s") (auto simp: present_def dest: get_error)

lemma created: "inv s \<Longrightarrow> create x s = Inr s' \<Longrightarrow> ident x = Present i \<Longrightarrow> present s' i"
  by (simp add: present_def create_present)

lemma created_once:
  assumes "inv s" "create x s = Inr s'" "ident x = Present i" "ident z = Present i"
  shows "\<exists>e. create z s' = Inl e"
proof -
  from created [OF assms(1-3)] obtain y where "get i s' = Inr y" by (auto simp: present_def)
  then show ?thesis using create_taken [OF create_inv [OF assms(1,2)]] assms(4) by blast
qed

lemma deleted:
  assumes "inv s" "delete i s = Inr s'"
  shows "get i s' = Inl (NotFound object_type (uuid_str i))"
  using missing [OF delete_inv [OF assms]] delete_present [OF assms] by (auto simp: present_def)

lemma deleted_once:
  assumes "inv s" "delete i s = Inr s'"
  shows "delete i s' = Inl (NotFound object_type (uuid_str i))"
  using delete_missing [OF delete_inv [OF assms] deleted [OF assms]] .

text \<open>Creating and deleting again leaves exactly the objects there were.\<close>

lemma create_delete:
  assumes "inv s" "\<not> present s i" "create x s = Inr s'" "ident x = Present i" "delete i s' = Inr s''"
  shows "inv s'' \<and> present s'' j = present s j"
proof -
  have s': "inv s'" using assms create_inv by blast
  then have "inv s''" using assms delete_inv by blast
  moreover have "present s'' j \<longleftrightarrow> j \<noteq> i \<and> present s' j"
    using delete_present [OF s' assms(5)] by (simp add: present_def)
  moreover have "present s' j \<longleftrightarrow> j = i \<or> present s j"
    using create_present [OF assms(1,3,4)] by (simp add: present_def)
  ultimately show ?thesis using assms(2) by auto
qed

end

text \<open>Managers that can modify: nobody appears or disappears, and what is missing is reported.\<close>

locale modifying_manager = object_manager inv object_type ident get create delete
  for inv :: "'s \<Rightarrow> bool" and object_type :: string and ident :: "'o \<Rightarrow> uuid settable"
    and get :: "uuid \<Rightarrow> 's \<Rightarrow> err + 'o" and create :: "'o \<Rightarrow> 's \<Rightarrow> err + 's"
    and delete :: "uuid \<Rightarrow> 's \<Rightarrow> err + 's" +
  fixes modify :: "uuid \<Rightarrow> operation list \<Rightarrow> 's \<Rightarrow> err + 's"
    and ids :: "'s \<Rightarrow> uuid list"
    and checked :: "operation list \<Rightarrow> bool"
  assumes present_ids_iff: "inv s \<Longrightarrow> (\<exists>y. get i s = Inr y) \<longleftrightarrow> i \<in> set (ids s)"
    and modify_missing: "inv s \<Longrightarrow> checked ops \<Longrightarrow> get i s = Inl e \<Longrightarrow> modify i ops s = Inl e"
    and modify_ids: "inv s \<Longrightarrow> modify i ops s = Inr s' \<Longrightarrow> ids s' = ids s"
begin

lemma modify_present: "inv s \<Longrightarrow> inv s' \<Longrightarrow> modify i ops s = Inr s' \<Longrightarrow> present s' j = present s j"
  by (simp add: present_def present_ids_iff modify_ids)

lemma modify_deleted:
  assumes "inv s" "delete i s = Inr s'" "checked ops"
  shows "modify i ops s' = Inl (NotFound object_type (uuid_str i))"
  using modify_missing [OF delete_inv [OF assms(1,2)] assms(3) deleted [OF assms(1,2)]] .

end

end
