(* ===== verification/School_Manager.thy ===== *)
theory School_Manager
  imports Manager_Port Dn_Mapper
begin

text \<open>
  \<open>managers/school_manager.py\<close> and \<open>managers/role_manager.py\<close>. A manager works on the \<^typ>\<open>storage\<close> of
  its session. \<open>exec_select\<close> is the database's answer to a SELECT statement: the ids found, in order.
\<close>

type_synonym exec_select = "stmt \<Rightarrow> db \<Rightarrow> uuid list"

definition update_by :: "('a \<Rightarrow> uuid) \<Rightarrow> uuid \<Rightarrow> ('a \<Rightarrow> 'a) \<Rightarrow> 'a list \<Rightarrow> 'a list" where
  "update_by key i f rows = map (\<lambda>r. if key r = i then f r else r) rows"

lemma update_by_keys [simp]:
  "(\<And>r. key (f r) = key r) \<Longrightarrow> map key (update_by key i f rows) = map key rows"
  by (simp add: update_by_def comp_def if_distrib cong: if_cong)

text \<open>The relations and columns an instance has not loaded; nothing else is known of other tables.\<close>

definition all_loaded :: unloaded where
  "all_loaded = \<lparr>un_school = (\<lambda>_. []), un_role = (\<lambda>_. []), un_group = (\<lambda>_. []), un_user = (\<lambda>_. [])\<rparr>"

section \<open>Common ends of get and search\<close>

definition paged :: "int option \<Rightarrow> int \<Rightarrow> stmt \<Rightarrow> stmt" where
  "paged limit offset s =
     (let s = (case limit of None \<Rightarrow> s | Some _ \<Rightarrow> s\<lparr>st_limit := limit\<rparr>)
      in if offset \<noteq> 0 then s\<lparr>st_offset := Some offset\<rparr> else s)"

section \<open>SQLAlchemySchoolManager\<close>

definition school_scalar_field_map :: field_map where
  "school_scalar_field_map = map (\<lambda>k. (k, model_column SchoolModel k))
     [''record_uid'', ''source_uid'', ''name'', ''class_share_file_server'', ''home_share_file_server'']"

definition school_field_map :: field_map where
  "school_field_map = compose_field_map
     ((''public_id'', model_column SchoolModel ''public_id'') # school_scalar_field_map) []"

definition school_load_attribute_map :: "(string \<times> string) list" where
  "school_load_attribute_map = map (\<lambda>p. (fst p, fst p)) school_scalar_field_map @ [(''udm_properties'', ''udm_properties'')]"

definition school_json_field_map :: field_map where
  "school_json_field_map = [(''udm_properties'', model_column SchoolModel ''udm_properties'')]"

definition school_unloaded :: "load_spec option \<Rightarrow> unloaded" where
  "school_unloaded load = all_loaded
     \<lparr>un_school := (\<lambda>_. load_requested_scalar_attributes SchoolModel load school_load_attribute_map)\<rparr>"

definition school_get :: "load_spec option \<Rightarrow> uuid \<Rightarrow> storage \<Rightarrow> err + school" where
  "school_get load i st =
     (case school_of (st_db st) i of
        None \<Rightarrow> Inl (NotFound ''School'' (uuid_str i))
      | Some row \<Rightarrow> Inr (to_school (school_unloaded load) row))"

definition school_search ::
  "exec_select \<Rightarrow> search_query option \<Rightarrow> sort_spec list \<Rightarrow> int option \<Rightarrow> int \<Rightarrow> load_spec option \<Rightarrow> storage \<Rightarrow>
   err + school list" where
  "school_search exec query sort_by limit offset load st =
     res_bind (apply_search_query (select ''School'') query school_field_map (Some []) (Some school_json_field_map)) (\<lambda>s.
     res_bind (apply_sort s sort_by school_field_map ''public_id'' (Some [])) (\<lambda>s.
       Inr (map (to_school (school_unloaded load))
              (related (school_of (st_db st)) (exec (paged limit offset s) (st_db st))))))"

definition school_create :: "uuid \<Rightarrow> school \<Rightarrow> storage \<Rightarrow> err + storage" where
  "school_create fresh data st =
     res_bind (to_school_model fresh data) (\<lambda>row.
       flush (st\<lparr>st_db := (st_db st)\<lparr>db_schools := db_schools (st_db st) @ [row]\<rparr>\<rparr>))"

definition apply_school_patch :: "pdict \<Rightarrow> school_row \<Rightarrow> err + school_row" where
  "apply_school_patch patched row =
     res_bind (patched_str patched ''record_uid'') (\<lambda>ru.
     res_bind (patched_str patched ''source_uid'') (\<lambda>su.
     res_bind (patched_str patched ''name'') (\<lambda>nm.
     res_bind (patched_str patched ''display_name'') (\<lambda>dn.
     res_bind (patched_opt_str patched ''class_share_file_server'') (\<lambda>cs.
     res_bind (patched_opt_str patched ''home_share_file_server'') (\<lambda>hs.
     res_bind (patched_strs patched ''educational_servers'') (\<lambda>es.
     res_bind (patched_strs patched ''administrative_servers'') (\<lambda>as.
     res_bind (patched_dict patched ''udm_properties'') (\<lambda>ud.
       Inr (row\<lparr>sr_record_uid := ru, sr_source_uid := su, sr_name := nm, sr_display_name := dn,
         sr_class_share_file_server := cs, sr_home_share_file_server := hs, sr_educational_servers := es,
         sr_administrative_servers := as, sr_udm_properties := ud\<rparr>))))))))))"

definition school_modify :: "jp_apply \<Rightarrow> uuid \<Rightarrow> operation list \<Rightarrow> storage \<Rightarrow> err + storage" where
  "school_modify jp_apply i operations st =
     (case school_of (st_db st) i of
        None \<Rightarrow> Inl (NotFound ''School'' (uuid_str i))
      | Some row \<Rightarrow>
          (let current = to_school all_loaded row in
           res_bind (apply_patch jp_apply operations (school_to_json current)) (\<lambda>patched.
           res_bind (res_bind (school_from_patch patched (sr_public_id row)) SchoolValidator_validate) (\<lambda>_.
           res_bind (apply_school_patch patched row) (\<lambda>row'.
             Inr (st\<lparr>st_db := (st_db st)
               \<lparr>db_schools := update_by sr_public_id i (\<lambda>_. row') (db_schools (st_db st))\<rparr>\<rparr>))))))"

definition school_delete :: "uuid \<Rightarrow> storage \<Rightarrow> err + storage" where
  "school_delete i st =
     (if school_of (st_db st) i = None then Inl (NotFound ''School'' (uuid_str i))
      else res_bind (db_delete_school i (st_db st)) (\<lambda>d. Inr (st\<lparr>st_db := d\<rparr>)))"

section \<open>SQLAlchemyRoleManager\<close>

definition role_scalar_field_map :: field_map where
  "role_scalar_field_map = [(''name'', model_column RoleModel ''name'')]"

definition role_field_map :: field_map where
  "role_field_map = compose_field_map
     ((''public_id'', model_column RoleModel ''public_id'') # role_scalar_field_map) []"

definition role_load_attribute_map :: "(string \<times> string) list" where
  "role_load_attribute_map = [(''name'', ''name''), (''display_name'', ''display_name'')]"

definition role_unloaded :: "load_spec option \<Rightarrow> unloaded" where
  "role_unloaded load = all_loaded
     \<lparr>un_role := (\<lambda>_. load_requested_scalar_attributes RoleModel load role_load_attribute_map)\<rparr>"

definition role_get :: "load_spec option \<Rightarrow> uuid \<Rightarrow> storage \<Rightarrow> err + role" where
  "role_get load i st =
     (case role_of (st_db st) i of
        None \<Rightarrow> Inl (NotFound ''Role'' (uuid_str i))
      | Some row \<Rightarrow> Inr (to_role (role_unloaded load) row))"

definition role_search ::
  "exec_select \<Rightarrow> search_query option \<Rightarrow> sort_spec list \<Rightarrow> int option \<Rightarrow> int \<Rightarrow> load_spec option \<Rightarrow> storage \<Rightarrow>
   err + role list" where
  "role_search exec query sort_by limit offset load st =
     res_bind (apply_search_query (select ''Role'') query role_field_map (Some []) None) (\<lambda>s.
     res_bind (apply_sort s sort_by role_field_map ''public_id'' (Some [])) (\<lambda>s.
       Inr (map (to_role (role_unloaded load))
              (related (role_of (st_db st)) (exec (paged limit offset s) (st_db st))))))"

definition role_create :: "uuid \<Rightarrow> role \<Rightarrow> storage \<Rightarrow> err + storage" where
  "role_create fresh data st =
     res_bind (to_role_model fresh data) (\<lambda>row.
       flush (st\<lparr>st_db := (st_db st)\<lparr>db_roles := db_roles (st_db st) @ [row]\<rparr>\<rparr>))"

definition role_modify :: "uuid \<Rightarrow> operation list \<Rightarrow> storage \<Rightarrow> err + storage" where
  "role_modify i operations st = Inl (NotImplementedError ''Role modify is not implemented yet.'')"

definition role_delete :: "uuid \<Rightarrow> storage \<Rightarrow> err + storage" where
  "role_delete i st = Inl (NotImplementedError ''Role delete is not implemented yet.'')"

section \<open>The school manager meets the port\<close>

lemma school_of_iff: "(\<exists>r. school_of d i = Some r) \<longleftrightarrow> i \<in> sr_public_id ` set (db_schools d)"
  using find_by_None_iff [of sr_public_id i "db_schools d"] by (auto simp: school_of_def)

lemma school_of_id: "school_of d i = Some r \<Longrightarrow> sr_public_id r = i"
  unfolding school_of_def by (drule find_by_SomeD) simp

lemma school_get_iff: "(\<exists>x. school_get load i st = Inr x) \<longleftrightarrow> i \<in> sr_public_id ` set (db_schools (st_db st))"
  using school_of_iff [of "st_db st" i] by (auto simp: school_get_def split: option.splits)

lemma flush_settled:
  "st_pending st = [] \<Longrightarrow> flush st = Inr st' \<longleftrightarrow> settled st \<and> st' = st"
  by (cases st; auto simp: flush_def settled_def)

lemma school_create_ok:
  assumes "settled st" "school_create fresh x st = Inr st'"
  shows "\<exists>row. to_school_model fresh x = Inr row \<and> settled st' \<and>
    st' = st\<lparr>st_db := (st_db st)\<lparr>db_schools := db_schools (st_db st) @ [row]\<rparr>\<rparr>"
proof -
  from assms obtain row where "to_school_model fresh x = Inr row"
    and "flush (st\<lparr>st_db := (st_db st)\<lparr>db_schools := db_schools (st_db st) @ [row]\<rparr>\<rparr>) = Inr st'"
    by (auto simp: school_create_def res_bind_eq_Inr)
  with assms(1) show ?thesis by (auto simp: flush_settled settled_def)
qed

lemma school_model_id: "to_school_model fresh x = Inr row \<Longrightarrow> sr_public_id row = row_id (s_public_id x) fresh"
  by (auto simp: to_school_model_def res_bind_eq_Inr)

lemma school_delete_ok:
  assumes "settled st" "school_delete i st = Inr st'"
  shows "settled st'" and "db_schools (st_db st') = filter (\<lambda>s. sr_public_id s \<noteq> i) (db_schools (st_db st))"
proof -
  from assms obtain d where d: "db_delete_school i (st_db st) = Inr d" "st' = st\<lparr>st_db := d\<rparr>"
    by (auto simp: school_delete_def res_bind_eq_Inr split: if_splits)
  then show "settled st'" using assms(1) db_delete_school_ok by (auto simp: settled_def)
  from d show "db_schools (st_db st') = filter (\<lambda>s. sr_public_id s \<noteq> i) (db_schools (st_db st))"
    by (auto simp: db_delete_school_def split: if_splits)
qed

lemma school_modify_ids:
  assumes "school_modify jp i ops st = Inr st'"
  shows "map sr_public_id (db_schools (st_db st')) = map sr_public_id (db_schools (st_db st))"
proof -
  from assms obtain row p row' where "school_of (st_db st) i = Some row"
    and "apply_school_patch p row = Inr row'"
    and st': "st' = st\<lparr>st_db := (st_db st)\<lparr>db_schools := update_by sr_public_id i (\<lambda>_. row') (db_schools (st_db st))\<rparr>\<rparr>"
    by (auto simp: school_modify_def Let_def res_bind_eq_Inr split: option.splits)
  then have "sr_public_id row' = i"
    using school_of_id by (auto simp: apply_school_patch_def res_bind_eq_Inr)
  then show ?thesis by (auto simp: st' update_by_def)
qed

interpretation sql_schools: modifying_manager settled "''School''" s_public_id "school_get load"
  "school_create fresh" school_delete "school_modify jp" "\<lambda>st. map sr_public_id (db_schools (st_db st))" "\<lambda>_. True"
  for load fresh jp
proof
  fix s i x y s' e j ops
  assume s: "settled s"
  show "school_get load i s = Inr x \<Longrightarrow> s_public_id x = Present i"
    using school_of_id by (auto simp: school_get_def to_school_def Let_def split: option.splits)
  show "school_get load i s = Inl e \<Longrightarrow> e = NotFound ''School'' (uuid_str i)"
    by (auto simp: school_get_def split: option.splits)
  show "school_create fresh x s = Inr s' \<Longrightarrow> settled s'"
    using school_create_ok [OF s] by blast
  show "(\<exists>y. school_get load j s' = Inr y) \<longleftrightarrow> j = i \<or> (\<exists>y. school_get load j s = Inr y)"
    if c: "school_create fresh x s = Inr s'" and i: "s_public_id x = Present i"
  proof -
    from school_create_ok [OF s c] obtain row where row: "to_school_model fresh x = Inr row"
      "s' = s\<lparr>st_db := (st_db s)\<lparr>db_schools := db_schools (st_db s) @ [row]\<rparr>\<rparr>" by blast
    then have "sr_public_id row = i" using school_model_id [OF row(1)] i by (simp add: row_id_def)
    then show ?thesis by (auto simp: school_get_iff row(2))
  qed
  show "\<exists>e. school_create fresh x s = Inl e" if y: "school_get load i s = Inr y" and i: "s_public_id x = Present i"
  proof (cases "school_create fresh x s")
    case (Inr s'')
    from school_create_ok [OF s this] obtain row where "to_school_model fresh x = Inr row"
      "db_schools (st_db s'') = db_schools (st_db s) @ [row]" "settled s''" by auto
    moreover have "i \<in> sr_public_id ` set (db_schools (st_db s))" using y school_get_iff by blast
    ultimately show ?thesis
      using school_model_id i by (auto simp: settled_def db_ok_def schools_ok_def row_id_def)
  qed simp
  show "school_delete i s = Inr s' \<Longrightarrow> settled s'" using school_delete_ok [OF s] by blast
  show "(\<exists>y. school_get load j s' = Inr y) \<longleftrightarrow> j \<noteq> i \<and> (\<exists>y. school_get load j s = Inr y)"
    if "school_delete i s = Inr s'"
    using school_delete_ok(2) [OF s that] by (auto simp: school_get_iff)
  show "school_get load i s = Inl e \<Longrightarrow> school_delete i s = Inl e"
    by (auto simp: school_get_def school_delete_def split: option.splits)
  show "(\<exists>y. school_get load i s = Inr y) \<longleftrightarrow> i \<in> set (map sr_public_id (db_schools (st_db s)))"
    by (simp add: school_get_iff)
  show "school_get load i s = Inl e \<Longrightarrow> school_modify jp i ops s = Inl e"
    by (auto simp: school_get_def school_modify_def split: option.splits)
  show "school_modify jp i ops s = Inr s' \<Longrightarrow>
      map sr_public_id (db_schools (st_db s')) = map sr_public_id (db_schools (st_db s))"
    by (rule school_modify_ids)
qed

end
