(* ===== verification/Group_Manager.thy ===== *)
theory Group_Manager
  imports School_Manager
begin

text \<open>
  \<open>managers/group_manager.py\<close>. The members of a group are memberships: rows of \<open>db_memberships\<close> that
  list the group. Setting \<open>model.members\<close> rewrites these lists.
\<close>

section \<open>Fields\<close>

definition group_scalar_field_map :: field_map where
  "group_scalar_field_map = map (\<lambda>k. (k, model_column GroupModel k))
     [''record_uid'', ''source_uid'', ''name'', ''email'']"

definition group_nested_registry :: registry where
  "group_nested_registry =
     [(''school'', \<lparr>relation_name = ''school'', target_model = ''School'', join_path = [''School''],
        join_kind = LEFT_OUTER, exposed_fields = get_exposed_fields SchoolModel\<rparr>)]"

definition group_field_map :: field_map where
  "group_field_map = compose_field_map
     ((''public_id'', model_column GroupModel ''public_id'') # group_scalar_field_map) group_nested_registry"

definition group_load_attribute_map :: "(string \<times> string) list" where
  "group_load_attribute_map = map (\<lambda>p. (fst p, fst p)) group_scalar_field_map @
     [(''display_name'', ''display_name''), (''create_share'', ''has_share''), (''description'', ''description''),
      (''udm_properties'', ''udm_properties'')]"

definition group_json_field_map :: field_map where
  "group_json_field_map = [(''udm_properties'', model_column GroupModel ''udm_properties'')]"

section \<open>What a query loads\<close>

text \<open>The relations with \<open>lazy="raise"\<close>; \<open>school\<close> is loaded with every group.\<close>

definition group_lazy_relations :: "string list" where
  "group_lazy_relations =
     [''roles'', ''members'', ''allowed_email_senders_users'', ''allowed_email_senders_groups'', ''member_roles'']"

definition requested :: "load_spec option \<Rightarrow> string \<Rightarrow> bool" where
  "requested load attribute = (case load of None \<Rightarrow> False | Some l \<Rightarrow> spec_includes l attribute)"

text \<open>\<open>_base_stmt\<close>; \<open>tops\<close> are the groups the statement itself selects.\<close>

definition group_base_unloaded :: "load_spec option \<Rightarrow> uuid list \<Rightarrow> unloaded" where
  "group_base_unloaded load tops = all_loaded
     \<lparr>un_group := (\<lambda>j. if j \<in> set tops
        then load_requested_scalar_attributes GroupModel load group_load_attribute_map @
             filter (\<lambda>r. \<not> requested load r) group_lazy_relations
        else load_only GroupModel [''name''] @ group_lazy_relations),
      un_user := (\<lambda>_. load_only UserModel [''name''])\<rparr>"

text \<open>\<open>_modify_query\<close>: the group with everything, the other groups without their lazy relations.\<close>

definition group_modify_unloaded :: "uuid \<Rightarrow> unloaded" where
  "group_modify_unloaded i = all_loaded\<lparr>un_group := (\<lambda>j. if j = i then [] else group_lazy_relations)\<rparr>"

section \<open>Members\<close>

text \<open>\<open>model.members = ...\<close>: the memberships with these keys are linked, all others unlinked.\<close>

definition link_membership :: "uuid \<Rightarrow> (uuid \<times> uuid) list \<Rightarrow> membership_row \<Rightarrow> membership_row" where
  "link_membership i keys m =
     (if mr_key m \<in> set keys
      then (if i \<in> set (mr_groups m) then m else m\<lparr>mr_groups := mr_groups m @ [i]\<rparr>)
      else m\<lparr>mr_groups := filter (\<lambda>j. j \<noteq> i) (mr_groups m)\<rparr>)"

definition set_group_members :: "uuid \<Rightarrow> (uuid \<times> uuid) list \<Rightarrow> db \<Rightarrow> db" where
  "set_group_members i keys d = d\<lparr>db_memberships := map (link_membership i keys) (db_memberships d)\<rparr>"

definition sync_group_members :: "uuid \<Rightarrow> uuid \<Rightarrow> json \<Rightarrow> json \<Rightarrow> db \<Rightarrow> err + db" where
  "sync_group_members i school patched_members current_members d =
     res_bind (extract_json_ids current_members) (\<lambda>current_ids.
     res_bind (extract_json_ids patched_members) (\<lambda>patched_ids.
       if set current_ids = set patched_ids then Inr d
       else if patched_ids \<noteq> [] then
         Inr (set_group_members i
           (map mr_key (filter (\<lambda>m. mr_user m \<in> set patched_ids \<and> mr_school m = school) (db_memberships d))) d)
       else Inr (set_group_members i [] d)))"

section \<open>Applying a patch\<close>

definition update_group :: "uuid \<Rightarrow> (group_row \<Rightarrow> group_row) \<Rightarrow> db \<Rightarrow> db" where
  "update_group i f d = d\<lparr>db_groups := update_by gr_public_id i f (db_groups d)\<rparr>"

definition group_scalars_from_patch :: "pdict \<Rightarrow> group_row \<Rightarrow> err + group_row" where
  "group_scalars_from_patch patched row =
     res_bind (patched_str patched ''record_uid'') (\<lambda>ru.
     res_bind (patched_str patched ''source_uid'') (\<lambda>su.
     res_bind (patched_str patched ''name'') (\<lambda>nm.
     res_bind (patched_str patched ''display_name'') (\<lambda>dn.
     res_bind (patched_opt_str patched ''email'') (\<lambda>em.
     res_bind (patched_bool patched ''create_share'') (\<lambda>cs.
     res_bind (patched_opt_str patched ''description'') (\<lambda>de.
     res_bind (patched_dict patched ''udm_properties'') (\<lambda>ud.
       Inr (row\<lparr>gr_record_uid := ru, gr_source_uid := su, gr_name := nm, gr_display_name := dn,
         gr_email := em, gr_has_share := cs, gr_description := de, gr_udm_properties := ud\<rparr>)))))))))"

text \<open>\<open>sync_collection\<close> on one relation of the group; \<open>set_relation\<close> stores the new ids.\<close>

definition sync_group_relation ::
  "uuid \<Rightarrow> pdict \<Rightarrow> pdict \<Rightarrow> string \<Rightarrow> model_class \<Rightarrow> (uuid list \<Rightarrow> group_row \<Rightarrow> group_row) \<Rightarrow> db \<Rightarrow> err + db" where
  "sync_group_relation i patched current field target set_relation d =
     res_bind (patched_item patched field) (\<lambda>p.
     res_bind (patched_item current field) (\<lambda>c.
     res_bind (sync_collection p c target d) (\<lambda>r.
       Inr (case r of None \<Rightarrow> d | Some ids \<Rightarrow> update_group i (set_relation ids) d))))"

definition apply_group_patch :: "group_row \<Rightarrow> pdict \<Rightarrow> pdict \<Rightarrow> db \<Rightarrow> err + db" where
  "apply_group_patch row patched current d0 =
     (let i = gr_public_id row in
     res_bind (group_scalars_from_patch patched row) (\<lambda>row'.
     res_bind (Inr (update_group i (\<lambda>_. row') d0)) (\<lambda>d.
     res_bind (sync_group_relation i patched current ''member_roles'' RoleModel
       (\<lambda>ids g. g\<lparr>gr_member_roles := ids\<rparr>) d) (\<lambda>d.
     res_bind (patched_item patched ''members'') (\<lambda>pm.
     res_bind (patched_item current ''members'') (\<lambda>cm.
     res_bind (sync_group_members i (gr_school row) pm cm d) (\<lambda>d.
     res_bind (sync_group_relation i patched current ''allowed_email_senders_users'' UserModel
       (\<lambda>ids g. g\<lparr>gr_senders_users := ids\<rparr>) d) (\<lambda>d.
     res_bind (sync_group_relation i patched current ''allowed_email_senders_groups'' GroupModel
       (\<lambda>ids g. g\<lparr>gr_senders_groups := ids\<rparr>) d) (\<lambda>d.
     res_bind (sync_group_relation i patched current ''roles'' RoleModel (\<lambda>ids g. g\<lparr>gr_roles := ids\<rparr>) d) (\<lambda>d.
     res_bind (patched_item patched ''school'') (\<lambda>ps.
     res_bind (patched_item current ''school'') (\<lambda>cs.
     res_bind (sync_scalar_relation ''Group'' ''school'' ps cs SchoolModel True d) (\<lambda>r.
       Inr (case r of Some (Some s) \<Rightarrow> update_group i (\<lambda>g. g\<lparr>gr_school := s\<rparr>) d | _ \<Rightarrow> d))))))))))))))"

section \<open>SQLAlchemyGroupManager\<close>

definition max_patch_depth :: "(string \<times> nat) list" where
  "max_patch_depth =
     [(''school'', 1), (''allowed_email_senders_users'', 2), (''allowed_email_senders_groups'', 2),
      (''members'', 2), (''member_roles'', 2)]"

definition op_parts :: "operation \<Rightarrow> string list" where
  "op_parts op = py_split CHR ''/'' (py_lstrip CHR ''/'' (op_path op))"

definition group_check_operation :: "operation \<Rightarrow> err + unit" where
  "group_check_operation op =
     (let parts = op_parts op; top = hd parts in
      case map_of max_patch_depth top of
        None \<Rightarrow> Inr ()
      | Some max_depth \<Rightarrow>
          if max_depth < length parts
          then Inl (UnsupportedOperation (''Modifying '' @ repr_string top @ '' via deep patch is not supported.''))
          else Inr ())"

definition group_check_modify_operations :: "operation list \<Rightarrow> err + unit" where
  "group_check_modify_operations operations =
     res_bind (res_map group_check_operation operations) (\<lambda>_. Inr ())"

definition group_get :: "nat \<Rightarrow> load_spec option \<Rightarrow> uuid \<Rightarrow> storage \<Rightarrow> err + group" where
  "group_get depth load i st =
     (case group_of (st_db st) i of
        None \<Rightarrow> Inl (NotFound ''Group'' (uuid_str i))
      | Some row \<Rightarrow> to_group depth (st_db st) (group_base_unloaded load [i]) row)"

definition group_search ::
  "nat \<Rightarrow> exec_select \<Rightarrow> search_query option \<Rightarrow> sort_spec list \<Rightarrow> int option \<Rightarrow> int \<Rightarrow> load_spec option \<Rightarrow>
   storage \<Rightarrow> err + group list" where
  "group_search depth exec query sort_by limit offset load st =
     res_bind (apply_search_query (select ''Group'') query group_field_map (Some group_nested_registry)
       (Some group_json_field_map)) (\<lambda>s.
     res_bind (apply_sort s sort_by group_field_map ''public_id'' (Some group_nested_registry)) (\<lambda>s.
       (let ids = exec (paged limit offset s) (st_db st)
        in res_map (to_group depth (st_db st) (group_base_unloaded load ids))
             (related (group_of (st_db st)) ids))))"

definition group_create :: "uuid \<Rightarrow> group \<Rightarrow> storage \<Rightarrow> err + storage" where
  "group_create fresh data st =
     res_bind (to_group_model fresh data) (\<lambda>row.
     res_bind (resolve_group_create_relations data (st_db st)) (\<lambda>r.
       (let row' = row\<lparr>gr_roles := gc_roles r, gr_school := gc_school r, gr_member_roles := gc_member_roles r,
                       gr_senders_users := gc_senders_users r, gr_senders_groups := gc_senders_groups r\<rparr>;
            d = (st_db st)\<lparr>db_groups := db_groups (st_db st) @ [row']\<rparr>
        in flush (st\<lparr>st_db := set_group_members (gr_public_id row) (map mr_key (gc_members r)) d\<rparr>))))"

definition group_modify :: "nat \<Rightarrow> jp_apply \<Rightarrow> uuid \<Rightarrow> operation list \<Rightarrow> storage \<Rightarrow> err + storage" where
  "group_modify depth jp_apply i operations st =
     res_bind (group_check_modify_operations operations) (\<lambda>_.
       (case group_of (st_db st) i of
          None \<Rightarrow> Inl (NotFound ''Group'' (uuid_str i))
        | Some row \<Rightarrow>
            res_bind (to_group depth (st_db st) (group_modify_unloaded i) row) (\<lambda>current.
            res_bind (apply_patch jp_apply operations (group_to_json current)) (\<lambda>patched.
            res_bind (res_bind (group_from_patch patched (gr_public_id row)) GroupValidator_validate) (\<lambda>_.
            res_bind (apply_group_patch row patched (group_to_json current) (st_db st)) (\<lambda>d.
              Inr (st\<lparr>st_db := d\<rparr>)))))))"

definition group_delete :: "uuid \<Rightarrow> storage \<Rightarrow> err + storage" where
  "group_delete i st =
     (if group_of (st_db st) i = None then Inl (NotFound ''Group'' (uuid_str i))
      else Inr (st\<lparr>st_db := db_delete_group i (st_db st)\<rparr>))"

section \<open>Lemmas on members\<close>

lemma set_group_members_same [simp]:
  "db_schools (set_group_members i ks d) = db_schools d" "db_roles (set_group_members i ks d) = db_roles d"
  "db_groups (set_group_members i ks d) = db_groups d" "db_users (set_group_members i ks d) = db_users d"
  "db_legal (set_group_members i ks d) = db_legal d" "db_school_dns (set_group_members i ks d) = db_school_dns d"
  "db_group_dns (set_group_members i ks d) = db_group_dns d" "db_user_dns (set_group_members i ks d) = db_user_dns d"
  by (simp_all add: set_group_members_def)

lemma update_group_same [simp]:
  "db_schools (update_group i f d) = db_schools d" "db_roles (update_group i f d) = db_roles d"
  "db_memberships (update_group i f d) = db_memberships d" "db_users (update_group i f d) = db_users d"
  "db_legal (update_group i f d) = db_legal d"
  by (simp_all add: update_group_def)

lemma group_ids_update [simp]:
  "(\<And>g. gr_public_id (f g) = gr_public_id g) \<Longrightarrow>
   map gr_public_id (db_groups (update_group i f d)) = map gr_public_id (db_groups d)"
  by (simp add: update_group_def)

text \<open>Which users a group has as members after its members were set.\<close>

lemma link_membership_simps [simp]:
  "mr_user (link_membership i keys m) = mr_user m" "mr_school (link_membership i keys m) = mr_school m"
  "mr_is_primary (link_membership i keys m) = mr_is_primary m"
  "i \<in> set (mr_groups (link_membership i keys m)) \<longleftrightarrow> mr_key m \<in> set keys"
  "j \<noteq> i \<Longrightarrow> j \<in> set (mr_groups (link_membership i keys m)) \<longleftrightarrow> j \<in> set (mr_groups m)"
  by (auto simp: link_membership_def)

lemma group_member_ids_set:
  "set (group_member_ids (set_group_members i keys d) i) =
     mr_user ` {m \<in> set (db_memberships d). mr_key m \<in> set keys}"
proof -
  have "{m \<in> link_membership i keys ` set (db_memberships d). i \<in> set (mr_groups m)} =
      link_membership i keys ` {m \<in> set (db_memberships d). mr_key m \<in> set keys}" by auto
  then show ?thesis by (simp add: group_member_ids_def set_group_members_def image_image)
qed

lemma group_member_ids_other:
  "j \<noteq> i \<Longrightarrow> group_member_ids (set_group_members i keys d) j = group_member_ids d j"
  by (simp add: group_member_ids_def set_group_members_def filter_map comp_def)

lemma sync_group_members_ids:
  assumes "extract_json_ids pm = Inr ps" "extract_json_ids cm = Inr cs" "set cs \<noteq> set ps"
    and "sync_group_members i school pm cm d = Inr e"
  shows "set (group_member_ids e i) = {u \<in> set ps. membership_of d u school \<noteq> None}"
proof -
  have mem: "membership_of d u school \<noteq> None \<longleftrightarrow> (u, school) \<in> mr_key ` set (db_memberships d)" for u
    using find_by_None_iff [of mr_key "(u, school)" "db_memberships d"] by (simp add: membership_of_def)
  show ?thesis
  proof (cases "ps = []")
    case True
    with assms have "e = set_group_members i [] d" by (simp add: sync_group_members_def)
    then show ?thesis using True by (simp add: group_member_ids_set)
  next
    case False
    let ?ks = "map mr_key (filter (\<lambda>m. mr_user m \<in> set ps \<and> mr_school m = school) (db_memberships d))"
    from False assms have "e = set_group_members i ?ks d" by (simp add: sync_group_members_def)
    then have "set (group_member_ids e i) = mr_user ` {m \<in> set (db_memberships d). mr_key m \<in> set ?ks}"
      by (simp only: group_member_ids_set)
    also have "\<dots> = {u \<in> set ps. (u, school) \<in> mr_key ` set (db_memberships d)}"
      by (auto simp: image_iff)
    finally show ?thesis by (simp only: mem)
  qed
qed

section \<open>The group manager meets the port\<close>

lemma group_of_iff: "(\<exists>r. group_of d i = Some r) \<longleftrightarrow> i \<in> gr_public_id ` set (db_groups d)"
  using find_by_None_iff [of gr_public_id i "db_groups d"] by (auto simp: group_of_def)

lemma group_of_id: "group_of d i = Some r \<Longrightarrow> gr_public_id r = i \<and> r \<in> set (db_groups d)"
  unfolding group_of_def by (drule find_by_SomeD) simp

lemma settled_school: "settled st \<Longrightarrow> g \<in> set (db_groups (st_db st)) \<Longrightarrow> \<exists>s. school_of (st_db st) (gr_school g) = Some s"
  by (simp add: settled_def db_ok_def groups_ok_def list_all_iff school_of_iff)

text \<open>Without a load specification no relation but the school is converted, so nothing recurses.\<close>

lemma group_get_plain:
  assumes "settled st" "group_of (st_db st) i = Some row"
  shows "\<exists>g. group_get (Suc n) None i st = Inr g \<and> g_public_id g = Present i"
proof -
  from group_of_id [OF assms(2)] have i: "gr_public_id row = i" "row \<in> set (db_groups (st_db st))" by auto
  obtain s where "school_of (st_db st) (gr_school row) = Some s"
    using settled_school [OF assms(1) i(2)] by blast
  then show ?thesis
    using assms(2) i(1)
    by (simp add: group_get_def group_base_unloaded_def load_requested_scalar_attributes_def requested_def
        group_lazy_relations_def Let_def)
qed

lemma group_get_iff:
  "settled st \<Longrightarrow> (\<exists>g. group_get (Suc n) None i st = Inr g) \<longleftrightarrow> i \<in> gr_public_id ` set (db_groups (st_db st))"
  using group_get_plain [of st i _ n] group_of_iff [of "st_db st" i]
  by (cases "group_of (st_db st) i") (auto simp: group_get_def)

lemma group_model_id: "to_group_model fresh x = Inr row \<Longrightarrow> gr_public_id row = row_id (g_public_id x) fresh"
  by (auto simp: to_group_model_def res_bind_eq_Inr)

lemma group_create_ok:
  assumes "settled st" "group_create fresh x st = Inr st'"
  shows "settled st'" and "map gr_public_id (db_groups (st_db st')) =
    map gr_public_id (db_groups (st_db st)) @ [row_id (g_public_id x) fresh]"
proof -
  from assms(2) obtain row and r :: group_create_relations where row: "to_group_model fresh x = Inr row"
    and f: "flush (st\<lparr>st_db := set_group_members (gr_public_id row) (map mr_key (gc_members r))
      ((st_db st)\<lparr>db_groups := db_groups (st_db st) @ [row\<lparr>gr_roles := gc_roles r, gr_school := gc_school r,
         gr_member_roles := gc_member_roles r, gr_senders_users := gc_senders_users r,
         gr_senders_groups := gc_senders_groups r\<rparr>]\<rparr>)\<rparr>) = Inr st'"
    unfolding group_create_def Let_def by (elim res_bindE) blast
  have "st_pending st = []" using assms(1) by (simp add: settled_def)
  then have "settled st' \<and> st' = st\<lparr>st_db := set_group_members (gr_public_id row) (map mr_key (gc_members r))
      ((st_db st)\<lparr>db_groups := db_groups (st_db st) @ [row\<lparr>gr_roles := gc_roles r, gr_school := gc_school r,
         gr_member_roles := gc_member_roles r, gr_senders_users := gc_senders_users r,
         gr_senders_groups := gc_senders_groups r\<rparr>]\<rparr>)\<rparr>"
    using f flush_settled by fastforce
  then show "settled st'" "map gr_public_id (db_groups (st_db st')) =
    map gr_public_id (db_groups (st_db st)) @ [row_id (g_public_id x) fresh]"
    using group_model_id [OF row] by auto
qed

lemma sync_group_relation_ids:
  assumes "sync_group_relation i p c f t set_r d = Inr e" "\<And>ids g. gr_public_id (set_r ids g) = gr_public_id g"
  shows "map gr_public_id (db_groups e) = map gr_public_id (db_groups d) \<and> db_memberships e = db_memberships d"
  using assms by (auto simp: sync_group_relation_def res_bind_eq_Inr split: option.splits)

lemma sync_group_members_groups:
  "sync_group_members i s pm cm d = Inr e \<Longrightarrow> db_groups e = db_groups d"
  by (auto simp: sync_group_members_def res_bind_eq_Inr split: if_splits)

text \<open>What \<open>apply_group_patch\<close> does, step by step.\<close>

lemma apply_group_patch_steps:
  assumes "apply_group_patch row p c d = Inr e"
  obtains row' d1 pm cm d2 d3 d4 d5 where
    "group_scalars_from_patch p row = Inr row'"
    "sync_group_relation (gr_public_id row) p c ''member_roles'' RoleModel (\<lambda>ids g. g\<lparr>gr_member_roles := ids\<rparr>)
       (update_group (gr_public_id row) (\<lambda>_. row') d) = Inr d1"
    "patched_item p ''members'' = Inr pm" "patched_item c ''members'' = Inr cm"
    "sync_group_members (gr_public_id row) (gr_school row) pm cm d1 = Inr d2"
    "sync_group_relation (gr_public_id row) p c ''allowed_email_senders_users'' UserModel
       (\<lambda>ids g. g\<lparr>gr_senders_users := ids\<rparr>) d2 = Inr d3"
    "sync_group_relation (gr_public_id row) p c ''allowed_email_senders_groups'' GroupModel
       (\<lambda>ids g. g\<lparr>gr_senders_groups := ids\<rparr>) d3 = Inr d4"
    "sync_group_relation (gr_public_id row) p c ''roles'' RoleModel (\<lambda>ids g. g\<lparr>gr_roles := ids\<rparr>) d4 = Inr d5"
    "e = d5 \<or> (\<exists>s. e = update_group (gr_public_id row) (\<lambda>g. g\<lparr>gr_school := s\<rparr>) d5)"
  using assms unfolding apply_group_patch_def Let_def
  by (elim res_bindE) (fastforce split: option.splits)

lemma apply_group_patch_ids:
  assumes "apply_group_patch row p c d = Inr e"
    and "group_of d (gr_public_id row) = Some row"
  shows "map gr_public_id (db_groups e) = map gr_public_id (db_groups d)"
  using assms(1)
proof (rule apply_group_patch_steps)
  fix row' d1 pm cm d2 d3 d4 d5
  assume 0: "group_scalars_from_patch p row = Inr row'"
    and 1: "sync_group_relation (gr_public_id row) p c ''member_roles'' RoleModel (\<lambda>ids g. g\<lparr>gr_member_roles := ids\<rparr>)
       (update_group (gr_public_id row) (\<lambda>_. row') d) = Inr d1"
    and 2: "sync_group_members (gr_public_id row) (gr_school row) pm cm d1 = Inr d2"
    and 3: "sync_group_relation (gr_public_id row) p c ''allowed_email_senders_users'' UserModel
       (\<lambda>ids g. g\<lparr>gr_senders_users := ids\<rparr>) d2 = Inr d3"
    and 4: "sync_group_relation (gr_public_id row) p c ''allowed_email_senders_groups'' GroupModel
       (\<lambda>ids g. g\<lparr>gr_senders_groups := ids\<rparr>) d3 = Inr d4"
    and 5: "sync_group_relation (gr_public_id row) p c ''roles'' RoleModel (\<lambda>ids g. g\<lparr>gr_roles := ids\<rparr>) d4 = Inr d5"
    and 6: "e = d5 \<or> (\<exists>s. e = update_group (gr_public_id row) (\<lambda>g. g\<lparr>gr_school := s\<rparr>) d5)"
  have "gr_public_id row' = gr_public_id row"
    using 0 by (auto simp: group_scalars_from_patch_def res_bind_eq_Inr)
  then have "map gr_public_id (db_groups (update_group (gr_public_id row) (\<lambda>_. row') d)) = map gr_public_id (db_groups d)"
    by (auto simp: update_group_def update_by_def)
  then show ?thesis
    using sync_group_relation_ids [OF 1] sync_group_members_groups [OF 2] sync_group_relation_ids [OF 3]
      sync_group_relation_ids [OF 4] sync_group_relation_ids [OF 5] 6 by auto
qed

lemma group_modify_ids:
  assumes "group_modify n jp i ops st = Inr st'"
  shows "map gr_public_id (db_groups (st_db st')) = map gr_public_id (db_groups (st_db st))"
proof -
  from assms obtain row p c d where "group_of (st_db st) i = Some row"
    "apply_group_patch row p c (st_db st) = Inr d" "st' = st\<lparr>st_db := d\<rparr>"
    by (auto simp: group_modify_def res_bind_eq_Inr split: option.splits)
  then show ?thesis using apply_group_patch_ids [of row p c "st_db st" d] group_of_id by auto
qed

interpretation sql_groups: modifying_manager settled "''Group''" g_public_id "group_get (Suc n) None"
  "group_create fresh" group_delete "group_modify m jp" "\<lambda>st. map gr_public_id (db_groups (st_db st))"
  "\<lambda>ops. group_check_modify_operations ops = Inr ()"
  for n fresh m jp
proof
  fix s i x y s' e j ops
  assume s: "settled s"
  note get = group_get_iff [OF s, of n]
  show "group_get (Suc n) None i s = Inr x \<Longrightarrow> g_public_id x = Present i"
    using group_get_plain [OF s, of i _ n] by (cases "group_of (st_db s) i") (auto simp: group_get_def)
  show err: "group_get (Suc n) None i s = Inl e \<Longrightarrow> e = NotFound ''Group'' (uuid_str i)"
    using group_get_plain [OF s, of i _ n] by (cases "group_of (st_db s) i") (auto simp: group_get_def)
  show "group_create fresh x s = Inr s' \<Longrightarrow> settled s'" by (rule group_create_ok [OF s])
  show "(\<exists>y. group_get (Suc n) None j s' = Inr y) \<longleftrightarrow> j = i \<or> (\<exists>y. group_get (Suc n) None j s = Inr y)"
    if c: "group_create fresh x s = Inr s'" and i: "g_public_id x = Present i"
  proof -
    have "gr_public_id ` set (db_groups (st_db s')) = set (map gr_public_id (db_groups (st_db s')))" by simp
    also have "\<dots> = insert i (gr_public_id ` set (db_groups (st_db s)))"
      unfolding group_create_ok(2) [OF s c] using i by (simp add: row_id_def)
    finally show ?thesis
      using get group_get_iff [OF group_create_ok(1) [OF s c], of n] by simp
  qed
  show "\<exists>e. group_create fresh x s = Inl e" if y: "group_get (Suc n) None i s = Inr y" and i: "g_public_id x = Present i"
  proof (cases "group_create fresh x s")
    case (Inr s'')
    have "distinct (map gr_public_id (db_groups (st_db s'')))"
      using group_create_ok(1) [OF s Inr] by (simp add: settled_def db_ok_def groups_ok_def)
    then have "i \<notin> set (map gr_public_id (db_groups (st_db s)))"
      unfolding group_create_ok(2) [OF s Inr] using i by (simp add: row_id_def)
    then show ?thesis using y get by auto
  qed simp
  have del: "db_groups (db_delete_group i (st_db s)) =
      map (\<lambda>g. g\<lparr>gr_senders_groups := filter (\<lambda>j. j \<noteq> i) (gr_senders_groups g)\<rparr>)
        (filter (\<lambda>g. gr_public_id g \<noteq> i) (db_groups (st_db s)))" by (simp add: db_delete_group_def)
  show set': "settled s'" if "group_delete i s = Inr s'"
    using that s db_delete_group_ok by (auto simp: group_delete_def settled_def split: if_splits)
  show "(\<exists>y. group_get (Suc n) None j s' = Inr y) \<longleftrightarrow> j \<noteq> i \<and> (\<exists>y. group_get (Suc n) None j s = Inr y)"
    if d: "group_delete i s = Inr s'"
  proof -
    have "s' = s\<lparr>st_db := db_delete_group i (st_db s)\<rparr>" using d by (auto simp: group_delete_def split: if_splits)
    then show ?thesis using get group_get_iff [OF set' [OF d], of n] by (auto simp: del image_image)
  qed
  show "group_get (Suc n) None i s = Inl e \<Longrightarrow> group_delete i s = Inl e"
    using err group_get_plain [OF s, of i _ n] by (cases "group_of (st_db s) i") (auto simp: group_delete_def)
  show "(\<exists>y. group_get (Suc n) None i s = Inr y) \<longleftrightarrow> i \<in> set (map gr_public_id (db_groups (st_db s)))"
    by (simp add: get)
  show "group_check_modify_operations ops = Inr () \<Longrightarrow> group_get (Suc n) None i s = Inl e \<Longrightarrow>
      group_modify m jp i ops s = Inl e"
    using err group_get_plain [OF s, of i _ n] by (cases "group_of (st_db s) i") (auto simp: group_modify_def)
  show "group_modify m jp i ops s = Inr s' \<Longrightarrow>
      map gr_public_id (db_groups (st_db s')) = map gr_public_id (db_groups (st_db s))"
    by (rule group_modify_ids)
qed

section \<open>Groups that allow themselves as senders\<close>

lemma to_group_only_recursion_error:
  assumes "\<And>g. g \<in> set (db_groups d) \<Longrightarrow> \<exists>s. school_of d (gr_school g) = Some s"
    and "row \<in> set (db_groups d)" "to_group n d un row = Inl e"
  shows "e = RuntimeError ''maximum recursion depth exceeded''"
  using assms(2,3)
proof (induction n arbitrary: row e)
  case (Suc n)
  obtain s where s: "school_of d (gr_school row) = Some s" using assms(1) Suc.prems(1) by blast
  have sub: "g \<in> set (db_groups d)" if "g \<in> set (related (group_of d) ids)" for g ids
    using that group_of_id by (auto simp: related_def)
  from Suc.prems(2) s have "res_map (to_group n d un) (related (group_of d) (gr_senders_groups row)) = Inl e"
    by (auto simp: Let_def res_bind_eq_Inl split: if_splits)
  from res_map_InlD [OF this] obtain g where "g \<in> set (related (group_of d) (gr_senders_groups row))"
    "to_group n d un g = Inl e" by blast
  then show ?case using Suc.IH sub by blast
qed simp

section \<open>Properties\<close>


text \<open>C39: a patch that changes the members of a group links exactly those of the requested users that have a
  membership in the school the group had before the patch; other users are dropped without an error,
  even when the same patch moves the group to their school.\<close>

theorem group_patch_members_of_old_school:
  assumes "apply_group_patch row patched current d = Inr e"
    and "map_of patched ''members'' = Some pm" and "extract_json_ids pm = Inr ps"
    and "map_of current ''members'' = Some cm" and "extract_json_ids cm = Inr cs" and "set cs \<noteq> set ps"
  shows "set (group_member_ids e (gr_public_id row)) =
     {u \<in> set ps. membership_of d u (gr_school row) \<noteq> None}"
  using assms(1)
proof (rule apply_group_patch_steps)
  fix row' d1 pm' cm' d2 d3 d4 d5
  assume 1: "sync_group_relation (gr_public_id row) patched current ''member_roles'' RoleModel (\<lambda>ids g. g\<lparr>gr_member_roles := ids\<rparr>)
       (update_group (gr_public_id row) (\<lambda>_. row') d) = Inr d1"
    and items: "patched_item patched ''members'' = Inr pm'" "patched_item current ''members'' = Inr cm'"
    and 2: "sync_group_members (gr_public_id row) (gr_school row) pm' cm' d1 = Inr d2"
    and 3: "sync_group_relation (gr_public_id row) patched current ''allowed_email_senders_users'' UserModel
       (\<lambda>ids g. g\<lparr>gr_senders_users := ids\<rparr>) d2 = Inr d3"
    and 4: "sync_group_relation (gr_public_id row) patched current ''allowed_email_senders_groups'' GroupModel
       (\<lambda>ids g. g\<lparr>gr_senders_groups := ids\<rparr>) d3 = Inr d4"
    and 5: "sync_group_relation (gr_public_id row) patched current ''roles'' RoleModel (\<lambda>ids g. g\<lparr>gr_roles := ids\<rparr>) d4 = Inr d5"
    and 6: "e = d5 \<or> (\<exists>s. e = update_group (gr_public_id row) (\<lambda>g. g\<lparr>gr_school := s\<rparr>) d5)"
  have "pm' = pm" "cm' = cm" using items assms(2,4) by (simp_all add: patched_item_def)
  then have "set (group_member_ids d2 (gr_public_id row)) = {u \<in> set ps. membership_of d1 u (gr_school row) \<noteq> None}"
    using sync_group_members_ids [OF assms(3,5,6)] 2 by blast
  moreover have "db_memberships d1 = db_memberships d" using sync_group_relation_ids [OF 1] by simp
  moreover have "db_memberships e = db_memberships d2"
    using sync_group_relation_ids [OF 3] sync_group_relation_ids [OF 4] sync_group_relation_ids [OF 5] 6 by auto
  ultimately show ?thesis by (simp add: group_member_ids_def membership_of_def)
qed

text \<open>C40: a group that is in its own list of allowed sender groups can never be modified again: the
  conversion of the stored group to a domain object exceeds every recursion limit.\<close>

theorem self_sender_group_unmodifiable:
  assumes "settled st" and "group_of (st_db st) i = Some row" and "i \<in> set (gr_senders_groups row)"
    and "group_check_modify_operations ops = Inr ()"
  shows "group_modify depth jp i ops st = Inl (RuntimeError ''maximum recursion depth exceeded'')"
proof -
  have row: "gr_public_id row = i" "row \<in> set (db_groups (st_db st))" using group_of_id [OF assms(2)] by auto
  have "\<exists>e. to_group depth (st_db st) (group_modify_unloaded i) row = Inl e"
    by (rule to_group_self_sender [where i = i]) (use assms row in \<open>auto simp: group_modify_unloaded_def\<close>)
  then obtain e where e: "to_group depth (st_db st) (group_modify_unloaded i) row = Inl e" ..
  have "e = RuntimeError ''maximum recursion depth exceeded''"
    by (rule to_group_only_recursion_error [OF _ row(2) e]) (rule settled_school [OF assms(1)])
  with e assms(2,4) show ?thesis by (simp add: group_modify_def)
qed

text \<open>Patches into the attributes of a referenced object are refused for the school, the members, the
  allowed senders and the member roles of a group, but a path into an item of \<open>roles\<close> is let
  through.\<close>

theorem group_deep_patch_refused:
  assumes "op_parts op = [t, idx, attribute]"
  shows "group_check_operation op =
     (if t \<in> {''school'', ''allowed_email_senders_users'', ''allowed_email_senders_groups'', ''members'', ''member_roles''}
      then Inl (UnsupportedOperation (''Modifying '' @ repr_string t @ '' via deep patch is not supported.''))
      else Inr ())"
  using assms by (auto simp: group_check_operation_def max_patch_depth_def Let_def)

section \<open>Witnesses\<close>

definition demo_school :: "uuid \<Rightarrow> string \<Rightarrow> school_row" where
  "demo_school i n = \<lparr>sr_public_id = i, sr_record_uid = n, sr_source_uid = ''ldap'', sr_name = n,
     sr_display_name = n, sr_educational_servers = [], sr_administrative_servers = [],
     sr_class_share_file_server = None, sr_home_share_file_server = None, sr_udm_properties = []\<rparr>"

definition demo_role :: role_row where
  "demo_role = \<lparr>rr_public_id = 90, rr_name = ''student'', rr_display_name = []\<rparr>"

definition demo_user :: "uuid \<Rightarrow> string \<Rightarrow> user_row" where
  "demo_user i n = \<lparr>ur_public_id = i, ur_record_uid = n, ur_source_uid = ''ldap'', ur_name = n,
     ur_firstname = n, ur_lastname = n, ur_email = None, ur_birthday = None, ur_expiration_date = None,
     ur_active = True, ur_udm_properties = []\<rparr>"

definition demo_group :: "uuid \<Rightarrow> uuid list \<Rightarrow> group_row" where
  "demo_group i senders = \<lparr>gr_public_id = i, gr_record_uid = ''g'', gr_source_uid = ''ldap'', gr_name = ''g'',
     gr_display_name = ''g'', gr_has_share = False, gr_email = None, gr_description = None,
     gr_udm_properties = [], gr_school = 1, gr_roles = [90], gr_member_roles = [], gr_senders_users = [],
     gr_senders_groups = senders\<rparr>"

text \<open>Two schools, a user with a membership in the first, a group of the first school.\<close>

definition demo_db :: "uuid list \<Rightarrow> db" where
  "demo_db senders = empty_db\<lparr>db_schools := [demo_school 1 ''a'', demo_school 2 ''b''], db_roles := [demo_role],
     db_users := [demo_user 20 ''anna''], db_groups := [demo_group 10 senders],
     db_memberships := [\<lparr>mr_user = 20, mr_school = 1, mr_is_primary = True, mr_roles = [90], mr_groups = []\<rparr>]\<rparr>"

definition demo_storage :: "uuid list \<Rightarrow> storage" where
  "demo_storage senders = \<lparr>st_db = demo_db senders, st_pending = []\<rparr>"

lemmas demo_defs = demo_storage_def demo_db_def demo_school_def demo_role_def demo_user_def demo_group_def
  empty_db_def

lemma demo_settled: "set senders \<subseteq> {10} \<Longrightarrow> settled (demo_storage senders)"
  by (simp add: settled_def demo_defs db_ok_def table_oks given_def mapping_ok_def primary_user_constraint_def)

lemma self_sender_group_unmodifiable_witness:
  "group_modify 500 (\<lambda>ops d. Some d) 10 [] (demo_storage [10]) =
     Inl (RuntimeError ''maximum recursion depth exceeded'')"
proof (rule self_sender_group_unmodifiable)
  show "settled (demo_storage [10])" by (rule demo_settled) simp
  show "group_of (st_db (demo_storage [10])) 10 = Some (demo_group 10 [10])"
    by (simp add: group_of_def demo_defs)
qed (simp_all add: demo_group_def group_check_modify_operations_def)

lemma group_deep_patch_refused_witness:
  "group_check_operation (replace_op ''/roles/0/name'' (JStr ''x'')) = Inr () \<and>
   group_check_operation (replace_op ''/members/0/name'' (JStr ''x'')) =
     Inl (UnsupportedOperation (''Modifying '' @ repr_string ''members'' @ '' via deep patch is not supported.''))"
  using group_deep_patch_refused [of "replace_op ''/roles/0/name'' (JStr ''x'')" "''roles''" "''0''" "''name''"]
    group_deep_patch_refused [of "replace_op ''/members/0/name'' (JStr ''x'')" "''members''" "''0''" "''name''"]
  by (simp add: op_parts_def replace_op_def py_lstrip_def)

definition demo_patch :: "json list \<Rightarrow> uuid \<Rightarrow> pdict" where
  "demo_patch members school =
     [(''record_uid'', JStr ''g''), (''source_uid'', JStr ''ldap''), (''name'', JStr ''g''),
      (''display_name'', JStr ''g''), (''create_share'', JBool False), (''roles'', JList []),
      (''allowed_email_senders_users'', JList []), (''allowed_email_senders_groups'', JList []),
      (''members'', JList members), (''member_roles'', JList []),
      (''school'', JObj [(''public_id'', JStr (uuid_str school))]), (''email'', JNull), (''description'', JNull),
      (''udm_properties'', JObj [])]"

lemma demo_patch_item:
  "patched_item (demo_patch ms sc) k = of_opt (KeyError k) (map_of (demo_patch ms sc) k)"
  "map_of (demo_patch ms sc) ''record_uid'' = Some (JStr ''g'')"
  "map_of (demo_patch ms sc) ''source_uid'' = Some (JStr ''ldap'')"
  "map_of (demo_patch ms sc) ''name'' = Some (JStr ''g'')"
  "map_of (demo_patch ms sc) ''display_name'' = Some (JStr ''g'')"
  "map_of (demo_patch ms sc) ''create_share'' = Some (JBool False)"
  "map_of (demo_patch ms sc) ''roles'' = Some (JList [])"
  "map_of (demo_patch ms sc) ''allowed_email_senders_users'' = Some (JList [])"
  "map_of (demo_patch ms sc) ''allowed_email_senders_groups'' = Some (JList [])"
  "map_of (demo_patch ms sc) ''members'' = Some (JList ms)"
  "map_of (demo_patch ms sc) ''member_roles'' = Some (JList [])"
  "map_of (demo_patch ms sc) ''school'' = Some (JObj [(''public_id'', JStr (uuid_str sc))])"
  "map_of (demo_patch ms sc) ''email'' = Some JNull"
  "map_of (demo_patch ms sc) ''description'' = Some JNull"
  "map_of (demo_patch ms sc) ''udm_properties'' = Some (JObj [])"
  by (simp_all add: demo_patch_def patched_item_def)

lemma group_patch_members_of_old_school_witness:
  "\<exists>e. apply_group_patch (demo_group 10 []) (demo_patch [JObj [(''public_id'', JStr (uuid_str 20))]] 2)
         (demo_patch [] 1) (demo_db []) = Inr e \<and>
       set (group_member_ids e 10) = {20} \<and> map gr_school (db_groups e) = [2] \<and>
       membership_of e 20 2 = None"
proof -
  let ?p = "demo_patch [JObj [(''public_id'', JStr (uuid_str 20))]] 2" and ?c = "demo_patch [] 1"
  have ids: "extract_json_ids (JList [JObj [(''public_id'', JStr (uuid_str 20))]]) = Inr [20]"
    "extract_json_ids (JList []) = Inr []"
    by (simp_all add: extract_json_ids_def extract_public_ids_def item_public_id_def given_def)
  have scalars: "group_scalars_from_patch ?p (demo_group 10 []) = Inr (demo_group 10 [])"
    by (simp add: group_scalars_from_patch_def patched_str_def patched_opt_str_def patched_bool_def
        patched_dict_def demo_patch_item demo_group_def)
  have same: "sync_group_relation 10 ?p ?c f t g d = Inr d"
    if "f \<in> {''member_roles'', ''allowed_email_senders_users'', ''allowed_email_senders_groups'', ''roles''}" for f t g d
    using that by (auto simp: sync_group_relation_def demo_patch_item sync_collection_def ids)
  have id: "gr_public_id (demo_group 10 []) = 10" "gr_school (demo_group 10 []) = 1" by (simp_all add: demo_group_def)
  have school: "sync_scalar_relation ''Group'' ''school'' (JObj [(''public_id'', JStr (uuid_str 2))])
      (JObj [(''public_id'', JStr (uuid_str 1))]) SchoolModel True d = Inr (Some (Some 2))"
    if "map sr_public_id (db_schools d) = [1, 2]" for d
    using that by (simp add: sync_scalar_relation_def scalar_num_def extract_public_ids_def item_public_id_def given_def)
  let ?d1 = "update_group 10 (\<lambda>_. demo_group 10 []) (demo_db [])"
  obtain d2 where d2: "sync_group_members 10 1 (JList [JObj [(''public_id'', JStr (uuid_str 20))]]) (JList []) ?d1 = Inr d2"
    "map sr_public_id (db_schools d2) = [1, 2]" "map gr_public_id (db_groups d2) = [10]"
    "map mr_key (db_memberships d2) = [(20, 1)]"
    by (simp add: sync_group_members_def ids) (simp add: set_group_members_def update_group_def update_by_def demo_defs)
  define e where "e = update_group 10 (\<lambda>g. g\<lparr>gr_school := 2\<rparr>) d2"
  have e: "apply_group_patch (demo_group 10 []) ?p ?c (demo_db []) = Inr e"
    by (simp add: apply_group_patch_def id scalars same demo_patch_item d2(1) school [OF d2(2)] e_def)
  have e2: "map gr_school (db_groups e) = [2]"
    using d2(3) by (auto simp: e_def update_group_def update_by_def map_eq_Cons_conv)
  have e3: "membership_of e 20 2 = None"
    using d2(4) by (auto simp: e_def membership_of_def map_eq_Cons_conv)
  have "set (group_member_ids e (gr_public_id (demo_group 10 []))) =
      {u \<in> set [20]. membership_of (demo_db []) u (gr_school (demo_group 10 [])) \<noteq> None}"
    by (rule group_patch_members_of_old_school [OF e _ ids(1) _ ids(2)]) (simp_all add: demo_patch_item)
  also have "\<dots> = {20}" by (auto simp: demo_defs membership_of_def)
  finally have "set (group_member_ids e 10) = {20}" by (simp only: id)
  with e e2 e3 show ?thesis by (intro exI conjI)
qed


end
