(* ===== verification/User_Manager.thy ===== *)
theory User_Manager
  imports Group_Manager
begin

text \<open>
  \<open>managers/user_manager.py\<close>: users with their memberships, wards and guardians, and the rules for
  patches that reach into these relations.
\<close>

section \<open>Fields\<close>

definition user_scalar_field_map :: field_map where
  "user_scalar_field_map = map (\<lambda>k. (k, model_column UserModel k))
     [''record_uid'', ''source_uid'', ''name'', ''firstname'', ''lastname'', ''email'', ''active'', ''birthday'',
      ''expiration_date'']"

definition user_nested_registry :: registry where
  "user_nested_registry =
     [(''groups'', \<lparr>relation_name = ''groups'', target_model = ''Group'', join_path = [''SchoolMembership'', ''Group''],
        join_kind = LEFT_OUTER, exposed_fields = get_exposed_fields GroupModel\<rparr>),
      (''roles'', \<lparr>relation_name = ''roles'', target_model = ''Role'', join_path = [''SchoolMembership'', ''Role''],
        join_kind = LEFT_OUTER, exposed_fields = get_exposed_fields RoleModel\<rparr>),
      (''schools'', \<lparr>relation_name = ''schools'', target_model = ''School'', join_path = [''SchoolMembership'', ''School''],
        join_kind = LEFT_OUTER, exposed_fields = get_exposed_fields SchoolModel\<rparr>)]"

definition user_field_map :: field_map where
  "user_field_map = compose_field_map
     ((''public_id'', model_column UserModel ''public_id'') # user_scalar_field_map) user_nested_registry"

definition user_load_attribute_map :: "(string \<times> string) list" where
  "user_load_attribute_map = map (\<lambda>p. (fst p, fst p)) user_scalar_field_map @ [(''udm_properties'', ''udm_properties'')]"

definition user_json_field_map :: field_map where
  "user_json_field_map = [(''udm_properties'', model_column UserModel ''udm_properties'')]"

section \<open>What a query loads\<close>

definition includes_user_memberships :: "load_spec \<Rightarrow> bool" where
  "includes_user_memberships l \<longleftrightarrow>
     (\<exists>a\<in>set [''school_memberships'', ''primary_school'', ''groups'', ''roles'']. spec_includes l a)"

definition group_scalar_columns :: "string list" where
  "group_scalar_columns = [''record_uid'', ''source_uid'', ''name'', ''display_name'', ''has_share'', ''email'']"

definition user_scalar_columns :: "string list" where
  "user_scalar_columns = [''record_uid'', ''source_uid'', ''name'', ''firstname'', ''lastname'', ''email'', ''birthday'',
     ''expiration_date'', ''active'']"

definition user_lazy_relations :: "string list" where
  "user_lazy_relations = [''school_memberships'', ''legal_wards'', ''legal_guardians'']"

text \<open>\<open>_with_user_related_load_options\<close>: which relations of a selected user stay unloaded.\<close>

definition user_relations_unloaded :: "load_spec \<Rightarrow> string list" where
  "user_relations_unloaded l =
     (if includes_user_memberships l then [] else [''school_memberships'']) @
     (if spec_includes l ''legal_wards'' then [] else [''legal_wards'']) @
     (if spec_includes l ''legal_guardians'' then [] else [''legal_guardians''])"

definition user_unloaded :: "load_spec option \<Rightarrow> uuid list \<Rightarrow> unloaded" where
  "user_unloaded load tops =
     (case load of
        None \<Rightarrow> all_loaded\<lparr>un_user := (\<lambda>_. user_lazy_relations)\<rparr>
      | Some l \<Rightarrow> all_loaded
          \<lparr>un_user := (\<lambda>j. if j \<in> set tops
             then load_requested_scalar_attributes UserModel load user_load_attribute_map @ user_relations_unloaded l
             else load_only UserModel user_scalar_columns @ user_lazy_relations),
           un_group := (\<lambda>_. load_only GroupModel group_scalar_columns @
             filter (\<lambda>r. r \<noteq> ''roles'') group_lazy_relations)\<rparr>)"

text \<open>\<open>_modify_query\<close>.\<close>

definition user_modify_unloaded :: "uuid \<Rightarrow> bool \<times> bool \<times> bool \<Rightarrow> unloaded" where
  "user_modify_unloaded i flags =
     (case flags of (modifies_memberships, modifies_guardians, modifies_wards) \<Rightarrow>
      all_loaded
        \<lparr>un_user := (\<lambda>j. if j = i
           then (if modifies_memberships then [] else [''school_memberships'']) @
                (if modifies_guardians then [] else [''legal_guardians'']) @
                (if modifies_wards then [] else [''legal_wards''])
           else user_lazy_relations),
         un_group := (\<lambda>_. group_lazy_relations)\<rparr>)"

section \<open>Which patches are allowed\<close>

definition classify_patch_operation :: "string list \<Rightarrow> err + string option" where
  "classify_patch_operation parts =
     (let t = hd parts; depth = length parts;
          refused = Inl (UnsupportedOperation (''Modifying '' @ repr_string t @ '' via patch is not supported.''))
      in if t = ''school_memberships'' then
           (if depth \<le> 2 then Inr (Some t)
            else if depth = 3 \<and> parts ! 2 = ''is_primary'' then Inr (Some t)
            else if depth \<le> 4 \<and> parts ! 2 \<in> {''groups'', ''roles''} then Inr (Some t)
            else refused)
         else if t \<in> {''legal_guardians'', ''legal_wards''} then
           (if depth \<le> 2 then Inr (Some t) else refused)
         else Inr None)"

text \<open>The flags for memberships, guardians and wards.\<close>

definition check_modify_operations :: "operation list \<Rightarrow> err + bool \<times> bool \<times> bool" where
  "check_modify_operations operations =
     res_bind (res_map (\<lambda>op. classify_patch_operation (op_parts op)) operations) (\<lambda>keys.
       Inr (Some ''school_memberships'' \<in> set keys, Some ''legal_guardians'' \<in> set keys,
            Some ''legal_wards'' \<in> set keys))"

section \<open>Membership changes\<close>

text \<open>\<open>cast(PatchDict, ...)\<close> read at its type, and \<open>d.get(k, default)\<close>.\<close>

fun as_dict :: "json \<Rightarrow> err + pdict" where
  "as_dict (JObj d) = Inr d"
| "as_dict _ = Inl (TypeError ''dict expected'')"

fun as_bool :: "json \<Rightarrow> err + bool" where
  "as_bool (JBool b) = Inr b"
| "as_bool _ = Inl (TypeError ''bool expected'')"

definition dict_get :: "pdict \<Rightarrow> string \<Rightarrow> json \<Rightarrow> json" where
  "dict_get d k dflt = (case map_of d k of None \<Rightarrow> dflt | Some v \<Rightarrow> v)"

definition parse_key :: "string \<Rightarrow> err + uuid" where
  "parse_key s = of_opt (ValueError ''badly formed hexadecimal UUID string'') (uuid_parse s)"

definition update_membership :: "uuid \<Rightarrow> uuid \<Rightarrow> (membership_row \<Rightarrow> membership_row) \<Rightarrow> db \<Rightarrow> db" where
  "update_membership u s f d =
     d\<lparr>db_memberships := map (\<lambda>m. if mr_key m = (u, s) then f m else m) (db_memberships d)\<rparr>"

definition create_membership :: "uuid \<Rightarrow> uuid \<Rightarrow> pdict \<Rightarrow> db \<Rightarrow> err + db" where
  "create_membership u s patched_membership d =
     res_bind (fetch_one_by_public_id SchoolModel s ''School'' d) (\<lambda>_.
     res_bind (as_bool (dict_get patched_membership ''is_primary'' (JBool False))) (\<lambda>p.
       Inr (d\<lparr>db_memberships := db_memberships d @
              [\<lparr>mr_user = u, mr_school = s, mr_is_primary = p, mr_roles = [], mr_groups = []\<rparr>]\<rparr>)))"

definition sync_membership_links :: "uuid \<Rightarrow> uuid \<Rightarrow> pdict \<Rightarrow> pdict \<Rightarrow> db \<Rightarrow> err + db" where
  "sync_membership_links u s current_membership patched_membership d =
     res_bind (sync_collection (dict_get patched_membership ''groups'' (JList []))
       (dict_get current_membership ''groups'' (JList [])) GroupModel d) (\<lambda>r.
     res_bind (Inr (case r of None \<Rightarrow> d | Some ids \<Rightarrow> update_membership u s (\<lambda>m. m\<lparr>mr_groups := ids\<rparr>) d)) (\<lambda>d.
     res_bind (sync_collection (dict_get patched_membership ''roles'' (JList []))
       (dict_get current_membership ''roles'' (JList [])) RoleModel d) (\<lambda>r.
       Inr (case r of None \<Rightarrow> d | Some ids \<Rightarrow> update_membership u s (\<lambda>m. m\<lparr>mr_roles := ids\<rparr>) d))))"

text \<open>The loop that takes the primary flag from memberships the patch demotes; \<open>kept\<close> are the schools of
  the memberships that stay.\<close>

definition demote_step :: "uuid \<Rightarrow> uuid list \<Rightarrow> string \<times> json \<Rightarrow> db \<times> bool \<Rightarrow> err + db \<times> bool" where
  "demote_step u kept entry st =
     res_bind (parse_key (fst entry)) (\<lambda>s.
     res_bind (as_dict (snd entry)) (\<lambda>pm.
       (case (if s \<in> set kept then membership_of (fst st) u s else None) of
          None \<Rightarrow> Inr st
        | Some m \<Rightarrow>
            if \<not> mr_is_primary m then Inr st
            else res_bind (as_bool (dict_get pm ''is_primary'' (JBool True))) (\<lambda>p.
              Inr (if p then st
                   else (update_membership u s (\<lambda>m. m\<lparr>mr_is_primary := False\<rparr>) (fst st), True))))))"

text \<open>The loop that creates memberships, sets their flags and syncs their links.\<close>

definition membership_step :: "uuid \<Rightarrow> uuid list \<Rightarrow> pdict \<Rightarrow> string \<times> json \<Rightarrow> db \<Rightarrow> err + db" where
  "membership_step u kept current entry d =
     res_bind (parse_key (fst entry)) (\<lambda>s.
     res_bind (as_dict (snd entry)) (\<lambda>pm.
     res_bind (case (if s \<in> set kept then membership_of d u s else None) of
         None \<Rightarrow> create_membership u s pm d
       | Some m \<Rightarrow>
           res_bind (as_bool (dict_get pm ''is_primary'' (JBool (mr_is_primary m)))) (\<lambda>p.
             Inr (update_membership u s (\<lambda>m. m\<lparr>mr_is_primary := p\<rparr>) d))) (\<lambda>d.
     res_bind (as_dict (dict_get current (fst entry) (JObj []))) (\<lambda>cm.
       sync_membership_links u s cm pm d))))"

definition apply_membership_relation_changes :: "uuid \<Rightarrow> pdict \<Rightarrow> pdict \<Rightarrow> storage \<Rightarrow> err + storage" where
  "apply_membership_relation_changes u current patched st =
     (let by_school = map mr_school (user_memberships (st_db st) u) in
      res_bind (res_map parse_key (map fst current)) (\<lambda>current_ids.
      res_bind (res_map parse_key (map fst patched)) (\<lambda>patched_ids.
        (let removed = filter (\<lambda>s. s \<notin> set patched_ids) (remdups current_ids);
             kept = filter (\<lambda>s. s \<notin> set removed) by_school
         in if \<not> set removed \<subseteq> set by_school then Inl (KeyError ''memberships_by_school'')
            else
              res_bind (Inr ((st_db st)\<lparr>db_memberships :=
                filter (\<lambda>m. \<not> (mr_user m = u \<and> mr_school m \<in> set removed)) (db_memberships (st_db st))\<rparr>)) (\<lambda>d.
              res_bind (res_fold (demote_step u kept) patched (d, False)) (\<lambda>(d, demoted).
              res_bind (if removed \<noteq> [] \<or> demoted then flush (st\<lparr>st_db := d\<rparr>) else Inr (st\<lparr>st_db := d\<rparr>)) (\<lambda>st.
              res_bind (res_fold (membership_step u kept current) patched (st_db st)) (\<lambda>d.
                Inr (st\<lparr>st_db := d\<rparr>)))))))))"

section \<open>Applying a patch\<close>

definition update_user :: "uuid \<Rightarrow> (user_row \<Rightarrow> user_row) \<Rightarrow> db \<Rightarrow> db" where
  "update_user i f d = d\<lparr>db_users := update_by ur_public_id i f (db_users d)\<rparr>"

definition set_legal_guardians :: "uuid \<Rightarrow> uuid list \<Rightarrow> db \<Rightarrow> db" where
  "set_legal_guardians i ids d =
     d\<lparr>db_legal := filter (\<lambda>p. snd p \<noteq> i) (db_legal d) @ map (\<lambda>g. (g, i)) ids\<rparr>"

definition set_legal_wards :: "uuid \<Rightarrow> uuid list \<Rightarrow> db \<Rightarrow> db" where
  "set_legal_wards i ids d =
     d\<lparr>db_legal := filter (\<lambda>p. fst p \<noteq> i) (db_legal d) @ map (\<lambda>w. (i, w)) ids\<rparr>"

definition user_scalars_from_patch :: "pdict \<Rightarrow> user_row \<Rightarrow> err + user_row" where
  "user_scalars_from_patch patched row =
     res_bind (patched_str patched ''record_uid'') (\<lambda>ru.
     res_bind (patched_str patched ''source_uid'') (\<lambda>su.
     res_bind (patched_str patched ''name'') (\<lambda>nm.
     res_bind (patched_str patched ''firstname'') (\<lambda>fn.
     res_bind (patched_str patched ''lastname'') (\<lambda>ln.
     res_bind (patched_opt_str patched ''email'') (\<lambda>em.
     res_bind (patched_bool patched ''active'') (\<lambda>ac.
     res_bind (patched_date patched ''birthday'') (\<lambda>bd.
     res_bind (patched_date patched ''expiration_date'') (\<lambda>ex.
     res_bind (patched_dict patched ''udm_properties'') (\<lambda>ud.
       Inr (row\<lparr>ur_record_uid := ru, ur_source_uid := su, ur_name := nm, ur_firstname := fn, ur_lastname := ln,
         ur_email := em, ur_active := ac, ur_birthday := bd, ur_expiration_date := ex, ur_udm_properties := ud\<rparr>)))))))))))"

definition apply_user_patch :: "user_row \<Rightarrow> pdict \<Rightarrow> pdict \<Rightarrow> operation list \<Rightarrow> storage \<Rightarrow> err + storage" where
  "apply_user_patch row patched current operations st =
     (let i = ur_public_id row in
      res_bind (check_modify_operations operations) (\<lambda>(m_memberships, m_guardians, m_wards).
      res_bind (user_scalars_from_patch patched row) (\<lambda>row'.
      res_bind (Inr (st\<lparr>st_db := update_user i (\<lambda>_. row') (st_db st)\<rparr>)) (\<lambda>st.
      res_bind (if m_memberships then
          res_bind (as_dict (dict_get current ''school_memberships'' (JObj []))) (\<lambda>c.
          res_bind (as_dict (dict_get patched ''school_memberships'' (JObj []))) (\<lambda>p.
            apply_membership_relation_changes i c p st))
        else Inr st) (\<lambda>st.
      res_bind (if m_guardians then
          res_bind (sync_collection (dict_get patched ''legal_guardians'' (JList []))
            (dict_get current ''legal_guardians'' (JList [])) UserModel (st_db st)) (\<lambda>r.
            Inr (case r of None \<Rightarrow> st | Some ids \<Rightarrow> st\<lparr>st_db := set_legal_guardians i ids (st_db st)\<rparr>))
        else Inr st) (\<lambda>st.
      if m_wards then
          res_bind (sync_collection (dict_get patched ''legal_wards'' (JList []))
            (dict_get current ''legal_wards'' (JList [])) UserModel (st_db st)) (\<lambda>r.
            Inr (case r of None \<Rightarrow> st | Some ids \<Rightarrow> st\<lparr>st_db := set_legal_wards i ids (st_db st)\<rparr>))
        else Inr st))))))"

section \<open>SQLAlchemyUserManager\<close>

definition user_get :: "nat \<Rightarrow> load_spec option \<Rightarrow> uuid \<Rightarrow> storage \<Rightarrow> err + user" where
  "user_get depth load i st =
     (case user_of (st_db st) i of
        None \<Rightarrow> Inl (NotFound ''User'' (uuid_str i))
      | Some row \<Rightarrow> to_user depth (st_db st) (user_unloaded load [i]) row)"

definition user_search ::
  "nat \<Rightarrow> exec_select \<Rightarrow> search_query option \<Rightarrow> sort_spec list \<Rightarrow> int option \<Rightarrow> int \<Rightarrow> load_spec option \<Rightarrow>
   storage \<Rightarrow> err + user list" where
  "user_search depth exec query sort_by limit offset load st =
     res_bind (apply_search_query (select ''User'') query user_field_map (Some user_nested_registry)
       (Some user_json_field_map)) (\<lambda>s.
     res_bind (apply_sort s sort_by user_field_map ''public_id'' (Some user_nested_registry)) (\<lambda>s.
       (let ids = exec (paged limit offset s) (st_db st)
        in res_map (to_user depth (st_db st) (user_unloaded load ids)) (related (user_of (st_db st)) ids))))"

definition user_create :: "uuid \<Rightarrow> user \<Rightarrow> storage \<Rightarrow> err + storage" where
  "user_create fresh data st =
     res_bind (to_user_model fresh data) (\<lambda>row.
     res_bind (resolve_user_create_relations (ur_public_id row) data (st_db st)) (\<lambda>r.
       (let i = ur_public_id row;
            wards = (case uc_legal_wards r of None \<Rightarrow> [] | Some ws \<Rightarrow> map (\<lambda>w. (i, w)) ws);
            guardians = (case uc_legal_guardians r of None \<Rightarrow> [] | Some gs \<Rightarrow> map (\<lambda>g. (g, i)) gs)
        in flush (st\<lparr>st_db := (st_db st)
             \<lparr>db_users := db_users (st_db st) @ [row],
              db_memberships := db_memberships (st_db st) @ uc_memberships r,
              db_legal := db_legal (st_db st) @ wards @ guardians\<rparr>\<rparr>))))"

definition user_modify :: "nat \<Rightarrow> jp_apply \<Rightarrow> uuid \<Rightarrow> operation list \<Rightarrow> storage \<Rightarrow> err + storage" where
  "user_modify depth jp_apply i operations st =
     res_bind (check_modify_operations operations) (\<lambda>flags.
       (case user_of (st_db st) i of
          None \<Rightarrow> Inl (NotFound ''User'' (uuid_str i))
        | Some row \<Rightarrow>
            res_bind (to_user depth (st_db st) (user_modify_unloaded i flags) row) (\<lambda>user.
            res_bind (apply_patch jp_apply operations (user_to_json user)) (\<lambda>target.
            res_bind (res_bind (user_from_patch target (ur_public_id row)) UserValidator_validate) (\<lambda>_.
              apply_user_patch row target (user_to_json user) operations st)))))"

definition user_delete :: "uuid \<Rightarrow> storage \<Rightarrow> err + storage" where
  "user_delete i st =
     (if user_of (st_db st) i = None then Inl (NotFound ''User'' (uuid_str i))
      else Inr (st\<lparr>st_db := db_delete_user i (st_db st)\<rparr>))"

section \<open>Paths\<close>

text \<open>The paths a user patch may have, as patterns.\<close>

fun allowed_path :: "string list \<Rightarrow> bool" where
  "allowed_path [] = True"
| "allowed_path [t] = True"
| "allowed_path [t, x] = True"
| "allowed_path [t, x, y] \<longleftrightarrow>
     (t = ''school_memberships'' \<longrightarrow> y \<in> {''is_primary'', ''groups'', ''roles''}) \<and>
     t \<notin> {''legal_guardians'', ''legal_wards''}"
| "allowed_path [t, x, y, z] \<longleftrightarrow>
     (t = ''school_memberships'' \<longrightarrow> y \<in> {''groups'', ''roles''}) \<and> t \<notin> {''legal_guardians'', ''legal_wards''}"
| "allowed_path (t # x # y # z # w # r) \<longleftrightarrow>
     t \<notin> {''school_memberships'', ''legal_guardians'', ''legal_wards''}"

lemma op_parts_nonempty [simp]: "op_parts op \<noteq> []"
  by (simp add: op_parts_def)

lemma classify_cases:
  assumes "parts \<noteq> []"
  shows "classify_patch_operation parts =
    (if allowed_path parts
     then Inr (if hd parts \<in> {''school_memberships'', ''legal_guardians'', ''legal_wards''} then Some (hd parts) else None)
     else Inl (UnsupportedOperation (''Modifying '' @ repr_string (hd parts) @ '' via patch is not supported.'')))"
proof -
  consider t where "parts = [t]" | t x where "parts = [t, x]" | t x y where "parts = [t, x, y]"
    | t x y z where "parts = [t, x, y, z]" | t x y z w r where "parts = t # x # y # z # w # r"
    using assms by (metis list.exhaust)
  then show ?thesis by cases (auto simp: classify_patch_operation_def Let_def)
qed

section \<open>The primary flag of memberships\<close>

definition prim :: "db \<Rightarrow> uuid \<times> uuid \<Rightarrow> bool option" where
  "prim d k = map_option mr_is_primary (find_by mr_key k (db_memberships d))"

abbreviation keys :: "db \<Rightarrow> (uuid \<times> uuid) list" where
  "keys d \<equiv> map mr_key (db_memberships d)"

lemma prim_None: "prim d k = None \<longleftrightarrow> k \<notin> set (keys d)"
  by (simp add: prim_def find_by_None_iff)

lemma prim_Some:
  assumes "distinct (keys d)"
  shows "prim d k = Some b \<longleftrightarrow> (\<exists>m\<in>set (db_memberships d). mr_key m = k \<and> mr_is_primary m = b)"
proof
  assume "prim d k = Some b"
  then obtain m where m: "find_by mr_key k (db_memberships d) = Some m" "mr_is_primary m = b"
    by (auto simp: prim_def)
  from find_by_SomeD [OF m(1)] m(2) show "\<exists>m\<in>set (db_memberships d). mr_key m = k \<and> mr_is_primary m = b"
    by (intro bexI [of _ m]) auto
next
  assume "\<exists>m\<in>set (db_memberships d). mr_key m = k \<and> mr_is_primary m = b"
  then obtain m where m: "m \<in> set (db_memberships d)" "mr_key m = k" "mr_is_primary m = b" by blast
  from find_by_distinct [OF assms m(1)] m(2,3) show "prim d k = Some b" by (simp add: prim_def)
qed

text \<open>One primary membership per user, said with \<open>prim\<close>.\<close>

lemma distinct_given_iff:
  assumes "distinct (map key xs)"
  shows "distinct (given (map f xs)) \<longleftrightarrow>
    (\<forall>x\<in>set xs. \<forall>y\<in>set xs. \<forall>v. f x = Some v \<longrightarrow> f y = Some v \<longrightarrow> key x = key y)"
  using assms
proof (induction xs)
  case (Cons x xs)
  then have IH: "distinct (given (map f xs)) \<longleftrightarrow>
      (\<forall>x\<in>set xs. \<forall>y\<in>set xs. \<forall>v. f x = Some v \<longrightarrow> f y = Some v \<longrightarrow> key x = key y)"
    and x: "\<And>y. y \<in> set xs \<Longrightarrow> key y \<noteq> key x"
    by (auto simp: image_iff)
  show ?case
  proof (cases "f x")
    case None
    with IH show ?thesis by (simp add: given_def)
  next
    case (Some v)
    have "distinct (given (map f (x # xs))) \<longleftrightarrow> Some v \<notin> f ` set xs \<and> distinct (given (map f xs))"
      using Some set_given [of "map f xs"] by (simp add: given_def)
    also have "\<dots> \<longleftrightarrow> (\<forall>y\<in>set xs. f y \<noteq> Some v) \<and> distinct (given (map f xs))"
      by (simp add: image_iff eq_commute [of "Some v"])
    also have "\<dots> \<longleftrightarrow> (\<forall>a\<in>set (x # xs). \<forall>b\<in>set (x # xs). \<forall>v. f a = Some v \<longrightarrow> f b = Some v \<longrightarrow> key a = key b)"
      (is "?l \<longleftrightarrow> ?r")
    proof
      assume l: ?l
      show ?r
      proof (intro ballI allI impI)
        fix a b w
        assume "a \<in> set (x # xs)" "b \<in> set (x # xs)" "f a = Some w" "f b = Some w"
        with l Some show "key a = key b" unfolding IH by (auto 4 2)
      qed
    next
      assume r: ?r
      have "f y \<noteq> Some v" if "y \<in> set xs" for y
        using r [THEN bspec [of _ _ x], THEN bspec [of _ _ y]] that Some x [OF that] by simp
      moreover have "distinct (given (map f xs))" unfolding IH using r by (meson list.set_intros(2))
      ultimately show ?l by blast
    qed
    finally show ?thesis .
  qed
qed (simp add: given_def)

lemma primary_constraint_iff:
  assumes "distinct (keys d)"
  shows "distinct (given (map primary_user_constraint (db_memberships d))) \<longleftrightarrow>
    (\<forall>u s s'. prim d (u, s) = Some True \<longrightarrow> prim d (u, s') = Some True \<longrightarrow> s = s')"
    (is "_ \<longleftrightarrow> ?r")
proof -
  let ?ms = "set (db_memberships d)"
  have rows: "distinct (given (map primary_user_constraint (db_memberships d))) \<longleftrightarrow>
     (\<forall>x\<in>?ms. \<forall>y\<in>?ms. mr_is_primary x \<longrightarrow> mr_is_primary y \<longrightarrow> mr_user x = mr_user y \<longrightarrow> mr_school x = mr_school y)"
  proof -
    have puc: "primary_user_constraint m = Some v \<longleftrightarrow> mr_is_primary m \<and> mr_user m = v" for m v
      by (simp add: primary_user_constraint_def)
    have "distinct (given (map primary_user_constraint (db_memberships d))) \<longleftrightarrow>
      (\<forall>x\<in>?ms. \<forall>y\<in>?ms. mr_is_primary x \<longrightarrow> mr_is_primary y \<longrightarrow> mr_user x = mr_user y \<longrightarrow> mr_key x = mr_key y)"
      unfolding distinct_given_iff [OF assms] puc by blast
    also have "\<dots> \<longleftrightarrow> (\<forall>x\<in>?ms. \<forall>y\<in>?ms. mr_is_primary x \<longrightarrow> mr_is_primary y \<longrightarrow> mr_user x = mr_user y \<longrightarrow> mr_school x = mr_school y)"
      by (intro ball_cong refl) auto
    finally show ?thesis .
  qed
  have prim_row: "prim d (u, s) = Some True \<longleftrightarrow> (\<exists>m\<in>?ms. mr_user m = u \<and> mr_school m = s \<and> mr_is_primary m)" for u s
    unfolding prim_Some [OF assms] by auto
  show ?thesis unfolding rows prim_row by blast
qed

lemma update_membership_prim:
  assumes "\<And>m. mr_user (f m) = mr_user m" "\<And>m. mr_school (f m) = mr_school m"
  shows "keys (update_membership u s f d) = keys d"
    and "find_by mr_key k (db_memberships (update_membership u s f d)) =
      (if k = (u, s) then map_option f (find_by mr_key k (db_memberships d)) else find_by mr_key k (db_memberships d))"
proof -
  show "keys (update_membership u s f d) = keys d"
    using assms by (auto simp: update_membership_def)
  have "find_by mr_key k (map (\<lambda>m. if mr_key m = (u, s) then f m else m) ms) =
      (if k = (u, s) then map_option f (find_by mr_key k ms) else find_by mr_key k ms)" for ms
    using assms by (induction ms) auto
  then show "find_by mr_key k (db_memberships (update_membership u s f d)) =
      (if k = (u, s) then map_option f (find_by mr_key k (db_memberships d)) else find_by mr_key k (db_memberships d))"
    by (simp add: update_membership_def)
qed

lemma update_membership_links:
  "keys (update_membership u s (\<lambda>m. m\<lparr>mr_groups := x\<rparr>) d) = keys d"
  "keys (update_membership u s (\<lambda>m. m\<lparr>mr_roles := x\<rparr>) d) = keys d"
  "prim (update_membership u s (\<lambda>m. m\<lparr>mr_groups := x\<rparr>) d) = prim d"
  "prim (update_membership u s (\<lambda>m. m\<lparr>mr_roles := x\<rparr>) d) = prim d"
  by (simp_all add: update_membership_prim prim_def fun_eq_iff option.map_comp comp_def)

lemma update_membership_flag:
  "keys (update_membership u s (\<lambda>m. m\<lparr>mr_is_primary := b\<rparr>) d) = keys d"
  "prim (update_membership u s (\<lambda>m. m\<lparr>mr_is_primary := b\<rparr>) d) =
     (if (u, s) \<in> set (keys d) then (prim d)((u, s) := Some b) else prim d)"
proof -
  show "keys (update_membership u s (\<lambda>m. m\<lparr>mr_is_primary := b\<rparr>) d) = keys d"
    by (simp add: update_membership_prim)
  have "prim (update_membership u s (\<lambda>m. m\<lparr>mr_is_primary := b\<rparr>) d) k =
     (if (u, s) \<in> set (keys d) then (prim d)((u, s) := Some b) else prim d) k" for k
    using prim_None [of d k] by (cases "find_by mr_key k (db_memberships d)")
      (auto simp: prim_def update_membership_prim(2))
  then show "prim (update_membership u s (\<lambda>m. m\<lparr>mr_is_primary := b\<rparr>) d) =
     (if (u, s) \<in> set (keys d) then (prim d)((u, s) := Some b) else prim d)" by (simp add: fun_eq_iff)
qed

lemma sync_membership_links_prim:
  "sync_membership_links u s c p d = Inr e \<Longrightarrow> keys e = keys d \<and> prim e = prim d"
  unfolding sync_membership_links_def
  by (elim res_bindE) (auto simp: update_membership_links split: option.splits)

text \<open>An entry of the patched memberships that says whether it is primary.\<close>

definition entry_school :: "string \<times> json \<Rightarrow> uuid" where
  "entry_school e = the (uuid_parse (fst e))"

definition entry_primary :: "string \<times> json \<Rightarrow> bool" where
  "entry_primary e = (case snd e of JObj pm \<Rightarrow> map_of pm ''is_primary'' = Some (JBool True) | _ \<Rightarrow> False)"

definition explicit_entry :: "string \<times> json \<Rightarrow> bool" where
  "explicit_entry e \<longleftrightarrow> uuid_parse (fst e) \<noteq> None \<and>
     (\<exists>pm b. snd e = JObj pm \<and> map_of pm ''is_primary'' = Some (JBool b))"

lemma explicit_entryE:
  assumes "explicit_entry e"
  obtains pm where "parse_key (fst e) = Inr (entry_school e)" "as_dict (snd e) = Inr pm"
    "map_of pm ''is_primary'' = Some (JBool (entry_primary e))"
proof -
  from assms obtain s pm b where "uuid_parse (fst e) = Some s" "snd e = JObj pm"
    "map_of pm ''is_primary'' = Some (JBool b)" by (auto simp: explicit_entry_def)
  then show ?thesis using that by (cases b) (auto simp: parse_key_def entry_school_def entry_primary_def)
qed

lemma membership_of_key: "membership_of d u s = find_by mr_key (u, s) (db_memberships d)"
  by (simp add: membership_of_def)

lemma membership_step_effect:
  assumes "explicit_entry e" and "membership_step u kept c e d = Inr d'"
    and "(entry_school e \<in> set kept) = ((u, entry_school e) \<in> set (keys d))"
  shows "prim d' = (prim d)((u, entry_school e) := Some (entry_primary e)) \<and>
    keys d' = (if (u, entry_school e) \<in> set (keys d) then keys d else keys d @ [(u, entry_school e)])"
proof -
  let ?s = "entry_school e" and ?b = "entry_primary e"
  from explicit_entryE [OF assms(1)] obtain pm where pm: "parse_key (fst e) = Inr ?s" "as_dict (snd e) = Inr pm"
    "map_of pm ''is_primary'' = Some (JBool ?b)" by blast
  have flag: "dict_get pm ''is_primary'' x = JBool ?b" for x by (simp add: dict_get_def pm)
  show ?thesis
  proof (cases "(u, ?s) \<in> set (keys d)")
    case True
    then obtain m where "membership_of d u ?s = Some m"
      using prim_None [of d "(u, ?s)"] by (auto simp: prim_def membership_of_key)
    with assms(2,3) True pm obtain cm where
      "sync_membership_links u ?s cm pm (update_membership u ?s (\<lambda>m. m\<lparr>mr_is_primary := ?b\<rparr>) d) = Inr d'"
      by (auto simp: membership_step_def flag res_bind_eq_Inr)
    from sync_membership_links_prim [OF this] True show ?thesis by (auto simp: update_membership_flag)
  next
    case False
    let ?d = "d\<lparr>db_memberships := db_memberships d @
              [\<lparr>mr_user = u, mr_school = ?s, mr_is_primary = ?b, mr_roles = [], mr_groups = []\<rparr>]\<rparr>"
    from assms(2,3) False pm obtain cm where "sync_membership_links u ?s cm pm ?d = Inr d'"
      by (auto simp: membership_step_def create_membership_def flag res_bind_eq_Inr)
    note sync_membership_links_prim [OF this]
    moreover have "prim ?d k = ((prim d)((u, ?s) := Some ?b)) k" for k
      using False prim_None [of d k] by (auto simp: prim_def find_by_append split: option.splits)
    ultimately show ?thesis using False by (auto simp: fun_eq_iff)
  qed
qed

lemma demote_step_effect:
  assumes "explicit_entry e" and "demote_step u kept e (d, b) = Inr (d', b')"
  shows "keys d' = keys d \<and> (entry_primary e \<longrightarrow> prim d' = prim d) \<and>
    (\<forall>k. k \<noteq> (u, entry_school e) \<longrightarrow> prim d' k = prim d k) \<and>
    (\<not> entry_primary e \<and> entry_school e \<in> set kept \<longrightarrow> prim d' (u, entry_school e) \<noteq> Some True) \<and>
    (\<forall>k. prim d' k = Some True \<longrightarrow> prim d k = Some True)"
proof -
  let ?s = "entry_school e" and ?b = "entry_primary e"
  from explicit_entryE [OF assms(1)] obtain pm where pm: "parse_key (fst e) = Inr ?s" "as_dict (snd e) = Inr pm"
    "map_of pm ''is_primary'' = Some (JBool ?b)" by blast
  have flag: "dict_get pm ''is_primary'' x = JBool ?b" for x by (simp add: dict_get_def pm)
  consider "d' = d" "\<not> (?s \<in> set kept \<and> prim d (u, ?s) = Some True \<and> \<not> ?b)"
    | "d' = update_membership u ?s (\<lambda>m. m\<lparr>mr_is_primary := False\<rparr>) d" "(u, ?s) \<in> set (keys d)" "\<not> ?b"
    using assms(2) prim_None [of d "(u, ?s)"]
    by (cases "?s \<in> set kept"; cases "membership_of d u ?s")
       (auto simp: demote_step_def pm flag prim_def membership_of_key split: if_splits)
  then show ?thesis
  proof cases
    case 1
    then show ?thesis by auto
  next
    case 2
    then show ?thesis by (auto simp: update_membership_flag split: if_splits)
  qed
qed

section \<open>The two loops\<close>

lemma demote_loop:
  assumes "res_fold (demote_step u kept) es (d, b) = Inr (d', b')" and "list_all explicit_entry es"
  shows "keys d' = keys d \<and> (\<forall>k. fst k \<noteq> u \<longrightarrow> prim d' k = prim d k) \<and>
    (\<forall>k. prim d' k = Some True \<longrightarrow> prim d k = Some True) \<and>
    (\<forall>e\<in>set es. \<not> entry_primary e \<longrightarrow> entry_school e \<in> set kept \<longrightarrow> prim d' (u, entry_school e) \<noteq> Some True)"
  using assms
proof (induction es arbitrary: d b)
  case (Cons e es)
  from Cons.prems(1) obtain d1 b1 where s: "demote_step u kept e (d, b) = Inr (d1, b1)"
    and r: "res_fold (demote_step u kept) es (d1, b1) = Inr (d', b')"
    by (auto simp: res_bind_eq_Inr)
  have e: "explicit_entry e" and es: "list_all explicit_entry es" using Cons.prems(2) by simp_all
  note step = demote_step_effect [OF e s] and rest = Cons.IH [OF r es]
  have "prim d1 k = prim d k" if "fst k \<noteq> u" for k using step that by (cases k) auto
  moreover have "prim d' (u, entry_school e) \<noteq> Some True" if "\<not> entry_primary e" "entry_school e \<in> set kept"
    using step rest that by blast
  ultimately show ?case using step rest by auto
qed simp

lemma membership_loop:
  assumes "res_fold (membership_step u kept c) es d = Inr d'" "list_all explicit_entry es"
    and "distinct (map entry_school es)"
    and "\<forall>e\<in>set es. (entry_school e \<in> set kept) = ((u, entry_school e) \<in> set (keys d))"
    and "distinct (keys d)"
  shows "distinct (keys d') \<and> prim d' k =
    (case map_of (map (\<lambda>e. ((u, entry_school e), entry_primary e)) es) k of None \<Rightarrow> prim d k | Some b \<Rightarrow> Some b)"
  using assms
proof (induction es arbitrary: d)
  case (Cons e es)
  from Cons.prems(1) obtain d1 where s: "membership_step u kept c e d = Inr d1"
    and r: "res_fold (membership_step u kept c) es d1 = Inr d'"
    by (auto simp: res_bind_eq_Inr)
  have e: "explicit_entry e" and es: "list_all explicit_entry es"
    and known: "(entry_school e \<in> set kept) = ((u, entry_school e) \<in> set (keys d))"
    using Cons.prems(2,4) by simp_all
  note step = membership_step_effect [OF e s known]
  have other: "entry_school f \<noteq> entry_school e" if "f \<in> set es" for f
    using Cons.prems(3) that by (auto simp: image_iff)
  have inv: "\<forall>f\<in>set es. (entry_school f \<in> set kept) = ((u, entry_school f) \<in> set (keys d1))"
  proof
    fix f assume f: "f \<in> set es"
    have "((u, entry_school f) \<in> set (keys d1)) = ((u, entry_school f) \<in> set (keys d))"
      using step other [OF f] by auto
    then show "(entry_school f \<in> set kept) = ((u, entry_school f) \<in> set (keys d1))" using Cons.prems(4) f by simp
  qed
  have dist: "distinct (keys d1)" using step Cons.prems(5) by auto
  have "distinct (map entry_school es)" using Cons.prems(3) by simp
  note rest = Cons.IH [OF r es this inv dist]
  show ?case
  proof (cases "k = (u, entry_school e)")
    case True
    have "k \<notin> fst ` set (map (\<lambda>e. ((u, entry_school e), entry_primary e)) es)"
    proof
      assume "k \<in> fst ` set (map (\<lambda>e. ((u, entry_school e), entry_primary e)) es)"
      then obtain f where "f \<in> set es" "k = (u, entry_school f)" by (auto simp del: split_paired_All)
      with other [of f] True show False by simp
    qed
    then have "map_of (map (\<lambda>e. ((u, entry_school e), entry_primary e)) es) k = None"
      by (simp only: map_of_eq_None_iff not_False_eq_True)
    with rest step True show ?thesis by simp
  next
    case False
    with rest step show ?thesis by (auto split: option.splits)
  qed
qed simp

lemma flush_memberships: "flush st = Inr st' \<Longrightarrow> db_memberships (st_db st') = db_memberships (st_db st)"
proof -
  have "db_memberships (fold insert_pending ps d) = db_memberships d" for ps d
    by (induction ps arbitrary: d) (simp_all add: insert_pending_def split: prod.split)
  then show "flush st = Inr st' \<Longrightarrow> ?thesis" by (auto simp: flush_def Let_def split: if_splits)
qed

lemma prim_memberships: "db_memberships d = db_memberships e \<Longrightarrow> prim d = prim e"
  by (simp add: prim_def fun_eq_iff)

lemma prim_filter:
  "prim (d\<lparr>db_memberships := filter (\<lambda>m. P (mr_key m)) (db_memberships d)\<rparr>) k = (if P k then prim d k else None)"
proof -
  have "find_by mr_key k (filter (\<lambda>m. P (mr_key m)) ms) = (if P k then find_by mr_key k ms else None)" for ms
    by (induction ms) auto
  then show ?thesis by (simp add: prim_def)
qed

lemma entry_keys:
  "list_all explicit_entry es \<Longrightarrow> res_map parse_key (map fst es) = Inr ids \<Longrightarrow> ids = map entry_school es"
proof (induction es arbitrary: ids)
  case (Cons e es)
  from Cons.prems(1) have e: "explicit_entry e" "list_all explicit_entry es" by simp_all
  from explicit_entryE [OF e(1)] have "parse_key (fst e) = Inr (entry_school e)" by blast
  with Cons.prems(2) Cons.IH [OF e(2)] show ?case by (auto simp: res_bind_eq_Inr)
qed simp

text \<open>What a change of the memberships does, step by step: \<open>rs\<close> are the removed schools.\<close>

abbreviation without_schools :: "uuid \<Rightarrow> uuid list \<Rightarrow> db \<Rightarrow> db" where
  "without_schools u rs d \<equiv>
     d\<lparr>db_memberships := filter (\<lambda>m. \<not> (mr_user m = u \<and> mr_school m \<in> set rs)) (db_memberships d)\<rparr>"

lemma membership_change_steps:
  assumes "apply_membership_relation_changes u current patched st = Inr st'"
  obtains ids pids rs kept d1 b st1 d2 where
    "res_map parse_key (map fst current) = Inr ids" "res_map parse_key (map fst patched) = Inr pids"
    "rs = filter (\<lambda>s. s \<notin> set pids) (remdups ids)"
    "kept = filter (\<lambda>s. s \<notin> set rs) (map mr_school (user_memberships (st_db st) u))"
    "res_fold (demote_step u kept) patched (without_schools u rs (st_db st), False) = Inr (d1, b)"
    "(if rs \<noteq> [] \<or> b then flush (st\<lparr>st_db := d1\<rparr>) else Inr (st\<lparr>st_db := d1\<rparr>)) = Inr st1"
    "res_fold (membership_step u kept current) patched (st_db st1) = Inr d2" "st' = st1\<lparr>st_db := d2\<rparr>"
proof -
  let ?old = "map mr_school (user_memberships (st_db st) u)"
  from assms obtain ids pids where ids: "res_map parse_key (map fst current) = Inr ids"
    "res_map parse_key (map fst patched) = Inr pids"
    by (auto simp: apply_membership_relation_changes_def res_bind_eq_Inr)
  define rs where "rs = filter (\<lambda>s. s \<notin> set pids) (remdups ids)"
  define kept where "kept = filter (\<lambda>s. s \<notin> set rs) ?old"
  have run: "(if \<not> set rs \<subseteq> set ?old then Inl (KeyError ''memberships_by_school'') else
      res_bind (res_fold (demote_step u kept) patched (without_schools u rs (st_db st), False)) (\<lambda>(d, b).
      res_bind (if rs \<noteq> [] \<or> b then flush (st\<lparr>st_db := d\<rparr>) else Inr (st\<lparr>st_db := d\<rparr>)) (\<lambda>st.
      res_bind (res_fold (membership_step u kept current) patched (st_db st)) (\<lambda>d. Inr (st\<lparr>st_db := d\<rparr>))))) = Inr st'"
    using assms unfolding apply_membership_relation_changes_def Let_def ids res_bind_Inr
      rs_def [symmetric] kept_def [symmetric] .
  then have "set rs \<subseteq> set ?old" by (auto split: if_splits)
  with run have "res_bind (res_fold (demote_step u kept) patched (without_schools u rs (st_db st), False)) (\<lambda>(d, b).
      res_bind (if rs \<noteq> [] \<or> b then flush (st\<lparr>st_db := d\<rparr>) else Inr (st\<lparr>st_db := d\<rparr>)) (\<lambda>st.
      res_bind (res_fold (membership_step u kept current) patched (st_db st)) (\<lambda>d. Inr (st\<lparr>st_db := d\<rparr>)))) = Inr st'"
    by (simp only: simp_thms if_False)
  then show ?thesis
    by (elim res_bindE) (simp only: prod.case split_paired_all, elim res_bindE, rule that [OF ids rs_def kept_def], assumption, assumption, assumption, simp)
qed

lemma membership_changes:
  assumes "apply_membership_relation_changes u current patched st = Inr st'"
    and dist: "distinct (keys (st_db st))"
    and explicit: "list_all explicit_entry patched" "distinct (map entry_school patched)"
    and current: "res_map parse_key (map fst current) = Inr ids"
      "set ids = set (map mr_school (user_memberships (st_db st) u))"
  shows "distinct (keys (st_db st')) \<and> prim (st_db st') k =
    (if fst k = u then map_of (map (\<lambda>e. (entry_school e, entry_primary e)) patched) (snd k) else prim (st_db st) k)"
  using assms(1)
proof (rule membership_change_steps)
  fix ids' pids removed kept d1 b st1 d2
  let ?old = "map mr_school (user_memberships (st_db st) u)"
  let ?new = "map entry_school patched"
  let ?d0 = "without_schools u removed (st_db st)"
  assume "res_map parse_key (map fst current) = Inr ids'" and pids: "res_map parse_key (map fst patched) = Inr pids"
    and removed: "removed = filter (\<lambda>s. s \<notin> set pids) (remdups ids')"
    and kept_def: "kept = filter (\<lambda>s. s \<notin> set removed) ?old"
    and demote: "res_fold (demote_step u kept) patched (?d0, False) = Inr (d1, b)"
    and st1: "(if removed \<noteq> [] \<or> b then flush (st\<lparr>st_db := d1\<rparr>) else Inr (st\<lparr>st_db := d1\<rparr>)) = Inr st1"
    and steps: "res_fold (membership_step u kept current) patched (st_db st1) = Inr d2"
    and st': "st' = st1\<lparr>st_db := d2\<rparr>"
  then have removed_def: "removed = filter (\<lambda>s. s \<notin> set ?new) (remdups ids)"
    using entry_keys [OF explicit(1) pids] current(1) by simp
  have kept_iff: "s \<in> set kept \<longleftrightarrow> s \<in> set ?old \<and> s \<in> set ?new" for s
    using current(2) by (auto simp: kept_def removed_def)
  have key_old: "(u, s) \<in> set (keys (st_db st)) \<longleftrightarrow> s \<in> set ?old" for s
    by (auto simp: user_memberships_def)
  have d0: "prim ?d0 k = (if fst k = u \<and> snd k \<in> set removed then None else prim (st_db st) k)" for k
    using prim_filter [of "\<lambda>k. \<not> (fst k = u \<and> snd k \<in> set removed)" "st_db st" k] by simp
  note demoted = demote_loop [OF demote explicit(1)]
  have m1: "db_memberships (st_db st1) = db_memberships d1"
    using st1 flush_memberships [of "st\<lparr>st_db := d1\<rparr>" st1] by (auto split: if_splits)
  then have keys1: "keys (st_db st1) = keys ?d0" using demoted by simp
  have k0: "(u, s) \<in> set (keys ?d0) \<longleftrightarrow> s \<in> set kept" for s
    using key_old [of s] by (auto simp: kept_def)
  have "distinct (keys ?d0)" using dist by (simp add: distinct_map_filter)
  then have "distinct (keys (st_db st1))" using keys1 by simp
  from membership_loop [OF steps explicit _ this] keys1 k0
  have loop: "distinct (keys d2)" "\<And>k. prim d2 k = (case map_of (map (\<lambda>e. ((u, entry_school e), entry_primary e)) patched) k of
      None \<Rightarrow> prim (st_db st1) k | Some b \<Rightarrow> Some b)" by auto
  have map_key: "map_of (map (\<lambda>e. ((u, entry_school e), entry_primary e)) es) (u', s) =
      (if u' = u then map_of (map (\<lambda>e. (entry_school e, entry_primary e)) es) s else None)" for es u' s
    by (induction es) auto
  have p1: "prim (st_db st1) = prim d1" by (rule prim_memberships [OF m1])
  show ?thesis
  proof (cases k)
    case (Pair u' s)
    have "prim (st_db st1) (u, s) = None" if "s \<notin> set ?new"
      using that prim_None [of "st_db st1" "(u, s)"] k0 [of s] kept_iff [of s] unfolding keys1 by blast
    moreover have "map_of (map (\<lambda>e. (entry_school e, entry_primary e)) patched) s = None \<longleftrightarrow> s \<notin> set ?new"
      by (simp add: map_of_eq_None_iff image_image)
    moreover have "prim (st_db st1) (u', s) = prim (st_db st) (u', s)" if "u' \<noteq> u"
      using that demoted d0 [of "(u', s)"] by (simp add: p1)
    ultimately show ?thesis using loop by (auto simp: st' Pair map_key split: option.splits)
  qed
qed

end
