(* ===== verification/User_Port.thy ===== *)
theory User_Port
  imports User_Manager
begin

text \<open>
  The user manager meets the port, and what its membership patches do: the interpretation of
  \<open>modifying_manager\<close> and the properties of the membership changes.
\<close>

section \<open>The user table\<close>

lemma user_of_iff: "(\<exists>r. user_of d i = Some r) \<longleftrightarrow> i \<in> ur_public_id ` set (db_users d)"
  using find_by_None_iff [of ur_public_id i "db_users d"] by (auto simp: user_of_def)

lemma user_of_id: "user_of d i = Some r \<Longrightarrow> ur_public_id r = i"
  unfolding user_of_def by (drule find_by_SomeD) simp

text \<open>Without a load specification the relations stay unloaded, so nothing can fail.\<close>

lemma user_get_plain:
  assumes "user_of (st_db st) i = Some row"
  shows "\<exists>x. user_get n None i st = Inr x \<and> u_public_id x = Present i"
  using assms user_of_id [OF assms]
  by (simp add: user_get_def to_user_def user_unloaded_def user_lazy_relations_def Let_def)

lemma user_get_iff: "(\<exists>x. user_get n None i st = Inr x) \<longleftrightarrow> i \<in> ur_public_id ` set (db_users (st_db st))"
  using user_get_plain [of st i _ n] user_of_iff [of "st_db st" i]
  by (cases "user_of (st_db st) i") (auto simp: user_get_def)

lemma user_get_error: "user_get n None i st = Inl e \<Longrightarrow> user_of (st_db st) i = None \<and> e = NotFound ''User'' (uuid_str i)"
  using user_get_plain [of st i _ n] by (cases "user_of (st_db st) i") (auto simp: user_get_def)

lemma user_model_id: "to_user_model fresh x = Inr row \<Longrightarrow> ur_public_id row = row_id (u_public_id x) fresh"
  by (auto simp: to_user_model_def res_bind_eq_Inr)

lemma user_create_ok:
  assumes "settled st" "user_create fresh x st = Inr st'"
  shows "settled st'" and "map ur_public_id (db_users (st_db st')) =
    map ur_public_id (db_users (st_db st)) @ [row_id (u_public_id x) fresh]"
proof -
  from assms(2) obtain row l m where row: "to_user_model fresh x = Inr row"
    and f: "flush (st\<lparr>st_db := (st_db st)\<lparr>db_users := db_users (st_db st) @ [row], db_memberships := m,
      db_legal := l\<rparr>\<rparr>) = Inr st'"
    unfolding user_create_def Let_def by (elim res_bindE) blast
  have "st_pending st = []" using assms(1) by (simp add: settled_def)
  then have s: "settled st' \<and> st' = st\<lparr>st_db := (st_db st)\<lparr>db_users := db_users (st_db st) @ [row],
      db_memberships := m, db_legal := l\<rparr>\<rparr>"
    using f flush_settled by fastforce
  then show "settled st'" ..
  show "map ur_public_id (db_users (st_db st')) =
    map ur_public_id (db_users (st_db st)) @ [row_id (u_public_id x) fresh]"
    using s user_model_id [OF row] by simp
qed

section \<open>A patch keeps the users\<close>

named_theorems user_ids \<open>steps that keep the ids of the users\<close>

lemma users_update_membership [user_ids]: "db_users (update_membership u s f d) = db_users d"
  by (simp add: update_membership_def)

lemma users_links [user_ids]: "sync_membership_links u s c p d = Inr e \<Longrightarrow> db_users e = db_users d"
  unfolding sync_membership_links_def
  by (elim res_bindE) (auto simp: user_ids split: option.splits)

lemma users_demote [user_ids]: "demote_step u kept e (d, b) = Inr (d', b') \<Longrightarrow> db_users d' = db_users d"
  by (auto simp: demote_step_def res_bind_eq_Inr user_ids split: option.splits if_splits)

lemma users_membership_step [user_ids]:
  assumes "membership_step u kept c e d = Inr d'"
  shows "db_users d' = db_users d"
proof -
  from assms obtain s pm cm d1 where
    made: "(case if s \<in> set kept then membership_of d u s else None of
         None \<Rightarrow> create_membership u s pm d
       | Some m \<Rightarrow> res_bind (as_bool (dict_get pm ''is_primary'' (JBool (mr_is_primary m)))) (\<lambda>p.
             Inr (update_membership u s (\<lambda>m. m\<lparr>mr_is_primary := p\<rparr>) d))) = Inr d1"
    and links: "sync_membership_links u s cm pm d1 = Inr d'"
    unfolding membership_step_def by (elim res_bindE) blast
  from made have "db_users d1 = db_users d"
    by (auto simp: create_membership_def res_bind_eq_Inr user_ids split: option.splits)
  with users_links [OF links] show ?thesis by simp
qed

lemma users_flush [user_ids]: "flush st = Inr st' \<Longrightarrow> db_users (st_db st') = db_users (st_db st)"
proof -
  have "db_users (fold insert_pending ps d) = db_users d" for ps d
    by (induction ps arbitrary: d) (simp_all add: insert_pending_def split: prod.split)
  then show "flush st = Inr st' \<Longrightarrow> ?thesis" by (auto simp: flush_def Let_def split: if_splits)
qed

lemma users_demote_loop:
  "res_fold (demote_step u kept) es (d, b) = Inr (d', b') \<Longrightarrow> db_users d' = db_users d"
  by (induction es arbitrary: d b) (auto simp: res_bind_eq_Inr dest: users_demote)

lemma users_membership_loop:
  "res_fold (membership_step u kept c) es d = Inr d' \<Longrightarrow> db_users d' = db_users d"
  by (induction es arbitrary: d) (auto simp: res_bind_eq_Inr dest: users_membership_step)

lemma users_membership_changes:
  assumes "apply_membership_relation_changes u current patched st = Inr st'"
  shows "db_users (st_db st') = db_users (st_db st)"
  using assms
proof (rule membership_change_steps)
  fix rs kept d1 b st1 d2
  assume 1: "res_fold (demote_step u kept) patched (without_schools u rs (st_db st), False) = Inr (d1, b)"
    and f: "(if rs \<noteq> [] \<or> b then flush (st\<lparr>st_db := d1\<rparr>) else Inr (st\<lparr>st_db := d1\<rparr>)) = Inr st1"
    and 2: "res_fold (membership_step u kept current) patched (st_db st1) = Inr d2" "st' = st1\<lparr>st_db := d2\<rparr>"
  have "db_users (st_db st1) = db_users d1"
    using f users_flush [of "st\<lparr>st_db := d1\<rparr>" st1] by (auto split: if_splits)
  with users_demote_loop [OF 1] users_membership_loop [OF 2(1)] 2(2) show ?thesis by simp
qed

lemma user_scalars_id: "user_scalars_from_patch p row = Inr row' \<Longrightarrow> ur_public_id row' = ur_public_id row"
  unfolding user_scalars_from_patch_def by (elim res_bindE) auto

lemma apply_user_patch_ids:
  assumes "apply_user_patch row p c ops st = Inr st'"
  shows "map ur_public_id (db_users (st_db st')) = map ur_public_id (db_users (st_db st))"
proof -
  let ?i = "ur_public_id row"
  let ?st0 = "\<lambda>row'. st\<lparr>st_db := update_user ?i (\<lambda>_. row') (st_db st)\<rparr>"
  from assms obtain row' ms gs ws st1 st2 where row': "user_scalars_from_patch p row = Inr row'"
    and 1: "(if ms then
          res_bind (as_dict (dict_get c ''school_memberships'' (JObj []))) (\<lambda>c.
          res_bind (as_dict (dict_get p ''school_memberships'' (JObj []))) (\<lambda>p.
            apply_membership_relation_changes ?i c p (?st0 row')))
        else Inr (?st0 row')) = Inr st1"
    and 2: "(if gs then
          res_bind (sync_collection (dict_get p ''legal_guardians'' (JList []))
            (dict_get c ''legal_guardians'' (JList [])) UserModel (st_db st1)) (\<lambda>r.
            Inr (case r of None \<Rightarrow> st1 | Some ids \<Rightarrow> st1\<lparr>st_db := set_legal_guardians ?i ids (st_db st1)\<rparr>))
        else Inr st1) = Inr st2"
    and 3: "(if ws then
          res_bind (sync_collection (dict_get p ''legal_wards'' (JList []))
            (dict_get c ''legal_wards'' (JList [])) UserModel (st_db st2)) (\<lambda>r.
            Inr (case r of None \<Rightarrow> st2 | Some ids \<Rightarrow> st2\<lparr>st_db := set_legal_wards ?i ids (st_db st2)\<rparr>))
        else Inr st2) = Inr st'"
    unfolding apply_user_patch_def Let_def
    by (elim res_bindE) (simp only: split_paired_all prod.case, elim res_bindE, simp only: sum.inject)
  from 1 have 1: "st1 = ?st0 row' \<or> (\<exists>c p. apply_membership_relation_changes ?i c p (?st0 row') = Inr st1)"
    by (auto simp: res_bind_eq_Inr split: if_splits)
  from 2 have 2: "st2 = st1 \<or> (\<exists>ids. st2 = st1\<lparr>st_db := set_legal_guardians ?i ids (st_db st1)\<rparr>)"
    by (auto simp: res_bind_eq_Inr split: if_splits option.splits)
  from 3 have 3: "st' = st2 \<or> (\<exists>ids. st' = st2\<lparr>st_db := set_legal_wards ?i ids (st_db st2)\<rparr>)"
    by (auto simp: res_bind_eq_Inr split: if_splits option.splits)
  have "map ur_public_id (db_users (update_user ?i (\<lambda>_. row') (st_db st))) = map ur_public_id (db_users (st_db st))"
    using user_scalars_id [OF row'] by (auto simp: update_user_def update_by_def)
  then have "map ur_public_id (db_users (st_db st1)) = map ur_public_id (db_users (st_db st))"
    using 1 users_membership_changes by fastforce
  with 2 3 show ?thesis by (auto simp: set_legal_guardians_def set_legal_wards_def)
qed

lemma user_modify_ids:
  assumes "user_modify n jp i ops st = Inr st'"
  shows "map ur_public_id (db_users (st_db st')) = map ur_public_id (db_users (st_db st))"
proof -
  from assms obtain row p c where "apply_user_patch row p c ops st = Inr st'"
    by (auto simp: user_modify_def res_bind_eq_Inr split: option.splits)
  then show ?thesis by (rule apply_user_patch_ids)
qed

interpretation sql_users: modifying_manager settled "''User''" u_public_id "user_get n None"
  "user_create fresh" user_delete "user_modify m jp" "\<lambda>st. map ur_public_id (db_users (st_db st))"
  "\<lambda>ops. \<exists>flags. check_modify_operations ops = Inr flags"
  for n fresh m jp
proof
  fix s i x y s' e j ops
  assume s: "settled s"
  note get = user_get_iff [of n _ s]
  show "user_get n None i s = Inr x \<Longrightarrow> u_public_id x = Present i"
    using user_get_plain [of s i _ n] by (cases "user_of (st_db s) i") (auto simp: user_get_def)
  show "user_get n None i s = Inl e \<Longrightarrow> e = NotFound ''User'' (uuid_str i)"
    using user_get_error by blast
  show "user_create fresh x s = Inr s' \<Longrightarrow> settled s'" by (rule user_create_ok [OF s])
  show "(\<exists>y. user_get n None j s' = Inr y) \<longleftrightarrow> j = i \<or> (\<exists>y. user_get n None j s = Inr y)"
    if c: "user_create fresh x s = Inr s'" and i: "u_public_id x = Present i"
  proof -
    have "ur_public_id ` set (db_users (st_db s')) = set (map ur_public_id (db_users (st_db s')))" by simp
    also have "\<dots> = insert i (ur_public_id ` set (db_users (st_db s)))"
      unfolding user_create_ok(2) [OF s c] using i by (simp add: row_id_def)
    finally show ?thesis by (simp add: user_get_iff)
  qed
  show "\<exists>e. user_create fresh x s = Inl e" if y: "user_get n None i s = Inr y" and i: "u_public_id x = Present i"
  proof (cases "user_create fresh x s")
    case (Inr s'')
    have "distinct (map ur_public_id (db_users (st_db s'')))"
      using user_create_ok(1) [OF s Inr] by (simp add: settled_def db_ok_def users_ok_def)
    then have "i \<notin> set (map ur_public_id (db_users (st_db s)))"
      unfolding user_create_ok(2) [OF s Inr] using i by (simp add: row_id_def)
    then show ?thesis using y get by auto
  qed simp
  show "user_delete i s = Inr s' \<Longrightarrow> settled s'"
    using s db_delete_user_ok by (auto simp: user_delete_def settled_def split: if_splits)
  show "(\<exists>y. user_get n None j s' = Inr y) \<longleftrightarrow> j \<noteq> i \<and> (\<exists>y. user_get n None j s = Inr y)"
    if d: "user_delete i s = Inr s'"
  proof -
    have "s' = s\<lparr>st_db := db_delete_user i (st_db s)\<rparr>" using d by (auto simp: user_delete_def split: if_splits)
    then show ?thesis by (auto simp: user_get_iff db_delete_user_def)
  qed
  show "user_get n None i s = Inl e \<Longrightarrow> user_delete i s = Inl e"
    using user_get_error [of n i s e] by (simp add: user_delete_def)
  show "(\<exists>y. user_get n None i s = Inr y) \<longleftrightarrow> i \<in> set (map ur_public_id (db_users (st_db s)))"
    by (simp add: get)
  show "\<exists>flags. check_modify_operations ops = Inr flags \<Longrightarrow> user_get n None i s = Inl e \<Longrightarrow>
      user_modify m jp i ops s = Inl e"
    using user_get_error [of n i s e] by (auto simp: user_modify_def)
  show "user_modify m jp i ops s = Inr s' \<Longrightarrow>
      map ur_public_id (db_users (st_db s')) = map ur_public_id (db_users (st_db s))"
    by (rule user_modify_ids)
qed

section \<open>The check of a patch\<close>

lemma check_modify_ok_iff:
  "(\<exists>flags. check_modify_operations ops = Inr flags) \<longleftrightarrow> list_all (\<lambda>op. allowed_path (op_parts op)) ops"
proof -
  have "(\<exists>flags. check_modify_operations ops = Inr flags) \<longleftrightarrow>
      (\<exists>ks. res_map (\<lambda>op. classify_patch_operation (op_parts op)) ops = Inr ks)"
    by (auto simp: check_modify_operations_def res_bind_eq_Inr)
  also have "\<dots> \<longleftrightarrow> (\<forall>op\<in>set ops. allowed_path (op_parts op))"
    unfolding res_map_ok_iff by (simp add: classify_cases)
  finally show ?thesis by (simp add: list_all_iff)
qed

lemma check_modify_flags:
  assumes "check_modify_operations ops = Inr (m, g, w)"
  shows "m = (\<exists>op\<in>set ops. hd (op_parts op) = ''school_memberships'') \<and>
      g = (\<exists>op\<in>set ops. hd (op_parts op) = ''legal_guardians'') \<and>
      w = (\<exists>op\<in>set ops. hd (op_parts op) = ''legal_wards'')"
proof -
  from assms obtain ks where ks: "res_map (\<lambda>op. classify_patch_operation (op_parts op)) ops = Inr ks"
    and flags: "m = (Some ''school_memberships'' \<in> set ks)" "g = (Some ''legal_guardians'' \<in> set ks)"
      "w = (Some ''legal_wards'' \<in> set ks)"
    by (auto simp: check_modify_operations_def res_bind_eq_Inr)
  have "Some t \<in> set ks \<longleftrightarrow> (\<exists>op\<in>set ops. hd (op_parts op) = t)"
    if "t \<in> {''school_memberships'', ''legal_guardians'', ''legal_wards''}" for t
    using ks that
  proof (induction ops arbitrary: ks)
    case (Cons op ops)
    then obtain k ks' where "classify_patch_operation (op_parts op) = Inr k" "ks = k # ks'"
      "res_map (\<lambda>op. classify_patch_operation (op_parts op)) ops = Inr ks'" by (auto simp: res_bind_eq_Inr)
    moreover from this(1) Cons.prems(2) have "k = Some t \<longleftrightarrow> hd (op_parts op) = t"
      by (auto simp: classify_cases split: if_splits)
    ultimately show ?case using Cons.IH [of ks'] Cons.prems(2) by auto
  qed simp
  with flags show ?thesis by simp
qed

section \<open>Properties\<close>

text \<open>C13: a membership patch makes the memberships of the user exactly those of the patched dict, each with
  the primary flag written there, and leaves the memberships of everybody else alone.\<close>

theorem membership_patch_outcome:
  assumes "apply_membership_relation_changes u current patched st = Inr st'" and "db_ok (st_db st)"
    and "list_all explicit_entry patched" and "distinct (map entry_school patched)"
    and "res_map parse_key (map fst current) = Inr ids"
    and "set ids = set (map mr_school (user_memberships (st_db st) u))"
  shows "prim (st_db st') (u, s) = map_of (map (\<lambda>e. (entry_school e, entry_primary e)) patched) s \<and>
    (v \<noteq> u \<longrightarrow> prim (st_db st') (v, s) = prim (st_db st) (v, s))"
proof -
  have "distinct (keys (st_db st))" using assms(2) by (simp add: db_ok_def memberships_ok_def)
  note membership_changes [OF assms(1) this assms(3-6)]
  from this [of "(u, s)"] this [of "(v, s)"] show ?thesis by simp
qed

text \<open>C12: after a membership patch the rule of one primary membership per user holds iff the patched dict
  has at most one primary entry, whatever the order of its entries and whichever memberships were primary
  before.\<close>

theorem one_primary_membership:
  assumes "apply_membership_relation_changes u current patched st = Inr st'" and "db_ok (st_db st)"
    and "list_all explicit_entry patched" and "distinct (map entry_school patched)"
    and "res_map parse_key (map fst current) = Inr ids"
    and "set ids = set (map mr_school (user_memberships (st_db st) u))"
  shows "distinct (given (map primary_user_constraint (db_memberships (st_db st')))) \<longleftrightarrow>
    (\<forall>e\<in>set patched. \<forall>f\<in>set patched. entry_primary e \<and> entry_primary f \<longrightarrow> entry_school e = entry_school f)"
    (is "?l \<longleftrightarrow> ?r")
proof -
  have dist: "distinct (keys (st_db st))" and
    old: "distinct (given (map primary_user_constraint (db_memberships (st_db st))))"
    using assms(2) by (simp_all add: db_ok_def memberships_ok_def)
  note changes = membership_changes [OF assms(1) dist assms(3-6)]
  have entry: "map_of (map (\<lambda>e. (entry_school e, entry_primary e)) patched) s = Some True \<longleftrightarrow>
      (\<exists>e\<in>set patched. entry_school e = s \<and> entry_primary e)" for s
    using assms(4) by (subst map_of_eq_Some_iff) (auto simp: comp_def image_iff)
  have "?l \<longleftrightarrow> (\<forall>v s s'. prim (st_db st') (v, s) = Some True \<longrightarrow> prim (st_db st') (v, s') = Some True \<longrightarrow> s = s')"
    using primary_constraint_iff changes by blast
  also have "\<dots> \<longleftrightarrow> (\<forall>s s'. prim (st_db st') (u, s) = Some True \<longrightarrow> prim (st_db st') (u, s') = Some True \<longrightarrow> s = s')"
    (is "?a \<longleftrightarrow> ?b")
  proof
    assume b: ?b
    show ?a
    proof (intro allI impI)
      fix v s s' assume p: "prim (st_db st') (v, s) = Some True" "prim (st_db st') (v, s') = Some True"
      show "s = s'"
      proof (cases "v = u")
        case True
        with b p show ?thesis by blast
      next
        case False
        with p changes [of "(v, s)"] changes [of "(v, s')"] old [unfolded primary_constraint_iff [OF dist]]
        show ?thesis by simp
      qed
    qed
  qed blast
  also have "\<dots> \<longleftrightarrow> ?r"
    using changes [of "(u, _)"] by (simp add: entry) blast
  finally show ?thesis .
qed

text \<open>C15: the check of a user patch accepts it iff every path is allowed, and then tells which of the three
  relations it reaches into.\<close>

theorem user_patch_checked:
  "check_modify_operations ops = Inr (m, g, w) \<longleftrightarrow>
     (\<forall>op\<in>set ops. allowed_path (op_parts op)) \<and>
     m = (\<exists>op\<in>set ops. hd (op_parts op) = ''school_memberships'') \<and>
     g = (\<exists>op\<in>set ops. hd (op_parts op) = ''legal_guardians'') \<and>
     w = (\<exists>op\<in>set ops. hd (op_parts op) = ''legal_wards'')"
  (is "?l \<longleftrightarrow> ?r")
proof
  assume ?l
  then show ?r using check_modify_ok_iff [of ops] check_modify_flags [of ops m g w] by (auto simp: list_all_iff)
next
  assume r: ?r
  then obtain flags where "check_modify_operations ops = Inr flags"
    using check_modify_ok_iff [of ops] by (auto simp: list_all_iff)
  then obtain a b c where f: "check_modify_operations ops = Inr (a, b, c)" by (cases flags) simp
  with r check_modify_flags [OF f] show ?l by simp
qed


section \<open>Witnesses\<close>

text \<open>The user of the fixture moves its primary membership from the first school to the second.\<close>

definition demo_current :: pdict where
  "demo_current = [(uuid_str 1, JObj [(''is_primary'', JBool True)])]"

definition demo_move :: pdict where
  "demo_move = [(uuid_str 2, JObj [(''is_primary'', JBool True)]), (uuid_str 1, JObj [(''is_primary'', JBool False)])]"

lemma demo_entries:
  "list_all explicit_entry demo_move" "map entry_school demo_move = [2, 1]" "map entry_primary demo_move = [True, False]"
  by (auto simp: demo_move_def explicit_entry_def entry_school_def entry_primary_def)

lemma demo_current_ids: "res_map parse_key (map fst demo_current) = Inr [1]"
  by (simp add: demo_current_def parse_key_def)

lemma demo_user_schools: "map mr_school (user_memberships (st_db (demo_storage [])) 20) = [1]"
  by (simp add: user_memberships_def demo_defs)

lemma demo_move_runs: "\<exists>st. apply_membership_relation_changes 20 demo_current demo_move (demo_storage []) = Inr st"
proof -
  have ids: "res_map parse_key (map fst demo_move) = Inr [2, 1]"
    by (simp add: demo_move_def parse_key_def)
  have keys: "uuid_str 2 \<noteq> uuid_str 1" "parse_key (uuid_str 1) = Inr 1" "parse_key (uuid_str 2) = Inr 2"
    by (simp_all add: parse_key_def uuid_str_inj)
  have none: "filter (\<lambda>s. s \<notin> set [2, 1]) (remdups [1]) = ([] :: uuid list)" by simp
  have same: "sync_collection (JList []) (JList []) c d = Inr None" for c d
    by (simp add: sync_collection_def extract_json_ids_def extract_public_ids_def given_def)
  show ?thesis
    unfolding apply_membership_relation_changes_def Let_def demo_current_ids ids demo_user_schools res_bind_Inr none
    by (simp add: demo_move_def demo_current_def keys demote_step_def membership_step_def membership_of_def
        dict_get_def update_membership_def create_membership_def fetch_one_by_public_id_def
        sync_membership_links_def same flush_def Let_def demo_defs
        db_ok_def table_oks given_def mapping_ok_def primary_user_constraint_def)
qed

lemma membership_patch_outcome_witness:
  "\<exists>st. apply_membership_relation_changes 20 demo_current demo_move (demo_storage []) = Inr st \<and>
     prim (st_db st) (20, 2) = Some True \<and> prim (st_db st) (20, 1) = Some False"
proof -
  obtain st where st: "apply_membership_relation_changes 20 demo_current demo_move (demo_storage []) = Inr st"
    using demo_move_runs by blast
  have ok: "db_ok (st_db (demo_storage []))" using demo_settled [of "[]"] by (simp add: settled_def)
  have dist: "distinct (map entry_school demo_move)" by (simp add: demo_entries)
  have set: "set [1] = set (map mr_school (user_memberships (st_db (demo_storage [])) 20))"
    by (simp only: demo_user_schools)
  have flags: "map_of (map (\<lambda>e. (entry_school e, entry_primary e)) demo_move) = map_of [(2, True), (1, False)]"
    by (simp add: demo_move_def entry_school_def entry_primary_def)
  note outcome = membership_patch_outcome [OF st ok demo_entries(1) dist demo_current_ids set, where v = 20]
  from outcome [of 2] outcome [of 1] st show ?thesis by (simp add: flags)
qed

lemma one_primary_membership_witness:
  "\<exists>st. apply_membership_relation_changes 20 demo_current demo_move (demo_storage []) = Inr st \<and>
     distinct (given (map primary_user_constraint (db_memberships (st_db st))))"
proof -
  obtain st where st: "apply_membership_relation_changes 20 demo_current demo_move (demo_storage []) = Inr st"
    using demo_move_runs by blast
  have ok: "db_ok (st_db (demo_storage []))" using demo_settled [of "[]"] by (simp add: settled_def)
  have dist: "distinct (map entry_school demo_move)" by (simp add: demo_entries)
  have set: "set [1] = set (map mr_school (user_memberships (st_db (demo_storage [])) 20))"
    by (simp only: demo_user_schools)
  have "\<forall>e\<in>set demo_move. \<forall>f\<in>set demo_move. entry_primary e \<and> entry_primary f \<longrightarrow> entry_school e = entry_school f"
    by (simp add: demo_move_def entry_primary_def entry_school_def)
  with one_primary_membership [OF st ok demo_entries(1) dist demo_current_ids set] st show ?thesis by blast
qed

lemma user_patch_checked_witness:
  "check_modify_operations [replace_op ''/legal_wards'' (JList []), replace_op ''/name'' (JStr ''x'')] =
     Inr (False, False, True) \<and>
   check_modify_operations [replace_op ''/legal_wards/0/name'' (JStr ''x'')] \<noteq> Inr (False, False, True)"
  using user_patch_checked [of "[replace_op ''/legal_wards'' (JList []), replace_op ''/name'' (JStr ''x'')]" False False True]
    user_patch_checked [of "[replace_op ''/legal_wards/0/name'' (JStr ''x'')]" False False True]
  by (simp add: op_parts_def replace_op_def py_lstrip_def)


end
