(* ===== verification/Group_Depth.thy ===== *)
theory Group_Depth
  imports Group_Manager
begin

text \<open>
  How deep the conversion of a group nests: \<open>to_group\<close> follows the allowed sender groups. When no
  group reaches itself along them, as many nested calls as there are groups are enough.
\<close>

definition sender_relation :: "db \<Rightarrow> (uuid \<times> uuid) set" where
  "sender_relation d =
     {(gr_public_id g, gr_public_id h) | g h. g \<in> set (db_groups d) \<and> h \<in> set (db_groups d) \<and>
        gr_public_id h \<in> set (gr_senders_groups g)}"

definition reached :: "db \<Rightarrow> uuid \<Rightarrow> uuid set" where
  "reached d i = (sender_relation d)\<^sup>+ `` {i}"

lemma reached_groups: "reached d i \<subseteq> gr_public_id ` set (db_groups d)"
proof
  fix j assume "j \<in> reached d i"
  then have "(i, j) \<in> (sender_relation d)\<^sup>+" by (simp add: reached_def)
  then show "j \<in> gr_public_id ` set (db_groups d)"
    by (cases rule: trancl.cases) (auto simp: sender_relation_def)
qed

lemma finite_reached: "finite (reached d i)"
  by (rule finite_subset [OF reached_groups]) simp

lemma reached_step:
  assumes "acyclic (sender_relation d)" "(i, j) \<in> sender_relation d"
  shows "card (reached d j) < card (reached d i)"
proof (rule psubset_card_mono [OF finite_reached])
  have "j \<notin> reached d j" using assms(1) by (simp add: reached_def acyclic_def)
  moreover have "j \<in> reached d i" "reached d j \<subseteq> reached d i"
    using assms(2) by (auto simp: reached_def intro: trancl_into_trancl2)
  ultimately show "reached d j \<subset> reached d i" by blast
qed

lemma to_group_within:
  assumes "groups_ok d" "acyclic (sender_relation d)"
  shows "row \<in> set (db_groups d) \<Longrightarrow> card (reached d (gr_public_id row)) < depth \<Longrightarrow>
     \<exists>g. to_group depth d un row = Inr g"
proof (induction depth arbitrary: row)
  case (Suc depth)
  let ?c = "un_group un (gr_public_id row)"
  have "\<exists>h. to_group depth d un r = Inr h" if r: "r \<in> set (related (group_of d) (gr_senders_groups row))" for r
  proof -
    from r obtain j where j: "j \<in> set (gr_senders_groups row)" "group_of d j = Some r"
      by (force simp: related_def)
    then have known: "r \<in> set (db_groups d)" "gr_public_id r = j" using group_of_id by auto
    then have "(gr_public_id row, gr_public_id r) \<in> sender_relation d"
      using Suc.prems(1) j(1) by (auto simp: sender_relation_def)
    from reached_step [OF assms(2) this] Suc.prems(2) have "card (reached d (gr_public_id r)) < depth" by simp
    with known(1) show ?thesis by (rule Suc.IH)
  qed
  then have "\<exists>hs. res_map (to_group depth d un) (related (group_of d) (gr_senders_groups row)) = Inr hs"
    unfolding res_map_ok_iff by simp
  then obtain hs where hs: "res_map (to_group depth d un) (related (group_of d) (gr_senders_groups row)) = Inr hs" ..
  obtain s where s: "school_of d (gr_school row) = Some s"
    using assms(1) Suc.prems(1) school_of_iff [of d "gr_school row"] by (auto simp: groups_ok_def list_all_iff)
  show ?case
    by (cases "''school'' \<in> set ?c"; cases "''allowed_email_senders_groups'' \<in> set ?c")
       (simp_all add: hs s Let_def)
qed simp

section \<open>Properties\<close>

text \<open>C17: when no group is reached from itself along the allowed sender groups, every group is converted within
  as many nested calls as there are groups, so Python's recursion limit is met only beyond that many groups.\<close>

theorem conversion_depth_bounded:
  assumes "settled st" and "acyclic (sender_relation (st_db st))" and "row \<in> set (db_groups (st_db st))"
    and "length (db_groups (st_db st)) \<le> depth"
  shows "\<exists>g. to_group depth (st_db st) un row = Inr g"
proof -
  let ?d = "st_db st" and ?i = "gr_public_id row"
  have ok: "groups_ok ?d" using assms(1) by (simp add: settled_def db_ok_def)
  have "?i \<notin> reached ?d ?i" using assms(2) by (simp add: reached_def acyclic_def)
  then have "reached ?d ?i \<subset> gr_public_id ` set (db_groups ?d)" using reached_groups [of ?d ?i] assms(3) by blast
  then have "card (reached ?d ?i) < card (gr_public_id ` set (db_groups ?d))" by (simp add: psubset_card_mono)
  also have "\<dots> \<le> length (db_groups ?d)" by (metis card_image_le card_length finite_set order_trans)
  finally show ?thesis using to_group_within [OF ok assms(2,3)] assms(4) by simp
qed

lemma conversion_depth_bounded_witness:
  "\<exists>g. to_group 1 (st_db (demo_storage [])) all_loaded (demo_group 10 []) = Inr g"
proof (rule conversion_depth_bounded)
  show "settled (demo_storage [])" by (rule demo_settled) simp
  have "sender_relation (st_db (demo_storage [])) = {}" by (simp add: sender_relation_def demo_defs)
  then show "acyclic (sender_relation (st_db (demo_storage [])))" by (simp add: acyclic_def)
qed (simp_all add: demo_defs)

end
