(* ===== verification/Session.thy ===== *)
theory Session
  imports School_Manager
begin

text \<open>
  \<open>adapters/sqlalchemy/session.py\<close>: a storage session that binds the managers to one SQLAlchemy
  session, and the two scopes a factory hands out. The committed database is the argument \<open>d\<close> and the
  result of the functions; what a session has done so far is its \<^typ>\<open>storage\<close>.
\<close>

section \<open>Settings\<close>

definition py_space :: "char \<Rightarrow> bool" where
  "py_space c \<longleftrightarrow> 9 \<le> cp c \<and> cp c \<le> 13 \<or> 28 \<le> cp c \<and> cp c \<le> 32 \<or> cp c = 133 \<or> cp c = 160"

definition py_strip :: "string \<Rightarrow> string" where
  "py_strip s = rev (dropWhile py_space (rev (dropWhile py_space s)))"

text \<open>The environment and the files are parameters; a file that can not be read raises.\<close>

definition read_env_or_file ::
  "(string \<Rightarrow> string option) \<Rightarrow> (string \<Rightarrow> err + string) \<Rightarrow> string \<Rightarrow> string \<Rightarrow> err + string" where
  "read_env_or_file env read_text env_var file_env_var =
     (case env env_var of
        Some (c # v) \<Rightarrow> Inr (c # v)
      | _ \<Rightarrow>
          (case env file_env_var of
             Some (c # f) \<Rightarrow> res_bind (read_text (c # f)) (\<lambda>t. Inr (py_strip t))
           | _ \<Rightarrow> Inl (RuntimeError (''Neither '' @ env_var @ '' nor '' @ file_env_var @ '' is set.''))))"

section \<open>KelvinSqlAlchemySession\<close>

text \<open>A manager holds the session it was made with; whether it exists already is all there is to know.\<close>

record kelvin_session =
  ks_transactional :: bool
  ks_session :: "storage option"
  ks_transaction :: bool
  ks_schools :: bool
  ks_roles :: bool
  ks_groups :: bool
  ks_users :: bool

definition new_session :: "bool \<Rightarrow> kelvin_session" where
  "new_session transactional =
     \<lparr>ks_transactional = transactional, ks_session = None, ks_transaction = False, ks_schools = False,
      ks_roles = False, ks_groups = False, ks_users = False\<rparr>"

definition require_session :: "kelvin_session \<Rightarrow> err + storage" where
  "require_session ks = of_opt (RuntimeError ''Storage session is not active. Use 'async with'.'') (ks_session ks)"

definition require_transaction :: "kelvin_session \<Rightarrow> err + unit" where
  "require_transaction ks =
     (if ks_transaction ks then Inr ()
      else Inl (RuntimeError ''Storage transaction is not active. Use 'async with'.''))"

definition aenter :: "db \<Rightarrow> kelvin_session \<Rightarrow> kelvin_session" where
  "aenter d ks =
     (let ks = ks\<lparr>ks_session := Some \<lparr>st_db = d, st_pending = []\<rparr>\<rparr>
      in if ks_transactional ks then ks\<lparr>ks_transaction := True\<rparr> else ks)"

text \<open>The properties \<open>schools\<close>, \<open>roles\<close>, \<open>groups\<close>, \<open>users\<close>: a manager is made at its first use.\<close>

definition schools_manager :: "kelvin_session \<Rightarrow> err + kelvin_session" where
  "schools_manager ks =
     (if ks_schools ks then Inr ks else res_bind (require_session ks) (\<lambda>_. Inr (ks\<lparr>ks_schools := True\<rparr>)))"

definition roles_manager :: "kelvin_session \<Rightarrow> err + kelvin_session" where
  "roles_manager ks =
     (if ks_roles ks then Inr ks else res_bind (require_session ks) (\<lambda>_. Inr (ks\<lparr>ks_roles := True\<rparr>)))"

definition groups_manager :: "kelvin_session \<Rightarrow> err + kelvin_session" where
  "groups_manager ks =
     (if ks_groups ks then Inr ks else res_bind (require_session ks) (\<lambda>_. Inr (ks\<lparr>ks_groups := True\<rparr>)))"

definition users_manager :: "kelvin_session \<Rightarrow> err + kelvin_session" where
  "users_manager ks =
     (if ks_users ks then Inr ks else res_bind (require_session ks) (\<lambda>_. Inr (ks\<lparr>ks_users := True\<rparr>)))"

text \<open>
  The end of \<open>async with\<close>: the exception that leaves the block, the session, the committed database.
  A transaction commits when the block raised nothing, which flushes first; a session scope never does.
\<close>

definition aexit :: "err option \<Rightarrow> kelvin_session \<Rightarrow> db \<Rightarrow> err option \<times> kelvin_session \<times> db" where
  "aexit exc ks d =
     (case require_session ks of
        Inl e \<Rightarrow> (Some e, ks, d)
      | Inr st \<Rightarrow>
          (let (raised, d') =
             (if ks_transactional ks then
                (case require_transaction ks of
                   Inl e \<Rightarrow> (Some e, d)
                 | Inr _ \<Rightarrow>
                     (case exc of
                        Some e \<Rightarrow> (Some e, d)
                      | None \<Rightarrow> (case flush st of Inl e \<Rightarrow> (Some e, d) | Inr st' \<Rightarrow> (None, st_db st'))))
              else (exc, d))
           in (raised, ks\<lparr>ks_session := None, ks_transaction := False, ks_schools := False, ks_roles := False,
                          ks_groups := False, ks_users := False\<rparr>, d')))"

section \<open>The scopes of KelvinSqlAlchemySessionFactory\<close>

text \<open>\<open>async with factory.transaction_scope() as storage: body\<close>. What \<open>body\<close> did before it raised is
  never seen, so a body that raises has no storage.\<close>

definition in_scope :: "bool \<Rightarrow> (storage \<Rightarrow> err + storage) \<Rightarrow> db \<Rightarrow> err option \<times> db" where
  "in_scope transactional body d =
     (let ks = aenter d (new_session transactional)
      in case require_session ks of
           Inl e \<Rightarrow> (Some e, d)
         | Inr st \<Rightarrow>
             (case (case body st of
                      Inl e \<Rightarrow> aexit (Some e) ks d
                    | Inr st' \<Rightarrow> aexit None (ks\<lparr>ks_session := Some st'\<rparr>) d) of
                (raised, _, d') \<Rightarrow> (raised, d')))"

definition transaction_scope :: "(storage \<Rightarrow> err + storage) \<Rightarrow> db \<Rightarrow> err option \<times> db" where
  "transaction_scope = in_scope True"

definition session_scope :: "(storage \<Rightarrow> err + storage) \<Rightarrow> db \<Rightarrow> err option \<times> db" where
  "session_scope = in_scope False"

section \<open>Lemmas\<close>

abbreviation fresh_storage :: "db \<Rightarrow> storage" where
  "fresh_storage d \<equiv> \<lparr>st_db = d, st_pending = []\<rparr>"

lemma transaction_scope_run:
  "transaction_scope body d =
     (case res_bind (body (fresh_storage d)) flush of Inl e \<Rightarrow> (Some e, d) | Inr st \<Rightarrow> (None, st_db st))"
  by (auto simp: transaction_scope_def in_scope_def aenter_def new_session_def require_session_def of_opt_def
      aexit_def require_transaction_def Let_def split: sum.split)

lemma session_scope_run:
  "session_scope body d = (case body (fresh_storage d) of Inl e \<Rightarrow> (Some e, d) | Inr _ \<Rightarrow> (None, d))"
  by (auto simp: session_scope_def in_scope_def aenter_def new_session_def require_session_def of_opt_def
      aexit_def Let_def split: sum.split)

text \<open>A state between two uses: no manager without a session.\<close>

definition session_inv :: "kelvin_session \<Rightarrow> bool" where
  "session_inv ks \<longleftrightarrow>
     (ks_session ks = None \<longrightarrow> \<not> ks_schools ks \<and> \<not> ks_roles ks \<and> \<not> ks_groups ks \<and> \<not> ks_users ks \<and> \<not> ks_transaction ks)"

text \<open>One use of a session object.\<close>

inductive session_step :: "kelvin_session \<Rightarrow> kelvin_session \<Rightarrow> bool" where
  enter: "session_step ks (aenter d ks)"
| schools: "schools_manager ks = Inr ks' \<Longrightarrow> session_step ks ks'"
| roles: "roles_manager ks = Inr ks' \<Longrightarrow> session_step ks ks'"
| groups: "groups_manager ks = Inr ks' \<Longrightarrow> session_step ks ks'"
| users: "users_manager ks = Inr ks' \<Longrightarrow> session_step ks ks'"
| work: "require_session ks = Inr st \<Longrightarrow> session_step ks (ks\<lparr>ks_session := Some st'\<rparr>)"
| leave: "aexit exc ks d = (raised, ks', d') \<Longrightarrow> session_step ks ks'"

lemma session_step_inv: "session_step ks ks' \<Longrightarrow> session_inv ks \<Longrightarrow> session_inv ks'"
proof (induction rule: session_step.induct)
  case (leave exc ks d raised ks' d')
  then show ?case
    by (cases "require_session ks") (auto simp: aexit_def session_inv_def Let_def split: prod.splits)
qed (auto simp: session_inv_def aenter_def Let_def schools_manager_def roles_manager_def groups_manager_def
      users_manager_def require_session_def of_opt_def res_bind_def split: if_splits option.splits)

lemma session_steps_inv: "session_step\<^sup>*\<^sup>* (new_session t) ks \<Longrightarrow> session_inv ks"
proof (induction rule: rtranclp_induct)
  case base
  show ?case by (simp add: session_inv_def new_session_def)
next
  case (step ks ks')
  then show ?case using session_step_inv by blast
qed

text \<open>A transaction is all or nothing; a session scope never changes the database.\<close>

lemma transaction_scope_cases:
  "case transaction_scope body d of
      (Some e, d') \<Rightarrow> d' = d
    | (None, d') \<Rightarrow> db_ok d' \<and> (\<exists>st st'. body (fresh_storage d) = Inr st \<and> flush st = Inr st' \<and> d' = st_db st')"
proof (cases "res_bind (body (fresh_storage d)) flush")
  case (Inr st')
  then obtain st where "body (fresh_storage d) = Inr st" "flush st = Inr st'" by (auto simp: res_bind_eq_Inr)
  with flush_ok_db show ?thesis by (auto simp: transaction_scope_run)
qed (simp add: transaction_scope_run)

lemma session_scope_keeps: "snd (session_scope body d) = d"
  by (simp add: session_scope_run split: sum.split)

section \<open>Properties\<close>



end
