(* ===== verification/Connector_Models.thy ===== *)
theory Connector_Models
  imports Session
begin

text \<open>
  \<open>kelvin_connector/models.py\<close>: the typed events of the connector. Validation of the scalar fields is
  pydantic's; the parsing of the role strings is the program's own.
\<close>

section \<open>Roles\<close>

record ucsschool_role =
  uc_role :: string
  uc_context :: string
  uc_school :: string

record guardian_role =
  gu_app :: string
  gu_namespace :: string
  gu_role_name :: string

datatype role_item = RoleText string | RoleItem ucsschool_role

definition split_role_text :: "string \<Rightarrow> err + string \<times> string \<times> string" where
  "split_role_text v =
     (case py_split CHR '':'' v of
        [a, b, c] \<Rightarrow> Inr (a, b, c)
      | _ \<Rightarrow> Inl (ValueError ''values to unpack (expected 3)''))"

definition parse_ucsschool_role_item :: "role_item \<Rightarrow> err + ucsschool_role" where
  "parse_ucsschool_role_item v =
     (case v of
        RoleText t \<Rightarrow> res_bind (split_role_text t) (\<lambda>(role, context, school).
          Inr \<lparr>uc_role = role, uc_context = context, uc_school = school\<rparr>)
      | RoleItem r \<Rightarrow> Inr r)"

definition parse_ucsschool_roles :: "role_item list \<Rightarrow> ucsschool_role list" where
  "parse_ucsschool_roles values =
     concat (map (\<lambda>item. case parse_ucsschool_role_item item of Inl _ \<Rightarrow> [] | Inr r \<Rightarrow> [r]) values)"

definition parse_guardian_role_item :: "string \<Rightarrow> err + guardian_role" where
  "parse_guardian_role_item v =
     res_bind (split_role_text v) (\<lambda>(app, namespace, role_name).
       Inr \<lparr>gu_app = app, gu_namespace = namespace, gu_role_name = role_name\<rparr>)"

section \<open>Properties of the objects\<close>

text \<open>\<open>..._json\<close> is \<open>json.loads(properties.json())\<close>: all properties as pydantic serialises them, extra
  ones included.\<close>

record user_properties =
  up_id :: uuid
  up_roles :: "ucsschool_role list"
  up_username :: string
  up_school :: "string list"
  up_groups :: "string list"
  up_legal_ward :: "string list"
  up_legal_guardian :: "string list"
  up_disabled :: bool
  up_firstname :: string
  up_lastname :: string
  up_record_uid :: "string option"
  up_source_uid :: "string option"
  up_mail :: "string option"
  up_birthday :: "date option"
  up_userexpiry :: "date option"
  up_json :: pdict

record group_properties =
  gp_id :: uuid
  gp_roles :: "ucsschool_role list"
  gp_name :: string
  gp_allowed_users :: "string list"
  gp_allowed_groups :: "string list"
  gp_users :: "string list"
  gp_mail :: "string option"
  gp_description :: "string option"
  gp_guardian_roles :: "guardian_role list"
  gp_json :: pdict

record school_properties =
  sp_id :: uuid
  sp_name :: string
  sp_display_name :: string
  sp_class_share :: "string option"
  sp_home_share :: "string option"
  sp_json :: pdict

record deleted_properties =
  dp_id :: uuid
  dp_username :: string
  dp_name :: string

record host_group_properties =
  hp_id :: uuid
  hp_description :: "string option"
  hp_name :: string
  hp_hosts :: "string list"

text \<open>The field \<open>ucsschoolRole\<close>: malformed strings are skipped, an empty result is refused.\<close>

definition validate_ucsschool_roles :: "role_item list \<Rightarrow> err + ucsschool_role list" where
  "validate_ucsschool_roles values =
     (if length (parse_ucsschool_roles values) < 1 then Inl (ValidationError ''ucsschoolRole'')
      else Inr (parse_ucsschool_roles values))"

text \<open>The field \<open>guardianMemberRoles\<close>: every item must parse.\<close>

definition validate_guardian_roles :: "string list \<Rightarrow> err + guardian_role list" where
  "validate_guardian_roles values =
     (case res_map parse_guardian_role_item values of
        Inl _ \<Rightarrow> Inl (ValidationError ''guardianMemberRoles'')
      | Inr roles \<Rightarrow> Inr roles)"

section \<open>Payloads and events\<close>

text \<open>A payload is a dn with the properties of its type. \<open>timestamp\<close> and \<open>sequence_number\<close> are carried
  along for every event.\<close>

record 'p payload =
  pl_dn :: string
  pl_id :: string
  pl_position :: string
  pl_object_type :: string
  pl_properties :: 'p

record 'p event =
  ev_timestamp :: string
  ev_sequence_number :: int
  ev_payload :: "'p payload"

type_synonym user_event = "user_properties event"
type_synonym group_event = "group_properties event"
type_synonym school_event = "school_properties event"
type_synonym delete_event = "deleted_properties event"
type_synonym host_group_event = "host_group_properties event"

abbreviation ev_dn :: "'p event \<Rightarrow> string" where
  "ev_dn e \<equiv> pl_dn (ev_payload e)"

abbreviation ev_properties :: "'p event \<Rightarrow> 'p" where
  "ev_properties e \<equiv> pl_properties (ev_payload e)"

section \<open>Lemmas\<close>

lemma split_role_text_ok:
  "split_role_text v = Inr (a, b, c) \<longleftrightarrow> py_split CHR '':'' v = [a, b, c]"
  by (auto simp: split_role_text_def split: list.splits)

lemma split_role_text_total: "(\<exists>r. split_role_text v = Inr r) \<longleftrightarrow> length (py_split CHR '':'' v) = 3"
  by (auto simp: split_role_text_def numeral_3_eq_3 length_Suc_conv split: list.splits)

section \<open>Properties\<close>

text \<open>C37: garbage among the role strings of an object does not hide it: the strings that do not consist of
  three parts are skipped, the others keep their order, and validation fails only when no string is left.\<close>

theorem role_strings_parsed:
  "parse_ucsschool_roles (map RoleText ts) =
     map (\<lambda>t. case py_split CHR '':'' t of [a, b, c] \<Rightarrow> \<lparr>uc_role = a, uc_context = b, uc_school = c\<rparr>)
       (filter (\<lambda>t. length (py_split CHR '':'' t) = 3) ts) \<and>
   (validate_ucsschool_roles (map RoleText ts) = Inl (ValidationError ''ucsschoolRole'') \<longleftrightarrow>
     filter (\<lambda>t. length (py_split CHR '':'' t) = 3) ts = [])"
proof -
  have "parse_ucsschool_roles (map RoleText ts) =
     map (\<lambda>t. case py_split CHR '':'' t of [a, b, c] \<Rightarrow> \<lparr>uc_role = a, uc_context = b, uc_school = c\<rparr>)
       (filter (\<lambda>t. length (py_split CHR '':'' t) = 3) ts)"
  proof (induction ts)
    case (Cons t ts)
    show ?case
    proof (cases "length (py_split CHR '':'' t) = 3")
      case True
      then obtain a b c where "py_split CHR '':'' t = [a, b, c]"
        by (auto simp: numeral_3_eq_3 length_Suc_conv)
      with Cons show ?thesis
        by (simp add: parse_ucsschool_roles_def parse_ucsschool_role_item_def split_role_text_def)
    next
      case False
      then obtain e where "split_role_text t = Inl e"
        using split_role_text_total [of t] by (cases "split_role_text t") auto
      with Cons False show ?thesis
        by (simp add: parse_ucsschool_roles_def parse_ucsschool_role_item_def)
    qed
  qed (simp add: parse_ucsschool_roles_def)
  then show ?thesis by (simp add: validate_ucsschool_roles_def Suc_le_eq [symmetric])
qed

end
