(* ===== verification/Connector_Consumer.thy ===== *)
theory Connector_Consumer
  imports Connector_Models
begin

text \<open>
  \<open>kelvin_connector/consumer.py\<close>: which events are relevant, which handler of the synchronisation manager an
  event goes to, and when an event is acknowledged. The provisioning library, whose base class calls these
  methods, is not under \<open>src/\<close>.
\<close>

section \<open>Names of host groups\<close>

text \<open>\<open>HOST_GROUP_NAME_RE.match\<close>: \<open>OU(.*)-DC-(Edukativnetz|Verwaltungsnetz)\<close>, anchored at the start only.
  The first group is greedy and does not cross a line end.\<close>

definition host_group_kind :: "string \<Rightarrow> string option" where
  "host_group_kind s =
     (if startswith ''-DC-Edukativnetz'' s then Some ''Edukativnetz''
      else if startswith ''-DC-Verwaltungsnetz'' s then Some ''Verwaltungsnetz'' else None)"

fun match_greedy :: "string \<Rightarrow> (string \<times> string) option" where
  "match_greedy [] = None"
| "match_greedy (c # s) =
     (case (if c = CHR 0x0A then None else match_greedy s) of
        Some (school, kind) \<Rightarrow> Some (c # school, kind)
      | None \<Rightarrow> map_option (\<lambda>kind. ([], kind)) (host_group_kind (c # s)))"

definition host_group_match :: "string \<Rightarrow> (string \<times> string) option" where
  "host_group_match name = (if startswith ''OU'' name then match_greedy (drop 2 name) else None)"

section \<open>Relevance\<close>

definition OT_USERS :: string where "OT_USERS = ''users/user''"
definition OT_GROUPS :: string where "OT_GROUPS = ''groups/group''"
definition OT_OUS :: string where "OT_OUS = ''container/ou''"

record query_event =
  qe_topic :: string
  qe_sequence_number :: int
  qe_num_delivered :: int
  qe_body :: "(string \<times> pdict) list"

text \<open>\<open>any(test(role) for role in roles)\<close>: stops at the first hit; a role that is no text has no
  \<open>startswith\<close>.\<close>

fun any_role :: "(string \<Rightarrow> bool) \<Rightarrow> json list \<Rightarrow> err + bool" where
  "any_role test [] = Inr False"
| "any_role test (JStr role # roles) = (if test role then Inr True else any_role test roles)"
| "any_role test (_ # roles) = Inl (AttributeError ''startswith'')"

definition event_filter :: "string \<Rightarrow> json \<Rightarrow> string \<Rightarrow> err + bool" where
  "event_filter object_type roles name =
     (if object_type = OT_GROUPS then
        res_bind (res_bind (py_iter roles)
          (any_role (\<lambda>role. startswith ''school_class'' role \<or> startswith ''workgroup'' role))) (\<lambda>found.
          Inr (found \<or> host_group_match name \<noteq> None))
      else if object_type = OT_USERS then
        res_bind (res_bind (py_iter roles) (any_role (startswith ''exam_user:''))) (\<lambda>is_exam_user.
          Inr (\<not> is_exam_user))
      else Inr (object_type = OT_OUS))"

text \<open>\<open>body[k]["properties"]\<close> where both exist, and the pattern \<open>{"ucsschoolRole": roles} as properties\<close>.\<close>

definition body_properties :: "(string \<times> pdict) list \<Rightarrow> string \<Rightarrow> json option" where
  "body_properties body k = (case map_of body k of None \<Rightarrow> None | Some attributes \<Rightarrow> map_of attributes ''properties'')"

definition with_role :: "json \<Rightarrow> (json \<times> pdict) option" where
  "with_role properties =
     (case properties of
        JObj d \<Rightarrow> (case map_of d ''ucsschoolRole'' of None \<Rightarrow> None | Some roles \<Rightarrow> Some (roles, d))
      | _ \<Rightarrow> None)"

definition filter_properties :: "string \<Rightarrow> json \<times> pdict \<Rightarrow> err + bool" where
  "filter_properties topic p = event_filter topic (fst p)
     (case map_of (snd p) ''name'' of None \<Rightarrow> [] | Some v \<Rightarrow> py_str v)"

definition is_relevant :: "query_event \<Rightarrow> err + bool" where
  "is_relevant event =
     (let old = body_properties (qe_body event) ''old''; new = body_properties (qe_body event) ''new''
      in case (old, new) of
           (Some o', None) \<Rightarrow>
             (case with_role o' of Some p \<Rightarrow> filter_properties (qe_topic event) p | None \<Rightarrow> Inr False)
         | (None, Some n) \<Rightarrow>
             (case with_role n of Some p \<Rightarrow> filter_properties (qe_topic event) p | None \<Rightarrow> Inr False)
         | (Some o', Some n) \<Rightarrow>
             (case (with_role o', with_role n) of
                (Some _, Some p) \<Rightarrow> filter_properties (qe_topic event) p
              | _ \<Rightarrow> Inr False)
         | (None, None) \<Rightarrow> Inr False)"

section \<open>Dispatch\<close>

text \<open>\<open>ports.SynchronizationManagerProtocol\<close>: a handler works on the world and may raise.\<close>

record 's sync_manager =
  sm_user_create :: "user_event \<Rightarrow> 's \<Rightarrow> err option \<times> 's"
  sm_user_modify :: "user_event \<Rightarrow> 's \<Rightarrow> err option \<times> 's"
  sm_user_delete :: "delete_event \<Rightarrow> 's \<Rightarrow> err option \<times> 's"
  sm_group_create :: "group_event \<Rightarrow> 's \<Rightarrow> err option \<times> 's"
  sm_group_modify :: "group_event \<Rightarrow> 's \<Rightarrow> err option \<times> 's"
  sm_group_delete :: "delete_event \<Rightarrow> 's \<Rightarrow> err option \<times> 's"
  sm_school_create :: "school_event \<Rightarrow> 's \<Rightarrow> err option \<times> 's"
  sm_school_modify :: "school_event \<Rightarrow> 's \<Rightarrow> err option \<times> 's"
  sm_school_delete :: "delete_event \<Rightarrow> 's \<Rightarrow> err option \<times> 's"
  sm_host_group_create :: "host_group_event \<Rightarrow> 's \<Rightarrow> err option \<times> 's"
  sm_host_group_modify :: "host_group_event \<Rightarrow> 's \<Rightarrow> err option \<times> 's"
  sm_host_group_delete :: "host_group_event \<Rightarrow> 's \<Rightarrow> err option \<times> 's"

text \<open>\<open>Model.validate\<close> of pydantic.\<close>

record payload_validators =
  pv_user :: "pdict \<Rightarrow> err + user_properties payload"
  pv_group :: "pdict \<Rightarrow> err + group_properties payload"
  pv_school :: "pdict \<Rightarrow> err + school_properties payload"
  pv_delete :: "pdict \<Rightarrow> err + deleted_properties payload"
  pv_host_group :: "pdict \<Rightarrow> err + host_group_properties payload"

record metadata =
  md_ts :: string
  md_sequence_number :: int

definition dispatch ::
  "(pdict \<Rightarrow> err + 'p payload) \<Rightarrow> ('p event \<Rightarrow> 's \<Rightarrow> err option \<times> 's) \<Rightarrow> metadata \<Rightarrow> pdict \<Rightarrow> 's \<Rightarrow> err option \<times> 's"
where
  "dispatch validate handler md attributes s =
     (case validate attributes of
        Inl e \<Rightarrow> (Some e, s)
      | Inr payload \<Rightarrow>
          handler \<lparr>ev_timestamp = md_ts md, ev_sequence_number = md_sequence_number md, ev_payload = payload\<rparr> s)"

text \<open>\<open>attributes.get("properties", {}).get(...)\<close>, read for the log before anything is decided.\<close>

definition properties_for_log :: "pdict \<Rightarrow> err + pdict" where
  "properties_for_log attributes =
     (case map_of attributes ''properties'' of
        None \<Rightarrow> Inr []
      | Some (JObj d) \<Rightarrow> Inr d
      | Some _ \<Rightarrow> Inl (AttributeError ''get''))"

text \<open>\<open>HOST_GROUP_NAME_RE.match(attributes["properties"].get("name", ""))\<close>\<close>

definition is_host_group :: "pdict \<Rightarrow> err + bool" where
  "is_host_group attributes =
     (case map_of attributes ''properties'' of
        None \<Rightarrow> Inl (KeyError ''properties'')
      | Some (JObj d) \<Rightarrow>
          (case map_of d ''name'' of
             None \<Rightarrow> Inr (host_group_match [] \<noteq> None)
           | Some (JStr name) \<Rightarrow> Inr (host_group_match name \<noteq> None)
           | Some _ \<Rightarrow> Inl (TypeError ''expected string''))
      | Some _ \<Rightarrow> Inl (AttributeError ''get''))"

text \<open>The four-way \<open>match attributes["objectType"]\<close> that the three handlers share.\<close>

definition by_object_type ::
  "('s \<Rightarrow> err option \<times> 's) \<Rightarrow> ('s \<Rightarrow> err option \<times> 's) \<Rightarrow> ('s \<Rightarrow> err option \<times> 's) \<Rightarrow>
   ('s \<Rightarrow> err option \<times> 's) \<Rightarrow> pdict \<Rightarrow> 's \<Rightarrow> err option \<times> 's" where
  "by_object_type users host_groups groups ous attributes s =
     (case properties_for_log attributes of
        Inl e \<Rightarrow> (Some e, s)
      | Inr _ \<Rightarrow>
     (case map_of attributes ''objectType'' of
        None \<Rightarrow> (Some (KeyError ''objectType''), s)
      | Some t \<Rightarrow>
          if t = JStr OT_USERS then users s
          else if t = JStr OT_GROUPS then
            (case is_host_group attributes of
               Inl e \<Rightarrow> (Some e, s)
             | Inr True \<Rightarrow> host_groups s
             | Inr False \<Rightarrow> groups s)
          else if t = JStr OT_OUS then ous s
          else (None, s)))"

definition handle_create ::
  "payload_validators \<Rightarrow> 's sync_manager \<Rightarrow> metadata \<Rightarrow> pdict \<Rightarrow> 's \<Rightarrow> err option \<times> 's" where
  "handle_create pv sm md new =
     by_object_type
       (dispatch (pv_user pv) (sm_user_create sm) md new)
       (dispatch (pv_host_group pv) (sm_host_group_create sm) md new)
       (dispatch (pv_group pv) (sm_group_create sm) md new)
       (dispatch (pv_school pv) (sm_school_create sm) md new) new"

definition handle_modify ::
  "payload_validators \<Rightarrow> 's sync_manager \<Rightarrow> metadata \<Rightarrow> pdict \<Rightarrow> 's \<Rightarrow> err option \<times> 's" where
  "handle_modify pv sm md new =
     by_object_type
       (dispatch (pv_user pv) (sm_user_modify sm) md new)
       (dispatch (pv_host_group pv) (sm_host_group_modify sm) md new)
       (dispatch (pv_group pv) (sm_group_modify sm) md new)
       (dispatch (pv_school pv) (sm_school_modify sm) md new) new"

definition handle_remove ::
  "payload_validators \<Rightarrow> 's sync_manager \<Rightarrow> metadata \<Rightarrow> pdict \<Rightarrow> 's \<Rightarrow> err option \<times> 's" where
  "handle_remove pv sm md old =
     by_object_type
       (dispatch (pv_delete pv) (sm_user_delete sm) md old)
       (dispatch (pv_host_group pv) (sm_host_group_delete sm) md old)
       (dispatch (pv_delete pv) (sm_group_delete sm) md old)
       (dispatch (pv_delete pv) (sm_school_delete sm) md old) old"

section \<open>What the dispatch needs of a synchronisation manager\<close>

text \<open>A handler that either raises and leaves the world alone, or returns in a world that satisfies the
  invariant.\<close>

definition all_or_nothing :: "('s \<Rightarrow> bool) \<Rightarrow> ('e \<Rightarrow> 's \<Rightarrow> err option \<times> 's) \<Rightarrow> bool" where
  "all_or_nothing ok h \<longleftrightarrow>
     (\<forall>e s. ok s \<longrightarrow> (case h e s of (Some _, s') \<Rightarrow> s' = s | (None, s') \<Rightarrow> ok s'))"

locale transactional_manager =
  fixes ok :: "'s \<Rightarrow> bool" and sm :: "'s sync_manager"
  assumes user_create: "all_or_nothing ok (sm_user_create sm)"
    and user_modify: "all_or_nothing ok (sm_user_modify sm)"
    and user_delete: "all_or_nothing ok (sm_user_delete sm)"
    and group_create: "all_or_nothing ok (sm_group_create sm)"
    and group_modify: "all_or_nothing ok (sm_group_modify sm)"
    and group_delete: "all_or_nothing ok (sm_group_delete sm)"
    and school_create: "all_or_nothing ok (sm_school_create sm)"
    and school_modify: "all_or_nothing ok (sm_school_modify sm)"
    and school_delete: "all_or_nothing ok (sm_school_delete sm)"
    and host_group_create: "all_or_nothing ok (sm_host_group_create sm)"
    and host_group_modify: "all_or_nothing ok (sm_host_group_modify sm)"
    and host_group_delete: "all_or_nothing ok (sm_host_group_delete sm)"
begin

lemmas handlers = user_create user_modify user_delete group_create group_modify group_delete school_create
  school_modify school_delete host_group_create host_group_modify host_group_delete

definition safe :: "('s \<Rightarrow> err option \<times> 's) \<Rightarrow> bool" where
  "safe f \<longleftrightarrow> (\<forall>s. ok s \<longrightarrow> (case f s of (Some _, s') \<Rightarrow> s' = s | (None, s') \<Rightarrow> ok s'))"

lemma safe_dispatch: "all_or_nothing ok h \<Longrightarrow> safe (dispatch validate h md attributes)"
  by (auto simp: safe_def all_or_nothing_def dispatch_def split: sum.split)

lemma safe_by_object_type:
  assumes "safe users" "safe host_groups" "safe groups" "safe ous"
  shows "safe (by_object_type users host_groups groups ous attributes)"
  using assms by (auto simp: safe_def by_object_type_def split: sum.split bool.split option.split)

lemma safe_create: "safe (handle_create pv sm md attributes)"
  unfolding handle_create_def by (intro safe_by_object_type safe_dispatch handlers)

lemma safe_modify: "safe (handle_modify pv sm md attributes)"
  unfolding handle_modify_def by (intro safe_by_object_type safe_dispatch handlers)

lemma safe_remove: "safe (handle_remove pv sm md attributes)"
  unfolding handle_remove_def by (intro safe_by_object_type safe_dispatch handlers)

lemma raising_keeps: "safe f \<Longrightarrow> ok s \<Longrightarrow> f s = (Some e, s') \<Longrightarrow> s' = s"
  unfolding safe_def by (metis (mono_tags, lifting) case_prod_conv option.simps(5))

lemma returning_satisfies: "safe f \<Longrightarrow> ok s \<Longrightarrow> f s = (None, s') \<Longrightarrow> ok s'"
  unfolding safe_def by (metis (mono_tags, lifting) case_prod_conv option.simps(4))

end

section \<open>process\_one\_event\<close>

definition DEFAULT_MAX_DELIVERIES :: int where "DEFAULT_MAX_DELIVERIES = 3"

text \<open>\<open>handle\<close> is the library's \<open>handle_event\<close>, which calls one of the handlers above and says whether the
  event was handled. The result: whether the event was acknowledged, the exception, the world.\<close>

record 's processed =
  pr_acknowledged :: bool
  pr_raised :: "err option"
  pr_world :: 's

fun is_validation_error :: "err \<Rightarrow> bool" where
  "is_validation_error (ValidationError _) = True"
| "is_validation_error _ = False"

definition process_one_event ::
  "(query_event \<Rightarrow> 's \<Rightarrow> (err + bool) \<times> 's) \<Rightarrow> int \<Rightarrow> query_event option \<Rightarrow> 's \<Rightarrow> 's processed" where
  "process_one_event handle max_deliveries fetched s =
     (case fetched of
        None \<Rightarrow> \<lparr>pr_acknowledged = False, pr_raised = None, pr_world = s\<rparr>
      | Some event \<Rightarrow>
          (case is_relevant event of
             Inl e \<Rightarrow> \<lparr>pr_acknowledged = False, pr_raised = Some e, pr_world = s\<rparr>
           | Inr False \<Rightarrow> \<lparr>pr_acknowledged = True, pr_raised = None, pr_world = s\<rparr>
           | Inr True \<Rightarrow>
               (case handle event s of
                  (Inl e, s') \<Rightarrow>
                    if is_validation_error e then \<lparr>pr_acknowledged = True, pr_raised = None, pr_world = s'\<rparr>
                    else if qe_num_delivered event < max_deliveries
                    then \<lparr>pr_acknowledged = False, pr_raised = Some e, pr_world = s'\<rparr>
                    else \<lparr>pr_acknowledged = True, pr_raised = Some e, pr_world = s'\<rparr>
                | (Inr handled, s') \<Rightarrow> \<lparr>pr_acknowledged = handled, pr_raised = None, pr_world = s'\<rparr>)))"

section \<open>A queue of events\<close>

text \<open>The provisioning service delivers the first event that is not acknowledged, again and again, and counts
  its deliveries, as the documentation of \<open>KelvinConsumerModule\<close> says: one delivery.\<close>

definition deliver ::
  "(query_event \<Rightarrow> 's \<Rightarrow> (err + bool) \<times> 's) \<Rightarrow> int \<Rightarrow> query_event list \<times> 's \<Rightarrow> query_event list \<times> 's" where
  "deliver handle max_deliveries q =
     (case fst q of
        [] \<Rightarrow> q
      | event # rest \<Rightarrow>
          (let r = process_one_event handle max_deliveries (Some event) (snd q)
           in (if pr_acknowledged r then rest
               else event\<lparr>qe_num_delivered := qe_num_delivered event + 1\<rparr> # rest, pr_world r)))"

lemma deliver_simps [simp]:
  "deliver handle m ([], s) = ([], s)"
  "deliver handle m (event # rest, s) =
     (let r = process_one_event handle m (Some event) s
      in (if pr_acknowledged r then rest
          else event\<lparr>qe_num_delivered := qe_num_delivered event + 1\<rparr> # rest, pr_world r))"
  by (simp_all add: deliver_def)

text \<open>Whether an event is relevant does not depend on how often it was delivered.\<close>

lemma is_relevant_count [simp]: "is_relevant (event\<lparr>qe_num_delivered := n\<rparr>) = is_relevant event"
  by (simp add: is_relevant_def Let_def split: option.split)

definition deliveries_left :: "int \<Rightarrow> query_event \<Rightarrow> nat" where
  "deliveries_left m event = Suc (nat (m - qe_num_delivered event))"

text \<open>A queue the consumer can work off: relevance is decided without an exception, and a handler that returns
  has handled the event.\<close>

definition workable :: "(query_event \<Rightarrow> 's \<Rightarrow> (err + bool) \<times> 's) \<Rightarrow> query_event \<Rightarrow> bool" where
  "workable handle event \<longleftrightarrow> (\<exists>b. is_relevant event = Inr b) \<and>
     (\<forall>n s. fst (handle (event\<lparr>qe_num_delivered := n\<rparr>) s) \<noteq> Inr False)"

lemma acknowledged_iff:
  "pr_acknowledged (process_one_event handle m (Some event) s) \<longleftrightarrow>
     is_relevant event = Inr False \<or>
     is_relevant event = Inr True \<and>
       (case fst (handle event s) of
          Inr handled \<Rightarrow> handled
        | Inl e \<Rightarrow> is_validation_error e \<or> m \<le> qe_num_delivered event)"
  by (auto simp: process_one_event_def split: sum.split bool.split prod.split)

lemma deliver_head:
  assumes "workable handle event"
  shows "(\<exists>s'. deliver handle m (event # q, s) = (q, s')) \<or>
    qe_num_delivered event < m \<and>
    (\<exists>s'. deliver handle m (event # q, s) = (event\<lparr>qe_num_delivered := qe_num_delivered event + 1\<rparr> # q, s'))"
proof (cases "pr_acknowledged (process_one_event handle m (Some event) s)")
  case False
  obtain b where b: "is_relevant event = Inr b" using assms by (auto simp: workable_def)
  have "fst (handle (event\<lparr>qe_num_delivered := qe_num_delivered event\<rparr>) s) \<noteq> Inr False"
    using assms unfolding workable_def by blast
  then have "fst (handle event s) \<noteq> Inr False" by simp
  then have "qe_num_delivered event < m"
    using False b unfolding acknowledged_iff by (cases b) (auto split: sum.splits)
  then show ?thesis using False by (simp add: Let_def)
qed (simp add: Let_def)

lemma event_worked_off:
  assumes "workable handle event"
  shows "\<exists>n s'. n \<le> deliveries_left m event \<and> (deliver handle m ^^ n) (event # q, s) = (q, s')"
  using assms
proof (induction "nat (m - qe_num_delivered event)" arbitrary: event s)
  case 0
  then have "\<not> qe_num_delivered event < m" by simp
  then obtain s' where "deliver handle m (event # q, s) = (q, s')" using deliver_head [OF 0(2)] by blast
  then have "(deliver handle m ^^ 1) (event # q, s) = (q, s')" by simp
  moreover have "1 \<le> deliveries_left m event" by (simp add: deliveries_left_def)
  ultimately show ?case by blast
next
  case (Suc k)
  from deliver_head [OF Suc.prems, of m q s] consider
      s' where "deliver handle m (event # q, s) = (q, s')"
    | s' where "deliver handle m (event # q, s) = (event\<lparr>qe_num_delivered := qe_num_delivered event + 1\<rparr> # q, s')" by blast
  then show ?case
  proof cases
    case 1
    then have "(deliver handle m ^^ 1) (event # q, s) = (q, s')" by simp
    moreover have "1 \<le> deliveries_left m event" by (simp add: deliveries_left_def)
    ultimately show ?thesis by blast
  next
    case 2
    let ?e = "event\<lparr>qe_num_delivered := qe_num_delivered event + 1\<rparr>"
    have "k = nat (m - qe_num_delivered ?e)" using Suc.hyps(2) by simp
    moreover have "workable handle ?e" using Suc.prems by (simp add: workable_def)
    ultimately obtain n s'' where "n \<le> deliveries_left m ?e" "(deliver handle m ^^ n) (?e # q, s') = (q, s'')"
      using Suc.hyps(1) by blast
    then have "(deliver handle m ^^ Suc n) (event # q, s) = (q, s'')" "Suc n \<le> deliveries_left m event"
      using 2 Suc.hyps(2) by (simp_all add: funpow_Suc_right deliveries_left_def del: funpow.simps)
    then show ?thesis by blast
  qed
qed

lemma queue_worked_off:
  "list_all (workable handle) q \<Longrightarrow>
   \<exists>n s'. n \<le> sum_list (map (deliveries_left m) q) \<and> (deliver handle m ^^ n) (q, s) = ([], s')"
proof (induction q arbitrary: s)
  case Nil
  have "(deliver handle m ^^ 0) ([], s) = ([], s)" by simp
  then show ?case by blast
next
  case (Cons event q)
  have "workable handle event" using Cons.prems by simp
  from event_worked_off [OF this, of m q s] obtain n s' where
    n: "n \<le> deliveries_left m event" "(deliver handle m ^^ n) (event # q, s) = (q, s')" by blast
  from Cons obtain k s'' where k: "k \<le> sum_list (map (deliveries_left m) q)" "(deliver handle m ^^ k) (q, s') = ([], s'')"
    by fastforce
  have "(deliver handle m ^^ (k + n)) (event # q, s) = ([], s'')" using n k by (simp add: funpow_add)
  with n k show ?case by (intro exI [of _ "k + n"] exI [of _ s'']) simp
qed

section \<open>Host group names\<close>

lemma host_group_kind_Some:
  "host_group_kind s = Some k \<longleftrightarrow>
     k \<in> {''Edukativnetz'', ''Verwaltungsnetz''} \<and> (\<exists>rest. s = ''-DC-'' @ k @ rest)"
  by (auto simp: host_group_kind_def startswith_iff)

lemma match_greedy_None:
  "match_greedy s = None \<longleftrightarrow>
     (\<forall>school rest. s = school @ rest \<longrightarrow> CHR 0x0A \<notin> set school \<longrightarrow> host_group_kind rest = None)"
proof (induction s)
  case Nil
  show ?case by (simp add: host_group_kind_def startswith_def)
next
  case (Cons c s)
  have split: "(\<forall>school rest. c # s = school @ rest \<longrightarrow> CHR 0x0A \<notin> set school \<longrightarrow> host_group_kind rest = None) \<longleftrightarrow>
      host_group_kind (c # s) = None \<and> (c = CHR 0x0A \<or>
        (\<forall>school rest. s = school @ rest \<longrightarrow> CHR 0x0A \<notin> set school \<longrightarrow> host_group_kind rest = None))"
    (is "?l \<longleftrightarrow> ?k \<and> (?n \<or> ?r)")
  proof
    assume l: ?l
    have "host_group_kind rest = None" if "c \<noteq> CHR 0x0A" "s = school @ rest" "CHR 0x0A \<notin> set school" for school rest
      using l [rule_format, of "c # school" rest] that by simp
    moreover have ?k using l [rule_format, of "[]" "c # s"] by simp
    ultimately show "?k \<and> (?n \<or> ?r)" by blast
  next
    assume r: "?k \<and> (?n \<or> ?r)"
    show ?l
    proof (intro allI impI)
      fix school rest assume "c # s = school @ rest" "CHR 0x0A \<notin> set school"
      with r show "host_group_kind rest = None" by (cases school) auto
    qed
  qed
  show ?case unfolding split Cons.IH [symmetric] by (auto split: option.split)
qed

lemma match_greedy_Some:
  "match_greedy s = Some (school, k) \<Longrightarrow>
     \<exists>rest. s = school @ rest \<and> CHR 0x0A \<notin> set school \<and> host_group_kind rest = Some k \<and>
       (\<forall>x y. rest = x @ y \<longrightarrow> x \<noteq> [] \<longrightarrow> CHR 0x0A \<notin> set x \<longrightarrow> host_group_kind y = None)"
proof (induction s arbitrary: school)
  case (Cons c s)
  show ?case
  proof (cases "if c = CHR 0x0A then None else match_greedy s")
    case None
    with Cons.prems have s: "school = []" "host_group_kind (c # s) = Some k" by auto
    moreover have "host_group_kind y = None" if "c # s = x @ y" "x \<noteq> []" "CHR 0x0A \<notin> set x" for x y
    proof -
      from that obtain x' where x: "x = c # x'" "s = x' @ y" by (cases x) auto
      with that None have "match_greedy s = None" by (auto split: if_splits)
      then show ?thesis using x that(3) unfolding match_greedy_None by auto
    qed
    ultimately show ?thesis by auto
  next
    case (Some p)
    then have c: "c \<noteq> CHR 0x0A" by (auto split: if_splits)
    obtain t where "p = (t, k)" "school = c # t" using Some Cons.prems by (cases p) auto
    with Some c Cons.IH [of t] obtain rest where "s = t @ rest" "CHR 0x0A \<notin> set t" "host_group_kind rest = Some k"
      "\<forall>x y. rest = x @ y \<longrightarrow> x \<noteq> [] \<longrightarrow> CHR 0x0A \<notin> set x \<longrightarrow> host_group_kind y = None"
      by auto
    with c \<open>school = c # t\<close> show ?thesis by auto
  qed
qed simp

section \<open>Properties\<close>


text \<open>C30: the budget does not cover \<open>is_relevant\<close>: an event for which it raises is never acknowledged, however often
  it is delivered, and no event behind it is ever processed.\<close>

theorem relevance_error_blocks_queue:
  assumes "is_relevant event = Inl e"
  shows "(deliver handle max_deliveries ^^ n) (event # q, s) =
     (event\<lparr>qe_num_delivered := qe_num_delivered event + int n\<rparr> # q, s)"
proof (induction n)
  case (Suc n)
  let ?e = "event\<lparr>qe_num_delivered := qe_num_delivered event + int n\<rparr>"
  have "process_one_event handle max_deliveries (Some ?e) s =
      \<lparr>pr_acknowledged = False, pr_raised = Some e, pr_world = s\<rparr>"
    using assms by (simp add: process_one_event_def)
  with Suc show ?case by (simp add: algebra_simps)
qed simp

text \<open>Which group names are names of host groups: \<open>OU\<close>, the school, \<open>-DC-\<close> and a kind, followed by
  anything; the school runs up to the last possible \<open>-DC-\<close> before a line end.\<close>

theorem host_group_names:
  "host_group_match name = Some (school, kind) \<longleftrightarrow>
     kind \<in> {''Edukativnetz'', ''Verwaltungsnetz''} \<and> CHR 0x0A \<notin> set school \<and>
     (\<exists>rest. name = ''OU'' @ school @ ''-DC-'' @ kind @ rest \<and>
        (\<forall>school' rest'. name = ''OU'' @ school' @ rest' \<longrightarrow> CHR 0x0A \<notin> set school' \<longrightarrow>
           length school < length school' \<longrightarrow> host_group_kind rest' = None))"
  (is "?l \<longleftrightarrow> ?r")
proof
  assume ?l
  then have ou: "startswith ''OU'' name" and m: "match_greedy (drop 2 name) = Some (school, kind)"
    by (auto simp: host_group_match_def split: if_splits)
  from ou have name: "name = ''OU'' @ drop 2 name" by (metis append_take_drop_id startswith_iff append_eq_conv_conj length_Cons list.size(3) numeral_2_eq_2)
  from match_greedy_Some [OF m] obtain rest where
    rest: "drop 2 name = school @ rest" "CHR 0x0A \<notin> set school" "host_group_kind rest = Some kind"
    and last: "\<And>x y. rest = x @ y \<Longrightarrow> x \<noteq> [] \<Longrightarrow> CHR 0x0A \<notin> set x \<Longrightarrow> host_group_kind y = None" by blast
  have "host_group_kind rest' = None"
    if "name = ''OU'' @ school' @ rest'" "CHR 0x0A \<notin> set school'" "length school < length school'" for school' rest'
  proof -
    note longer = that
    have "school' @ rest' = school @ rest" using longer(1) rest(1) by simp
    then obtain x where "school' = school @ x" "rest = x @ rest'"
      using longer(3) by (auto simp: append_eq_append_conv2)
    then show ?thesis using last [of x rest'] longer(2,3) by auto
  qed
  then show ?r using rest name host_group_kind_Some by metis
next
  assume r: ?r
  then obtain rest where name: "name = ''OU'' @ school @ ''-DC-'' @ kind @ rest" and k: "kind \<in> {''Edukativnetz'', ''Verwaltungsnetz''}"
    and nl: "CHR 0x0A \<notin> set school"
    and last: "\<And>school' rest'. name = ''OU'' @ school' @ rest' \<Longrightarrow> CHR 0x0A \<notin> set school' \<Longrightarrow>
           length school < length school' \<Longrightarrow> host_group_kind rest' = None" by blast
  have kind: "host_group_kind (''-DC-'' @ kind @ rest) = Some kind" using k host_group_kind_Some by blast
  have "match_greedy (drop 2 name) \<noteq> None"
    using kind nl unfolding match_greedy_None by (auto simp: name)
  then obtain school2 kind2 where m: "match_greedy (drop 2 name) = Some (school2, kind2)" by auto
  from match_greedy_Some [OF m] obtain rest2 where
    r2: "school @ ''-DC-'' @ kind @ rest = school2 @ rest2" "CHR 0x0A \<notin> set school2" "host_group_kind rest2 = Some kind2"
    and last2: "\<And>x y. rest2 = x @ y \<Longrightarrow> x \<noteq> [] \<Longrightarrow> CHR 0x0A \<notin> set x \<Longrightarrow> host_group_kind y = None"
    by (auto simp: name)
  have "\<not> length school < length school2" using last [of school2 rest2] r2 by (auto simp: name)
  moreover have "\<not> length school2 < length school"
  proof
    assume "length school2 < length school"
    with r2(1) obtain x where "school = school2 @ x" "rest2 = x @ ''-DC-'' @ kind @ rest" "x \<noteq> []"
      by (auto simp: append_eq_append_conv2)
    with last2 [of x "''-DC-'' @ kind @ rest"] nl kind show False by auto
  qed
  ultimately have "school2 = school" "rest2 = ''-DC-'' @ kind @ rest" using r2(1) by (auto simp: append_eq_append_conv)
  with r2(3) kind m show ?l by (simp add: host_group_match_def name startswith_def)
qed

section \<open>Witnesses\<close>

definition demo_event :: "json \<Rightarrow> query_event" where
  "demo_event roles = \<lparr>qe_topic = ''groups/group'', qe_sequence_number = 7, qe_num_delivered = 1,
     qe_body = [(''old'', []), (''new'', [(''dn'', JStr ''cn=a''),
       (''properties'', JObj [(''name'', JStr ''a-1a''), (''ucsschoolRole'', roles)])])]\<rparr>"

definition always_fails :: "query_event \<Rightarrow> unit \<Rightarrow> (err + bool) \<times> unit" where
  "always_fails event s = (Inl (RuntimeError ''database''), s)"

lemma demo_event_relevant:
  "is_relevant (demo_event (JList [JStr ''school_class:school:a''])) = Inr True"
  "is_relevant (demo_event JNull) = Inl (TypeError ''object is not iterable'')"
  by (simp_all add: is_relevant_def demo_event_def body_properties_def with_role_def filter_properties_def
      event_filter_def OT_GROUPS_def startswith_def)


lemma relevance_error_blocks_queue_witness:
  "(deliver always_fails 3 ^^ 10) ([demo_event JNull, demo_event (JList [])], ()) =
     ([(demo_event JNull)\<lparr>qe_num_delivered := 11\<rparr>, demo_event (JList [])], ())"
  using relevance_error_blocks_queue [OF demo_event_relevant(2), where n = 10]
  by (simp add: demo_event_def del: funpow.simps)

lemma host_group_names_witness:
  "host_group_match ''OUa-DC-Verwaltungsnetz-DC-Edukativnetz1'' =
       Some (''a-DC-Verwaltungsnetz'', ''Edukativnetz'') \<and>
   (\<exists>rest. ''OUa-DC-Verwaltungsnetz-DC-Edukativnetz1'' =
       ''OU'' @ ''a-DC-Verwaltungsnetz'' @ ''-DC-'' @ ''Edukativnetz'' @ rest)"
proof -
  have "host_group_match ''OUa-DC-Verwaltungsnetz-DC-Edukativnetz1'' = Some (''a-DC-Verwaltungsnetz'', ''Edukativnetz'')"
    by code_simp
  with host_group_names [of "''OUa-DC-Verwaltungsnetz-DC-Edukativnetz1''" "''a-DC-Verwaltungsnetz''" "''Edukativnetz''"]
  show ?thesis by blast
qed

end
