(* ===== verification/Connector_Sync.thy ===== *)
theory Connector_Sync
  imports Connector_Consumer User_Port
begin

text \<open>
  \<open>kelvin_connector/sync.py\<close>: the handlers that bring the database into the state of an event. A handler runs
  on the \<^typ>\<open>storage\<close> of its session; the \<open>handle_...\<close> methods wrap it in a transaction.

  Every query is mapped with the attributes its own options load. That instances stay in the session's
  identity map between two queries of one handler is not modelled.
\<close>

section \<open>What the handlers use\<close>

text \<open>The answer to a SELECT, \<open>jsonpatch\<close>, the recursion limit, \<open>uuid4\<close>, and \<open>DN(value)\<close> of the provisioning
  library: the first RDN and the first RDN of the parent, nothing when it raises \<open>ValueError\<close>.\<close>

type_synonym rdn = "string \<times> string"

record sync_env =
  se_exec :: exec_select
  se_diff :: jp_diff
  se_apply :: jp_apply
  se_depth :: nat
  se_fresh :: uuid
  se_dn :: "string \<Rightarrow> (rdn \<times> rdn option) option"

definition parse_dn :: "sync_env \<Rightarrow> string \<Rightarrow> err + rdn \<times> rdn option" where
  "parse_dn env v = of_opt (ValueError ''DN'') (se_dn env v)"

definition DEFAULT_NUBUS_SOURCE_UID :: string where
  "DEFAULT_NUBUS_SOURCE_UID = ''nubus''"

definition USER_REPLACE_FIELDS :: "string set" where
  "USER_REPLACE_FIELDS =
     {''legal_wards'', ''legal_guardians'', ''school_memberships/*/groups'', ''school_memberships/*/roles''}"

definition GROUP_REPLACE_FIELDS :: "string set" where
  "GROUP_REPLACE_FIELDS =
     {''school'', ''roles'', ''allowed_email_senders_users'', ''allowed_email_senders_groups'', ''members'',
      ''member_roles''}"

definition UDM_PROPERTIES_DENYLIST :: "string set" where
  "UDM_PROPERTIES_DENYLIST = {''jpegPhoto'', ''password''}"

text \<open>\<open>_RE_SCHOOL_OU.search\<close>: \<open>(?:^|,)ou=([^,]+)\<close> in any mix of cases.\<close>

definition ou_at :: "string \<Rightarrow> string option" where
  "ou_at s =
     (if py_lower (take 3 s) = ''ou='' then
        (case takeWhile (\<lambda>c. c \<noteq> CHR '','') (drop 3 s) of [] \<Rightarrow> None | v \<Rightarrow> Some v)
      else None)"

fun ou_after_comma :: "string \<Rightarrow> string option" where
  "ou_after_comma [] = None"
| "ou_after_comma (c # s) =
     (case (if c = CHR '','' then ou_at s else None) of Some v \<Rightarrow> Some v | None \<Rightarrow> ou_after_comma s)"

definition school_ou_from_dn :: "string \<Rightarrow> string option" where
  "school_ou_from_dn dn = (case ou_at dn of Some v \<Rightarrow> Some v | None \<Rightarrow> ou_after_comma dn)"

definition server_hostname :: "sync_env \<Rightarrow> string option \<Rightarrow> err + string option" where
  "server_hostname env v =
     (case v of
        Some (c # s) \<Rightarrow>
          (if CHR ''='' \<in> set (c # s) then res_bind (parse_dn env (c # s)) (\<lambda>dn. Inr (Some (snd (fst dn))))
           else Inr (Some (c # s)))
      | _ \<Rightarrow> Inr None)"

definition udm_properties_of :: "pdict \<Rightarrow> pdict" where
  "udm_properties_of serialized = filter (\<lambda>p. fst p \<notin> UDM_PROPERTIES_DENYLIST) serialized"

definition UNSYNCABLE_GROUP_CN_PREFIXES :: "string list" where
  "UNSYNCABLE_GROUP_CN_PREFIXES =
     [''Domain Users '', ''schueler-'', ''lehrer-'', ''sorgeberechtigte-'', ''mitarbeiter-'']"

fun contains_sub :: "string \<Rightarrow> string \<Rightarrow> bool" where
  "contains_sub p [] = (p = [])"
| "contains_sub p (c # s) = (startswith p (c # s) \<or> contains_sub p s)"

definition is_unsyncable_group_dn :: "sync_env \<Rightarrow> string \<Rightarrow> bool" where
  "is_unsyncable_group_dn env dn =
     (if contains_sub '',cn=ouadmins,'' (py_lower dn) then True
      else (case se_dn env dn of
              None \<Rightarrow> False
            | Some (_, None) \<Rightarrow> False
            | Some ((_, cn), Some (parent_attr, parent_value)) \<Rightarrow>
                if (py_lower parent_attr, py_lower parent_value) \<noteq> (''cn'', ''groups'') then False
                else list_ex (\<lambda>p. startswith p cn) UNSYNCABLE_GROUP_CN_PREFIXES))"

section \<open>Fetching what an event refers to\<close>

text \<open>\<open>str\<close> of an id; \<open>str(UNSET)\<close> is some text that is no UUID.\<close>

definition settable_str :: "uuid settable \<Rightarrow> string" where
  "settable_str i = (case i of Present u \<Rightarrow> uuid_str u | UNSET \<Rightarrow> ''<UnsetType object>'')"

definition ids_value :: "string list \<Rightarrow> fval" where
  "ids_value ids = VIter (map VStr ids)"

definition dns_to_known_ids :: "object_type \<Rightarrow> string list \<Rightarrow> storage \<Rightarrow> string list" where
  "dns_to_known_ids t dns st = map (\<lambda>p. uuid_str (snd p)) (dns_to_public_ids t dns st)"

definition fetch_users_by_dns :: "sync_env \<Rightarrow> string list \<Rightarrow> storage \<Rightarrow> err + user list" where
  "fetch_users_by_dns env dns st =
     (let known_ids = dns_to_known_ids USER dns st
      in if known_ids = [] then Inr []
         else res_bind (user_search (se_depth env) (se_exec env)
                (Some (SearchQuery (Some (QFilter (Filter ''public_id'' IN (ids_value known_ids)))))) [] None 0 None st)
              (\<lambda>users. Inr (dedup_by u_public_id users)))"

definition fetch_groups_by_dns :: "sync_env \<Rightarrow> string list \<Rightarrow> storage \<Rightarrow> err + group list" where
  "fetch_groups_by_dns env dns st =
     (let known_ids = dns_to_known_ids GROUP (filter (\<lambda>dn. \<not> is_unsyncable_group_dn env dn) dns) st
      in if known_ids = [] then Inr []
         else res_bind (group_search (se_depth env) (se_exec env)
                (Some (SearchQuery (Some (QFilter (Filter ''public_id'' IN (ids_value known_ids)))))) [] None 0 None st)
              (\<lambda>groups. Inr (dedup_by g_public_id groups)))"

definition fetch_members_by_dns :: "sync_env \<Rightarrow> string list \<Rightarrow> school \<Rightarrow> storage \<Rightarrow> err + user list" where
  "fetch_members_by_dns env dns school st =
     (let known_ids = dns_to_known_ids USER dns st
      in if known_ids = [] then Inr []
         else res_bind (user_search (se_depth env) (se_exec env)
                (Some (SearchQuery (Some (And
                  [QFilter (Filter ''public_id'' IN (ids_value known_ids)),
                   QFilter (Filter ''schools.public_id'' EQ (VStr (settable_str (s_public_id school))))])))) []
                (Some (int (length known_ids))) 0 None st)
              (\<lambda>users. Inr (dedup_by u_public_id users)))"

text \<open>A Python set of names is a list without repetitions; the order of its clauses is not specified.\<close>

definition names_query :: "string list \<Rightarrow> search_query" where
  "names_query names = SearchQuery (Some (Or (map (\<lambda>n. QFilter (Filter ''name'' EQ (VStr n))) names)))"

definition fetch_roles_by_names :: "sync_env \<Rightarrow> string list \<Rightarrow> storage \<Rightarrow> err + role list" where
  "fetch_roles_by_names env names st =
     (if names = [] then Inr []
      else res_bind (role_search (se_exec env) (Some (names_query names)) [] None 0 None st)
             (\<lambda>roles. Inr (dedup_by r_public_id roles)))"

definition fetch_roles_by_entries :: "sync_env \<Rightarrow> ucsschool_role list \<Rightarrow> storage \<Rightarrow> err + role list" where
  "fetch_roles_by_entries env entries st = fetch_roles_by_names env (remdups (map uc_role entries)) st"

definition fetch_roles_by_guardian_entries :: "sync_env \<Rightarrow> guardian_role list \<Rightarrow> storage \<Rightarrow> err + role list" where
  "fetch_roles_by_guardian_entries env entries st =
     fetch_roles_by_names env (remdups (map gu_role_name entries)) st"

section \<open>Memberships of a user\<close>

fun find_school_id :: "string \<Rightarrow> school list \<Rightarrow> err + uuid settable option" where
  "find_school_id primary [] = Inr None"
| "find_school_id primary (s # schools) =
     res_bind (School_name s) (\<lambda>n.
       if py_lower n = py_lower primary then Inr (Some (s_public_id s)) else find_school_id primary schools)"

definition primary_id_of :: "string option \<Rightarrow> school list \<Rightarrow> err + uuid settable option" where
  "primary_id_of primary schools =
     res_bind (case primary of Some (c # p) \<Rightarrow> find_school_id (c # p) schools | _ \<Rightarrow> Inr None) (\<lambda>found.
       Inr (case (found, schools) of (None, s # _) \<Rightarrow> Some (s_public_id s) | _ \<Rightarrow> found))"

text \<open>\<open>{role.name: role for role in roles}\<close>: the last role of a name wins.\<close>

definition roles_by_name :: "role list \<Rightarrow> err + (string \<times> role) list" where
  "roles_by_name roles = res_fold (\<lambda>r acc. res_bind (Role_name r) (\<lambda>n. Inr (AList.update n r acc))) roles []"

definition groups_of_school :: "uuid \<Rightarrow> group list \<Rightarrow> err + group list" where
  "groups_of_school i groups =
     res_bind (res_map (\<lambda>g. res_bind (Group_school g) (\<lambda>s. Inr (g, s_public_id s))) groups) (\<lambda>ps.
       Inr (map fst (filter (\<lambda>p. snd p = Present i) ps)))"

definition membership_entry ::
  "uuid settable option \<Rightarrow> (string \<times> role) list \<Rightarrow> group list \<Rightarrow> ucsschool_role list \<Rightarrow> school \<Rightarrow> err + uuid \<times> membership"
where
  "membership_entry primary_id by_name groups roles school =
     (case s_public_id school of
        UNSET \<Rightarrow> Inl AssertionError
      | Present i \<Rightarrow>
          res_bind (School_name school) (\<lambda>name.
          res_bind (groups_of_school i groups) (\<lambda>school_groups.
            (let role_names = remdups (map uc_role (filter (\<lambda>r. uc_school r = name) roles))
             in Inr (i, SchoolMembership school (primary_id = Some (Present i))
                  (dedup_by r_public_id (given (map (map_of by_name) role_names))) school_groups)))))"

definition build_school_memberships ::
  "sync_env \<Rightarrow> school list \<Rightarrow> group list \<Rightarrow> ucsschool_role list \<Rightarrow> storage \<Rightarrow> string option \<Rightarrow>
   err + (uuid \<times> membership) list" where
  "build_school_memberships env schools groups roles st primary_ou =
     res_bind (primary_id_of primary_ou schools) (\<lambda>primary_id.
     (let names = remdups (map uc_role roles) in
      res_bind (if names = [] then Inr []
                else res_bind (role_search (se_exec env) (Some (names_query names)) [] None 0 None st) roles_by_name)
        (\<lambda>by_name.
      res_bind (res_map (membership_entry primary_id by_name groups roles) schools) (\<lambda>entries.
        Inr (fold (\<lambda>p acc. AList.update (fst p) (snd p) acc) entries [])))))"

section \<open>Users\<close>

definition find_schools_by_names :: "sync_env \<Rightarrow> string list \<Rightarrow> storage \<Rightarrow> err + school list" where
  "find_schools_by_names env names st =
     (if names = [] then Inr []
      else school_search (se_exec env) (Some (names_query names)) [] None 0 None st)"

text \<open>\<open>value or default\<close> of optional texts.\<close>

definition str_or :: "string option \<Rightarrow> string \<Rightarrow> string" where
  "str_or v dflt = (case v of Some (c # s) \<Rightarrow> c # s | _ \<Rightarrow> dflt)"

definition apply_user_changes ::
  "user_properties \<Rightarrow> (uuid \<times> membership) list \<Rightarrow> user list \<Rightarrow> user list \<Rightarrow> user \<Rightarrow> user" where
  "apply_user_changes props school_memberships legal_wards legal_guardians current =
     (let u = set_User_name (up_username props) current;
          u = set_User_firstname (up_firstname props) u;
          u = set_User_lastname (up_lastname props) u;
          u = set_User_active (\<not> up_disabled props) u;
          u = set_User_email (up_mail props) u;
          u = set_User_birthday (up_birthday props) u;
          u = set_User_expiration_date (up_userexpiry props) u;
          u = set_User_record_uid (str_or (up_record_uid props) (up_username props)) u;
          u = set_User_source_uid (str_or (up_source_uid props) DEFAULT_NUBUS_SOURCE_UID) u;
          u = set_User_school_memberships school_memberships u;
          u = set_User_legal_wards legal_wards u;
          u = set_User_legal_guardians legal_guardians u
      in set_User_udm_properties (udm_properties_of (up_json props)) u)"

text \<open>The block \<open>with track_changes(user, ...)\<close> and the modification with its patch.\<close>

definition modify_tracked_user ::
  "sync_env \<Rightarrow> user \<Rightarrow> user \<Rightarrow> uuid \<Rightarrow> storage \<Rightarrow> err + storage" where
  "modify_tracked_user env current changed i st =
     res_bind (tracker_patch (se_diff env)
       ((track_enter (track_changes (TUser current) USER_REPLACE_FIELDS))\<lparr>tr_obj := TUser changed\<rparr>)) (\<lambda>patch.
       if patch \<noteq> [] then user_modify (se_depth env) (se_apply env) i patch st else Inr st)"

definition new_user ::
  "user_properties \<Rightarrow> (uuid \<times> membership) list \<Rightarrow> user list \<Rightarrow> user list \<Rightarrow> user" where
  "new_user props school_memberships legal_wards legal_guardians =
     User (Present (up_id props)) (Loaded (str_or (up_record_uid props) (up_username props)))
       (Loaded (str_or (up_source_uid props) DEFAULT_NUBUS_SOURCE_UID)) (Loaded (up_username props))
       (Loaded (up_firstname props)) (Loaded (up_lastname props)) (Loaded (\<not> up_disabled props))
       (Loaded school_memberships) (Loaded legal_wards) (Loaded legal_guardians) (Loaded (up_mail props))
       (Loaded (up_birthday props)) (Loaded (up_userexpiry props)) (Loaded (udm_properties_of (up_json props)))"

text \<open>The references of a user event: memberships, wards, guardians.\<close>

definition user_references ::
  "sync_env \<Rightarrow> user_event \<Rightarrow> school list \<Rightarrow> storage \<Rightarrow> err + (uuid \<times> membership) list \<times> user list \<times> user list" where
  "user_references env event schools st =
     (let props = ev_properties event in
      res_bind (fetch_groups_by_dns env (up_groups props) st) (\<lambda>groups.
      res_bind (build_school_memberships env schools groups (up_roles props) st (school_ou_from_dn (ev_dn event)))
        (\<lambda>memberships.
      res_bind (fetch_users_by_dns env (up_legal_ward props) st) (\<lambda>wards.
      res_bind (fetch_users_by_dns env (up_legal_guardian props) st) (\<lambda>guardians.
        Inr (memberships, wards, guardians))))))"

definition handle_user_create :: "sync_env \<Rightarrow> user_event \<Rightarrow> storage \<Rightarrow> err + storage" where
  "handle_user_create env event st =
     (let props = ev_properties event; i = up_id props in
      res_bind (find_schools_by_names env (up_school props) st) (\<lambda>schools.
      if schools = [] then Inr st
      else
        res_bind (user_references env event schools st) (\<lambda>(memberships, wards, guardians).
        (case user_get (se_depth env) (Some (from_model UserT)) i st of
           Inl e \<Rightarrow>
             (case e of
                NotFound _ _ \<Rightarrow>
                  res_bind (user_create (se_fresh env) (new_user props memberships wards guardians) st) (\<lambda>st.
                    Inr (set_mapping USER (ev_dn event) (Some i) st))
              | _ \<Rightarrow> Inl e)
         | Inr current \<Rightarrow>
             modify_tracked_user env current (apply_user_changes props memberships wards guardians current) i st))))"

definition handle_user_modify :: "sync_env \<Rightarrow> user_event \<Rightarrow> storage \<Rightarrow> err + storage" where
  "handle_user_modify env event st =
     (let props = ev_properties event; i = up_id props in
      (case user_get (se_depth env) (Some (from_model UserT)) i st of
         Inl e \<Rightarrow> (case e of NotFound _ _ \<Rightarrow> handle_user_create env event st | _ \<Rightarrow> Inl e)
       | Inr current \<Rightarrow>
           res_bind (Inr (set_mapping USER (ev_dn event) (Some i) st)) (\<lambda>st.
           res_bind (find_schools_by_names env (up_school props) st) (\<lambda>schools.
           res_bind (user_references env event schools st) (\<lambda>(memberships, wards, guardians).
             modify_tracked_user env current (apply_user_changes props memberships wards guardians current) i st)))))"

definition ignore_not_found :: "err + storage \<Rightarrow> storage \<Rightarrow> err + storage" where
  "ignore_not_found r st = (case r of Inl (NotFound _ _) \<Rightarrow> Inr st | _ \<Rightarrow> r)"

definition handle_user_delete :: "delete_event \<Rightarrow> storage \<Rightarrow> err + storage" where
  "handle_user_delete event st = ignore_not_found (user_delete (dp_id (ev_properties event)) st) st"

section \<open>Groups\<close>

definition group_school_name :: "group_properties \<Rightarrow> string" where
  "group_school_name props =
     (case gp_roles props of r # _ \<Rightarrow> uc_school r | [] \<Rightarrow> hd (py_split CHR ''-'' (gp_name props)))"

definition find_school_by_name :: "sync_env \<Rightarrow> string \<Rightarrow> storage \<Rightarrow> err + school list" where
  "find_school_by_name env name st =
     school_search (se_exec env) (Some (SearchQuery (Some (QFilter (Filter ''name'' EQ (VStr name)))))) [] None 0 None st"

record group_references =
  gf_senders_users :: "user list"
  gf_senders_groups :: "group list"
  gf_members :: "user list"
  gf_roles :: "role list"
  gf_member_roles :: "role list"

definition fetch_group_references ::
  "sync_env \<Rightarrow> group_properties \<Rightarrow> school \<Rightarrow> storage \<Rightarrow> err + group_references" where
  "fetch_group_references env props school st =
     res_bind (fetch_users_by_dns env (gp_allowed_users props) st) (\<lambda>users.
     res_bind (fetch_groups_by_dns env (gp_allowed_groups props) st) (\<lambda>groups.
     res_bind (fetch_members_by_dns env (gp_users props) school st) (\<lambda>members.
     res_bind (fetch_roles_by_entries env (gp_roles props) st) (\<lambda>roles.
     res_bind (fetch_roles_by_guardian_entries env (gp_guardian_roles props) st) (\<lambda>member_roles.
       Inr \<lparr>gf_senders_users = users, gf_senders_groups = groups, gf_members = members, gf_roles = roles,
            gf_member_roles = member_roles\<rparr>)))))"

definition apply_group_changes ::
  "group_properties \<Rightarrow> school loadable \<Rightarrow> group_references \<Rightarrow> group \<Rightarrow> group" where
  "apply_group_changes props school refs current =
     (let g = set_Group_name (gp_name props) current;
          g = set_Group_display_name (gp_name props) g;
          g = set_Group_record_uid (gp_name props) g;
          g = (case gp_mail props of None \<Rightarrow> g | Some m \<Rightarrow> set_Group_email (Some m) g);
          g = (case school of UNLOADED \<Rightarrow> g | Loaded s \<Rightarrow> set_Group_school s g);
          g = set_Group_roles (gf_roles refs) g;
          g = set_Group_allowed_email_senders_users (gf_senders_users refs) g;
          g = set_Group_allowed_email_senders_groups (gf_senders_groups refs) g;
          g = set_Group_members (gf_members refs) g;
          g = set_Group_member_roles (gf_member_roles refs) g;
          g = set_Group_create_share True g;
          g = set_Group_description (gp_description props) g
      in set_Group_udm_properties (udm_properties_of (gp_json props)) g)"

definition modify_tracked_group ::
  "sync_env \<Rightarrow> group \<Rightarrow> group \<Rightarrow> uuid \<Rightarrow> storage \<Rightarrow> err + storage" where
  "modify_tracked_group env current changed i st =
     res_bind (tracker_patch (se_diff env)
       ((track_enter (track_changes (TGroup current) GROUP_REPLACE_FIELDS))\<lparr>tr_obj := TGroup changed\<rparr>)) (\<lambda>patch.
       if patch \<noteq> [] then group_modify (se_depth env) (se_apply env) i patch st else Inr st)"

definition new_group :: "group_properties \<Rightarrow> school \<Rightarrow> group_references \<Rightarrow> group" where
  "new_group props school refs =
     Group (Present (gp_id props)) (Loaded (gp_name props)) (Loaded ''kelvin-connector'') (Loaded (gp_name props))
       (Loaded (gp_name props)) (Loaded True) (Loaded (gf_roles refs)) (Loaded (gf_senders_users refs))
       (Loaded (gf_senders_groups refs)) (Loaded (gf_members refs)) (Loaded (gf_member_roles refs)) (Loaded school)
       (Loaded (gp_mail props)) (Loaded (gp_description props)) (Loaded (udm_properties_of (gp_json props)))"

definition handle_group_create :: "sync_env \<Rightarrow> group_event \<Rightarrow> storage \<Rightarrow> err + storage" where
  "handle_group_create env event st =
     (let props = ev_properties event; i = gp_id props in
      res_bind (find_school_by_name env (group_school_name props) st) (\<lambda>found_schools.
      (case found_schools of
         [] \<Rightarrow> Inr st
       | school # _ \<Rightarrow>
           res_bind (fetch_group_references env props school st) (\<lambda>refs.
           (case group_get (se_depth env) (Some (from_model GroupT)) i st of
              Inl e \<Rightarrow>
                (case e of
                   NotFound _ _ \<Rightarrow>
                     res_bind (group_create (se_fresh env) (new_group props school refs) st) (\<lambda>st.
                       Inr (set_mapping GROUP (ev_dn event) (Some i) st))
                 | _ \<Rightarrow> Inl e)
            | Inr current \<Rightarrow>
                modify_tracked_group env current (apply_group_changes props (Loaded school) refs current) i st)))))"

definition handle_group_modify :: "sync_env \<Rightarrow> group_event \<Rightarrow> storage \<Rightarrow> err + storage" where
  "handle_group_modify env event st =
     (let props = ev_properties event; i = gp_id props in
      (case group_get (se_depth env) (Some (from_model GroupT)) i st of
         Inl e \<Rightarrow> (case e of NotFound _ _ \<Rightarrow> handle_group_create env event st | _ \<Rightarrow> Inl e)
       | Inr current \<Rightarrow>
           res_bind (Inr (set_mapping GROUP (ev_dn event) (Some i) st)) (\<lambda>st.
           res_bind (find_school_by_name env (group_school_name props) st) (\<lambda>found.
           res_bind (case found of s # _ \<Rightarrow> Inr s | [] \<Rightarrow> Group_school current) (\<lambda>target_school.
           res_bind (fetch_group_references env props target_school st) (\<lambda>refs.
             modify_tracked_group env current
               (apply_group_changes props (case found of s # _ \<Rightarrow> Loaded s | [] \<Rightarrow> UNLOADED) refs current) i st))))))"

definition handle_group_delete :: "delete_event \<Rightarrow> storage \<Rightarrow> err + storage" where
  "handle_group_delete event st = ignore_not_found (group_delete (dp_id (ev_properties event)) st) st"

section \<open>Schools\<close>

definition new_school :: "sync_env \<Rightarrow> school_properties \<Rightarrow> err + school" where
  "new_school env props =
     res_bind (server_hostname env (sp_class_share props)) (\<lambda>class_share.
     res_bind (server_hostname env (sp_home_share props)) (\<lambda>home_share.
       Inr \<lparr>s_public_id = Present (sp_id props), s_record_uid = Loaded (sp_name props),
            s_source_uid = Loaded ''kelvin-connector'', s_name = Loaded (sp_name props),
            s_display_name = Loaded (sp_display_name props), s_educational_servers = Loaded [],
            s_administrative_servers = Loaded [], s_class_share_file_server = Loaded class_share,
            s_home_share_file_server = Loaded home_share,
            s_udm_properties = Loaded (udm_properties_of (sp_json props))\<rparr>))"

definition apply_school_changes :: "sync_env \<Rightarrow> school_properties \<Rightarrow> school \<Rightarrow> err + school" where
  "apply_school_changes env props current =
     (let s = set_School_display_name (sp_display_name props) (set_School_name (sp_name props) current) in
      res_bind (server_hostname env (sp_class_share props)) (\<lambda>class_share.
      res_bind (server_hostname env (sp_home_share props)) (\<lambda>home_share.
        Inr (set_School_udm_properties (udm_properties_of (sp_json props))
          (set_School_home_share_file_server home_share (set_School_class_share_file_server class_share s))))))"

definition modify_tracked_school ::
  "sync_env \<Rightarrow> school \<Rightarrow> school \<Rightarrow> uuid \<Rightarrow> storage \<Rightarrow> err + storage" where
  "modify_tracked_school env current changed i st =
     res_bind (tracker_patch (se_diff env)
       ((track_enter (track_changes (TSchool current) {}))\<lparr>tr_obj := TSchool changed\<rparr>)) (\<lambda>patch.
       if patch \<noteq> [] then school_modify (se_apply env) i patch st else Inr st)"

definition handle_school_create :: "sync_env \<Rightarrow> school_event \<Rightarrow> storage \<Rightarrow> err + storage" where
  "handle_school_create env event st =
     (let props = ev_properties event; i = sp_id props in
      res_bind (new_school env props) (\<lambda>school.
      (case school_get None i st of
         Inl e \<Rightarrow>
           (case e of
              NotFound _ _ \<Rightarrow>
                res_bind (school_create (se_fresh env) school st) (\<lambda>st.
                  Inr (set_mapping SCHOOL (ev_dn event) (Some i) st))
            | _ \<Rightarrow> Inl e)
       | Inr current \<Rightarrow>
           res_bind (apply_school_changes env props current) (\<lambda>changed.
             modify_tracked_school env current changed i st))))"

definition handle_school_modify :: "sync_env \<Rightarrow> school_event \<Rightarrow> storage \<Rightarrow> err + storage" where
  "handle_school_modify env event st =
     (let props = ev_properties event; i = sp_id props in
      (case school_get None i st of
         Inl e \<Rightarrow> (case e of NotFound _ _ \<Rightarrow> handle_school_create env event st | _ \<Rightarrow> Inl e)
       | Inr current \<Rightarrow>
           res_bind (Inr (set_mapping SCHOOL (ev_dn event) (Some i) st)) (\<lambda>st.
           res_bind (apply_school_changes env props current) (\<lambda>changed.
             modify_tracked_school env current changed i st))))"

definition handle_school_delete :: "delete_event \<Rightarrow> storage \<Rightarrow> err + storage" where
  "handle_school_delete event st = ignore_not_found (school_delete (dp_id (ev_properties event)) st) st"

section \<open>Servers of a school\<close>

definition school_matching_query :: "string \<Rightarrow> search_query" where
  "school_matching_query name = SearchQuery (Some (QFilter (Filter ''name'' MATCHES_CI (VStr name))))"

definition set_school_servers ::
  "sync_env \<Rightarrow> string \<Rightarrow> string list \<Rightarrow> bool \<Rightarrow> storage \<Rightarrow> err + storage" where
  "set_school_servers env group_name hosts missing_school_ok st =
     (case host_group_match group_name of
        None \<Rightarrow> Inl (SynchronizationException ''Unexpected host group name'')
      | Some (school_name, kind) \<Rightarrow>
          res_bind (school_search (se_exec env) (Some (school_matching_query school_name)) [] None 0 None st) (\<lambda>schools.
          (case schools of
             [] \<Rightarrow>
               if missing_school_ok then Inr st
               else Inl (SynchronizationException ''Unable to find school in database.'')
           | school # _ \<Rightarrow>
               (case s_public_id school of
                  UNSET \<Rightarrow> Inl (ValueError ''Unexpected UnsetType'')
                | Present i \<Rightarrow>
                    modify_tracked_school env school
                      (if kind = ''Edukativnetz'' then set_School_educational_servers hosts school
                       else set_School_administrative_servers hosts school) i st))))"

text \<open>\<open>{DN(host).rdn[1] for host in hosts}\<close>\<close>

definition host_names :: "sync_env \<Rightarrow> string list \<Rightarrow> err + string list" where
  "host_names env hosts = res_bind (res_map (\<lambda>h. res_bind (parse_dn env h) (\<lambda>dn. Inr (snd (fst dn)))) hosts) (\<lambda>ns. Inr (remdups ns))"

definition handle_host_group_change :: "sync_env \<Rightarrow> host_group_event \<Rightarrow> storage \<Rightarrow> err + storage" where
  "handle_host_group_change env event st =
     res_bind (host_names env (hp_hosts (ev_properties event))) (\<lambda>hosts.
       set_school_servers env (hp_name (ev_properties event)) hosts False st)"

definition handle_host_group_delete :: "sync_env \<Rightarrow> host_group_event \<Rightarrow> storage \<Rightarrow> err + storage" where
  "handle_host_group_delete env event st =
     set_school_servers env (hp_name (ev_properties event)) [] True st"

section \<open>SynchronizationManager\<close>

text \<open>Every public handler is one transaction.\<close>

definition synchronization_manager :: "sync_env \<Rightarrow> db sync_manager" where
  "synchronization_manager env =
     \<lparr>sm_user_create = (\<lambda>e. transaction_scope (handle_user_create env e)),
      sm_user_modify = (\<lambda>e. transaction_scope (handle_user_modify env e)),
      sm_user_delete = (\<lambda>e. transaction_scope (handle_user_delete e)),
      sm_group_create = (\<lambda>e. transaction_scope (handle_group_create env e)),
      sm_group_modify = (\<lambda>e. transaction_scope (handle_group_modify env e)),
      sm_group_delete = (\<lambda>e. transaction_scope (handle_group_delete e)),
      sm_school_create = (\<lambda>e. transaction_scope (handle_school_create env e)),
      sm_school_modify = (\<lambda>e. transaction_scope (handle_school_modify env e)),
      sm_school_delete = (\<lambda>e. transaction_scope (handle_school_delete e)),
      sm_host_group_create = (\<lambda>e. transaction_scope (handle_host_group_change env e)),
      sm_host_group_modify = (\<lambda>e. transaction_scope (handle_host_group_change env e)),
      sm_host_group_delete = (\<lambda>e. transaction_scope (handle_host_group_delete env e))\<rparr>"

lemma transaction_all_or_nothing: "all_or_nothing db_ok (\<lambda>e. transaction_scope (body e))"
  unfolding all_or_nothing_def
proof (intro allI impI)
  fix e d assume "db_ok d"
  show "case transaction_scope (body e) d of (Some _, d') \<Rightarrow> d' = d | (None, d') \<Rightarrow> db_ok d'"
    using transaction_scope_cases [of "body e" d] by (auto split: prod.splits option.splits)
qed

interpretation sql_manager: transactional_manager db_ok "synchronization_manager env" for env
  by unfold_locales (simp_all add: synchronization_manager_def transaction_all_or_nothing)

end
