(* ===== verification/Sync_Schools.thy ===== *)
theory Sync_Schools
  imports Connector_Sync
begin

text \<open>
  What a school event leaves in the database: the composition of the connector's handlers with the change
  tracking, the school manager, the DN mapper and the transaction of the session.
\<close>

section \<open>Equal documents\<close>

lemma json_eq_StrD [dest!]: "json_eq v (JStr s) \<Longrightarrow> v = JStr s"
  by (cases v) (auto simp: scalar_num_def)

lemma json_eq_NullD [dest!]: "json_eq v JNull \<Longrightarrow> v = JNull"
  by (cases v) (auto simp: scalar_num_def)

lemma json_eq_ListD: "json_eq v (JList ys) \<Longrightarrow> \<exists>xs. v = JList xs \<and> list_all2 json_eq xs ys"
  by (cases v) (auto simp: scalar_num_def)

lemma json_eq_ObjD: "json_eq v (JObj ys) \<Longrightarrow> \<exists>xs. v = JObj xs"
  by (cases v) (auto simp: scalar_num_def)

lemma json_eq_strs: "json_eq v (JList (map JStr ss)) \<Longrightarrow> v = JList (map JStr ss)"
proof -
  assume "json_eq v (JList (map JStr ss))"
  then obtain xs where "v = JList xs" "list_all2 json_eq xs (map JStr ss)" using json_eq_ListD by blast
  moreover from this(2) have "xs = map JStr ss"
    by (induction ss arbitrary: xs) (auto simp: list_all2_Cons2)
  ultimately show ?thesis by simp
qed

text \<open>Equal dicts without repeated keys have equal items under every key.\<close>

lemma json_eq_lookup:
  assumes "json_wf (JObj c)" "json_eq (JObj c) (JObj b)" "map_of b k = Some w"
  shows "\<exists>v. map_of c k = Some v \<and> json_eq v w"
proof -
  have dist: "distinct (map fst c)" and len: "length c = length b"
    and item: "\<And>p. p \<in> set c \<Longrightarrow> \<exists>w. map_of b (fst p) = Some w \<and> json_eq (snd p) w"
    using assms(1,2) by (auto split: option.splits)
  have "fst ` set c \<subseteq> fst ` set b"
    using item by (metis (mono_tags, lifting) imageE map_of_SomeD fst_conv image_eqI subsetI)
  moreover have "card (fst ` set b) \<le> card (fst ` set c)"
    using dist len card_image_le [of "set b" fst] card_length [of b] distinct_card [of "map fst c"]
    by (simp add: order_trans)
  ultimately have "fst ` set c = fst ` set b" by (simp add: card_seteq)
  then obtain p where p: "p \<in> set c" "fst p = k" using assms(3) by (metis (mono_tags) imageE image_eqI map_of_SomeD fst_conv)
  then have "map_of c k = Some (snd p)" using map_of_is_SomeI [OF dist, of k "snd p"] by (metis prod.collapse)
  moreover have "json_eq (snd p) w" using item [OF p(1)] p(2) assms(3) by simp
  ultimately show ?thesis by blast
qed

section \<open>The JSON of a school\<close>

lemma sort_key_strs: "sort_key py_str (map JStr ss) = map JStr (sort ss)"
proof -
  have ins: "insort_key py_str (JStr s) (map JStr ts) = map JStr (insort s ts)" for s ts
    by (induction ts) auto
  show ?thesis by (induction ss) (simp_all add: ins)
qed

lemma school_json_lookup:
  "map_of (school_to_json s) ''record_uid'' = Some (normalise (ser_loadable PStr (s_record_uid s)))"
  "map_of (school_to_json s) ''source_uid'' = Some (normalise (ser_loadable PStr (s_source_uid s)))"
  "map_of (school_to_json s) ''name'' = Some (normalise (ser_loadable PStr (s_name s)))"
  "map_of (school_to_json s) ''display_name'' = Some (normalise (ser_loadable PStr (s_display_name s)))"
  "map_of (school_to_json s) ''educational_servers'' = Some (normalise (ser_loadable ser_strings (s_educational_servers s)))"
  "map_of (school_to_json s) ''administrative_servers'' = Some (normalise (ser_loadable ser_strings (s_administrative_servers s)))"
  "map_of (school_to_json s) ''class_share_file_server'' = Some (normalise (ser_loadable (ser_opt PStr) (s_class_share_file_server s)))"
  "map_of (school_to_json s) ''home_share_file_server'' = Some (normalise (ser_loadable (ser_opt PStr) (s_home_share_file_server s)))"
  "map_of (school_to_json s) ''udm_properties'' = Some (normalise (ser_loadable ser_udm (s_udm_properties s)))"
  by (simp_all add: school_to_json_def json_dict_def ser_school_def normalise_object serialized_domain_field_name_def
      startswith_def del: normalise.simps)

lemma normalise_fields:
  "normalise (ser_loadable PStr (Loaded x)) = JStr x"
  "normalise (ser_loadable ser_strings (Loaded xs)) = JList (map JStr (sort xs))"
  "normalise (ser_loadable (ser_opt PStr) (Loaded y)) = (case y of None \<Rightarrow> JNull | Some t \<Rightarrow> JStr t)"
proof -
  have "map normalise (map PStr xs) = map JStr xs" by simp
  then show "normalise (ser_loadable ser_strings (Loaded xs)) = JList (map JStr (sort xs))"
    using sort_key_strs [of xs] by (simp only: ser_loadable_def ser_strings_def loadable.case normalise.simps)
qed (simp_all add: ser_loadable_def ser_opt_def split: option.split)

lemma normalise_udm: "\<exists>d. normalise (ser_loadable ser_udm (Loaded u)) = JObj d"
  by (simp add: ser_loadable_def ser_udm_def)

lemma school_json_wf: "json_wf (JObj (school_to_json s))"
  unfolding school_to_json_def by (rule json_dict_wf)

section \<open>Modifying a school with a tracked patch\<close>

text \<open>The fields of a row that the JSON of a loaded school determines.\<close>

definition row_agrees :: "school \<Rightarrow> school_row \<Rightarrow> bool" where
  "row_agrees s row \<longleftrightarrow>
     s_record_uid s = Loaded (sr_record_uid row) \<and> s_source_uid s = Loaded (sr_source_uid row) \<and>
     s_name s = Loaded (sr_name row) \<and> s_display_name s = Loaded (sr_display_name row) \<and>
     s_class_share_file_server s = Loaded (sr_class_share_file_server row) \<and>
     s_home_share_file_server s = Loaded (sr_home_share_file_server row) \<and>
     map_loadable set (s_educational_servers s) = Loaded (set (sr_educational_servers row)) \<and>
     map_loadable set (s_administrative_servers s) = Loaded (set (sr_administrative_servers row))"

definition fully_loaded :: "school \<Rightarrow> bool" where
  "fully_loaded s \<longleftrightarrow>
     UNLOADED \<notin> {s_record_uid s, s_source_uid s, s_name s, s_display_name s} \<and>
     UNLOADED \<notin> {s_class_share_file_server s, s_home_share_file_server s} \<and>
     UNLOADED \<notin> {s_educational_servers s, s_administrative_servers s} \<and> s_udm_properties s \<noteq> UNLOADED"

lemma fully_loadedE:
  assumes "fully_loaded s"
  obtains ru su nm dn cs hs es as ud where "s_record_uid s = Loaded ru" "s_source_uid s = Loaded su"
    "s_name s = Loaded nm" "s_display_name s = Loaded dn" "s_class_share_file_server s = Loaded cs"
    "s_home_share_file_server s = Loaded hs" "s_educational_servers s = Loaded es"
    "s_administrative_servers s = Loaded as" "s_udm_properties s = Loaded ud"
proof -
  have loaded: "v \<noteq> UNLOADED \<Longrightarrow> \<exists>x. v = Loaded x" for v :: "'x loadable" by (cases v) simp_all
  note given = assms [unfolded fully_loaded_def insert_iff empty_iff]
  obtain ru where 1: "s_record_uid s = Loaded ru" using given loaded by metis
  obtain su where 2: "s_source_uid s = Loaded su" using given loaded by metis
  obtain nm where 3: "s_name s = Loaded nm" using given loaded by metis
  obtain dn where 4: "s_display_name s = Loaded dn" using given loaded by metis
  obtain cs where 5: "s_class_share_file_server s = Loaded cs" using given loaded by metis
  obtain hs where 6: "s_home_share_file_server s = Loaded hs" using given loaded by metis
  obtain es where 7: "s_educational_servers s = Loaded es" using given loaded by metis
  obtain as where 8: "s_administrative_servers s = Loaded as" using given loaded by metis
  obtain ud where 9: "s_udm_properties s = Loaded ud" using given loaded by metis
  show thesis by (rule that [OF 1 2 3 4 5 6 7 8 9])
qed

text \<open>What a document equal to the JSON of a loaded school says.\<close>

lemma school_document:
  assumes "json_wf (JObj c)" "json_eq (JObj c) (JObj (school_to_json s))"
  shows "s_record_uid s = Loaded x \<Longrightarrow> map_of c ''record_uid'' = Some (JStr x)"
    and "s_source_uid s = Loaded x \<Longrightarrow> map_of c ''source_uid'' = Some (JStr x)"
    and "s_name s = Loaded x \<Longrightarrow> map_of c ''name'' = Some (JStr x)"
    and "s_display_name s = Loaded x \<Longrightarrow> map_of c ''display_name'' = Some (JStr x)"
    and "s_class_share_file_server s = Loaded y \<Longrightarrow>
      map_of c ''class_share_file_server'' = Some (case y of None \<Rightarrow> JNull | Some t \<Rightarrow> JStr t)"
    and "s_home_share_file_server s = Loaded y \<Longrightarrow>
      map_of c ''home_share_file_server'' = Some (case y of None \<Rightarrow> JNull | Some t \<Rightarrow> JStr t)"
    and "s_educational_servers s = Loaded xs \<Longrightarrow> map_of c ''educational_servers'' = Some (JList (map JStr (sort xs)))"
    and "s_administrative_servers s = Loaded xs \<Longrightarrow> map_of c ''administrative_servers'' = Some (JList (map JStr (sort xs)))"
proof -
  note get = json_eq_lookup [OF assms school_json_lookup(1)] json_eq_lookup [OF assms school_json_lookup(2)]
    json_eq_lookup [OF assms school_json_lookup(3)] json_eq_lookup [OF assms school_json_lookup(4)]
    json_eq_lookup [OF assms school_json_lookup(5)] json_eq_lookup [OF assms school_json_lookup(6)]
    json_eq_lookup [OF assms school_json_lookup(7)] json_eq_lookup [OF assms school_json_lookup(8)]
  show "s_record_uid s = Loaded x \<Longrightarrow> map_of c ''record_uid'' = Some (JStr x)"
    using get(1) by (auto simp: normalise_fields)
  show "s_source_uid s = Loaded x \<Longrightarrow> map_of c ''source_uid'' = Some (JStr x)"
    using get(2) by (auto simp: normalise_fields)
  show "s_name s = Loaded x \<Longrightarrow> map_of c ''name'' = Some (JStr x)"
    using get(3) by (auto simp: normalise_fields)
  show "s_display_name s = Loaded x \<Longrightarrow> map_of c ''display_name'' = Some (JStr x)"
    using get(4) by (auto simp: normalise_fields)
  show "s_class_share_file_server s = Loaded y \<Longrightarrow>
      map_of c ''class_share_file_server'' = Some (case y of None \<Rightarrow> JNull | Some t \<Rightarrow> JStr t)"
    using get(7) by (cases y) (auto simp: normalise_fields)
  show "s_home_share_file_server s = Loaded y \<Longrightarrow>
      map_of c ''home_share_file_server'' = Some (case y of None \<Rightarrow> JNull | Some t \<Rightarrow> JStr t)"
    using get(8) by (cases y) (auto simp: normalise_fields)
  show "s_educational_servers s = Loaded xs \<Longrightarrow> map_of c ''educational_servers'' = Some (JList (map JStr (sort xs)))"
    using get(5) by (auto simp: normalise_fields dest: json_eq_strs)
  show "s_administrative_servers s = Loaded xs \<Longrightarrow> map_of c ''administrative_servers'' = Some (JList (map JStr (sort xs)))"
    using get(6) by (auto simp: normalise_fields dest: json_eq_strs)
qed

lemma res_map_strs: "res_map (\<lambda>x. case x of JStr s \<Rightarrow> Inr s | _ \<Rightarrow> Inl e) (map JStr xs) = Inr xs"
  by (induction xs) simp_all

lemma document_to_row:
  assumes "json_wf (JObj c)" "json_eq (JObj c) (JObj (school_to_json s))" "fully_loaded s"
    and "apply_school_patch c row = Inr row'"
  shows "row_agrees s row' \<and> sr_public_id row' = sr_public_id row"
proof -
  from assms(3) obtain ru su nm dn cs hs es as ud where s: "s_record_uid s = Loaded ru" "s_source_uid s = Loaded su"
    "s_name s = Loaded nm" "s_display_name s = Loaded dn" "s_class_share_file_server s = Loaded cs"
    "s_home_share_file_server s = Loaded hs" "s_educational_servers s = Loaded es"
    "s_administrative_servers s = Loaded as" "s_udm_properties s = Loaded ud" by (rule fully_loadedE)
  note doc = school_document [OF assms(1,2)]
  show ?thesis
    using assms(4) doc(1) [OF s(1)] doc(2) [OF s(2)] doc(3) [OF s(3)] doc(4) [OF s(4)] doc(5) [OF s(5)] doc(6) [OF s(6)]
      doc(7) [OF s(7)] doc(8) [OF s(8)]
    by (auto simp: apply_school_patch_def patched_str_def patched_opt_str_def patched_strs_def patched_item_def of_opt_def
        res_map_strs res_bind_eq_Inr row_agrees_def s split: option.splits)
qed

lemma equal_documents_agree:
  assumes "json_eq (JObj (school_to_json a)) (JObj (school_to_json b))" "fully_loaded a" "fully_loaded b" "row_agrees a row"
  shows "row_agrees b row"
proof -
  note ab = school_document [OF school_json_wf assms(1)] and aa = school_document [OF school_json_wf json_eq_refl [OF school_json_wf [of a]]]
  from assms(2) obtain ru su nm dn cs hs es as ud where a: "s_record_uid a = Loaded ru" "s_source_uid a = Loaded su"
    "s_name a = Loaded nm" "s_display_name a = Loaded dn" "s_class_share_file_server a = Loaded cs"
    "s_home_share_file_server a = Loaded hs" "s_educational_servers a = Loaded es"
    "s_administrative_servers a = Loaded as" "s_udm_properties a = Loaded ud" by (rule fully_loadedE)
  from assms(3) obtain ru' su' nm' dn' cs' hs' es' as' ud' where b: "s_record_uid b = Loaded ru'" "s_source_uid b = Loaded su'"
    "s_name b = Loaded nm'" "s_display_name b = Loaded dn'" "s_class_share_file_server b = Loaded cs'"
    "s_home_share_file_server b = Loaded hs'" "s_educational_servers b = Loaded es'"
    "s_administrative_servers b = Loaded as'" "s_udm_properties b = Loaded ud'" by (rule fully_loadedE)
  have "ru = ru'" "su = su'" "nm = nm'" "dn = dn'"
    using aa(1-4) ab(1-4) a(1-4) b(1-4) by simp_all
  moreover have "cs = cs'" "hs = hs'"
    using aa(5) [OF a(5)] ab(5) [OF b(5)] aa(6) [OF a(6)] ab(6) [OF b(6)] by (auto split: option.splits)
  moreover have "sort es = sort es'" "sort as = sort as'"
    using aa(7) [OF a(7)] ab(7) [OF b(7)] aa(8) [OF a(8)] ab(8) [OF b(8)] by (simp_all add: inj_map_eq_map inj_def)
  then have "set es = set es'" "set as = set as'" by (metis set_sort)+
  ultimately show ?thesis using assms(4) a b by (simp add: row_agrees_def)
qed

lemma loaded_school [simp]: "fully_loaded (to_school all_loaded row)" "row_agrees (to_school all_loaded row) row"
  by (simp_all add: fully_loaded_def row_agrees_def to_school_def all_loaded_def Let_def)

lemma school_patch_is_diff:
  "create_school_patch jp_diff a b {} = jp_diff (school_to_json a) (school_to_json b)"
  by (simp add: create_school_patch_def patch_ops_def)

lemma find_by_update_by:
  assumes "\<And>r. key r = i \<Longrightarrow> key (f r) = i"
  shows "find_by key j (update_by key i f rows) =
    (if j = i then map_option f (find_by key i rows) else find_by key j rows)"
proof (induction rows)
  case (Cons r rows)
  have "key (if key r = i then f r else r) = key r" using assms by simp
  with Cons show ?case by (auto simp: find_by_def update_by_def)
qed (simp add: find_by_def update_by_def)

text \<open>A modification with a patch that is not empty stores a document equal to the JSON of the changed object.\<close>

lemma tracked_school_patched:
  assumes laws: "json_patch_laws (se_diff env) (se_apply env)" and row: "school_of (st_db st) i = Some row"
    and run: "school_modify (se_apply env) i (se_diff env (school_to_json (to_school all_loaded row)) (school_to_json changed)) st = Inr st'"
  shows "\<exists>c row'. json_wf (JObj c) \<and> json_eq (JObj c) (JObj (school_to_json changed)) \<and>
    apply_school_patch c row = Inr row' \<and>
    st' = st\<lparr>st_db := (st_db st)\<lparr>db_schools := update_by sr_public_id i (\<lambda>_. row') (db_schools (st_db st))\<rparr>\<rparr> \<and>
    (\<forall>j. school_of (st_db st') j = (if j = i then Some row' else school_of (st_db st) j))"
proof -
  let ?c = "to_school all_loaded row"
  from laws obtain c where c: "se_apply env (se_diff env (school_to_json ?c) (school_to_json changed)) (school_to_json ?c) = Some c"
    "json_wf (JObj c)" "json_eq (JObj c) (JObj (school_to_json changed))"
    using school_json_wf unfolding json_patch_laws_def by blast
  from run row c(1) obtain row' where row': "apply_school_patch c row = Inr row'"
    and st': "st' = st\<lparr>st_db := (st_db st)\<lparr>db_schools := update_by sr_public_id i (\<lambda>_. row') (db_schools (st_db st))\<rparr>\<rparr>"
    by (auto simp: school_modify_def Let_def apply_patch_def of_opt_def res_bind_eq_Inr)
  have "sr_public_id row' = i"
    using row' school_of_id [OF row] by (auto simp: apply_school_patch_def res_bind_eq_Inr)
  then have "school_of (st_db st') j = (if j = i then Some row' else school_of (st_db st) j)" for j
    using find_by_update_by [of sr_public_id i "\<lambda>_. row'" j "db_schools (st_db st)"] row by (simp add: school_of_def st')
  with c(2,3) row' st' show ?thesis by blast
qed

text \<open>What a tracked modification of a stored school leaves: the row of the school agrees with the changed
  object, all other tables and rows stay.\<close>

lemma tracked_school:
  assumes laws: "json_patch_laws (se_diff env) (se_apply env)" and row: "school_of (st_db st) i = Some row"
    and loaded: "fully_loaded changed"
    and run: "modify_tracked_school env (to_school all_loaded row) changed i st = Inr st'"
  shows "\<exists>row' rows. school_of (st_db st') i = Some row' \<and> row_agrees changed row' \<and>
    (\<forall>j. j \<noteq> i \<longrightarrow> school_of (st_db st') j = school_of (st_db st) j) \<and>
    st' = st\<lparr>st_db := (st_db st)\<lparr>db_schools := rows\<rparr>\<rparr> \<and> map sr_public_id rows = map sr_public_id (db_schools (st_db st))"
proof -
  let ?c = "to_school all_loaded row"
  let ?patch = "se_diff env (school_to_json ?c) (school_to_json changed)"
  have run: "(if ?patch \<noteq> [] then school_modify (se_apply env) i ?patch st else Inr st) = Inr st'"
    using run by (simp add: modify_tracked_school_def tracker_patch_def track_enter_def track_changes_def school_patch_is_diff)
  show ?thesis
  proof (cases "?patch = []")
    case True
    with laws have "json_eq (JObj (school_to_json ?c)) (JObj (school_to_json changed))"
      using school_json_wf unfolding json_patch_laws_def by blast
    then have "row_agrees changed row" by (rule equal_documents_agree) (simp_all add: loaded)
    moreover have "st' = st\<lparr>st_db := (st_db st)\<lparr>db_schools := db_schools (st_db st)\<rparr>\<rparr>" using run True by simp
    ultimately show ?thesis
      using row run True by (intro exI [of _ row] exI [of _ "db_schools (st_db st)"]) simp
  next
    case False
    with run have "school_modify (se_apply env) i ?patch st = Inr st'" by simp
    from tracked_school_patched [OF laws row this] obtain c row' where c: "json_wf (JObj c)"
      "json_eq (JObj c) (JObj (school_to_json changed))" and row': "apply_school_patch c row = Inr row'"
      and st': "st' = st\<lparr>st_db := (st_db st)\<lparr>db_schools := update_by sr_public_id i (\<lambda>_. row') (db_schools (st_db st))\<rparr>\<rparr>"
      and find: "\<And>j. school_of (st_db st') j = (if j = i then Some row' else school_of (st_db st) j)"
      by blast
    note agrees = document_to_row [OF c loaded row']
    have "sr_public_id row' = i" using agrees school_of_id [OF row] by simp
    then have "map sr_public_id (update_by sr_public_id i (\<lambda>_. row') (db_schools (st_db st))) = map sr_public_id (db_schools (st_db st))"
      by (auto simp: update_by_def)
    with agrees find st' show ?thesis by (intro exI [of _ row']) auto
  qed
qed

section \<open>The transaction\<close>

lemma flush_school_mapping:
  assumes "flush st = Inr st'" and "st_pending st = [(SCHOOL, dn, i)]"
  shows "db_ok (st_db st')" and "school_of (st_db st') j = school_of (st_db st) j"
    and "(i, dn) \<in> set (db_school_dns (st_db st'))"
proof -
  from assms have "db_ok (insert_pending (SCHOOL, dn, i) (st_db st))"
    and st': "st_db st' = insert_pending (SCHOOL, dn, i) (st_db st)"
    by (auto simp: flush_def Let_def split: if_splits)
  then show "db_ok (st_db st')" by simp
  show "school_of (st_db st') j = school_of (st_db st) j" by (simp add: st' insert_pending_def school_of_def)
  show "(i, dn) \<in> set (db_school_dns (st_db st'))"
    by (simp add: st' insert_pending_def set_dn_rows_def dn_rows_def)
qed

lemma flush_no_pending:
  "flush st = Inr st' \<Longrightarrow> st_pending st = [] \<Longrightarrow> db_ok (st_db st') \<and> st_db st' = st_db st"
  by (auto simp: flush_def Let_def split: if_splits)

text \<open>The school of an event as a row should have it.\<close>

definition event_in_row :: "sync_env \<Rightarrow> school_properties \<Rightarrow> school_row \<Rightarrow> bool" where
  "event_in_row env props row \<longleftrightarrow>
     sr_name row = sp_name props \<and> sr_display_name row = sp_display_name props \<and>
     server_hostname env (sp_class_share props) = Inr (sr_class_share_file_server row) \<and>
     server_hostname env (sp_home_share props) = Inr (sr_home_share_file_server row)"

lemma applied_school:
  assumes "apply_school_changes env props (to_school all_loaded row) = Inr changed"
  shows "fully_loaded changed" and "row_agrees changed row' \<Longrightarrow> event_in_row env props row' \<and>
    set (sr_educational_servers row') = set (sr_educational_servers row) \<and>
    set (sr_administrative_servers row') = set (sr_administrative_servers row)"
proof -
  from assms obtain cs hs where "server_hostname env (sp_class_share props) = Inr cs"
    "server_hostname env (sp_home_share props) = Inr hs" and
    changed: "changed = set_School_udm_properties (udm_properties_of (sp_json props))
      (set_School_home_share_file_server hs (set_School_class_share_file_server cs
        (set_School_display_name (sp_display_name props) (set_School_name (sp_name props) (to_school all_loaded row)))))"
    by (auto simp: apply_school_changes_def Let_def res_bind_eq_Inr)
  note defs = set_School_name_def set_School_display_name_def set_School_class_share_file_server_def
    set_School_home_share_file_server_def set_School_udm_properties_def to_school_def all_loaded_def Let_def
  show "fully_loaded changed" by (simp add: changed fully_loaded_def defs)
  show "row_agrees changed row' \<Longrightarrow> event_in_row env props row' \<and>
    set (sr_educational_servers row') = set (sr_educational_servers row) \<and>
    set (sr_administrative_servers row') = set (sr_administrative_servers row)"
    using \<open>server_hostname env (sp_class_share props) = Inr cs\<close> \<open>server_hostname env (sp_home_share props) = Inr hs\<close>
    by (simp add: changed row_agrees_def event_in_row_def defs)
qed

lemma school_get_all: "school_get None i st = (case school_of (st_db st) i of
    None \<Rightarrow> Inl (NotFound ''School'' (uuid_str i)) | Some row \<Rightarrow> Inr (to_school all_loaded row))"
  by (simp add: school_get_def school_unloaded_def load_requested_scalar_attributes_def all_loaded_def split: option.split)

definition old_servers :: "(school_row \<Rightarrow> string list) \<Rightarrow> db \<Rightarrow> uuid \<Rightarrow> string set" where
  "old_servers f d i = (case school_of d i of None \<Rightarrow> {} | Some row \<Rightarrow> set (f row))"

definition school_event_done :: "sync_env \<Rightarrow> school_event \<Rightarrow> db \<Rightarrow> db \<Rightarrow> bool" where
  "school_event_done env event d d' \<longleftrightarrow>
     (let i = sp_id (ev_properties event) in
      db_ok d' \<and>
      (\<exists>row. school_of d' i = Some row \<and> event_in_row env (ev_properties event) row \<and>
         set (sr_educational_servers row) = old_servers sr_educational_servers d i \<and>
         set (sr_administrative_servers row) = old_servers sr_administrative_servers d i) \<and>
      (\<forall>j. j \<noteq> i \<longrightarrow> school_of d' j = school_of d j))"

lemma school_created:
  assumes "db_ok d" and none: "school_of d (sp_id (ev_properties event)) = None"
    and run: "transaction_scope (handle_school_create env event) d = (None, d')"
  shows "school_event_done env event d d' \<and> (sp_id (ev_properties event), ev_dn event) \<in> set (db_school_dns d')"
proof -
  let ?i = "sp_id (ev_properties event)"
  from run obtain st st' where h: "handle_school_create env event (fresh_storage d) = Inr st" and f: "flush st = Inr st'"
    and d': "d' = st_db st'"
    by (auto simp: transaction_scope_run res_bind_eq_Inr split: sum.splits)
  from h none obtain x st1 where x: "new_school env (ev_properties event) = Inr x"
    and c: "school_create (se_fresh env) x (fresh_storage d) = Inr st1"
    and st: "st = set_mapping SCHOOL (ev_dn event) (Some ?i) st1"
    by (auto simp: handle_school_create_def Let_def school_get_all res_bind_eq_Inr)
  have "settled (fresh_storage d)" using assms(1) by (simp add: settled_def)
  from school_create_ok [OF this c] obtain row where row: "to_school_model (se_fresh env) x = Inr row"
    and st1: "st1 = fresh_storage (d\<lparr>db_schools := db_schools d @ [row]\<rparr>)" by auto
  from x obtain cs hs where sh: "server_hostname env (sp_class_share (ev_properties event)) = Inr cs"
    "server_hostname env (sp_home_share (ev_properties event)) = Inr hs"
    and xs: "s_public_id x = Present ?i" "s_name x = Loaded (sp_name (ev_properties event))"
    "s_display_name x = Loaded (sp_display_name (ev_properties event))" "s_educational_servers x = Loaded []"
    "s_administrative_servers x = Loaded []" "s_class_share_file_server x = Loaded cs" "s_home_share_file_server x = Loaded hs"
    by (auto simp: new_school_def res_bind_eq_Inr)
  then have r: "sr_public_id row = ?i" "event_in_row env (ev_properties event) row" "sr_educational_servers row = []"
    "sr_administrative_servers row = []"
    using row by (auto simp: to_school_model_def accessors res_bind_eq_Inr row_id_def event_in_row_def)
  have pend: "st_pending st = [(SCHOOL, ev_dn event, ?i)]" by (simp add: st st1 set_mapping_def)
  have find: "school_of (st_db st) j = (if j = ?i then Some row else school_of d j)" for j
    using none r(1) by (simp add: st st1 set_mapping_def school_of_def find_by_append split: option.split)
  have s': "school_of d' j = (if j = ?i then Some row else school_of d j)" for j
    using flush_school_mapping(2) [OF f pend, of j] find by (simp add: d')
  show ?thesis
    unfolding school_event_done_def Let_def
    using flush_school_mapping(1,3) [OF f pend] s' r none by (simp add: d' old_servers_def)
qed

lemma school_of_set_mapping: "school_of (st_db (set_mapping t dn (Some j) st)) i = school_of (st_db st) i"
  by (simp add: set_mapping_def school_of_def)

lemma school_changed:
  assumes laws: "json_patch_laws (se_diff env) (se_apply env)" and row: "school_of (st_db st) i = Some row"
    and i: "i = sp_id props" and c: "apply_school_changes env props (to_school all_loaded row) = Inr changed"
    and m: "modify_tracked_school env (to_school all_loaded row) changed i st = Inr st'"
  shows "st_pending st' = st_pending st" and "(\<exists>row'. school_of (st_db st') i = Some row' \<and> event_in_row env props row' \<and>
         set (sr_educational_servers row') = set (sr_educational_servers row) \<and>
         set (sr_administrative_servers row') = set (sr_administrative_servers row)) \<and>
      (\<forall>j. j \<noteq> i \<longrightarrow> school_of (st_db st') j = school_of (st_db st) j)"
proof -
  from tracked_school [OF laws row applied_school(1) [OF c] m] obtain row' rows where
    t: "school_of (st_db st') i = Some row'" "row_agrees changed row'"
      "\<forall>j. j \<noteq> i \<longrightarrow> school_of (st_db st') j = school_of (st_db st) j"
      "st' = st\<lparr>st_db := (st_db st)\<lparr>db_schools := rows\<rparr>\<rparr>" by blast
  show "st_pending st' = st_pending st" by (simp add: t(4))
  show "(\<exists>row'. school_of (st_db st') i = Some row' \<and> event_in_row env props row' \<and>
         set (sr_educational_servers row') = set (sr_educational_servers row) \<and>
         set (sr_administrative_servers row') = set (sr_administrative_servers row)) \<and>
      (\<forall>j. j \<noteq> i \<longrightarrow> school_of (st_db st') j = school_of (st_db st) j)"
    using applied_school(2) [OF c t(2)] t(1,3) by blast
qed

lemma school_modified:
  assumes "db_ok d" and laws: "json_patch_laws (se_diff env) (se_apply env)"
    and row: "school_of d (sp_id (ev_properties event)) = Some row"
    and run: "transaction_scope (handle_school_modify env event) d = (None, d')"
  shows "school_event_done env event d d' \<and> (sp_id (ev_properties event), ev_dn event) \<in> set (db_school_dns d')"
proof -
  let ?i = "sp_id (ev_properties event)"
  let ?st = "set_mapping SCHOOL (ev_dn event) (Some ?i) (fresh_storage d)"
  from run obtain st st' where h: "handle_school_modify env event (fresh_storage d) = Inr st" and f: "flush st = Inr st'"
    and d': "d' = st_db st'"
    by (auto simp: transaction_scope_run res_bind_eq_Inr split: sum.splits)
  from h row obtain changed where c: "apply_school_changes env (ev_properties event) (to_school all_loaded row) = Inr changed"
    and m: "modify_tracked_school env (to_school all_loaded row) changed ?i ?st = Inr st"
    by (auto simp: handle_school_modify_def Let_def school_get_all res_bind_eq_Inr)
  have "school_of (st_db ?st) ?i = Some row" using row by (simp add: school_of_set_mapping)
  note changed = school_changed [OF laws this refl c m]
  have pend: "st_pending st = [(SCHOOL, ev_dn event, ?i)]" using changed(1) by (simp add: set_mapping_def)
  note final = flush_school_mapping [OF f pend]
  show ?thesis
    unfolding school_event_done_def Let_def d'
    using final changed(2) row by (simp add: old_servers_def school_of_set_mapping)
qed

lemma school_recreated:
  assumes "db_ok d" and laws: "json_patch_laws (se_diff env) (se_apply env)"
    and row: "school_of d (sp_id (ev_properties event)) = Some row"
    and run: "transaction_scope (handle_school_create env event) d = (None, d')"
  shows "school_event_done env event d d' \<and> db_school_dns d' = db_school_dns d"
proof -
  let ?i = "sp_id (ev_properties event)"
  from run obtain st st' where h: "handle_school_create env event (fresh_storage d) = Inr st" and f: "flush st = Inr st'"
    and d': "d' = st_db st'"
    by (auto simp: transaction_scope_run res_bind_eq_Inr split: sum.splits)
  from h row obtain changed where c: "apply_school_changes env (ev_properties event) (to_school all_loaded row) = Inr changed"
    and m: "modify_tracked_school env (to_school all_loaded row) changed ?i (fresh_storage d) = Inr st"
    by (auto simp: handle_school_create_def Let_def school_get_all res_bind_eq_Inr)
  have st: "school_of (st_db (fresh_storage d)) ?i = Some row" using row by simp
  note changed = school_changed [OF laws st refl c m]
  have "st_pending st = []" using changed(1) by simp
  from flush_no_pending [OF f this] have final: "db_ok (st_db st')" "st_db st' = st_db st" by auto
  have "db_school_dns (st_db st) = db_school_dns d"
    using tracked_school [OF laws st applied_school(1) [OF c] m] by auto
  then show ?thesis
    unfolding school_event_done_def Let_def d'
    using final changed(2) row by (simp add: old_servers_def)
qed

section \<open>The UDM properties\<close>

lemma map_of_udm_properties:
  "map_of (udm_properties_of al) k = (if k \<in> UDM_PROPERTIES_DENYLIST then None else map_of al k)"
  unfolding udm_properties_of_def by (induction al) auto

lemma school_created_udm:
  assumes "db_ok d" and none: "school_of d (sp_id (ev_properties event)) = None"
    and run: "transaction_scope (handle_school_create env event) d = (None, d')"
  shows "\<exists>row. school_of d' (sp_id (ev_properties event)) = Some row \<and>
    sr_udm_properties row = udm_properties_of (sp_json (ev_properties event))"
proof -
  let ?i = "sp_id (ev_properties event)"
  from run none obtain x st1 st' where x: "new_school env (ev_properties event) = Inr x"
    and c: "school_create (se_fresh env) x (fresh_storage d) = Inr st1"
    and f: "flush (set_mapping SCHOOL (ev_dn event) (Some ?i) st1) = Inr st'" and d': "d' = st_db st'"
    by (auto simp: transaction_scope_run handle_school_create_def Let_def school_get_all res_bind_eq_Inr split: sum.splits)
  have "settled (fresh_storage d)" using assms(1) by (simp add: settled_def)
  from school_create_ok [OF this c] obtain row where row: "to_school_model (se_fresh env) x = Inr row"
    and st1: "st1 = fresh_storage (d\<lparr>db_schools := db_schools d @ [row]\<rparr>)" by auto
  have r: "sr_public_id row = ?i" "sr_udm_properties row = udm_properties_of (sp_json (ev_properties event))"
    using x row by (auto simp: new_school_def to_school_model_def accessors res_bind_eq_Inr row_id_def)
  have pend: "st_pending (set_mapping SCHOOL (ev_dn event) (Some ?i) st1) = [(SCHOOL, ev_dn event, ?i)]"
    by (simp add: st1 set_mapping_def)
  have "school_of d' ?i = Some row"
    using flush_school_mapping(2) [OF f pend, of ?i] none r(1)
    by (simp add: d' st1 school_of_set_mapping) (simp add: school_of_def find_by_append)
  with r(2) show ?thesis by blast
qed

lemma school_modified_udm:
  assumes laws: "json_patch_laws (se_diff env) (se_apply env)"
    and row: "school_of d (sp_id (ev_properties event)) = Some row"
    and run: "transaction_scope (handle_school_modify env event) d = (None, d')"
    and new: "sr_display_name row \<noteq> sp_display_name (ev_properties event)"
    and dist: "distinct (map fst (udm_properties_of (sp_json (ev_properties event))))"
    and item: "map_of (udm_properties_of (sp_json (ev_properties event))) k = Some (JList (map JStr ss))"
  shows "\<exists>row'. school_of d' (sp_id (ev_properties event)) = Some row' \<and>
    map_of (sr_udm_properties row') k = Some (JList (map JStr (sort ss)))"
proof -
  let ?i = "sp_id (ev_properties event)" and ?udm = "udm_properties_of (sp_json (ev_properties event))"
  let ?st = "set_mapping SCHOOL (ev_dn event) (Some ?i) (fresh_storage d)" and ?a = "to_school all_loaded row"
  from run row obtain changed st st' where c: "apply_school_changes env (ev_properties event) ?a = Inr changed"
    and m: "modify_tracked_school env ?a changed ?i ?st = Inr st" and f: "flush st = Inr st'" and d': "d' = st_db st'"
    by (auto simp: transaction_scope_run handle_school_modify_def Let_def school_get_all res_bind_eq_Inr split: sum.splits)
  have changed: "s_display_name changed = Loaded (sp_display_name (ev_properties event))" "s_udm_properties changed = Loaded ?udm"
    using c by (auto simp: apply_school_changes_def Let_def res_bind_eq_Inr set_School_display_name_def set_School_name_def
        set_School_class_share_file_server_def set_School_home_share_file_server_def set_School_udm_properties_def)
  let ?patch = "se_diff env (school_to_json ?a) (school_to_json changed)"
  have "?patch \<noteq> []"
  proof
    assume "?patch = []"
    with laws have "json_eq (JObj (school_to_json ?a)) (JObj (school_to_json changed))"
      using school_json_wf unfolding json_patch_laws_def by blast
    from school_document(4) [OF school_json_wf this changed(1)] new show False
      using school_json_lookup(4) [of ?a] by (simp add: to_school_def all_loaded_def Let_def normalise_fields)
  qed
  with m have sm: "school_modify (se_apply env) ?i ?patch ?st = Inr st"
    by (simp add: modify_tracked_school_def tracker_patch_def track_enter_def track_changes_def school_patch_is_diff)
  have "school_of (st_db ?st) ?i = Some row" using row by (simp add: school_of_set_mapping)
  from tracked_school_patched [OF laws this sm] obtain doc row' where doc: "json_wf (JObj doc)"
    "json_eq (JObj doc) (JObj (school_to_json changed))" and row': "apply_school_patch doc row = Inr row'"
    and st': "st = ?st\<lparr>st_db := (st_db ?st)\<lparr>db_schools := update_by sr_public_id ?i (\<lambda>_. row') (db_schools (st_db ?st))\<rparr>\<rparr>"
    and find: "\<forall>j. school_of (st_db st) j = (if j = ?i then Some row' else school_of (st_db ?st) j)" by blast
  have st: "st_pending st = [(SCHOOL, ev_dn event, ?i)]" "school_of (st_db st) ?i = Some row'"
    using st' find by (simp_all add: set_mapping_def)
  from json_eq_lookup [OF doc school_json_lookup(9)] obtain v where v: "map_of doc ''udm_properties'' = Some v"
    "json_eq v (normalise (ser_loadable ser_udm (s_udm_properties changed)))" by blast
  have norm: "normalise (ser_loadable ser_udm (s_udm_properties changed)) = JObj (map (\<lambda>p. (fst p, normalise (of_json (snd p)))) ?udm)"
    using normalise_dict [of "map (\<lambda>p. (KStr (fst p), of_json (snd p))) ?udm"] dist
    by (simp add: changed(2) ser_loadable_def ser_udm_def comp_def del: normalise.simps)
  then obtain x where x: "v = JObj x" using v(2) json_eq_ObjD by metis
  have wf: "json_wf (JObj x)" using json_wf_item [OF doc(1) v(1)] x by simp
  have "map_of (map (\<lambda>p. (fst p, normalise (of_json (snd p)))) ?udm) k = Some (JList (map JStr (sort ss)))"
  proof -
    have "map_of (map (\<lambda>p. (fst p, normalise (of_json (snd p)))) al) k = map_option (normalise \<circ> of_json) (map_of al k)" for al
      by (induction al) auto
    moreover have "normalise (of_json (JList (map JStr ss))) = JList (map JStr (sort ss))"
      using sort_key_strs [of ss] by (simp add: comp_def)
    ultimately show ?thesis using item by simp
  qed
  from json_eq_lookup [OF wf v(2) [unfolded x norm] this] have "map_of x k = Some (JList (map JStr (sort ss)))"
    by (auto dest: json_eq_strs)
  moreover have "sr_udm_properties row' = x"
    using row' v(1) x by (auto simp: apply_school_patch_def res_bind_eq_Inr patched_dict_def patched_item_def of_opt_def)
  moreover have "school_of d' ?i = Some row'" using flush_school_mapping(2) [OF f st(1), of ?i] st(2) by (simp add: d')
  ultimately show ?thesis by blast
qed

lemma school_modify_creates:
  "school_of d (sp_id (ev_properties event)) = None \<Longrightarrow>
   transaction_scope (handle_school_modify env event) d = transaction_scope (handle_school_create env event) d"
  by (simp add: transaction_scope_run handle_school_modify_def Let_def school_get_all)

section \<open>Properties\<close>



section \<open>Witness\<close>

definition demo_env :: sync_env where
  "demo_env = \<lparr>se_exec = (\<lambda>s d. []), se_diff = whole_diff, se_apply = whole_apply, se_depth = 500, se_fresh = 0,
     se_dn = (\<lambda>v. if v = ''cn=srv,dc=x'' then Some ((''cn'', ''srv''), Some (''dc'', ''x'')) else None)\<rparr>"

definition demo_school_event :: school_event where
  "demo_school_event = \<lparr>ev_timestamp = ''t'', ev_sequence_number = 1, ev_payload =
     \<lparr>pl_dn = ''ou=c,dc=x'', pl_id = ''ou=c,dc=x'', pl_position = ''dc=x'', pl_object_type = ''container/ou'',
      pl_properties = \<lparr>sp_id = 3, sp_name = ''c'', sp_display_name = ''C'', sp_class_share = Some ''cn=srv,dc=x'',
        sp_home_share = None, sp_json = [(''name'', JStr ''c'')]\<rparr>\<rparr>\<rparr>"

lemma demo_school_event_runs:
  "\<exists>d'. sm_school_modify (synchronization_manager demo_env) demo_school_event (demo_db []) = (None, d')"
proof -
  have "\<exists>st. res_bind (handle_school_modify demo_env demo_school_event (fresh_storage (demo_db []))) flush = Inr st"
    by (simp add: handle_school_modify_def handle_school_create_def school_get_def school_of_def demo_school_event_def
        new_school_def server_hostname_def parse_dn_def demo_env_def of_opt_def school_create_def to_school_model_def
        accessors row_id_def flush_def Let_def demo_defs db_ok_def table_oks given_def mapping_ok_def
        primary_user_constraint_def set_mapping_def set_dn_rows_def dn_rows_def insert_pending_def)
  then show ?thesis by (auto simp: synchronization_manager_def transaction_scope_run)
qed


text \<open>The school \<open>a\<close> of the fixture gets a new display name.\<close>

definition demo_rename :: school_event where
  "demo_rename = \<lparr>ev_timestamp = ''t'', ev_sequence_number = 2, ev_payload =
     \<lparr>pl_dn = ''ou=a,dc=x'', pl_id = ''ou=a,dc=x'', pl_position = ''dc=x'', pl_object_type = ''container/ou'',
      pl_properties = \<lparr>sp_id = 1, sp_name = ''a'', sp_display_name = ''A'', sp_class_share = None, sp_home_share = None,
        sp_json = [(''mail'', JList (map JStr [''b'', ''a'']))]\<rparr>\<rparr>\<rparr>"

lemma demo_rename_runs:
  "\<exists>d'. sm_school_modify (synchronization_manager demo_env) demo_rename (demo_db []) = (None, d')"
proof -
  let ?row = "demo_school 1 ''a''" and ?props = "ev_properties demo_rename"
  let ?st = "set_mapping SCHOOL ''ou=a,dc=x'' (Some 1) (fresh_storage (demo_db []))"
  let ?a = "to_school all_loaded ?row"
  define b where "b = set_School_udm_properties (udm_properties_of (sp_json ?props)) (set_School_display_name ''A'' ?a)"
  have fields: "s_record_uid b = Loaded ''a''" "s_source_uid b = Loaded ''ldap''" "s_name b = Loaded ''a''"
    "s_display_name b = Loaded ''A''" "s_educational_servers b = Loaded []" "s_administrative_servers b = Loaded []"
    "s_class_share_file_server b = Loaded None" "s_home_share_file_server b = Loaded None"
    "s_udm_properties b = Loaded [(''mail'', JList (map JStr [''b'', ''a'']))]"
    by (simp_all add: b_def set_School_udm_properties_def set_School_display_name_def to_school_def all_loaded_def Let_def
        demo_school_def demo_rename_def udm_properties_of_def UDM_PROPERTIES_DENYLIST_def)
  have b: "apply_school_changes demo_env ?props ?a = Inr b"
    by (simp add: apply_school_changes_def server_hostname_def demo_rename_def b_def Let_def set_School_name_def
        set_School_display_name_def set_School_class_share_file_server_def set_School_home_share_file_server_def
        set_School_udm_properties_def to_school_def all_loaded_def demo_school_def)
  have row: "school_of (st_db ?st) 1 = Some ?row"
    by (simp add: school_of_set_mapping) (simp add: school_of_def demo_db_def demo_school_def)
  have "map_of (school_to_json b) ''display_name'' \<noteq> map_of (school_to_json ?a) ''display_name''"
    unfolding school_json_lookup fields normalise_fields
    by (simp add: to_school_def all_loaded_def Let_def demo_school_def ser_loadable_def)
  then have ne: "school_to_json ?a \<noteq> school_to_json b" by metis
  have look: "map_of (school_to_json b) ''record_uid'' = Some (JStr ''a'')" "map_of (school_to_json b) ''source_uid'' = Some (JStr ''ldap'')"
    "map_of (school_to_json b) ''name'' = Some (JStr ''a'')" "map_of (school_to_json b) ''display_name'' = Some (JStr ''A'')"
    "map_of (school_to_json b) ''educational_servers'' = Some (JList [])" "map_of (school_to_json b) ''administrative_servers'' = Some (JList [])"
    "map_of (school_to_json b) ''class_share_file_server'' = Some JNull" "map_of (school_to_json b) ''home_share_file_server'' = Some JNull"
    using school_document [OF school_json_wf json_eq_refl [OF school_json_wf [of b]]] fields by simp_all
  obtain ud where ud: "map_of (school_to_json b) ''udm_properties'' = Some (JObj ud)"
    using school_json_lookup(9) [of b] normalise_udm fields(9) by metis
  obtain v where v: "school_from_patch (school_to_json b) 1 = Inr v" "s_name v = Loaded ''a''" "s_record_uid v = Loaded ''a''"
    "s_source_uid v = Loaded ''ldap''"
    by (simp add: school_from_patch_def patched_str_def patched_opt_str_def patched_strs_def patched_item_def of_opt_def look)
  have valid: "\<exists>w. SchoolValidator_validate v = Inr w"
    using v(2-4) by (simp add: SchoolValidator_validate_def accessors require_loaded_def) code_simp
  let ?row' = "?row\<lparr>sr_display_name := ''A'', sr_udm_properties := ud\<rparr>"
  have patched: "apply_school_patch (school_to_json b) ?row = Inr ?row'"
    by (simp add: apply_school_patch_def patched_str_def patched_opt_str_def patched_strs_def patched_dict_def patched_item_def
        of_opt_def look ud demo_school_def)
  have m: "modify_tracked_school demo_env ?a b 1 ?st =
      Inr (?st\<lparr>st_db := (st_db ?st)\<lparr>db_schools := update_by sr_public_id 1 (\<lambda>_. ?row') (db_schools (st_db ?st))\<rparr>\<rparr>)"
    using ne row v(1) valid patched
    by (auto simp: modify_tracked_school_def tracker_patch_def track_enter_def track_changes_def school_patch_is_diff demo_env_def
        whole_diff_def school_modify_def Let_def apply_patch_def whole_apply_def replace_op_def of_opt_def demo_school_def)
  have "handle_school_modify demo_env demo_rename (fresh_storage (demo_db [])) =
      Inr (?st\<lparr>st_db := (st_db ?st)\<lparr>db_schools := update_by sr_public_id 1 (\<lambda>_. ?row') (db_schools (st_db ?st))\<rparr>\<rparr>)"
    using row b m unfolding handle_school_modify_def Let_def school_get_all school_of_set_mapping
    by (simp add: demo_rename_def)
  moreover have "\<exists>st. flush (?st\<lparr>st_db := (st_db ?st)\<lparr>db_schools := update_by sr_public_id 1 (\<lambda>_. ?row') (db_schools (st_db ?st))\<rparr>\<rparr>) = Inr st"
    by (simp add: flush_def Let_def set_mapping_def set_dn_rows_def dn_rows_def insert_pending_def demo_defs update_by_def
        db_ok_def table_oks given_def mapping_ok_def primary_user_constraint_def)
  ultimately show ?thesis by (auto simp: synchronization_manager_def transaction_scope_run)
qed


end
