(* ===== verification/Sync_Users.thy ===== *)
theory Sync_Users
  imports Sync_Schools
begin

text \<open>
  What the connector makes of user events: the memberships it builds, and what is left after a delete event.
\<close>

section \<open>The primary school\<close>

text \<open>The school a user's DN points to: the first whose name is the OU of the DN in any mix of cases, else the
  first of all.\<close>

definition names_school :: "string option \<Rightarrow> school \<Rightarrow> bool" where
  "names_school ou s \<longleftrightarrow>
     (case (ou, s_name s) of (Some (c # p), Loaded n) \<Rightarrow> py_lower n = py_lower (c # p) | _ \<Rightarrow> False)"

definition school_of_ou :: "string option \<Rightarrow> school list \<Rightarrow> school" where
  "school_of_ou ou schools = (case find (names_school ou) schools of Some s \<Rightarrow> s | None \<Rightarrow> hd schools)"

lemma find_school_id_find:
  "find_school_id (c # p) schools = Inr r \<Longrightarrow> r = map_option s_public_id (find (names_school (Some (c # p))) schools)"
  by (induction schools)
    (auto simp: res_bind_eq_Inr School_name_def require_loaded_def names_school_def split: loadable.splits if_splits)

lemma names_school_empty: "find (names_school None) schools = None" "find (names_school (Some [])) schools = None"
  by (simp_all add: find_None_iff names_school_def)

lemma primary_id_of_school:
  assumes "primary_id_of ou schools = Inr r" "schools \<noteq> []"
  shows "r = Some (s_public_id (school_of_ou ou schools))" and "school_of_ou ou schools \<in> set schools"
proof -
  from assms(1) obtain found where f: "(case ou of Some (c # p) \<Rightarrow> find_school_id (c # p) schools | _ \<Rightarrow> Inr None) = Inr found"
    and r: "r = (case (found, schools) of (None, s # _) \<Rightarrow> Some (s_public_id s) | _ \<Rightarrow> found)"
    by (auto simp: primary_id_of_def res_bind_eq_Inr)
  from f have found: "found = map_option s_public_id (find (names_school ou) schools)"
    using find_school_id_find names_school_empty by (auto split: option.splits list.splits)
  show "r = Some (s_public_id (school_of_ou ou schools))"
    using r found assms(2) by (cases schools) (auto simp: school_of_ou_def split: option.splits)
  show "school_of_ou ou schools \<in> set schools"
  proof (cases "find (names_school ou) schools")
    case (Some s)
    then have "s \<in> set schools" by (metis find_Some_iff nth_mem)
    with Some show ?thesis by (simp add: school_of_ou_def)
  qed (use assms(2) in \<open>simp add: school_of_ou_def\<close>)
qed

lemma membership_entry_ok:
  "membership_entry primary by_name groups roles s = Inr (i, m) \<Longrightarrow>
     s_public_id s = Present i \<and> m_school m = s \<and> (m_is_primary m \<longleftrightarrow> primary = Some (Present i))"
  by (auto simp: membership_entry_def res_bind_eq_Inr Let_def split: settable.splits)

lemma filter_unique:
  "distinct xs \<Longrightarrow> x \<in> set xs \<Longrightarrow> filter (\<lambda>y. y = x) xs = [x]"
proof (induction xs)
  case (Cons y xs)
  then show ?case by (auto simp: filter_empty_conv)
qed simp

lemma built_memberships:
  assumes "build_school_memberships env schools groups roles st ou = Inr ms" and "distinct (map s_public_id schools)"
    and "schools \<noteq> []"
  shows "list_all2 (\<lambda>s p. s_public_id s = Present (fst p) \<and> m_school (snd p) = s \<and>
       (m_is_primary (snd p) \<longleftrightarrow> s_public_id (school_of_ou ou schools) = Present (fst p))) schools ms"
proof -
  from assms(1) obtain pid by_name entries where pid: "primary_id_of ou schools = Inr pid"
    and entries: "res_map (membership_entry pid by_name groups roles) schools = Inr entries"
    and ms: "ms = fold (\<lambda>p acc. AList.update (fst p) (snd p) acc) entries []"
    unfolding build_school_memberships_def Let_def by (elim res_bindE) simp
  have all: "list_all2 (\<lambda>s p. s_public_id s = Present (fst p) \<and> m_school (snd p) = s \<and>
       (m_is_primary (snd p) \<longleftrightarrow> s_public_id (school_of_ou ou schools) = Present (fst p))) schools entries"
    using entries [unfolded res_map_Inr_iff]
  proof (rule list_all2_mono)
    fix s p assume "membership_entry pid by_name groups roles s = Inr p"
    then show "s_public_id s = Present (fst p) \<and> m_school (snd p) = s \<and>
       (m_is_primary (snd p) \<longleftrightarrow> s_public_id (school_of_ou ou schools) = Present (fst p))"
      using membership_entry_ok [of pid by_name groups roles s "fst p" "snd p"]
        primary_id_of_school(1) [OF pid assms(3)] by auto
  qed
  then have "map s_public_id schools = map Present (map fst entries)"
    by (induction rule: list_all2_induct) auto
  then have "distinct (map Present (map fst entries))" using assms(2) by simp
  then have "distinct (map (\<lambda>p. fst p) entries)" by (simp only: distinct_map)
  then have "ms = entries" using fold_update_distinct [of "\<lambda>x. x" entries "[]"] by (simp add: ms)
  with all show ?thesis by simp
qed

section \<open>Properties\<close>

text \<open>C4: an event is handled completely or not at all: when one of the three handlers raises, be it while the
  event is dispatched, validated or synchronised or when the transaction is committed, the database is as it
  was; when it returns, every constraint of the database holds.\<close>

theorem failed_event_leaves_no_trace:
  assumes "db_ok d"
    and "handler \<in> {handle_create pv (synchronization_manager env) md attributes,
        handle_modify pv (synchronization_manager env) md attributes,
        handle_remove pv (synchronization_manager env) md attributes}"
    and "handler d = (raised, d')"
  shows "if raised = None then db_ok d' else d' = d"
proof -
  have "sql_manager.safe handler"
    using assms(2) sql_manager.safe_create sql_manager.safe_modify sql_manager.safe_remove by blast
  with assms(1,3) show ?thesis
    using sql_manager.raising_keeps [of handler d] sql_manager.returning_satisfies [of handler d] by (cases raised) auto
qed

text \<open>C7: the memberships the connector builds for a user are one per school found, in their order, and exactly
  one is primary: that of the school the DN of the user lies in, in any mix of cases, or of the first school
  when the DN names none of them.\<close>

theorem exactly_one_primary_built:
  assumes "build_school_memberships env schools groups roles st ou = Inr ms" and "distinct (map s_public_id schools)"
    and "schools \<noteq> []"
  shows "map (\<lambda>p. Present (fst p)) ms = map s_public_id schools \<and>
    (\<exists>i m. filter (\<lambda>p. m_is_primary (snd p)) ms = [(i, m)] \<and> m_school m = school_of_ou ou schools)"
proof -
  note built = built_memberships [OF assms]
  have ids: "map (\<lambda>p. Present (fst p)) ms = map s_public_id schools"
    using built by (induction rule: list_all2_induct) auto
  let ?s = "school_of_ou ou schools"
  from assms(1) obtain pid where "primary_id_of ou schools = Inr pid"
    unfolding build_school_memberships_def by (elim res_bindE)
  from primary_id_of_school(2) [OF this assms(3)] obtain k where k: "k < length schools" "schools ! k = ?s"
    by (auto simp: in_set_conv_nth)
  have len: "length ms = length schools" using built by (simp add: list_all2_lengthD)
  have nth: "s_public_id (schools ! j) = Present (fst (ms ! j)) \<and> m_school (snd (ms ! j)) = schools ! j \<and>
      (m_is_primary (snd (ms ! j)) \<longleftrightarrow> s_public_id ?s = Present (fst (ms ! j)))" if "j < length schools" for j
    using built that by (auto simp: list_all2_conv_all_nth)
  have prim: "m_is_primary (snd (ms ! j)) \<longleftrightarrow> j = k" if "j < length schools" for j
  proof -
    have "s_public_id (schools ! j) = s_public_id (schools ! k) \<longleftrightarrow> j = k"
      using assms(2) that k(1) by (metis length_map nth_eq_iff_index_eq nth_map)
    then show ?thesis using nth [OF that] k(2) by metis
  qed
  have dist: "distinct ms"
  proof -
    have "distinct (map (\<lambda>p. Present (fst p)) ms)" unfolding ids by (rule assms(2))
    then show ?thesis by (simp add: distinct_map)
  qed
  have "filter (\<lambda>p. m_is_primary (snd p)) ms = filter (\<lambda>p. p = ms ! k) ms"
  proof (rule filter_cong [OF refl])
    fix p assume "p \<in> set ms"
    then obtain j where "j < length ms" "p = ms ! j" by (auto simp: in_set_conv_nth)
    then show "m_is_primary (snd p) = (p = ms ! k)"
      using prim [of j] len k(1) nth_eq_iff_index_eq [OF dist] by simp
  qed
  also have "\<dots> = [ms ! k]" using dist len k(1) by (intro filter_unique) simp_all
  finally have "filter (\<lambda>p. m_is_primary (snd p)) ms = [(fst (ms ! k), snd (ms ! k))]" by simp
  moreover have "m_school (snd (ms ! k)) = ?s" using nth [OF k(1)] k(2) by simp
  ultimately show ?thesis using ids by blast
qed

text \<open>C9: a delete event of a user removes it with its memberships and its DN and nobody else, whether or not it
  was known; delivered again, the event changes nothing.\<close>

theorem user_delete_event:
  assumes "db_ok d" and "map_of old ''objectType'' = Some (JStr OT_USERS)" and "properties_for_log old = Inr x"
    and "pv_delete pv old = Inr payload" and "i = dp_id (pl_properties payload)"
  shows "\<exists>d'. handle_remove pv (synchronization_manager env) md old d = (None, d') \<and> db_ok d' \<and>
    (\<forall>j. user_of d' j = (if j = i then None else user_of d j)) \<and> user_memberships d' i = [] \<and>
    public_ids_to_dns USER [i] (fresh_storage d') = [] \<and>
    handle_remove pv (synchronization_manager env) md old d' = (None, d')"
proof -
  let ?run = "\<lambda>d. transaction_scope (\<lambda>st. ignore_not_found (user_delete i st) st) d"
  have remove: "handle_remove pv (synchronization_manager env) md old d = ?run d" for d
    using assms(2-5) by (simp add: handle_remove_def by_object_type_def dispatch_def synchronization_manager_def
        handle_user_delete_def [abs_def] OT_USERS_def)
  have absent: "?run d = (None, d)" if "db_ok d" "user_of d i = None" for d
    using that by (simp add: transaction_scope_run user_delete_def ignore_not_found_def flush_def Let_def)
  have clean: "user_memberships d i = [] \<and> public_ids_to_dns USER [i] (fresh_storage d) = []"
    if "db_ok d" "user_of d i = None" for d
  proof -
    have "i \<notin> ur_public_id ` set (db_users d)" using that(2) user_of_iff [of d i] by auto
    with that(1) show ?thesis
      by (auto simp: db_ok_def memberships_ok_def dns_ok_def mapping_ok_def list_all_iff user_memberships_def
          public_ids_to_dns_def dn_rows_def filter_empty_conv)
  qed
  show ?thesis
  proof (cases "user_of d i")
    case None
    with absent clean assms(1) show ?thesis by (intro exI [of _ d]) (auto simp: remove)
  next
    case (Some row)
    let ?d = "db_delete_user i d"
    have ok: "db_ok ?d" by (rule db_delete_user_ok [OF assms(1)])
    have run: "?run d = (None, ?d)"
      using Some ok by (simp add: transaction_scope_run user_delete_def ignore_not_found_def flush_def Let_def)
    have find: "find_by ur_public_id j (filter (\<lambda>u. ur_public_id u \<noteq> i) us) = (if j = i then None else find_by ur_public_id j us)" for j us
      by (induction us) auto
    have users: "user_of ?d j = (if j = i then None else user_of d j)" for j
      by (simp add: user_of_def db_delete_user_def find)
    then have "user_of ?d i = None" by simp
    with absent [OF ok] clean [OF ok] run ok users show ?thesis by (intro exI [of _ ?d]) (simp add: remove)
  qed
qed

section \<open>Witnesses\<close>

definition named_school :: "uuid \<Rightarrow> string \<Rightarrow> school" where
  "named_school i n = set_School_name n (School_minimal i)"

lemma exactly_one_primary_built_witness:
  "\<exists>ms i m. build_school_memberships demo_env [named_school 1 ''A'', named_school 2 ''b''] [] [] (demo_storage [])
       (school_ou_from_dn ''uid=x,cn=users,ou=B,dc=c'') = Inr ms \<and>
     filter (\<lambda>p. m_is_primary (snd p)) ms = [(i, m)] \<and> m_school m = named_school 2 ''b''"
proof -
  let ?schools = "[named_school 1 ''A'', named_school 2 ''b'']"
  have ou: "school_ou_from_dn ''uid=x,cn=users,ou=B,dc=c'' = Some ''B''"
    by (simp add: school_ou_from_dn_def ou_at_def py_lower_def lower_char_def)
  have "\<exists>ms. build_school_memberships demo_env ?schools [] [] (demo_storage []) (Some ''B'') = Inr ms"
    by (simp add: build_school_memberships_def primary_id_of_def named_school_def School_name_def require_loaded_def
        set_School_name_def School_minimal_def py_lower_def lower_char_def membership_entry_def groups_of_school_def
        Let_def given_def)
  then obtain ms where ms: "build_school_memberships demo_env ?schools [] [] (demo_storage []) (Some ''B'') = Inr ms" ..
  have "distinct (map s_public_id ?schools)"
    by (simp add: named_school_def set_School_name_def School_minimal_def)
  moreover have low: "py_lower ''b'' = ''b''" "py_lower ''B'' = ''b''" "py_lower ''A'' = ''a''" by code_simp+
  have "school_of_ou (Some ''B'') ?schools = named_school 2 ''b''"
    by (simp add: school_of_ou_def names_school_def named_school_def set_School_name_def low)
  ultimately show ?thesis using exactly_one_primary_built [OF ms] ms unfolding ou by auto
qed

definition demo_validators :: payload_validators where
  "demo_validators =
     \<lparr>pv_user = (\<lambda>_. Inl (ValidationError ''user'')), pv_group = (\<lambda>_. Inl (ValidationError ''group'')),
      pv_school = (\<lambda>_. Inl (ValidationError ''school'')),
      pv_delete = (\<lambda>_. Inr \<lparr>pl_dn = ''uid=anna'', pl_id = ''x'', pl_position = [], pl_object_type = OT_USERS,
        pl_properties = \<lparr>dp_id = 20, dp_username = ''anna'', dp_name = []\<rparr>\<rparr>),
      pv_host_group = (\<lambda>_. Inl (ValidationError ''host group''))\<rparr>"

lemma user_delete_event_witness:
  "\<exists>d'. handle_remove demo_validators (synchronization_manager demo_env) \<lparr>md_ts = ''t'', md_sequence_number = 1\<rparr>
       [(''objectType'', JStr OT_USERS)] (demo_db []) = (None, d') \<and> user_of d' 20 = None \<and> user_memberships d' 20 = []"
proof -
  have ok: "db_ok (demo_db [])" using demo_settled [of "[]"] by (simp add: settled_def demo_storage_def)
  have "\<exists>p. pv_delete demo_validators [(''objectType'', JStr OT_USERS)] = Inr p \<and> dp_id (pl_properties p) = 20"
    by (simp add: demo_validators_def)
  then obtain p where p: "pv_delete demo_validators [(''objectType'', JStr OT_USERS)] = Inr p" "20 = dp_id (pl_properties p)"
    by metis
  have t: "map_of [(''objectType'', JStr OT_USERS)] ''objectType'' = Some (JStr OT_USERS)" by simp
  have l: "properties_for_log [(''objectType'', JStr OT_USERS)] = Inr []" by (simp add: properties_for_log_def)
  show ?thesis
    using user_delete_event [OF ok t l p, of demo_env "\<lparr>md_ts = ''t'', md_sequence_number = 1\<rparr>"] by fastforce
qed

text \<open>The school \<open>a\<close> of the fixture still has a group, so its removal fails.\<close>

definition school_validators :: payload_validators where
  "school_validators = demo_validators\<lparr>pv_delete := (\<lambda>_. Inr
     \<lparr>pl_dn = ''ou=a'', pl_id = ''x'', pl_position = [], pl_object_type = OT_OUS,
      pl_properties = \<lparr>dp_id = 1, dp_username = [], dp_name = ''a''\<rparr>\<rparr>)\<rparr>"

lemma failed_event_leaves_no_trace_witness:
  "handle_remove school_validators (synchronization_manager demo_env) \<lparr>md_ts = ''t'', md_sequence_number = 1\<rparr>
     [(''objectType'', JStr OT_OUS)] (demo_db []) = (Some (IntegrityError ''group.school_id''), demo_db [])"
proof -
  have ok: "db_ok (demo_db [])" using demo_settled [of "[]"] by (simp add: settled_def demo_storage_def)
  let ?h = "handle_remove school_validators (synchronization_manager demo_env) \<lparr>md_ts = ''t'', md_sequence_number = 1\<rparr>
     [(''objectType'', JStr OT_OUS)]"
  have "fst (?h (demo_db [])) = Some (IntegrityError ''group.school_id'')"
    by (simp add: handle_remove_def by_object_type_def properties_for_log_def OT_OUS_def OT_USERS_def OT_GROUPS_def
        dispatch_def school_validators_def synchronization_manager_def transaction_scope_run handle_school_delete_def
        school_delete_def school_of_def demo_db_def demo_school_def demo_group_def db_delete_school_def ignore_not_found_def)
  then obtain d' where d': "?h (demo_db []) = (Some (IntegrityError ''group.school_id''), d')" by (metis prod.collapse)
  have "if Some (IntegrityError ''group.school_id'') = None then db_ok d' else d' = demo_db []"
    by (rule failed_event_leaves_no_trace [where handler = ?h, OF ok _ d']) blast
  with d' show ?thesis by simp
qed

end
