(* ===== verification/Api_Query.thy ===== *)
theory Api_Query
  imports User_Manager
begin

text \<open>
  The searches of the Kelvin REST API v2, \<open>kelvin-api/ucsschool/kelvin/routers/v2\<close>: how the query
  parameters of a request become a query expression of the object library. FastAPI parses the
  parameters; a missing one is \<^const>\<open>None\<close>.
\<close>

section \<open>\_filters.py\<close>

definition str_filter :: "string \<Rightarrow> string \<Rightarrow> bool \<Rightarrow> err + qfilter" where
  "str_filter field value case_insensitive =
     (if case_insensitive then make_wildcard_filter field (VStr value) True
      else if CHR ''*'' \<in> set value then make_wildcard_filter field (VStr value) False
      else Inr (Filter field EQ (VStr value)))"

section \<open>Filters on mapped UDM properties (user.py)\<close>

definition KNOWN_SEARCH_PARAMS :: "string list" where
  "KNOWN_SEARCH_PARAMS =
     [''school'', ''name'', ''firstname'', ''lastname'', ''email'', ''record_uid'', ''source_uid'', ''birthday'',
      ''expiration_date'', ''disabled'']"

text \<open>\<open>int(s)\<close> for a text of which \<open>isdigit\<close> holds: superscripts are digits but no decimal digits,
  and CPython refuses more than 4300 of them.\<close>

definition int_of_digits :: "string \<Rightarrow> err + int" where
  "int_of_digits s =
     (if \<exists>c\<in>set s. \<not> is_ascii_digit c then Inl (ValueError ''invalid literal for int() with base 10'')
      else if 4300 < length s then Inl (ValueError ''Exceeds the limit (4300 digits) for integer string conversion'')
      else Inr (int (dec_val s)))"

text \<open>One round of the loop of \<open>_udm_property_filters\<close>, and the loop.\<close>

definition udm_property_filter :: "string \<times> string \<Rightarrow> err + query_expr" where
  "udm_property_filter item =
     (case item of (param, value) \<Rightarrow>
        (let field = ''udm_properties.'' @ param; sliced_value = py_lstrip CHR ''-'' value in
         if py_isdigit sliced_value then
           res_bind (int_of_digits sliced_value) (\<lambda>i.
             Inr (Or [QFilter (Filter field EQ (VInt i)), QFilter (Filter field CONTAINS (VStr sliced_value))]))
         else if CHR ''*'' \<in> set value then
           res_bind (make_wildcard_filter field (VStr value) True) (\<lambda>f. Inr (QFilter f))
         else Inr (QFilter (Filter field CONTAINS (VStr value)))))"

definition mapped_params :: "string list \<Rightarrow> (string \<times> string) list \<Rightarrow> (string \<times> string) list" where
  "mapped_params configured params =
     filter (\<lambda>(param, value). \<not> (param \<in> set KNOWN_SEARCH_PARAMS \<or> param \<notin> set configured)) params"

definition udm_property_filters :: "string list \<Rightarrow> (string \<times> string) list \<Rightarrow> err + query_expr list" where
  "udm_property_filters configured params = res_map udm_property_filter (mapped_params configured params)"

section \<open>The query of a user search (user.py)\<close>

record user_params =
  us_school :: "string option"
  us_name :: "string option"
  us_firstname :: "string option"
  us_lastname :: "string option"
  us_email :: "string option"
  us_record_uid :: "string option"
  us_source_uid :: "string option"
  us_birthday :: "date option"
  us_expiration_date :: "date option"
  us_disabled :: "bool option"

text \<open>\<open>if value: clauses.append(_str_filter(field, value, ...))\<close>.\<close>

definition str_clause :: "string \<Rightarrow> bool \<Rightarrow> string option \<Rightarrow> (err + qfilter) list" where
  "str_clause field case_insensitive value =
     (case value of
        Some (c # cs) \<Rightarrow> [str_filter field (c # cs) case_insensitive]
      | _ \<Rightarrow> [])"

text \<open>\<open>if value is not None: clauses.append(Filter(field=field, op=Operator.EQ, value=value))\<close>.\<close>

definition eq_clause :: "string \<Rightarrow> fval option \<Rightarrow> (err + qfilter) list" where
  "eq_clause field value = (case value of None \<Rightarrow> [] | Some v \<Rightarrow> [Inr (Filter field EQ v)])"

definition user_clauses :: "user_params \<Rightarrow> (err + qfilter) list" where
  "user_clauses q =
     str_clause ''name'' True (us_name q) @
     str_clause ''schools.name'' True (us_school q) @
     str_clause ''firstname'' True (us_firstname q) @
     str_clause ''lastname'' True (us_lastname q) @
     str_clause ''email'' True (us_email q) @
     str_clause ''record_uid'' False (us_record_uid q) @
     str_clause ''source_uid'' False (us_source_uid q) @
     eq_clause ''birthday'' (map_option VDate (us_birthday q)) @
     eq_clause ''expiration_date'' (map_option VDate (us_expiration_date q)) @
     eq_clause ''active'' (map_option (\<lambda>disabled. VBool (\<not> disabled)) (us_disabled q))"

definition build_query :: "user_params \<Rightarrow> query_expr list \<Rightarrow> err + search_query option" where
  "build_query q extra_clauses =
     res_bind (res_map id (user_clauses q)) (\<lambda>filters.
       (case extra_clauses @ map QFilter filters of
          [] \<Rightarrow> Inr None
        | [c] \<Rightarrow> Inr (Some (SearchQuery (Some c)))
        | clauses \<Rightarrow> Inr (Some (SearchQuery (Some (And clauses))))))"

text \<open>What \<open>search\<close> passes to the user manager, and the statement the manager makes of it.\<close>

definition user_query :: "string list \<Rightarrow> (string \<times> string) list \<Rightarrow> user_params \<Rightarrow> err + search_query option" where
  "user_query configured params q =
     res_bind (udm_property_filters configured params) (build_query q)"

definition user_statement :: "search_query option \<Rightarrow> err + stmt" where
  "user_statement query = apply_search_query (select ''User'') query user_field_map (Some user_nested_registry)
     (Some user_json_field_map)"

section \<open>The queries on groups (school\_class.py, workgroup.py)\<close>

definition group_name_query :: "string \<Rightarrow> string option \<Rightarrow> err + search_query" where
  "group_name_query school name =
     (let school_filter = QFilter (Filter ''school.name'' EQ (VStr school)) in
      case name of
        Some (c # cs) \<Rightarrow>
          res_bind (str_filter ''name'' (school @ ''-'' @ c # cs) True) (\<lambda>f.
            Inr (SearchQuery (Some (And [school_filter, QFilter f]))))
      | _ \<Rightarrow> Inr (SearchQuery (Some school_filter)))"

definition full_name_query :: "string \<Rightarrow> string \<Rightarrow> search_query" where
  "full_name_query school name = SearchQuery (Some (QFilter (Filter ''name'' MATCHES_CI (VStr (school @ ''-'' @ name)))))"

section \<open>Fields of the query parameters\<close>

lemma user_fields:
  "map_of user_field_map ''name'' = Some (model_column UserModel ''name'')"
  "map_of user_field_map ''schools.name'' = Some (model_column SchoolModel ''name'')"
  "map_of user_field_map ''firstname'' = Some (model_column UserModel ''firstname'')"
  "map_of user_field_map ''lastname'' = Some (model_column UserModel ''lastname'')"
  "map_of user_field_map ''email'' = Some (model_column UserModel ''email'')"
  "map_of user_field_map ''record_uid'' = Some (model_column UserModel ''record_uid'')"
  "map_of user_field_map ''source_uid'' = Some (model_column UserModel ''source_uid'')"
  "map_of user_field_map ''birthday'' = Some (model_column UserModel ''birthday'')"
  "map_of user_field_map ''expiration_date'' = Some (model_column UserModel ''expiration_date'')"
  "map_of user_field_map ''active'' = Some (model_column UserModel ''active'')"
  by code_simp+

lemma user_fields_no_udm: "\<forall>f\<in>fst ` set user_field_map. take 15 f \<noteq> ''udm_properties.''"
  by code_simp

lemma no_empty_field: "map_of user_field_map [] = None"
  by code_simp

abbreviation udm_column :: column where
  "udm_column \<equiv> model_column UserModel ''udm_properties''"

abbreviation user_column :: "qfilter \<Rightarrow> err + column" where
  "user_column f \<equiv> get_filter_column f user_field_map (Some user_nested_registry) (Some user_json_field_map)"

abbreviation user_builds :: "qfilter \<Rightarrow> err + sexpr" where
  "user_builds f \<equiv> build_filter_expression f user_field_map (Some user_nested_registry) (Some user_json_field_map)"

abbreviation user_sem :: "row_sem \<Rightarrow> qfilter \<Rightarrow> bool option" where
  "user_sem R \<equiv> filter_sem R user_field_map (Some user_nested_registry) (Some user_json_field_map)"

lemma udm_no_field: "map_of user_field_map (''udm_properties.'' @ p) = None"
proof -
  have "''udm_properties.'' @ p \<notin> fst ` set user_field_map"
    using user_fields_no_udm by fastforce
  then show ?thesis by (simp add: map_of_eq_None_iff)
qed

lemma udm_partition: "py_partition CHR ''.'' (''udm_properties.'' @ p) = (''udm_properties'', True, p)"
  using py_partition_append [of "CHR ''.''" "''udm_properties''" p] by simp

lemma udm_json_column: "map_of user_json_field_map ''udm_properties'' = Some udm_column"
  by (simp add: user_json_field_map_def)

lemma known_column: "map_of user_field_map field = Some c \<Longrightarrow> user_column (Filter field op v) = Inr c"
  by (simp add: get_filter_column_def)

lemma udm_item_column:
  "user_column (Filter (''udm_properties.'' @ p) op v) =
     json_extracted_column udm_column p (Filter (''udm_properties.'' @ p) op v)"
  unfolding get_filter_column_def qfilter.sel udm_no_field udm_partition
  by (simp add: udm_json_column)

text \<open>All columns of the parameters but the ids of a row are no UUIDs.\<close>

lemma param_types [simp]:
  "k \<in> set [''name'', ''firstname'', ''lastname'', ''email'', ''record_uid'', ''source_uid'', ''birthday'',
     ''expiration_date'', ''active''] \<Longrightarrow> get_column_type (model_column UserModel k) \<noteq> CUuid"
  "get_column_type (model_column SchoolModel ''name'') \<noteq> CUuid"
  by (auto simp: model_column_def)

lemma eq_builds: "user_column (Filter field EQ v) = Inr c \<Longrightarrow> get_column_type c \<noteq> CUuid \<Longrightarrow>
    user_builds (Filter field EQ v) = Inr (ECmp EQ c v)"
  by (simp add: build_filter_expression_def validate_filter_value_def RANGE_OPERATORS_def coerce_filter_value_def)

lemma matches_builds: "op \<in> {MATCHES, MATCHES_CI} \<Longrightarrow> user_column (Filter field op (VStr v)) = Inr c \<Longrightarrow>
    \<exists>e. user_builds (Filter field op (VStr v)) = Inr e"
  by (auto simp: build_filter_expression_def validate_filter_value_def RANGE_OPERATORS_def coerce_filter_value_def
      UUID_COERCED_OPERATORS_def)

lemma contains_builds:
  "\<exists>e. user_builds (Filter (''udm_properties.'' @ p) CONTAINS (VStr v)) = Inr e"
  unfolding build_filter_expression_def build_json_contains_expression_def qfilter.sel udm_partition
  by (simp add: udm_json_column user_json_field_map_def)

section \<open>What the filters of a user search mean\<close>

text \<open>Without regard to case, \<open>*\<close> standing for any text.\<close>

definition text_ci :: "row_sem \<Rightarrow> column \<Rightarrow> string \<Rightarrow> bool" where
  "text_ci R column pattern \<longleftrightarrow>
     on_text (\<lambda>s. glob_match (py_lower pattern) (py_lower s)) (rs_value R column) = Some True"

text \<open>Exactly, unless a \<open>*\<close> makes it a pattern.\<close>

definition text_exact :: "row_sem \<Rightarrow> column \<Rightarrow> string \<Rightarrow> bool" where
  "text_exact R column value \<longleftrightarrow>
     (if CHR ''*'' \<in> set value then on_text (glob_match value) (rs_value R column) = Some True
      else rs_cmp R EQ (rs_value R column) (VStr value) = Some True)"

definition udm_criterion :: "row_sem \<Rightarrow> string \<Rightarrow> string \<Rightarrow> bool" where
  "udm_criterion R p value \<longleftrightarrow>
     (let digits = py_lstrip CHR ''-'' value in
      if py_isdigit digits then
        rs_cmp R EQ (rs_value R (JsonItem udm_column p CInteger)) (VInt (int (dec_val digits))) = Some True \<or>
        rs_json R udm_column p digits = Some True
      else if CHR ''*'' \<in> set value then text_ci R (JsonItem udm_column p CString) value
      else rs_json R udm_column p value = Some True)"

lemma k_all_true [simp]: "k_all xs = Some True \<longleftrightarrow> (\<forall>x\<in>set xs. x = Some True)"
  unfolding k_all_def by (metis (full_types) not_None_eq option.inject)

lemma k_any_true [simp]: "k_any xs = Some True \<longleftrightarrow> Some True \<in> set xs"
  by (auto simp: k_any_def)

lemma eq_sem: "user_column (Filter field EQ v) = Inr c \<Longrightarrow> get_column_type c \<noteq> CUuid \<Longrightarrow>
    user_sem R (Filter field EQ v) = rs_cmp R EQ (rs_value R c) v"
  by (simp add: filter_sem_def column_of_def wanted_value_def)

lemma matches_sem:
  "user_column (Filter field MATCHES (VStr v)) = Inr c \<Longrightarrow>
     user_sem R (Filter field MATCHES (VStr v)) = on_text (glob_match v) (rs_value R c)"
  "user_column (Filter field MATCHES_CI (VStr v)) = Inr c \<Longrightarrow>
     user_sem R (Filter field MATCHES_CI (VStr v)) = Some True \<longleftrightarrow> text_ci R c v"
  by (simp_all add: filter_sem_def column_of_def str_of_def text_ci_def)

lemma contains_sem:
  "user_sem R (Filter (''udm_properties.'' @ p) CONTAINS (VStr v)) = rs_json R udm_column p v"
  unfolding filter_sem_def Let_def qfilter.sel udm_partition
  by (simp add: udm_json_column)

lemma int_of_digits_ok: "(\<exists>i. int_of_digits s = Inr i) \<longleftrightarrow> (\<forall>c\<in>set s. is_ascii_digit c) \<and> length s \<le> 4300"
  by (auto simp: int_of_digits_def)

lemma udm_filter_ok:
  "(\<exists>f. udm_property_filter (p, v) = Inr f) \<longleftrightarrow>
     (py_isdigit (py_lstrip CHR ''-'' v) \<longrightarrow>
       (\<forall>c\<in>set (py_lstrip CHR ''-'' v). is_ascii_digit c) \<and> length (py_lstrip CHR ''-'' v) \<le> 4300)"
  by (cases "int_of_digits (py_lstrip CHR ''-'' v)")
     (use int_of_digits_ok [of "py_lstrip CHR ''-'' v"] in \<open>auto simp: udm_property_filter_def Let_def make_wildcard_filter_def\<close>)

lemma udm_filter_builds:
  assumes "udm_property_filter (p, v) = Inr q"
  shows "no_empty_clause q \<and> (\<forall>f\<in>set (iter_filters q). \<exists>e. user_builds f = Inr e)"
proof -
  let ?d = "py_lstrip CHR ''-'' v" and ?field = "''udm_properties.'' @ p"
  consider (digits) i where "q = Or [QFilter (Filter ?field EQ (VInt i)), QFilter (Filter ?field CONTAINS (VStr ?d))]"
    | (pattern) "q = QFilter (Filter ?field MATCHES_CI (VStr v))"
    | (plain) "q = QFilter (Filter ?field CONTAINS (VStr v))"
    using assms by (auto simp: udm_property_filter_def Let_def make_wildcard_filter_def res_bind_eq_Inr split: if_splits)
  then show ?thesis
  proof cases
    case digits
    have "user_column (Filter ?field EQ (VInt i)) = Inr (JsonItem udm_column p CInteger)"
      unfolding udm_item_column by (simp add: json_extracted_column_def)
    then have "user_builds (Filter ?field EQ (VInt i)) = Inr (ECmp EQ (JsonItem udm_column p CInteger) (VInt i))"
      by (rule eq_builds) simp
    then show ?thesis unfolding digits using contains_builds [of p ?d] by auto
  next
    case pattern
    have "user_column (Filter ?field MATCHES_CI (VStr v)) = Inr (JsonItem udm_column p CString)"
      unfolding udm_item_column by (simp add: json_extracted_column_def)
    then have "\<exists>e. user_builds (Filter ?field MATCHES_CI (VStr v)) = Inr e"
      by (rule matches_builds [rotated]) simp
    then show ?thesis unfolding pattern by auto
  next
    case plain
    then show ?thesis using contains_builds [of p v] by auto
  qed
qed

lemma udm_filter_sem:
  assumes "udm_property_filter (p, v) = Inr q"
  shows "eval_query (user_sem R) q = Some True \<longleftrightarrow> udm_criterion R p v"
proof (cases "py_isdigit (py_lstrip CHR ''-'' v)")
  case True
  let ?d = "py_lstrip CHR ''-'' v" and ?field = "''udm_properties.'' @ p"
  obtain i where i: "int_of_digits ?d = Inr i" and
    q: "q = Or [QFilter (Filter ?field EQ (VInt i)), QFilter (Filter ?field CONTAINS (VStr ?d))]"
    using assms True by (auto simp: udm_property_filter_def Let_def res_bind_eq_Inr)
  have "i = int (dec_val ?d)" using i by (auto simp: int_of_digits_def split: if_splits)
  moreover have "user_column (Filter ?field EQ (VInt i)) = Inr (JsonItem udm_column p CInteger)"
    unfolding udm_item_column by (simp add: json_extracted_column_def)
  then have "user_sem R (Filter ?field EQ (VInt i)) = rs_cmp R EQ (rs_value R (JsonItem udm_column p CInteger)) (VInt i)"
    by (rule eq_sem) simp
  ultimately show ?thesis
    unfolding q udm_criterion_def Let_def using True contains_sem [of R p ?d] by auto
next
  case False
  let ?field = "''udm_properties.'' @ p"
  show ?thesis
  proof (cases "CHR ''*'' \<in> set v")
    case True
    have "user_column (Filter ?field MATCHES_CI (VStr v)) = Inr (JsonItem udm_column p CString)"
      unfolding udm_item_column by (simp add: json_extracted_column_def)
    then have "user_sem R (Filter ?field MATCHES_CI (VStr v)) = Some True \<longleftrightarrow> text_ci R (JsonItem udm_column p CString) v"
      by (rule matches_sem(2))
    moreover have "q = QFilter (Filter ?field MATCHES_CI (VStr v))"
      using assms False True by (simp add: udm_property_filter_def Let_def make_wildcard_filter_def)
    ultimately show ?thesis using False True by (simp add: udm_criterion_def)
  next
    case plain: False
    then have "q = QFilter (Filter ?field CONTAINS (VStr v))"
      using assms False by (simp add: udm_property_filter_def Let_def)
    then show ?thesis using False plain contains_sem [of R p v] by (simp add: udm_criterion_def)
  qed
qed

text \<open>Clauses that always translate and hold together exactly when \<open>P\<close> does.\<close>

definition clauses_mean :: "row_sem \<Rightarrow> (err + qfilter) list \<Rightarrow> bool \<Rightarrow> bool" where
  "clauses_mean R cs P \<longleftrightarrow>
     (\<exists>fs. cs = map Inr fs \<and> (\<forall>f\<in>set fs. \<exists>e. user_builds f = Inr e) \<and>
           ((\<forall>f\<in>set fs. user_sem R f = Some True) \<longleftrightarrow> P))"

lemma clauses_mean_append: "clauses_mean R a P \<Longrightarrow> clauses_mean R b Q \<Longrightarrow> clauses_mean R (a @ b) (P \<and> Q)"
proof -
  assume "clauses_mean R a P" "clauses_mean R b Q"
  then obtain fs gs where "a = map Inr fs" "b = map Inr gs"
    and *: "\<forall>f\<in>set fs. \<exists>e. user_builds f = Inr e" "\<forall>f\<in>set gs. \<exists>e. user_builds f = Inr e"
      "(\<forall>f\<in>set fs. user_sem R f = Some True) \<longleftrightarrow> P" "(\<forall>f\<in>set gs. user_sem R f = Some True) \<longleftrightarrow> Q"
    unfolding clauses_mean_def by blast
  then have "a @ b = map Inr (fs @ gs)" by simp
  with * show ?thesis unfolding clauses_mean_def
    by (intro exI [of _ "fs @ gs"]) (simp add: ball_Un)
qed

lemma clauses_mean_none: "clauses_mean R [] True"
  by (simp add: clauses_mean_def)

lemma clauses_mean_one:
  assumes "user_builds f = Inr e" "user_sem R f = Some True \<longleftrightarrow> P"
  shows "clauses_mean R [Inr f] P"
  unfolding clauses_mean_def by (rule exI [of _ "[f]"]) (simp add: assms)

lemma ci_clause_means:
  assumes "map_of user_field_map field = Some c"
  shows "clauses_mean R (str_clause field True v) (\<forall>w. v = Some w \<longrightarrow> w \<noteq> [] \<longrightarrow> text_ci R c w)"
proof (cases v)
  case (Some w)
  show ?thesis
  proof (cases w)
    case (Cons x xs)
    let ?f = "Filter field MATCHES_CI (VStr w)"
    have col: "user_column ?f = Inr c" by (rule known_column [OF assms])
    then obtain e where "user_builds ?f = Inr e" using matches_builds [of MATCHES_CI] by blast
    moreover have "user_sem R ?f = Some True \<longleftrightarrow> text_ci R c w" using matches_sem(2) [OF col] by simp
    moreover have "field \<noteq> []" using assms no_empty_field by auto
    ultimately show ?thesis
      using clauses_mean_one [of ?f] by (simp add: Some Cons str_clause_def str_filter_def make_wildcard_filter_def)
  qed (simp add: Some str_clause_def clauses_mean_none)
qed (simp add: str_clause_def clauses_mean_none)

lemma exact_clause_means:
  assumes "map_of user_field_map field = Some c" "get_column_type c \<noteq> CUuid"
  shows "clauses_mean R (str_clause field False v) (\<forall>w. v = Some w \<longrightarrow> w \<noteq> [] \<longrightarrow> text_exact R c w)"
proof (cases v)
  case (Some w)
  show ?thesis
  proof (cases w)
    case (Cons x xs)
    show ?thesis
    proof (cases "CHR ''*'' \<in> set w")
      case True
      let ?f = "Filter field MATCHES (VStr w)"
      have col: "user_column ?f = Inr c" by (rule known_column [OF assms(1)])
      then obtain e where "user_builds ?f = Inr e" using matches_builds [of MATCHES] by blast
      moreover have "user_sem R ?f = Some True \<longleftrightarrow> text_exact R c w"
        using matches_sem(1) [OF col] True by (simp add: text_exact_def)
      moreover have "field \<noteq> []" using assms no_empty_field by auto
      ultimately show ?thesis
        using clauses_mean_one [of ?f] True by (simp add: Some Cons str_clause_def str_filter_def make_wildcard_filter_def)
    next
      case False
      let ?f = "Filter field EQ (VStr w)"
      have col: "user_column ?f = Inr c" by (rule known_column [OF assms(1)])
      have "user_builds ?f = Inr (ECmp EQ c (VStr w))" by (rule eq_builds [OF col assms(2)])
      moreover have "user_sem R ?f = Some True \<longleftrightarrow> text_exact R c w"
        using eq_sem [OF col assms(2)] False by (simp add: text_exact_def)
      ultimately show ?thesis
        using clauses_mean_one [of ?f] False by (simp add: Some Cons str_clause_def str_filter_def)
    qed
  qed (simp add: Some str_clause_def clauses_mean_none)
qed (simp add: str_clause_def clauses_mean_none)

lemma eq_clause_means:
  assumes "map_of user_field_map field = Some c" "get_column_type c \<noteq> CUuid"
  shows "clauses_mean R (eq_clause field v) (\<forall>w. v = Some w \<longrightarrow> rs_cmp R EQ (rs_value R c) w = Some True)"
proof (cases v)
  case (Some w)
  have col: "user_column (Filter field EQ w) = Inr c" by (rule known_column [OF assms(1)])
  show ?thesis
    using clauses_mean_one [OF eq_builds [OF col assms(2)]] eq_sem [OF col assms(2)]
    by (simp add: Some eq_clause_def)
qed (simp add: eq_clause_def clauses_mean_none)

text \<open>The criteria of the fixed parameters, as the API documents them.\<close>

definition fixed_criteria :: "row_sem \<Rightarrow> user_params \<Rightarrow> bool" where
  "fixed_criteria R q \<longleftrightarrow>
     (\<forall>(given, column) \<in> set [(us_name q, model_column UserModel ''name''), (us_school q, model_column SchoolModel ''name''),
        (us_firstname q, model_column UserModel ''firstname''), (us_lastname q, model_column UserModel ''lastname''),
        (us_email q, model_column UserModel ''email'')].
        \<forall>v. given = Some v \<longrightarrow> v \<noteq> [] \<longrightarrow> text_ci R column v) \<and>
     (\<forall>(given, column) \<in> set [(us_record_uid q, model_column UserModel ''record_uid''),
        (us_source_uid q, model_column UserModel ''source_uid'')].
        \<forall>v. given = Some v \<longrightarrow> v \<noteq> [] \<longrightarrow> text_exact R column v) \<and>
     (\<forall>(given, column) \<in> set [(us_birthday q, model_column UserModel ''birthday''),
        (us_expiration_date q, model_column UserModel ''expiration_date'')].
        \<forall>d. given = Some d \<longrightarrow> rs_cmp R EQ (rs_value R column) (VDate d) = Some True) \<and>
     (\<forall>b. us_disabled q = Some b \<longrightarrow>
        rs_cmp R EQ (rs_value R (model_column UserModel ''active'')) (VBool (\<not> b)) = Some True)"

lemma user_clauses_mean: "clauses_mean R (user_clauses q) (fixed_criteria R q)"
proof -
  note ci = ci_clause_means [where R = R] and exact = exact_clause_means [where R = R]
    and eq = eq_clause_means [where R = R]
  note means = clauses_mean_append [OF ci [OF user_fields(1)] clauses_mean_append [OF ci [OF user_fields(2)]
    clauses_mean_append [OF ci [OF user_fields(3)] clauses_mean_append [OF ci [OF user_fields(4)]
    clauses_mean_append [OF ci [OF user_fields(5)] clauses_mean_append [OF exact [OF user_fields(6)]
    clauses_mean_append [OF exact [OF user_fields(7)] clauses_mean_append [OF eq [OF user_fields(8)]
    clauses_mean_append [OF eq [OF user_fields(9)] eq [OF user_fields(10)]]]]]]]]]]
  have *: "clauses_mean R (user_clauses q) (fixed_criteria R q)"
    if "clauses_mean R (user_clauses q) P" "P \<longleftrightarrow> fixed_criteria R q" for P
    using that by simp
  show ?thesis
    by (rule * [unfolded user_clauses_def, OF means, folded user_clauses_def]) (auto simp: fixed_criteria_def)
qed

lemma user_clauses_filters:
  obtains fs where "res_map id (user_clauses q) = Inr fs"
    "\<forall>f\<in>set fs. \<exists>e. user_builds f = Inr e"
    "\<And>R. (\<forall>f\<in>set fs. user_sem R f = Some True) \<longleftrightarrow> fixed_criteria R q"
proof -
  obtain fs where fs: "user_clauses q = map Inr fs" "\<forall>f\<in>set fs. \<exists>e. user_builds f = Inr e"
    using user_clauses_mean [of undefined q] unfolding clauses_mean_def by blast
  have "res_map id (map Inr fs) = (Inr fs :: err + qfilter list)" by (induction fs) simp_all
  moreover have "(\<forall>f\<in>set fs. user_sem R f = Some True) \<longleftrightarrow> fixed_criteria R q" for R
  proof -
    obtain gs where "user_clauses q = map Inr gs" "(\<forall>f\<in>set gs. user_sem R f = Some True) \<longleftrightarrow> fixed_criteria R q"
      using user_clauses_mean [of R q] unfolding clauses_mean_def by blast
    moreover from this(1) fs(1) have "gs = fs" by (metis (mono_tags, lifting) inj_Inr inj_map_eq_map)
    ultimately show ?thesis by simp
  qed
  ultimately show ?thesis using that [of fs] fs by simp
qed

text \<open>The WHERE clause of a search for a query: nothing, or one expression.\<close>

definition row_selected :: "row_sem \<Rightarrow> stmt \<Rightarrow> bool" where
  "row_selected R s \<longleftrightarrow> (\<forall>e\<in>set (st_where s). eval_sexpr (sql_leaf R) e = Some True)"

lemma user_statement_all: "user_statement None = Inr (select ''User'')"
  by (simp add: user_statement_def apply_search_query_def)

lemma user_statement_query:
  assumes "no_empty_clause x" "\<forall>f\<in>set (iter_filters x). \<exists>e. user_builds f = Inr e"
  obtains s where "user_statement (Some (SearchQuery (Some x))) = Inr s"
    "\<And>R. sql_like_laws (rs_like R) \<Longrightarrow> row_selected R s \<longleftrightarrow> eval_query (user_sem R) x = Some True"
proof -
  obtain e where e: "build_expression x user_field_map (Some user_nested_registry) (Some user_json_field_map) = Inr e"
    using assms build_expression_ok_iff by blast
  have "eval_sexpr (sql_leaf R) e = eval_query (user_sem R) x" if "sql_like_laws (rs_like R)" for R
    by (rule build_expression_eval [OF e]) (rule leaf_sem [OF _ that])
  with that e show thesis
    by (simp add: user_statement_def apply_search_query_def Let_def row_selected_def apply_nested_joins_result(3) select_def)
qed

lemma udm_filters_mean:
  assumes "udm_property_filters configured params = Inr qs"
  shows "\<forall>x\<in>set qs. no_empty_clause x \<and> (\<forall>f\<in>set (iter_filters x). \<exists>e. user_builds f = Inr e)"
    and "(\<forall>x\<in>set qs. eval_query (user_sem R) x = Some True) \<longleftrightarrow>
      (\<forall>(p, v)\<in>set (mapped_params configured params). udm_criterion R p v)"
proof -
  have *: "list_all2 (\<lambda>item x. udm_property_filter item = Inr x) (mapped_params configured params) qs"
    using assms by (simp add: udm_property_filters_def res_map_Inr_iff)
  then show "\<forall>x\<in>set qs. no_empty_clause x \<and> (\<forall>f\<in>set (iter_filters x). \<exists>e. user_builds f = Inr e)"
  proof (induction rule: list_all2_induct)
    case (Cons item items x xs)
    then show ?case using udm_filter_builds [of "fst item" "snd item" x] by simp
  qed simp
  from * show "(\<forall>x\<in>set qs. eval_query (user_sem R) x = Some True) \<longleftrightarrow>
      (\<forall>(p, v)\<in>set (mapped_params configured params). udm_criterion R p v)"
  proof (induction rule: list_all2_induct)
    case (Cons item items x xs)
    then show ?case using udm_filter_sem [of "fst item" "snd item" x R] by (simp add: case_prod_beta)
  qed simp
qed

lemma built_query_means:
  assumes "udm_property_filters configured params = Inr extra"
  obtains sq s where "build_query q extra = Inr sq" "user_statement sq = Inr s"
    "\<And>R. sql_like_laws (rs_like R) \<Longrightarrow> row_selected R s \<longleftrightarrow>
       fixed_criteria R q \<and> (\<forall>(p, v)\<in>set (mapped_params configured params). udm_criterion R p v)"
proof -
  obtain fs where fs: "res_map id (user_clauses q) = Inr fs" "\<forall>f\<in>set fs. \<exists>e. user_builds f = Inr e"
    and mean: "\<And>R. (\<forall>f\<in>set fs. user_sem R f = Some True) \<longleftrightarrow> fixed_criteria R q"
    by (rule user_clauses_filters [of q]) blast
  define cs where "cs = extra @ map QFilter fs"
  have ok: "no_empty_clause x \<and> (\<forall>f\<in>set (iter_filters x). \<exists>e. user_builds f = Inr e)" if "x \<in> set cs" for x
    using that fs(2) udm_filters_mean(1) [OF assms] by (auto simp: cs_def)
  have crit: "(\<forall>x\<in>set cs. eval_query (user_sem R) x = Some True) \<longleftrightarrow>
      fixed_criteria R q \<and> (\<forall>(p, v)\<in>set (mapped_params configured params). udm_criterion R p v)" for R
    using udm_filters_mean(2) [OF assms, of R] mean [of R] by (simp add: cs_def ball_Un conj_commute)
  have build: "build_query q extra = (case cs of [] \<Rightarrow> Inr None | [c] \<Rightarrow> Inr (Some (SearchQuery (Some c)))
      | clauses \<Rightarrow> Inr (Some (SearchQuery (Some (And clauses)))))"
    by (simp add: build_query_def fs(1) cs_def)
  consider (none) "cs = []" | (one) c where "cs = [c]" | (more) c d ds where "cs = c # d # ds"
    by (cases cs rule: remdups_adj.cases) auto
  then show thesis
  proof cases
    case none
    show thesis
      by (rule that [OF _ user_statement_all]) (use build crit none in \<open>simp_all add: row_selected_def select_def\<close>)
  next
    case one
    obtain s where "user_statement (Some (SearchQuery (Some c))) = Inr s"
      "\<And>R. sql_like_laws (rs_like R) \<Longrightarrow> row_selected R s \<longleftrightarrow> eval_query (user_sem R) c = Some True"
      using user_statement_query [of c] ok [of c] one by auto
    with that [of "Some (SearchQuery (Some c))" s] build crit one show thesis by simp
  next
    case more
    have "no_empty_clause (And cs)" "\<forall>f\<in>set (iter_filters (And cs)). \<exists>e. user_builds f = Inr e"
      using ok more by (auto simp: list_all_iff)
    then obtain s where "user_statement (Some (SearchQuery (Some (And cs)))) = Inr s"
      and sel: "\<And>R. sql_like_laws (rs_like R) \<Longrightarrow> row_selected R s \<longleftrightarrow> eval_query (user_sem R) (And cs) = Some True"
      using user_statement_query [of "And cs"] by blast
    moreover have "build_query q extra = Inr (Some (SearchQuery (Some (And cs))))"
      using build more by simp
    moreover have "eval_query (user_sem R) (And cs) = Some True \<longleftrightarrow> (\<forall>x\<in>set cs. eval_query (user_sem R) x = Some True)" for R
      by simp
    ultimately show thesis using that crit by metis
  qed
qed

text \<open>Digits of which \<open>isdigit\<close> holds and which \<open>int\<close> refuses.\<close>

definition bad_digits :: "string \<Rightarrow> bool" where
  "bad_digits digits \<longleftrightarrow>
     py_isdigit digits \<and> ((\<exists>c\<in>set digits. \<not> is_ascii_digit c) \<or> 4300 < length digits)"

lemma udm_filter_fails: "(\<exists>f. udm_property_filter (p, v) = Inr f) \<longleftrightarrow> \<not> bad_digits (py_lstrip CHR ''-'' v)"
  unfolding udm_filter_ok bad_digits_def by auto

lemma udm_filters_fail:
  "(\<exists>qs. udm_property_filters configured params = Inr qs) \<longleftrightarrow>
     \<not> (\<exists>(p, v)\<in>set params. p \<in> set configured \<and> p \<notin> set KNOWN_SEARCH_PARAMS \<and> bad_digits (py_lstrip CHR ''-'' v))"
proof -
  have "(\<exists>qs. udm_property_filters configured params = Inr qs) \<longleftrightarrow>
      (\<forall>item\<in>set (mapped_params configured params). \<not> bad_digits (py_lstrip CHR ''-'' (snd item)))"
    unfolding udm_property_filters_def res_map_ok_iff
    using udm_filter_fails by (metis (no_types, lifting) prod.collapse)
  then show ?thesis by (auto simp: mapped_params_def)
qed

section \<open>Properties\<close>

text \<open>C26: whatever parameters a user search of API v2 is given, it is translated to SQL, unless a configured
  UDM property is searched for with digits that are no decimal digits (as in a square sign) or too many.\<close>

theorem user_search_refused:
  "(\<exists>err. res_bind (user_query configured params q) user_statement = Inl err) \<longleftrightarrow>
     (\<exists>(p, v)\<in>set params. p \<in> set configured \<and> p \<notin> set KNOWN_SEARCH_PARAMS \<and> bad_digits (py_lstrip CHR ''-'' v))"
proof (cases "udm_property_filters configured params")
  case (Inl err)
  then have "\<not> (\<exists>qs. udm_property_filters configured params = Inr qs)" by simp
  then show ?thesis using Inl unfolding udm_filters_fail by (simp add: user_query_def)
next
  case (Inr extra)
  then have "\<exists>qs. udm_property_filters configured params = Inr qs" by simp
  moreover obtain sq s where "build_query q extra = Inr sq" "user_statement sq = Inr s"
    by (rule built_query_means [OF Inr, of q])
  ultimately show ?thesis using Inr unfolding udm_filters_fail by (simp add: user_query_def)
qed

text \<open>C6: the rows a user search of API v2 selects: names, schools and mail addresses match without regard to
  case and with wildcards, record and source ids exactly unless they contain a wildcard, dates and the active
  flag are equal, and every configured UDM property given has the value, or has it among its values.\<close>

theorem user_search_selects:
  assumes "res_bind (user_query configured params q) user_statement = Inr s" and "sql_like_laws (rs_like R)"
  shows "row_selected R s \<longleftrightarrow>
     fixed_criteria R q \<and>
     (\<forall>(p, v)\<in>set params. p \<in> set configured \<longrightarrow> p \<notin> set KNOWN_SEARCH_PARAMS \<longrightarrow> udm_criterion R p v)"
proof -
  from assms(1) obtain extra where extra: "udm_property_filters configured params = Inr extra"
    by (auto simp: user_query_def res_bind_eq_Inr)
  obtain sq s' where "build_query q extra = Inr sq" "user_statement sq = Inr s'"
    and means: "\<And>R. sql_like_laws (rs_like R) \<Longrightarrow> row_selected R s' \<longleftrightarrow>
       fixed_criteria R q \<and> (\<forall>(p, v)\<in>set (mapped_params configured params). udm_criterion R p v)"
    by (rule built_query_means [OF extra, of q]) blast
  then have "s' = s" using assms(1) extra by (simp add: user_query_def)
  with means [OF assms(2)] show ?thesis by (auto simp: mapped_params_def)
qed

definition demo_params :: user_params where
  "demo_params = \<lparr>us_school = None, us_name = Some ''a*'', us_firstname = Some [], us_lastname = None, us_email = None,
     us_record_uid = None, us_source_uid = None, us_birthday = None, us_expiration_date = None, us_disabled = Some False\<rparr>"

definition demo_row :: row_sem where
  "demo_row = \<lparr>rs_value = (\<lambda>c. VStr ''Anna''), rs_cmp = (\<lambda>op a b. Some True), rs_like = sql_like,
     rs_json = (\<lambda>c k v. Some (v = ''12''))\<rparr>"

lemma user_search_selects_witness:
  "\<exists>s. res_bind (user_query [''phone''] [(''phone'', ''-12''), (''name'', ''a*''), (''room'', ''1'')] demo_params) user_statement = Inr s \<and>
     row_selected demo_row s"
proof -
  let ?params = "[(''phone'', ''-12''), (''name'', ''a*''), (''room'', ''1'')]"
  have "\<not> bad_digits (py_lstrip CHR ''-'' ''-12'')" by code_simp
  then have "\<exists>qs. udm_property_filters [''phone''] ?params = Inr qs"
    unfolding udm_filters_fail by (simp add: KNOWN_SEARCH_PARAMS_def)
  then obtain extra where extra: "udm_property_filters [''phone''] ?params = Inr extra" by blast
  obtain sq s where "build_query demo_params extra = Inr sq" "user_statement sq = Inr s"
    by (rule built_query_means [OF extra, of demo_params])
  then have s: "res_bind (user_query [''phone''] ?params demo_params) user_statement = Inr s"
    using extra by (simp add: user_query_def)
  have "udm_criterion demo_row ''phone'' ''-12''"
    by (simp add: udm_criterion_def demo_row_def py_defs)
  moreover have "text_ci demo_row (model_column UserModel ''name'') ''a*''"
    by (simp add: text_ci_def demo_row_def on_text_def) code_simp
  then have "fixed_criteria demo_row demo_params"
    by (simp add: fixed_criteria_def demo_params_def) (simp add: demo_row_def)
  moreover have "sql_like_laws (rs_like demo_row)" by (simp add: demo_row_def sql_like_lawful)
  ultimately have "row_selected demo_row s"
    using user_search_selects [OF s, of demo_row] by (auto simp: KNOWN_SEARCH_PARAMS_def)
  with s show ?thesis by blast
qed

end
