(* ===== verification/Api_V2.thy ===== *)
theory Api_V2
  imports Api_Query Session
begin

text \<open>
  The read handlers of the Kelvin REST API v2 (\<open>routers/v2\<close>): from a request over the object library to
  the values of the response. FastAPI's routing, the authentication and the pydantic classes that
  check a response (\<open>UserModel\<close> and the like, here the records of their arguments) are not modelled;
  the URL of a route and the configuration of the mapped UDM properties are parameters.
\<close>

section \<open>Requests and errors\<close>

datatype api_error = HTTPException nat | Raised err

definition raised :: "err + 'a \<Rightarrow> api_error + 'a" where
  "raised r = (case r of Inl e \<Rightarrow> Inl (Raised e) | Inr x \<Rightarrow> Inr x)"

text \<open>
  \<open>ae_exec\<close> answers SELECT statements and \<open>ae_depth\<close> is Python's recursion limit, as for the managers.
  \<open>ae_url\<close> is the quoted https URL of a route with its path parameters.
\<close>

record api_env =
  ae_depth :: nat
  ae_exec :: exec_select
  ae_url :: "string \<Rightarrow> (string \<times> string) list \<Rightarrow> err + string"
  ae_udm_school :: "string list"
  ae_udm_user :: "string list"
  ae_udm_school_class :: "string list"
  ae_udm_workgroup :: "string list"

section \<open>udm\_properties.py\<close>

definition mapped_udm_properties :: "string list \<Rightarrow> pdict \<Rightarrow> pdict" where
  "mapped_udm_properties configured stored =
     map (\<lambda>prop. (prop, case map_of stored prop of None \<Rightarrow> JNull | Some v \<Rightarrow> v)) (dedup_by id configured)"

section \<open>Comprehensions\<close>

text \<open>\<open>xs.sort(key=lambda x: x.name)\<close>, \<open>[x for x in xs if p(x)]\<close> and \<open>d.setdefault(k, []).append(v)\<close>.\<close>

definition sort_by_name :: "('a \<Rightarrow> err + string) \<Rightarrow> 'a list \<Rightarrow> err + 'a list" where
  "sort_by_name name xs =
     res_bind (res_map (\<lambda>x. res_bind (name x) (\<lambda>n. Inr (n, x))) xs) (\<lambda>ps. Inr (map snd (sort_key fst ps)))"

definition res_filter :: "('a \<Rightarrow> err + bool) \<Rightarrow> 'a list \<Rightarrow> err + 'a list" where
  "res_filter p xs =
     res_bind (res_map (\<lambda>x. res_bind (p x) (\<lambda>b. Inr (b, x))) xs) (\<lambda>ps. Inr (map snd (filter fst ps)))"

definition append_to :: "'k \<Rightarrow> 'v \<Rightarrow> ('k \<times> 'v list) list \<Rightarrow> ('k \<times> 'v list) list" where
  "append_to k v d = AList.update k ((case map_of d k of None \<Rightarrow> [] | Some vs \<Rightarrow> vs) @ [v]) d"

section \<open>Users (user.py)\<close>

definition USER_LOAD_SPEC_V2 :: load_spec where
  "USER_LOAD_SPEC_V2 = from_attributes
     [''record_uid'', ''source_uid'', ''name'', ''firstname'', ''lastname'', ''active'', ''school_memberships'',
      ''legal_wards'', ''legal_guardians'', ''public_id'', ''email'', ''birthday'', ''expiration_date'', ''udm_properties'']"

datatype SchoolUserRole = R_school_admin | R_staff | R_student | R_legal_guardian | R_teacher

fun role_value :: "SchoolUserRole \<Rightarrow> string" where
  "role_value R_school_admin = ''school_admin''"
| "role_value R_staff = ''staff''"
| "role_value R_student = ''student''"
| "role_value R_legal_guardian = ''legal_guardian''"
| "role_value R_teacher = ''teacher''"

definition school_user_roles :: "SchoolUserRole list" where
  "school_user_roles = [R_school_admin, R_staff, R_student, R_legal_guardian, R_teacher]"

text \<open>\<open>SchoolUserRole(value)\<close>; \<^const>\<open>None\<close> is the \<open>ValueError\<close>.\<close>

definition to_school_user_role :: "string \<Rightarrow> SchoolUserRole option" where
  "to_school_user_role value = find (\<lambda>r. role_value r = value) school_user_roles"

type_synonym names_of_school = "(string \<times> string list) list"

text \<open>One round of the loop of \<open>_school_classes_and_workgroups\<close>.\<close>

definition class_or_workgroup :: "group \<Rightarrow> names_of_school \<times> names_of_school \<Rightarrow> err + names_of_school \<times> names_of_school" where
  "class_or_workgroup g found =
     (case found of (school_classes, workgroups) \<Rightarrow>
        res_bind (Group_roles g) (\<lambda>roles.
        res_bind (res_map Role_name roles) (\<lambda>role_names.
        res_bind (Group_name g) (\<lambda>name.
        res_bind (Group_school g) (\<lambda>school.
        res_bind (School_name school) (\<lambda>school_name.
          (let relative_name = removeprefix (school_name @ ''-'') name in
           Inr (if ''school_class'' \<in> set role_names then append_to school_name relative_name school_classes
                else school_classes,
                if ''workgroup'' \<in> set role_names then append_to school_name relative_name workgroups
                else workgroups))))))))"

definition school_classes_and_workgroups :: "user \<Rightarrow> err + names_of_school \<times> names_of_school" where
  "school_classes_and_workgroups u =
     res_bind (user_groups u) (\<lambda>groups.
     res_bind (res_fold class_or_workgroup groups ([], [])) (\<lambda>(school_classes, workgroups).
       Inr (map (map_prod id sort) school_classes, map (map_prod id sort) workgroups)))"

record user_model =
  um_school :: string
  um_dn :: string
  um_name :: string
  um_firstname :: string
  um_lastname :: string
  um_birthday :: "date option"
  um_disabled :: bool
  um_email :: "string option"
  um_expiration_date :: "date option"
  um_record_uid :: string
  um_source_uid :: string
  um_url :: string
  um_schools :: "string list"
  um_roles :: "string list"
  um_school_classes :: names_of_school
  um_workgroups :: names_of_school
  um_ucsschool_roles :: "string list"
  um_legal_guardians :: "string list"
  um_legal_wards :: "string list"
  um_udm_properties :: pdict

definition membership_role_strings :: "membership \<Rightarrow> err + string list" where
  "membership_role_strings m =
     res_map (\<lambda>role.
       res_bind (Role_name role) (\<lambda>name.
       res_bind (School_name (m_school m)) (\<lambda>school. Inr (name @ '':school:'' @ school)))) (m_roles m)"

definition user_url :: "api_env \<Rightarrow> user \<Rightarrow> err + string" where
  "user_url env u = res_bind (User_name u) (\<lambda>name. ae_url env ''get'' [(''username'', name)])"

definition school_url :: "api_env \<Rightarrow> school \<Rightarrow> err + string" where
  "school_url env s = res_bind (School_name s) (\<lambda>name. ae_url env ''school_get'' [(''school_name'', name)])"

definition dn_of_user :: "(uuid \<times> string) list \<Rightarrow> user \<Rightarrow> err + string" where
  "dn_of_user dn_map u =
     (case u_public_id u of
        UNSET \<Rightarrow> Inl (KeyError ''UNSET'')
      | Present i \<Rightarrow> of_opt (KeyError (uuid_str i)) (map_of dn_map i))"

definition user_to_model :: "api_env \<Rightarrow> (uuid \<times> string) list option \<Rightarrow> user \<Rightarrow> storage \<Rightarrow> err + user_model" where
  "user_to_model env dn_map u st =
     (let dn_map = (case dn_map of
          None \<Rightarrow> public_ids_to_dns USER (present_ids [u_public_id u]) st
        | Some m \<Rightarrow> m) in
      res_bind (dn_of_user dn_map u) (\<lambda>dn.
      res_bind (User_school_memberships u) (\<lambda>memberships.
      res_bind (res_map (\<lambda>(_, m). school_url env (m_school m)) memberships) (\<lambda>schools.
      res_bind (res_map (\<lambda>(_, m). membership_role_strings m) memberships) (\<lambda>ucsschool_roles.
      res_bind (user_roles u) (\<lambda>roles.
      res_bind (res_map Role_name roles) (\<lambda>role_names.
      (let known = remdups (given (map to_school_user_role role_names)) in
      res_bind (school_classes_and_workgroups u) (\<lambda>(school_classes, workgroups).
      res_bind (res_map (\<lambda>role. ae_url env ''get'' [(''role_name'', role_value role)]) (sort_key role_value known)) (\<lambda>role_urls.
      res_bind (User_legal_guardians u) (\<lambda>guardians.
      res_bind (res_map (user_url env) guardians) (\<lambda>legal_guardian_urls.
      res_bind (User_legal_wards u) (\<lambda>wards.
      res_bind (res_map (user_url env) wards) (\<lambda>legal_ward_urls.
      res_bind (res_bind (primary_school u) (school_url env)) (\<lambda>school.
      res_bind (User_name u) (\<lambda>name.
      res_bind (User_firstname u) (\<lambda>firstname.
      res_bind (User_lastname u) (\<lambda>lastname.
      res_bind (User_birthday u) (\<lambda>birthday.
      res_bind (User_active u) (\<lambda>active.
      res_bind (User_email u) (\<lambda>email.
      res_bind (User_expiration_date u) (\<lambda>expiration_date.
      res_bind (User_record_uid u) (\<lambda>record_uid.
      res_bind (User_source_uid u) (\<lambda>source_uid.
      res_bind (user_url env u) (\<lambda>url.
      res_bind (User_udm_properties u) (\<lambda>udm_properties.
        Inr \<lparr>um_school = school, um_dn = dn, um_name = name, um_firstname = firstname, um_lastname = lastname,
          um_birthday = birthday, um_disabled = (\<not> active), um_email = email, um_expiration_date = expiration_date,
          um_record_uid = record_uid, um_source_uid = source_uid, um_url = url, um_schools = sort schools,
          um_roles = role_urls, um_school_classes = school_classes, um_workgroups = workgroups,
          um_ucsschool_roles = concat ucsschool_roles, um_legal_guardians = legal_guardian_urls,
          um_legal_wards = legal_ward_urls,
          um_udm_properties = mapped_udm_properties (ae_udm_user env) udm_properties\<rparr>))))))))))))))))))))))))))"

definition api_user_search :: "api_env \<Rightarrow> (string \<times> string) list \<Rightarrow> user_params \<Rightarrow> storage \<Rightarrow> api_error + user_model list" where
  "api_user_search env params q st = raised (
     res_bind (user_query (ae_udm_user env) params q) (\<lambda>query.
     res_bind (user_search (ae_depth env) (ae_exec env) query [] None 0 (Some USER_LOAD_SPEC_V2) st) (\<lambda>users.
     res_bind (sort_by_name User_name users) (\<lambda>users.
       (let dn_map = public_ids_to_dns USER (present_ids (map u_public_id users)) st in
        res_map (\<lambda>u. user_to_model env (Some dn_map) u st) users)))))"

definition name_query :: "string \<Rightarrow> search_query" where
  "name_query name = SearchQuery (Some (QFilter (Filter ''name'' EQ (VStr name))))"

definition api_user_get :: "api_env \<Rightarrow> string \<Rightarrow> storage \<Rightarrow> api_error + user_model" where
  "api_user_get env username st =
     res_bind (raised (user_search (ae_depth env) (ae_exec env) (Some (name_query username)) [] None 0
       (Some USER_LOAD_SPEC_V2) st)) (\<lambda>results.
       (case results of
          [] \<Rightarrow> Inl (HTTPException 404)
        | u # _ \<Rightarrow> raised (user_to_model env None u st)))"

section \<open>School classes (school\_class.py)\<close>

definition SCHOOL_CLASS_LOAD_SPEC_V2 :: load_spec where
  "SCHOOL_CLASS_LOAD_SPEC_V2 = from_attributes
     [''name'', ''display_name'', ''create_share'', ''roles'', ''members'', ''description'', ''udm_properties'']"

text \<open>The same text in \<open>workgroup.py\<close>.\<close>

definition get_relative_name :: "group \<Rightarrow> err + string" where
  "get_relative_name g =
     res_bind (res_bind (Group_school g) School_name) (\<lambda>school_name.
     res_bind (Group_name g) (\<lambda>name.
       Inr (if startswith (py_lower school_name @ ''-'') (py_lower name) then drop (length school_name + 1) name
            else name)))"

definition has_role :: "string \<Rightarrow> group \<Rightarrow> err + bool" where
  "has_role role g =
     res_bind (Group_roles g) (\<lambda>roles.
     res_bind (res_map Role_name roles) (\<lambda>names. Inr (role \<in> set names)))"

definition is_school_class :: "group \<Rightarrow> err + bool" where
  "is_school_class = has_role ''school_class''"

definition sorted_role_strings :: "group \<Rightarrow> string \<Rightarrow> err + string list" where
  "sorted_role_strings g school_name =
     res_bind (Group_roles g) (\<lambda>roles.
     res_bind (res_map Role_name roles) (\<lambda>names. Inr (sort (map (\<lambda>n. n @ '':school:'' @ school_name) names))))"

definition member_urls :: "api_env \<Rightarrow> group \<Rightarrow> err + string list" where
  "member_urls env g = res_bind (Group_members g) (\<lambda>members.
     res_bind (res_map (user_url env) members) (\<lambda>urls. Inr (sort urls)))"

text \<open>\<open>dn_map.get(public_id, "")\<close>.\<close>

definition dn_or_empty :: "(uuid \<times> string) list \<Rightarrow> uuid settable \<Rightarrow> string" where
  "dn_or_empty dn_map public_id =
     (case public_id of
        UNSET \<Rightarrow> []
      | Present i \<Rightarrow> (case map_of dn_map i of None \<Rightarrow> [] | Some dn \<Rightarrow> dn))"

record school_class_model =
  cl_name :: string
  cl_school :: string
  cl_description :: "string option"
  cl_users :: "string list"
  cl_create_share :: bool
  cl_ucsschool_roles :: "string list"
  cl_url :: string
  cl_dn :: string
  cl_udm_properties :: pdict

definition group_to_school_class_model :: "api_env \<Rightarrow> storage \<Rightarrow> group \<Rightarrow> err + school_class_model" where
  "group_to_school_class_model env st g =
     (let dn = dn_or_empty (public_ids_to_dns GROUP (present_ids [g_public_id g]) st) (g_public_id g) in
      res_bind (get_relative_name g) (\<lambda>relative_name.
      res_bind (res_bind (Group_school g) School_name) (\<lambda>school_name.
      res_bind (member_urls env g) (\<lambda>users.
      res_bind (sorted_role_strings g school_name) (\<lambda>ucsschool_roles.
      res_bind (ae_url env ''school_get'' [(''school_name'', school_name)]) (\<lambda>school.
      res_bind (Group_description g) (\<lambda>description.
      res_bind (Group_create_share g) (\<lambda>create_share.
      res_bind (ae_url env ''get'' [(''class_name'', relative_name), (''school'', school_name)]) (\<lambda>url.
      res_bind (Group_udm_properties g) (\<lambda>udm_properties.
        Inr \<lparr>cl_name = relative_name, cl_school = school, cl_description = description, cl_users = users,
          cl_create_share = create_share, cl_ucsschool_roles = ucsschool_roles, cl_url = url, cl_dn = dn,
          cl_udm_properties = mapped_udm_properties (ae_udm_school_class env) udm_properties\<rparr>))))))))))"

text \<open>What both routers do with the groups a query finds.\<close>

definition search_groups ::
  "api_env \<Rightarrow> load_spec \<Rightarrow> (group \<Rightarrow> err + bool) \<Rightarrow> search_query \<Rightarrow> storage \<Rightarrow> err + group list" where
  "search_groups env load is_kind query st =
     res_bind (group_search (ae_depth env) (ae_exec env) (Some query) [] None 0 (Some load) st) (res_filter is_kind)"

definition api_school_class_search ::
  "api_env \<Rightarrow> string \<Rightarrow> string option \<Rightarrow> storage \<Rightarrow> api_error + school_class_model list" where
  "api_school_class_search env school class_name st = raised (
     res_bind (group_name_query school class_name) (\<lambda>query.
     res_bind (search_groups env SCHOOL_CLASS_LOAD_SPEC_V2 is_school_class query st) (\<lambda>groups.
     res_bind (sort_by_name Group_name groups) (res_map (group_to_school_class_model env st)))))"

definition api_school_class_get ::
  "api_env \<Rightarrow> string \<Rightarrow> string \<Rightarrow> storage \<Rightarrow> api_error + school_class_model" where
  "api_school_class_get env school class_name st =
     res_bind (raised (search_groups env SCHOOL_CLASS_LOAD_SPEC_V2 is_school_class (full_name_query school class_name) st))
       (\<lambda>results. case results of
          [] \<Rightarrow> Inl (HTTPException 404)
        | g # _ \<Rightarrow> raised (group_to_school_class_model env st g))"

section \<open>Workgroups (workgroup.py)\<close>

definition WORKGROUP_LOAD_SPEC_V2 :: load_spec where
  "WORKGROUP_LOAD_SPEC_V2 = from_attributes
     [''name'', ''display_name'', ''create_share'', ''email'', ''roles'', ''members'', ''allowed_email_senders_users'',
      ''allowed_email_senders_groups'', ''description'', ''udm_properties'']"

definition is_workgroup :: "group \<Rightarrow> err + bool" where
  "is_workgroup = has_role ''workgroup''"

record workgroup_model =
  wg_name :: string
  wg_school :: string
  wg_description :: "string option"
  wg_users :: "string list"
  wg_create_share :: bool
  wg_email :: "string option"
  wg_allowed_email_senders_users :: "string list"
  wg_allowed_email_senders_groups :: "string list"
  wg_ucsschool_roles :: "string list"
  wg_url :: string
  wg_dn :: string
  wg_udm_properties :: pdict

definition group_to_workgroup_model :: "api_env \<Rightarrow> storage \<Rightarrow> group \<Rightarrow> err + workgroup_model" where
  "group_to_workgroup_model env st g =
     res_bind (Group_allowed_email_senders_users g) (\<lambda>sender_users.
     res_bind (Group_allowed_email_senders_groups g) (\<lambda>sender_groups.
     (let user_public_ids = present_ids (map u_public_id sender_users);
          group_public_ids = present_ids (map g_public_id sender_groups);
          dn_map = public_ids_to_dns GROUP (present_ids [g_public_id g] @ group_public_ids) st;
          dn = dn_or_empty dn_map (g_public_id g);
          senders_groups = sort (given (map (map_of dn_map) group_public_ids));
          senders_users = (if user_public_ids \<noteq> [] then sort (map snd (public_ids_to_dns USER user_public_ids st)) else []) in
      res_bind (get_relative_name g) (\<lambda>relative_name.
      res_bind (res_bind (Group_school g) School_name) (\<lambda>school_name.
      res_bind (member_urls env g) (\<lambda>users.
      res_bind (sorted_role_strings g school_name) (\<lambda>ucsschool_roles.
      res_bind (ae_url env ''school_get'' [(''school_name'', school_name)]) (\<lambda>school.
      res_bind (Group_description g) (\<lambda>description.
      res_bind (Group_create_share g) (\<lambda>create_share.
      res_bind (Group_email g) (\<lambda>email.
      res_bind (ae_url env ''get'' [(''workgroup_name'', relative_name), (''school'', school_name)]) (\<lambda>url.
      res_bind (Group_udm_properties g) (\<lambda>udm_properties.
        Inr \<lparr>wg_name = relative_name, wg_school = school, wg_description = description, wg_users = users,
          wg_create_share = create_share, wg_email = email, wg_allowed_email_senders_users = senders_users,
          wg_allowed_email_senders_groups = senders_groups, wg_ucsschool_roles = ucsschool_roles, wg_url = url,
          wg_dn = dn, wg_udm_properties = mapped_udm_properties (ae_udm_workgroup env) udm_properties\<rparr>)))))))))))))"

definition api_workgroup_search ::
  "api_env \<Rightarrow> string \<Rightarrow> string option \<Rightarrow> storage \<Rightarrow> api_error + workgroup_model list" where
  "api_workgroup_search env school workgroup_name st = raised (
     res_bind (group_name_query school workgroup_name) (\<lambda>query.
     res_bind (search_groups env WORKGROUP_LOAD_SPEC_V2 is_workgroup query st) (\<lambda>groups.
     res_bind (sort_by_name Group_name groups) (res_map (group_to_workgroup_model env st)))))"

definition api_workgroup_get ::
  "api_env \<Rightarrow> string \<Rightarrow> string \<Rightarrow> storage \<Rightarrow> api_error + workgroup_model" where
  "api_workgroup_get env school workgroup_name st =
     res_bind (raised (search_groups env WORKGROUP_LOAD_SPEC_V2 is_workgroup (full_name_query school workgroup_name) st))
       (\<lambda>results. case results of
          [] \<Rightarrow> Inl (HTTPException 404)
        | g # _ \<Rightarrow> raised (group_to_workgroup_model env st g))"

section \<open>Schools (school.py)\<close>

record school_model =
  sc_name :: string
  sc_display_name :: "string option"
  sc_educational_servers :: "string list"
  sc_administrative_servers :: "string list"
  sc_class_share_file_server :: "string option"
  sc_home_share_file_server :: "string option"
  sc_url :: string
  sc_dn :: string
  sc_ucsschool_roles :: "string list"
  sc_udm_properties :: pdict

definition school_to_model :: "api_env \<Rightarrow> storage \<Rightarrow> school \<Rightarrow> err + school_model" where
  "school_to_model env st s =
     (let dn = dn_or_empty (public_ids_to_dns SCHOOL (present_ids [s_public_id s]) st) (s_public_id s) in
      res_bind (School_name s) (\<lambda>name.
      res_bind (School_display_name s) (\<lambda>display_name.
      res_bind (School_educational_servers s) (\<lambda>educational_servers.
      res_bind (School_administrative_servers s) (\<lambda>administrative_servers.
      res_bind (School_class_share_file_server s) (\<lambda>class_share_file_server.
      res_bind (School_home_share_file_server s) (\<lambda>home_share_file_server.
      res_bind (school_url env s) (\<lambda>url.
      res_bind (School_udm_properties s) (\<lambda>udm_properties.
        Inr \<lparr>sc_name = name, sc_display_name = (if display_name = [] then None else Some display_name),
          sc_educational_servers = sort educational_servers,
          sc_administrative_servers = sort administrative_servers,
          sc_class_share_file_server = class_share_file_server, sc_home_share_file_server = home_share_file_server,
          sc_url = url, sc_dn = dn, sc_ucsschool_roles = [''school:school:'' @ name],
          sc_udm_properties = mapped_udm_properties (ae_udm_school env) udm_properties\<rparr>)))))))))"

definition school_query :: "string option \<Rightarrow> err + search_query option" where
  "school_query name_filter =
     (case name_filter of
        Some (c # cs) \<Rightarrow>
          res_bind (str_filter ''name'' (c # cs) True) (\<lambda>f. Inr (Some (SearchQuery (Some (QFilter f)))))
      | _ \<Rightarrow> Inr None)"

definition api_school_search :: "api_env \<Rightarrow> string option \<Rightarrow> storage \<Rightarrow> api_error + school_model list" where
  "api_school_search env name_filter st = raised (
     res_bind (school_query name_filter) (\<lambda>query.
     res_bind (school_search (ae_exec env) query [] None 0 None st) (\<lambda>schools.
     res_bind (sort_by_name School_name schools) (res_map (school_to_model env st)))))"

definition api_school_get :: "api_env \<Rightarrow> string \<Rightarrow> storage \<Rightarrow> api_error + school_model" where
  "api_school_get env school_name st =
     res_bind (raised (school_search (ae_exec env) (Some (name_query school_name)) [] None 0 None st)) (\<lambda>results.
       (case results of
          [] \<Rightarrow> Inl (HTTPException 404)
        | s # _ \<Rightarrow> raised (school_to_model env st s)))"

text \<open>HEAD: the status of the response.\<close>

definition api_school_exists :: "api_env \<Rightarrow> string \<Rightarrow> storage \<Rightarrow> api_error + nat" where
  "api_school_exists env school_name st =
     res_bind (raised (school_search (ae_exec env) (Some (name_query school_name)) [] (Some 1) 0 None st)) (\<lambda>results.
       Inr (if results \<noteq> [] then 200 else 404))"

section \<open>Roles (role.py)\<close>

definition ROLE_LOAD_SPEC_V2 :: load_spec where
  "ROLE_LOAD_SPEC_V2 = from_attributes [''name'', ''display_name'']"

record role_model =
  ro_name :: string
  ro_display_name :: string
  ro_url :: string

definition role_to_model :: "api_env \<Rightarrow> string \<Rightarrow> err + role_model" where
  "role_to_model env name =
     res_bind (ae_url env ''get'' [(''role_name'', name)]) (\<lambda>url.
       Inr \<lparr>ro_name = name, ro_display_name = name, ro_url = url\<rparr>)"

definition known_role :: "role \<Rightarrow> err + bool" where
  "known_role r = res_bind (Role_name r) (\<lambda>name. Inr (name \<in> set (map role_value school_user_roles)))"

definition api_role_search :: "api_env \<Rightarrow> storage \<Rightarrow> api_error + role_model list" where
  "api_role_search env st = raised (
     res_bind (role_search (ae_exec env) None [] None 0 (Some ROLE_LOAD_SPEC_V2) st) (\<lambda>roles.
     res_bind (res_filter known_role roles) (\<lambda>roles.
     res_bind (sort_by_name Role_name roles) (\<lambda>roles.
       res_map (\<lambda>r. res_bind (Role_name r) (role_to_model env)) roles))))"

definition api_role_get :: "api_env \<Rightarrow> string \<Rightarrow> storage \<Rightarrow> api_error + role_model" where
  "api_role_get env role_name st =
     (case to_school_user_role role_name of
        None \<Rightarrow> Inl (HTTPException 404)
      | Some role \<Rightarrow>
          res_bind (raised (role_search (ae_exec env) (Some (name_query role_name)) [] None 0 (Some ROLE_LOAD_SPEC_V2) st))
            (\<lambda>results. if results = [] then Inl (HTTPException 404) else raised (role_to_model env role_name)))"

end
