(* ===== verification/Api_Responses.thy ===== *)
theory Api_Responses
  imports Api_V2
begin

text \<open>
  What the read handlers of API v2 answer: the classes and workgroups of a user, the completeness of
  a response, the URL of a class and the two ways to ask for a school.
\<close>

section \<open>Classes and workgroups of a user\<close>

text \<open>The name of a group below a school it has a role in.\<close>

definition relative_in :: "string \<Rightarrow> string \<Rightarrow> group \<Rightarrow> string option" where
  "relative_in role school g =
     (case (has_role role g, res_bind (Group_school g) School_name, Group_name g) of
        (Inr True, Inr s, Inr name) \<Rightarrow> if s = school then Some (removeprefix (school @ ''-'') name) else None
      | _ \<Rightarrow> None)"

definition names_in :: "names_of_school \<Rightarrow> string \<Rightarrow> string list" where
  "names_in d s = (case map_of d s of None \<Rightarrow> [] | Some names \<Rightarrow> names)"

definition no_empty_entry :: "names_of_school \<Rightarrow> bool" where
  "no_empty_entry d \<longleftrightarrow> (\<forall>s. map_of d s \<noteq> Some [])"

lemma append_to_simps [simp]:
  "names_in (append_to k v d) s = (if s = k then names_in d s @ [v] else names_in d s)"
  "no_empty_entry d \<Longrightarrow> no_empty_entry (append_to k v d)"
  by (auto simp: names_in_def no_empty_entry_def append_to_def update_conv')

lemma class_or_workgroup_step:
  assumes "class_or_workgroup g (cs, ws) = Inr (cs', ws')"
  shows "names_in cs' s = names_in cs s @ given [relative_in ''school_class'' s g]"
    and "names_in ws' s = names_in ws s @ given [relative_in ''workgroup'' s g]"
    and "no_empty_entry cs \<Longrightarrow> no_empty_entry cs'" "no_empty_entry ws \<Longrightarrow> no_empty_entry ws'"
proof -
  from assms obtain roles names name school sn where facts:
    "Group_roles g = Inr roles" "res_map Role_name roles = Inr names" "Group_name g = Inr name"
    "Group_school g = Inr school" "School_name school = Inr sn"
    and cs': "cs' = (if ''school_class'' \<in> set names then append_to sn (removeprefix (sn @ ''-'') name) cs else cs)"
    and ws': "ws' = (if ''workgroup'' \<in> set names then append_to sn (removeprefix (sn @ ''-'') name) ws else ws)"
    unfolding class_or_workgroup_def Let_def by (auto simp only: prod.case res_bind_eq_Inr prod.inject sum.inject)
  have rel: "relative_in role s g = (if role \<in> set names \<and> s = sn then Some (removeprefix (sn @ ''-'') name) else None)" for role
    by (cases "role \<in> set names") (simp_all add: relative_in_def has_role_def facts)
  show "names_in cs' s = names_in cs s @ given [relative_in ''school_class'' s g]"
    by (simp add: cs' rel given_def)
  show "names_in ws' s = names_in ws s @ given [relative_in ''workgroup'' s g]"
    by (simp add: ws' rel given_def)
  show "no_empty_entry cs \<Longrightarrow> no_empty_entry cs'" "no_empty_entry ws \<Longrightarrow> no_empty_entry ws'"
    by (simp_all add: cs' ws')
qed

lemma class_or_workgroup_loop:
  assumes "res_fold class_or_workgroup gs (cs, ws) = Inr (cs', ws')"
  shows "names_in cs' s = names_in cs s @ given (map (relative_in ''school_class'' s) gs) \<and>
     names_in ws' s = names_in ws s @ given (map (relative_in ''workgroup'' s) gs) \<and>
     (no_empty_entry cs \<longrightarrow> no_empty_entry cs') \<and> (no_empty_entry ws \<longrightarrow> no_empty_entry ws')"
  using assms
proof (induction gs arbitrary: cs ws)
  case (Cons g gs)
  from Cons.prems obtain c w where step: "class_or_workgroup g (cs, ws) = Inr (c, w)"
    and rest: "res_fold class_or_workgroup gs (c, w) = Inr (cs', ws')"
    by (auto simp: res_bind_eq_Inr)
  have "given (map (relative_in r s) (g # gs)) = given [relative_in r s g] @ given (map (relative_in r s) gs)" for r
    by (simp add: given_def)
  with class_or_workgroup_step(1,2) [OF step, of s] class_or_workgroup_step(3,4) [OF step] Cons.IH [OF rest]
  show ?case by simp
qed (simp add: given_def)

lemma map_of_sorted: "map_of (map (map_prod id sort) d) s = map_option sort (map_of d s)"
  by (induction d) auto

text \<open>C21: the classes and workgroups in the response for a user: a school has an entry exactly when the user is
  in a group of that school with the role, and the entry lists the names of these groups below the school in
  sorted order; so the answer does not depend on the order in which the set of groups is iterated.\<close>

theorem classes_and_workgroups_of_user:
  assumes "school_classes_and_workgroups u = Inr (classes, workgroups)" and "user_groups u = Inr gs"
  shows "map_of classes s =
       (if given (map (relative_in ''school_class'' s) gs) = [] then None
        else Some (sort (given (map (relative_in ''school_class'' s) gs)))) \<and>
     map_of workgroups s =
       (if given (map (relative_in ''workgroup'' s) gs) = [] then None
        else Some (sort (given (map (relative_in ''workgroup'' s) gs))))"
proof -
  from assms obtain cs ws where loop: "res_fold class_or_workgroup gs ([], []) = Inr (cs, ws)"
    and sorted: "classes = map (map_prod id sort) cs" "workgroups = map (map_prod id sort) ws"
    by (auto simp: school_classes_and_workgroups_def res_bind_eq_Inr)
  have "map_of d s = (if names_in d s = [] then None else Some (names_in d s))" if "no_empty_entry d" for d
    using that by (auto simp: names_in_def no_empty_entry_def split: option.split)
  moreover have "names_in [] s = []" "no_empty_entry []" by (simp_all add: names_in_def no_empty_entry_def)
  ultimately show ?thesis
    unfolding sorted map_of_sorted using class_or_workgroup_loop [OF loop, of s] by auto
qed

section \<open>The URL of a class\<close>

lemma glob_match_literal: "CHR ''*'' \<notin> set g \<Longrightarrow> glob_match g s \<longleftrightarrow> s = g"
proof (induction g arbitrary: s)
  case (Cons c g)
  then show ?case by (cases s) auto
qed simp

lemma py_lower_star: "CHR ''*'' \<in> set (py_lower s) \<longleftrightarrow> CHR ''*'' \<in> set s"
proof -
  have "CHR ''*'' = lower_char c \<longleftrightarrow> c = CHR ''*''" for c using lower_char_special(1) [of c] by auto
  then show ?thesis by (auto simp: py_lower_def image_iff)
qed

definition group_statement :: "search_query \<Rightarrow> err + stmt" where
  "group_statement query = apply_search_query (select ''Group'') (Some query) group_field_map
     (Some group_nested_registry) (Some group_json_field_map)"

lemma group_name_field: "map_of group_field_map ''name'' = Some (model_column GroupModel ''name'')"
  by code_simp

lemma full_name_statement:
  obtains s where "group_statement (full_name_query school name) = Inr s"
    "\<And>R. sql_like_laws (rs_like R) \<Longrightarrow>
       row_selected R s \<longleftrightarrow> text_ci R (model_column GroupModel ''name'') (school @ ''-'' @ name)"
proof -
  let ?f = "Filter ''name'' MATCHES_CI (VStr (school @ ''-'' @ name))"
  let ?c = "model_column GroupModel ''name''"
  let ?sem = "\<lambda>R. filter_sem R group_field_map (Some group_nested_registry) (Some group_json_field_map)"
  have col: "get_filter_column ?f group_field_map (Some group_nested_registry) (Some group_json_field_map) = Inr ?c"
    by (simp add: get_filter_column_def group_name_field)
  then obtain e where e: "build_filter_expression ?f group_field_map (Some group_nested_registry) (Some group_json_field_map) = Inr e"
    by (simp add: build_filter_expression_def validate_filter_value_def RANGE_OPERATORS_def coerce_filter_value_def
      UUID_COERCED_OPERATORS_def)
  have "eval_sexpr (sql_leaf R) e = ?sem R ?f" if "sql_like_laws (rs_like R)" for R
    by (rule leaf_sem [OF e that])
  moreover have "?sem R ?f = Some True \<longleftrightarrow> text_ci R ?c (school @ ''-'' @ name)" for R
    unfolding filter_sem_def Let_def column_of_def col by (simp add: text_ci_def str_of_def)
  ultimately show thesis
    using that e by (simp add: group_statement_def full_name_query_def apply_search_query_def Let_def row_selected_def
        apply_nested_joins_result(3) select_def)
qed


section \<open>A user is loaded with all the response needs\<close>

definition loaded_role :: "role \<Rightarrow> bool" where
  "loaded_role r \<longleftrightarrow> (\<exists>n. r_name r = Loaded n)"

definition loaded_school :: "school \<Rightarrow> bool" where
  "loaded_school s \<longleftrightarrow> (\<exists>n. s_name s = Loaded n)"

definition loaded_group :: "group \<Rightarrow> bool" where
  "loaded_group g \<longleftrightarrow> (\<exists>n rs s. g_name g = Loaded n \<and> g_roles g = Loaded rs \<and> list_all loaded_role rs \<and>
     g_school g = Loaded s \<and> loaded_school s)"

definition loaded_membership :: "membership \<Rightarrow> bool" where
  "loaded_membership m \<longleftrightarrow> loaded_school (m_school m) \<and> list_all loaded_role (m_roles m) \<and> list_all loaded_group (m_groups m)"

definition named_user :: "user \<Rightarrow> bool" where
  "named_user u \<longleftrightarrow> (\<exists>n. u_name u = Loaded n)"

lemma user_columns_loaded: "load_requested_scalar_attributes UserModel (Some USER_LOAD_SPEC_V2) user_load_attribute_map = []"
  by (simp add: load_requested_scalar_attributes_def USER_LOAD_SPEC_V2_def from_attributes_def spec_includes_def
      user_load_attribute_map_def user_scalar_field_map_def)

lemma user_relations_loaded: "user_relations_unloaded USER_LOAD_SPEC_V2 = []"
  by (simp add: user_relations_unloaded_def includes_user_memberships_def USER_LOAD_SPEC_V2_def from_attributes_def
      spec_includes_def)

abbreviation v2_unloaded :: "uuid list \<Rightarrow> unloaded" where
  "v2_unloaded tops \<equiv> user_unloaded (Some USER_LOAD_SPEC_V2) tops"

lemma v2_unloaded:
  "i \<in> set tops \<Longrightarrow> un_user (v2_unloaded tops) i = []"
  "un_school (v2_unloaded tops) i = []" "un_role (v2_unloaded tops) i = []"
  "k \<in> set [''name'', ''school'', ''roles''] \<Longrightarrow> k \<notin> set (un_group (v2_unloaded tops) i)"
  "''name'' \<notin> set (un_user (v2_unloaded tops) i)"
  by (auto simp: user_unloaded_def user_columns_loaded user_relations_loaded all_loaded_def load_only_def
      group_scalar_columns_def group_lazy_relations_def user_scalar_columns_def user_lazy_relations_def)

lemma v2_school: "loaded_school (to_school (v2_unloaded tops) row)"
  by (simp add: loaded_school_def to_school_def v2_unloaded)

lemma v2_roles: "list_all loaded_role (roles_set d (v2_unloaded tops) ids)"
  using dedup_by_subset [of r_public_id "map (to_role (v2_unloaded tops)) (related (role_of d) ids)"]
  by (auto simp: list_all_iff loaded_role_def roles_set_def to_role_def v2_unloaded)

lemma v2_named_users: "list_all named_user (related_users_set d (v2_unloaded tops) ids)"
  using dedup_by_subset [of u_public_id "map (to_related_user (v2_unloaded tops)) (related (user_of d) ids)"]
  by (auto simp: list_all_iff named_user_def related_users_set_def to_related_user_def Let_def v2_unloaded)

lemma v2_group:
  assumes "to_group depth d (v2_unloaded tops) row = Inr g"
  shows "loaded_group g"
proof (cases depth)
  case (Suc n)
  let ?un = "v2_unloaded tops" and ?i = "gr_public_id row"
  from assms [unfolded Suc to_group.simps Let_def] show ?thesis
  proof (elim res_bindE)
    fix school groups
    assume school: "(if ''school'' \<in> set (un_group ?un ?i) then Inr UNLOADED
        else res_bind (of_opt (AttributeError ''school'') (school_of d (gr_school row))) (\<lambda>s. Inr (Loaded (to_school ?un s)))) =
      Inr school"
      and g: "Inr (Group (Present ?i) (convert_unloadable (un_group ?un ?i) ''record_uid'' (gr_record_uid row))
           (convert_unloadable (un_group ?un ?i) ''source_uid'' (gr_source_uid row))
           (convert_unloadable (un_group ?un ?i) ''name'' (gr_name row))
           (convert_unloadable (un_group ?un ?i) ''display_name'' (gr_display_name row))
           (convert_unloadable (un_group ?un ?i) ''has_share'' (gr_has_share row))
           (if ''roles'' \<in> set (un_group ?un ?i) then UNLOADED else Loaded (roles_set d ?un (gr_roles row)))
           (if ''allowed_email_senders_users'' \<in> set (un_group ?un ?i) then UNLOADED
            else Loaded (related_users_set d ?un (gr_senders_users row))) groups
           (if ''members'' \<in> set (un_group ?un ?i) then UNLOADED
            else Loaded (related_users_set d ?un (group_member_ids d ?i)))
           (if ''member_roles'' \<in> set (un_group ?un ?i) then UNLOADED else Loaded (roles_set d ?un (gr_member_roles row)))
           school
           (convert_unloadable (un_group ?un ?i) ''email'' (gr_email row))
           (convert_unloadable (un_group ?un ?i) ''description'' (gr_description row))
           (convert_unloadable (un_group ?un ?i) ''udm_properties'' (gr_udm_properties row))) = Inr g"
    from school obtain s where "school = Loaded (to_school ?un s)"
      using v2_unloaded(4) [of "''school''" tops ?i] by (auto simp: res_bind_eq_Inr)
    moreover have "g_school g = school" "g_name g = convert_unloadable (un_group ?un ?i) ''name'' (gr_name row)"
      "g_roles g = (if ''roles'' \<in> set (un_group ?un ?i) then UNLOADED else Loaded (roles_set d ?un (gr_roles row)))"
      using g by (auto simp del: convert_unloadable_simps)
    ultimately show ?thesis
      using v2_school v2_roles v2_unloaded(4) [of "''name''" tops ?i] v2_unloaded(4) [of "''roles''" tops ?i]
      by (auto simp: loaded_group_def)
  qed
qed (use assms in simp)

lemma v2_membership:
  assumes "to_school_membership depth d (v2_unloaded tops) row = Inr m"
  shows "loaded_membership m \<and> m_is_primary m = mr_is_primary row"
proof -
  from assms obtain s gs where gs: "res_map (to_group depth d (v2_unloaded tops)) (related (group_of d) (mr_groups row)) = Inr gs"
    and m: "m = SchoolMembership (to_school (v2_unloaded tops) s) (mr_is_primary row)
        (roles_set d (v2_unloaded tops) (mr_roles row)) (dedup_by g_public_id gs)"
    unfolding to_school_membership_def by (auto simp: res_bind_eq_Inr)
  have "\<forall>g\<in>set gs. loaded_group g"
    using gs v2_group unfolding res_map_Inr_iff list_all2_conv_all_nth by (metis in_set_conv_nth)
  then have "list_all loaded_group (dedup_by g_public_id gs)"
    using dedup_by_subset [of g_public_id gs] by (auto simp: list_all_iff)
  with m show ?thesis using v2_school v2_roles by (simp add: loaded_membership_def)
qed

text \<open>The dict of the memberships: every membership is in it, with schools that differ.\<close>

lemma memberships_dict_range:
  assumes "memberships_dict ms = Inr d" "distinct (map (\<lambda>m. s_public_id (m_school m)) ms)"
  shows "snd ` set d = set ms"
proof -
  have step: "res_fold (\<lambda>m acc. case s_public_id (m_school m) of
         Present i \<Rightarrow> Inr (AList.update i m acc)
       | UNSET \<Rightarrow> Inl (ValueError ''Mapped school membership has no UUID school public_id.'')) ms acc = Inr d \<Longrightarrow>
     distinct (map (\<lambda>m. s_public_id (m_school m)) ms) \<Longrightarrow>
     (\<forall>m\<in>set ms. \<forall>i. s_public_id (m_school m) = Present i \<longrightarrow> i \<notin> fst ` set acc) \<Longrightarrow>
     snd ` set d = snd ` set acc \<union> set ms" for acc
  proof (induction ms arbitrary: acc)
    case (Cons m ms)
    then obtain i where i: "s_public_id (m_school m) = Present i"
      by (cases "s_public_id (m_school m)") auto
    with Cons.prems(3) have "map_of acc i = None" by (auto simp: map_of_eq_None_iff)
    then have upd: "AList.update i m acc = acc @ [(i, m)]" by (induction acc) (auto split: if_splits)
    have "snd ` set d = snd ` set (acc @ [(i, m)]) \<union> set ms"
      by (rule Cons.IH) (use Cons.prems i upd in \<open>auto simp: image_iff\<close>)
    then show ?case by auto
  qed simp
  show ?thesis using step [of "[]"] assms by (simp add: memberships_dict_def)
qed

lemma loaded_names: "list_all loaded_role rs \<Longrightarrow> \<exists>ns. res_map Role_name rs = Inr ns"
  unfolding res_map_ok_iff by (auto simp: list_all_iff loaded_role_def Role_name_def)

lemma class_or_workgroup_total: "loaded_group g \<Longrightarrow> \<exists>r. class_or_workgroup g acc = Inr r"
proof -
  assume "loaded_group g"
  then obtain n rs s sn where g: "g_name g = Loaded n" "g_roles g = Loaded rs" "list_all loaded_role rs"
    "g_school g = Loaded s" "s_name s = Loaded sn" by (auto simp: loaded_group_def loaded_school_def)
  from loaded_names [OF g(3)] obtain ns where "res_map Role_name rs = Inr ns" ..
  with g show ?thesis by (cases acc) (simp add: class_or_workgroup_def accessors Let_def)
qed

lemma classes_and_workgroups_total:
  assumes "u_school_memberships u = Loaded ms" "\<forall>m\<in>snd ` set ms. loaded_membership m"
  shows "\<exists>r. school_classes_and_workgroups u = Inr r"
proof -
  let ?gs = "dedup_by g_public_id (concat (map (\<lambda>p. m_groups (snd p)) ms))"
  have "\<forall>g\<in>set ?gs. loaded_group g"
    using assms(2) dedup_by_subset [of g_public_id "concat (map (\<lambda>p. m_groups (snd p)) ms)"]
    by (fastforce simp: loaded_membership_def list_all_iff)
  then have "\<exists>r. res_fold class_or_workgroup gs acc = Inr r" if "set gs \<subseteq> set ?gs" for gs acc
    using that
  proof (induction gs arbitrary: acc)
    case (Cons g gs)
    then obtain r where "class_or_workgroup g acc = Inr r" using class_or_workgroup_total [of g acc] by auto
    with Cons show ?case by simp
  qed simp
  then obtain cs ws where "res_fold class_or_workgroup ?gs ([], []) = Inr (cs, ws)" by fastforce
  with assms(1) show ?thesis
    by (simp add: school_classes_and_workgroups_def user_groups_def User_school_memberships_def)
qed

lemma first_primary_total: "\<exists>m\<in>set ms. m_is_primary m \<Longrightarrow> \<exists>m\<in>set ms. first_primary ms = Inr (m_school m)"
  by (induction ms) auto

text \<open>The parts of a response that may fail, one by one.\<close>

lemma user_model_total:
  assumes u: "u = User (Present i) (Loaded ru) (Loaded su) (Loaded n) (Loaded f) (Loaded l) (Loaded a) (Loaded ms)
      (Loaded ws) (Loaded gs) (Loaded e) (Loaded b) (Loaded x) (Loaded udm)"
    and ms: "\<forall>m\<in>snd ` set ms. loaded_membership m" "\<exists>m\<in>snd ` set ms. m_is_primary m"
    and related: "list_all named_user ws" "list_all named_user gs"
    and dn: "map_of dn_map i = Some dn" and url: "\<forall>r ps. \<exists>t. ae_url env r ps = Inr t"
  shows "\<exists>m. user_to_model env (Some dn_map) u st = Inr m \<and> um_name m = n"
proof -
  have school_url: "\<exists>t. school_url env s = Inr t" if "loaded_school s" for s
    using that url by (auto simp: loaded_school_def school_url_def School_name_def)
  have user_url: "\<exists>t. user_url env v = Inr t" if "named_user v" for v
    using that url by (auto simp: named_user_def user_url_def User_name_def)
  obtain schools where 1: "res_map (\<lambda>(_, m). school_url env (m_school m)) ms = Inr schools"
    using res_map_ok_iff [of "\<lambda>(_, m). school_url env (m_school m)" ms] ms(1) school_url
    by (force simp: loaded_membership_def)
  have "\<exists>t. membership_role_strings m = Inr t" if "loaded_membership m" for m
    using that unfolding membership_role_strings_def res_map_ok_iff
    by (auto simp: loaded_membership_def loaded_school_def loaded_role_def list_all_iff School_name_def Role_name_def)
  then obtain strings where 2: "res_map (\<lambda>(_, m). membership_role_strings m) ms = Inr strings"
    using res_map_ok_iff [of "\<lambda>(_, m). membership_role_strings m" ms] ms(1) by force
  have "list_all loaded_role (dedup_by r_public_id (concat (map (\<lambda>p. m_roles (snd p)) ms)))"
    using ms(1) dedup_by_subset [of r_public_id "concat (map (\<lambda>p. m_roles (snd p)) ms)"]
    by (fastforce simp: loaded_membership_def list_all_iff)
  from loaded_names [OF this] obtain names where
    3: "res_map Role_name (dedup_by r_public_id (concat (map (\<lambda>p. m_roles (snd p)) ms))) = Inr names" ..
  obtain classes workgroups where 4: "school_classes_and_workgroups u = Inr (classes, workgroups)"
    using classes_and_workgroups_total [of u ms] ms(1) by (auto simp: u)
  have "\<exists>ts. res_map (\<lambda>role. ae_url env ''get'' [(''role_name'', role_value role)]) rs = Inr ts" for rs
    unfolding res_map_ok_iff using url by simp
  then obtain role_urls where 5: "res_map (\<lambda>role. ae_url env ''get'' [(''role_name'', role_value role)])
      (sort_key role_value (remdups (given (map to_school_user_role names)))) = Inr role_urls" by blast
  obtain guardians where 6: "res_map (user_url env) gs = Inr guardians"
    using res_map_ok_iff [of "user_url env" gs] related(2) user_url by (auto simp: list_all_iff)
  obtain wards where 7: "res_map (user_url env) ws = Inr wards"
    using res_map_ok_iff [of "user_url env" ws] related(1) user_url by (auto simp: list_all_iff)
  obtain s where s: "first_primary (map snd ms) = Inr s" "loaded_school s"
    using first_primary_total [of "map snd ms"] ms by (auto simp: loaded_membership_def)
  obtain school where 8: "school_url env s = Inr school" using school_url [OF s(2)] ..
  obtain own where 9: "user_url env u = Inr own" using user_url [of u] by (auto simp: named_user_def u)
  have fields: "User_school_memberships u = Inr ms" "User_legal_guardians u = Inr gs" "User_legal_wards u = Inr ws"
    "User_name u = Inr n" "User_firstname u = Inr f" "User_lastname u = Inr l" "User_birthday u = Inr b"
    "User_active u = Inr a" "User_email u = Inr e" "User_expiration_date u = Inr x" "User_record_uid u = Inr ru"
    "User_source_uid u = Inr su" "User_udm_properties u = Inr udm" "dn_of_user dn_map u = Inr dn"
    "primary_school u = Inr s"
    by (simp_all add: u accessors dn_of_user_def dn primary_school_def s(1))
  have "user_roles u = Inr (dedup_by r_public_id (concat (map (\<lambda>p. m_roles (snd p)) ms)))"
    by (simp add: user_roles_def fields)
  then show ?thesis
    unfolding user_to_model_def Let_def option.case
    by (simp add: fields 1 2 3 4 5 6 7 8 9)
qed

lemma v2_memberships:
  assumes "res_map (to_school_membership depth d (v2_unloaded tops)) rows = Inr ms" "distinct (map mr_school rows)"
    "memberships_dict ms = Inr dict" "\<exists>row\<in>set rows. mr_is_primary row"
  shows "(\<forall>m\<in>snd ` set dict. loaded_membership m) \<and> (\<exists>m\<in>snd ` set dict. m_is_primary m)"
proof -
  have conv: "list_all2 (\<lambda>row m. to_school_membership depth d (v2_unloaded tops) row = Inr m) rows ms"
    using assms(1) by (simp add: res_map_Inr_iff)
  have id: "s_public_id (m_school m) = Present (mr_school row)"
    if "to_school_membership depth d (v2_unloaded tops) row = Inr m" for row m
    using that school_of_id unfolding to_school_membership_def
    by (auto simp: res_bind_eq_Inr to_school_def Let_def)
  from conv have "map (\<lambda>m. s_public_id (m_school m)) ms = map (\<lambda>row. Present (mr_school row)) rows"
    by (induction rule: list_all2_induct) (simp_all add: id)
  moreover have "distinct (map (\<lambda>row. Present (mr_school row)) rows)"
    using assms(2) by (simp add: distinct_map inj_on_def)
  ultimately have range: "snd ` set dict = set ms" using memberships_dict_range [OF assms(3)] by simp
  from conv have "list_all loaded_membership ms"
    by (induction rule: list_all2_induct) (simp_all add: v2_membership)
  moreover from conv assms(4) have "\<exists>m\<in>set ms. m_is_primary m"
    by (induction rule: list_all2_induct) (auto simp: v2_membership)
  ultimately show ?thesis by (simp add: range list_all_iff)
qed

lemma v2_user:
  assumes "to_user depth d (v2_unloaded tops) row = Inr u" "ur_public_id row \<in> set tops" "memberships_ok d"
    and "\<exists>m\<in>set (user_memberships d (ur_public_id row)). mr_is_primary m"
  obtains ru su n f l a ms ws gs e b x udm where
    "u = User (Present (ur_public_id row)) (Loaded ru) (Loaded su) (Loaded n) (Loaded f) (Loaded l) (Loaded a) (Loaded ms)
      (Loaded ws) (Loaded gs) (Loaded e) (Loaded b) (Loaded x) (Loaded udm)"
    "\<forall>m\<in>snd ` set ms. loaded_membership m" "\<exists>m\<in>snd ` set ms. m_is_primary m"
    "list_all named_user ws" "list_all named_user gs"
proof -
  from assms(1) obtain ms dict where
    ms: "res_map (to_school_membership depth d (v2_unloaded tops)) (user_memberships d (ur_public_id row)) = Inr ms"
      "memberships_dict ms = Inr dict"
    and u: "u = User (Present (ur_public_id row)) (Loaded (ur_record_uid row)) (Loaded (ur_source_uid row))
      (Loaded (ur_name row)) (Loaded (ur_firstname row)) (Loaded (ur_lastname row)) (Loaded (ur_active row)) (Loaded dict)
      (Loaded (related_users_set d (v2_unloaded tops) (wards_of d (ur_public_id row))))
      (Loaded (related_users_set d (v2_unloaded tops) (guardians_of d (ur_public_id row))))
      (Loaded (ur_email row)) (Loaded (ur_birthday row)) (Loaded (ur_expiration_date row)) (Loaded (ur_udm_properties row))"
    unfolding to_user_def Let_def v2_unloaded(1) [OF assms(2)] by (auto simp: res_bind_eq_Inr)
  have "distinct (map mr_school (filter (\<lambda>m. mr_user m = i) rows))" if "distinct (map mr_key rows)" for i rows
    using that by (induction rows) (auto simp: image_iff)
  then have "distinct (map mr_school (user_memberships d i))" for i
    using assms(3) by (simp add: memberships_ok_def user_memberships_def)
  then have "(\<forall>m\<in>snd ` set dict. loaded_membership m) \<and> (\<exists>m\<in>snd ` set dict. m_is_primary m)"
    using v2_memberships [OF ms(1) _ ms(2) assms(4)] by simp
  then show thesis using that [OF u _ _ v2_named_users v2_named_users] by blast
qed

section \<open>Sorting\<close>

lemma map_sort_key: "map f (sort_key f xs) = sort (map f xs)"
proof -
  have "map f (insort_key f x xs) = insort (f x) (map f xs)" for x xs by (induction xs) auto
  then show ?thesis by (induction xs) (simp_all add: sort_key_def)
qed

lemma sort_by_name_total:
  assumes "\<And>x. x \<in> set xs \<Longrightarrow> f x = Inr (g x)"
  obtains ys where "sort_by_name f xs = Inr ys" "set ys = set xs" "map g ys = sort (map g xs)"
proof -
  let ?ps = "map (\<lambda>x. (g x, x)) xs"
  have "res_map (\<lambda>x. res_bind (f x) (\<lambda>n. Inr (n, x))) xs = Inr ?ps"
    by (rule res_map_total) (simp add: assms)
  then have *: "sort_by_name f xs = Inr (map snd (sort_key fst ?ps))" by (simp add: sort_by_name_def)
  have "map g (map snd (sort_key fst ?ps)) = map fst (sort_key fst ?ps)" by auto
  also have "\<dots> = sort (map g xs)" by (simp add: map_sort_key comp_def)
  finally show thesis by (rule that [OF *, rotated]) (force simp: image_iff)
qed

lemma res_map_images:
  "(\<And>x. x \<in> set xs \<Longrightarrow> \<exists>y. f x = Inr y \<and> g y = h x) \<Longrightarrow> \<exists>ys. res_map f xs = Inr ys \<and> map g ys = map h xs"
proof (induction xs)
  case (Cons x xs)
  have "\<exists>y. f x = Inr y \<and> g y = h x" by (rule Cons.prems) simp
  moreover have "\<exists>ys. res_map f xs = Inr ys \<and> map g ys = map h xs" by (rule Cons.IH) (rule Cons.prems, simp)
  ultimately obtain y ys where "f x = Inr y" "g y = h x" "res_map f xs = Inr ys" "map g ys = map h xs" by blast
  then show ?case by (intro exI [of _ "y # ys"]) simp
qed simp

section \<open>A search answers with every user found\<close>

definition user_label :: "user \<Rightarrow> string" where
  "user_label u = (case u_name u of Loaded n \<Rightarrow> n | UNLOADED \<Rightarrow> [])"

definition mapped_and_primary :: "db \<Rightarrow> bool" where
  "mapped_and_primary d \<longleftrightarrow>
     (\<forall>row\<in>set (db_users d). ur_public_id row \<in> fst ` set (dn_rows USER d) \<and>
        (\<exists>m\<in>set (user_memberships d (ur_public_id row)). mr_is_primary m))"

lemma found_user_answered:
  assumes "settled st" "\<forall>route ps. \<exists>t. ae_url env route ps = Inr t" "mapped_and_primary (st_db st)"
    and users: "res_map (to_user depth (st_db st) (v2_unloaded ids)) (related (user_of (st_db st)) ids) = Inr users"
    and u: "u \<in> set users"
  obtains i where "u_public_id u = Present i" "u_name u = Loaded (user_label u)" "i \<in> fst ` set (dn_rows USER (st_db st))"
    "\<And>dn_map dn. map_of dn_map i = Some dn \<Longrightarrow>
       \<exists>m. user_to_model env (Some dn_map) u st = Inr m \<and> um_name m = user_label u"
proof -
  have "memberships_ok (st_db st)" using assms(1) by (simp add: settled_def db_ok_def)
  from users u obtain row where row: "row \<in> set (related (user_of (st_db st)) ids)"
    "to_user depth (st_db st) (v2_unloaded ids) row = Inr u"
    unfolding res_map_Inr_iff list_all2_conv_all_nth by (metis in_set_conv_nth)
  then obtain i where "user_of (st_db st) i = Some row" "i \<in> set ids" by (force simp: related_def)
  then have top: "ur_public_id row \<in> set ids" and known: "row \<in> set (db_users (st_db st))"
    by (auto simp: user_of_def dest: find_by_SomeD)
  with assms(3) have mapped: "ur_public_id row \<in> fst ` set (dn_rows USER (st_db st))"
    and primary: "\<exists>m\<in>set (user_memberships (st_db st) (ur_public_id row)). mr_is_primary m"
    by (auto simp: mapped_and_primary_def)
  from v2_user [OF row(2) top \<open>memberships_ok (st_db st)\<close> primary]
  obtain ru su n f l a ms ws gs e b x udm where
    u': "u = User (Present (ur_public_id row)) (Loaded ru) (Loaded su) (Loaded n) (Loaded f) (Loaded l) (Loaded a) (Loaded ms)
      (Loaded ws) (Loaded gs) (Loaded e) (Loaded b) (Loaded x) (Loaded udm)"
    and parts: "\<forall>m\<in>snd ` set ms. loaded_membership m" "\<exists>m\<in>snd ` set ms. m_is_primary m"
      "list_all named_user ws" "list_all named_user gs" .
  have "\<exists>m. user_to_model env (Some dn_map) u st = Inr m \<and> um_name m = n"
    if "map_of dn_map (ur_public_id row) = Some dn" for dn_map dn
    by (rule user_model_total [OF u' parts that assms(2)])
  with that [of "ur_public_id row"] mapped show thesis by (simp add: u' user_label_def)
qed

text \<open>C8: the response to a user search that the storage answers is complete: every attribute a response needs
  is loaded by the load specification of the router, so with every user in the directory mapping and in a
  primary school each user found is in the response, which is sorted by name.\<close>

theorem user_search_complete:
  assumes "settled st" and "\<forall>route ps. \<exists>t. ae_url env route ps = Inr t" and "mapped_and_primary (st_db st)"
    and query: "user_query (ae_udm_user env) params q = Inr query"
    and found: "user_search (ae_depth env) (ae_exec env) query [] None 0 (Some USER_LOAD_SPEC_V2) st = Inr users"
  shows "\<exists>ms names. api_user_search env params q st = Inr ms \<and> map u_name users = map Loaded names \<and>
     map um_name ms = sort names"
proof -
  obtain ids where users: "res_map (to_user (ae_depth env) (st_db st) (v2_unloaded ids)) (related (user_of (st_db st)) ids) = Inr users"
    using found unfolding user_search_def Let_def by (auto simp: res_bind_eq_Inr)
  note answered = found_user_answered [OF assms(1-3) users]
  have name: "u_name u = Loaded (user_label u)" if "u \<in> set users" for u by (rule answered [OF that])
  then have "User_name u = Inr (user_label u)" if "u \<in> set users" for u using that by (simp add: User_name_def)
  from sort_by_name_total [OF this] obtain sorted where
    sorted: "sort_by_name User_name users = Inr sorted" "set sorted = set users"
      "map user_label sorted = sort (map user_label users)" .
  define dn_map where "dn_map = public_ids_to_dns USER (present_ids (map u_public_id sorted)) st"
  have "\<exists>m. user_to_model env (Some dn_map) u st = Inr m \<and> um_name m = user_label u" if u: "u \<in> set sorted" for u
  proof -
    from u sorted(2) have "u \<in> set users" by simp
    then obtain i where i: "u_public_id u = Present i" "i \<in> fst ` set (dn_rows USER (st_db st))"
      and model: "\<And>dn_map dn. map_of dn_map i = Some dn \<Longrightarrow>
        \<exists>m. user_to_model env (Some dn_map) u st = Inr m \<and> um_name m = user_label u"
      by (rule answered) blast
    have "i \<in> set (present_ids (map u_public_id sorted))" using u i(1) by (force simp: present_ids_def given_def)
    then have "i \<in> fst ` set dn_map" using i(2) by (auto simp: dn_map_def public_ids_to_dns_def)
    then obtain dn where "map_of dn_map i = Some dn" by (metis domD dom_map_of_conv_image_fst)
    then show ?thesis by (rule model)
  qed
  from res_map_images [where g = um_name and h = user_label, OF this] obtain ms where
    ms: "res_map (\<lambda>u. user_to_model env (Some dn_map) u st) sorted = Inr ms" "map um_name ms = map user_label sorted" by blast
  then have "api_user_search env params q st = Inr ms"
    by (simp add: api_user_search_def query found sorted(1) Let_def dn_map_def [symmetric] raised_def)
  moreover have "map u_name users = map Loaded (map user_label users)" using name by simp
  ultimately show ?thesis using ms(2) sorted(3) by metis
qed

section \<open>Witnesses\<close>

definition demo_class :: "uuid \<Rightarrow> string \<Rightarrow> group" where
  "demo_class i name = Group (Present i) UNLOADED UNLOADED (Loaded name) UNLOADED UNLOADED
     (Loaded [\<lparr>r_public_id = Present 90, r_name = Loaded ''school_class'', r_display_name = UNLOADED\<rparr>])
     UNLOADED UNLOADED UNLOADED UNLOADED (Loaded (School_minimal 1\<lparr>s_name := Loaded ''Demo''\<rparr>)) UNLOADED UNLOADED UNLOADED"

definition demo_pupil :: user where
  "demo_pupil = set_User_school_memberships
     [(1, SchoolMembership (School_minimal 1) True [] [demo_class 10 ''Demo-2b'', demo_class 11 ''Demo-1a''])] (User_minimal 20)"

lemma classes_and_workgroups_of_user_witness:
  "\<exists>classes. school_classes_and_workgroups demo_pupil = Inr (classes, []) \<and> map_of classes ''Demo'' = Some [''1a'', ''2b'']"
proof -
  let ?gs = "[demo_class 10 ''Demo-2b'', demo_class 11 ''Demo-1a'']"
  have gs: "user_groups demo_pupil = Inr ?gs"
    by (simp add: user_groups_def demo_pupil_def User_minimal_def User_school_memberships_def demo_class_def)
  have "school_classes_and_workgroups demo_pupil = Inr ([(''Demo'', [''1a'', ''2b''])], [])"
    unfolding school_classes_and_workgroups_def gs res_bind_Inr by code_simp
  moreover from classes_and_workgroups_of_user [OF this gs, of "''Demo''"]
  have "map_of [(''Demo'', [''1a'', ''2b''])] ''Demo'' = Some [''1a'', ''2b'']" by simp
  ultimately show ?thesis by blast
qed


definition demo_api :: api_env where
  "demo_api = \<lparr>ae_depth = 10, ae_exec = (\<lambda>s d. map ur_public_id (db_users d)), ae_url = (\<lambda>route ps. Inr route),
     ae_udm_school = [], ae_udm_user = [''phone''], ae_udm_school_class = [], ae_udm_workgroup = []\<rparr>"

definition demo_directory :: storage where
  "demo_directory = \<lparr>st_db = (demo_db [])\<lparr>db_user_dns := [(20, ''uid=anna'')]\<rparr>, st_pending = []\<rparr>"

definition all_users :: user_params where
  "all_users = \<lparr>us_school = None, us_name = None, us_firstname = None, us_lastname = None, us_email = None,
     us_record_uid = None, us_source_uid = None, us_birthday = None, us_expiration_date = None, us_disabled = None\<rparr>"

lemma user_search_complete_witness:
  "\<exists>m. api_user_search demo_api [] all_users demo_directory = Inr [m] \<and> um_name m = ''anna''"
proof -
  let ?found = "user_search (ae_depth demo_api) (ae_exec demo_api) None [] None 0 (Some USER_LOAD_SPEC_V2) demo_directory"
  have settled: "settled demo_directory"
    by (simp add: settled_def demo_directory_def demo_defs db_ok_def table_oks given_def mapping_ok_def primary_user_constraint_def)
  have urls: "\<forall>route ps. \<exists>t. ae_url demo_api route ps = Inr t" by (simp add: demo_api_def)
  have mapped: "mapped_and_primary (st_db demo_directory)"
    by (simp add: mapped_and_primary_def demo_directory_def demo_defs dn_rows_def user_memberships_def)
  have query: "user_query (ae_udm_user demo_api) [] all_users = Inr None"
    by (simp add: user_query_def udm_property_filters_def mapped_params_def build_query_def user_clauses_def
        str_clause_def eq_clause_def all_users_def)
  have "map_sum id (map u_name) ?found = Inr [Loaded ''anna'']" by code_simp
  then obtain u where u: "?found = Inr [u]" "u_name u = Loaded ''anna''" by (cases ?found) auto
  from user_search_complete [OF settled urls mapped query u(1)] u(2) show ?thesis by auto
qed

end
