(* ===== verification/Redoc_Js.thy ===== *)
theory Redoc_Js
  imports Prelude
begin

text \<open>
  JavaScript values and operators as the Redoc bundle
  (\<open>kelvin-api/static/redoc.standalone-2.0.0-rc.75.js\<close>) uses them: property access, truthiness,
  \<open>||\<close>, \<open>&&\<close>, conversion to strings.

  A string is a list of UTF-8 bytes. A number is an integer or, as \<open>Dec\<close>, a number that is not
  an integer, known by its decimal text. \<open>None\<close> is a thrown exception (\<open>TypeError\<close>), or arithmetic
  on values other than integers, which the model does not cover.
\<close>

datatype js = Undef | Null | Bool bool | Num int | Dec string | Str string | Arr "js list" | Obj "(string \<times> js) list"

section \<open>Properties\<close>

definition js_prop :: "string \<Rightarrow> js \<Rightarrow> js option" where
  "js_prop k v =
     (case v of
        Undef \<Rightarrow> None
      | Null \<Rightarrow> None
      | Obj ps \<Rightarrow> Some (case map_of ps k of None \<Rightarrow> Undef | Some x \<Rightarrow> x)
      | _ \<Rightarrow> Some Undef)"

text \<open>\<open>e.a.b.c\<close>: reading a property of \<open>undefined\<close> throws.\<close>

fun js_path :: "string list \<Rightarrow> js \<Rightarrow> js option" where
  "js_path [] v = Some v"
| "js_path (k # ks) v = Option.bind (js_prop k v) (js_path ks)"

section \<open>Operators\<close>

definition truthy :: "js \<Rightarrow> bool" where
  "truthy v \<longleftrightarrow> v \<notin> {Undef, Null, Bool False, Num 0, Str []}"

definition js_or :: "js \<Rightarrow> js \<Rightarrow> js" where
  "js_or a b = (if truthy a then a else b)"

definition js_and :: "js \<Rightarrow> js \<Rightarrow> js" where
  "js_and a b = (if truthy a then b else a)"

definition js_not :: "js \<Rightarrow> js" where
  "js_not a = Bool (\<not> truthy a)"

definition js_if :: "js \<Rightarrow> 'a \<Rightarrow> 'a \<Rightarrow> 'a" where
  "js_if c a b = (if truthy c then a else b)"

definition int_str :: "int \<Rightarrow> string" where
  "int_str n = (if n < 0 then CHR ''-'' # dec_str (nat (- n)) else dec_str (nat n))"

text \<open>\<open>String(v)\<close>; the text of an array joins its items with commas.\<close>

fun js_str :: "js \<Rightarrow> string" where
  "js_str Undef = ''undefined''"
| "js_str Null = ''null''"
| "js_str (Bool b) = (if b then ''true'' else ''false'')"
| "js_str (Num n) = int_str n"
| "js_str (Dec s) = s"
| "js_str (Str s) = s"
| "js_str (Arr vs) = py_join CHR '','' (map (\<lambda>v. if v = Undef \<or> v = Null then [] else js_str v) vs)"
| "js_str (Obj ps) = ''[object Object]''"

definition js_times :: "int \<Rightarrow> js \<Rightarrow> js option" where
  "js_times k v = (case v of Num n \<Rightarrow> Some (Num (k * n)) | _ \<Rightarrow> None)"

section \<open>Values without braces\<close>

text \<open>A text without \<open>{\<close> and \<open>}\<close>, and a value all of whose strings, property names included, are such.\<close>

definition plain_str :: "string \<Rightarrow> bool" where
  "plain_str s \<longleftrightarrow> CHR 0x7B \<notin> set s \<and> CHR 0x7D \<notin> set s"

fun plain :: "js \<Rightarrow> bool" where
  "plain (Dec s) = plain_str s"
| "plain (Str s) = plain_str s"
| "plain (Arr vs) = list_all plain vs"
| "plain (Obj ps) = list_all (\<lambda>p. plain_str (fst p) \<and> plain (snd p)) ps"
| "plain v = True"

named_theorems plain_intros \<open>values without braces\<close>

lemma plain_str_append [simp]: "plain_str (a @ b) \<longleftrightarrow> plain_str a \<and> plain_str b"
  by (auto simp: plain_str_def)

lemma plain_str_Nil [simp, plain_intros]: "plain_str []"
  by (simp add: plain_str_def)

lemma plain_str_Cons [simp]: "plain_str (c # s) \<longleftrightarrow> c \<noteq> CHR 0x7B \<and> c \<noteq> CHR 0x7D \<and> plain_str s"
  by (auto simp: plain_str_def)

lemma plain_dec_str: "plain_str (dec_str n)"
  using dec_str_digits [of _ n] by (force simp: plain_str_def is_ascii_digit_def)

lemma plain_int_str [simp]: "plain_str (int_str n)"
  by (simp add: int_str_def plain_dec_str)

lemma plain_join: "plain_str [c] \<Longrightarrow> list_all plain_str xs \<Longrightarrow> plain_str (py_join c xs)"
  by (induction c xs rule: py_join.induct) auto

lemma plain_js_str: "plain v \<Longrightarrow> plain_str (js_str v)"
proof (induction v)
  case (Arr vs)
  then have "list_all plain_str (map (\<lambda>v. if v = Undef \<or> v = Null then [] else js_str v) vs)"
    by (auto simp: list_all_iff)
  then show ?case by (simp add: plain_join)
qed auto

lemma plain_prop: "plain v \<Longrightarrow> js_prop k v = Some x \<Longrightarrow> plain x"
proof (cases v)
  case (Obj ps)
  assume v: "plain v" "js_prop k v = Some x"
  show ?thesis
  proof (cases "map_of ps k")
    case (Some y)
    with v Obj have "x = y" "(k, y) \<in> set ps" by (auto simp: js_prop_def dest: map_of_SomeD)
    with v Obj show ?thesis by (auto simp: list_all_iff)
  next
    case None
    with v Obj show ?thesis by (auto simp: js_prop_def)
  qed
qed (auto simp: js_prop_def)

lemma plain_path: "js_path ks v = Some x \<Longrightarrow> plain v \<Longrightarrow> plain x"
  by (induction ks arbitrary: v) (auto simp: Option.bind_eq_Some_conv intro: plain_prop)

lemma plain_times: "js_times k v = Some x \<Longrightarrow> plain x"
  by (auto simp: js_times_def split: js.splits)

lemma plain_operators [plain_intros]:
  "plain a \<Longrightarrow> plain b \<Longrightarrow> plain (js_or a b)"
  "plain a \<Longrightarrow> plain b \<Longrightarrow> plain (js_and a b)"
  "plain (js_not a)"
  "plain a \<Longrightarrow> plain b \<Longrightarrow> plain (js_if c a b)"
  by (simp_all add: js_or_def js_and_def js_not_def js_if_def)

end
