(* ===== verification/Redoc_Styled.thy ===== *)
theory Redoc_Styled
  imports Redoc_Js "HOL-Library.Monad_Syntax"
begin

text \<open>
  The part of styled-components the Redoc bundle contains: tagged templates, \<open>css\<close>, flattening of
  interpolations with and without an execution context, the CSS of a styled component, and the
  helpers \<open>media\<close> (\<open>ma\<close>) and \<open>extensionsHook\<close> (\<open>ya\<close>) of Redoc.

  A template is the list of its literal parts and interpolated values in order, as \<open>interleave\<close>
  (\<open>Io\<close>) makes it. Colour arithmetic of polished, the generated class and animation names and the
  user's \<open>extensionsHook\<close> are the fields of a \<open>runtime\<close>: binary floating point is not modelled, and the
  hook is code of the page that embeds Redoc.
\<close>

section \<open>Interpolated values\<close>

record runtime =
  rt_id :: "string \<Rightarrow> string"
  rt_frames :: "string \<Rightarrow> string"
  rt_darken :: "js \<Rightarrow> js \<Rightarrow> js option"
  rt_lighten :: "js \<Rightarrow> js \<Rightarrow> js option"
  rt_transparentize :: "js \<Rightarrow> js \<Rightarrow> js option"
  rt_is_light :: "js \<Rightarrow> bool option"
  rt_hook :: "(string \<Rightarrow> js \<Rightarrow> js option) option"

text \<open>\<open>Ref\<close>: a styled component, \<open>Frames\<close>: a keyframes animation; both by the name of their variable.\<close>

datatype chunk =
    Val js
  | Fn "runtime \<Rightarrow> js \<Rightarrow> chunk option"
  | Many "chunk list"
  | Ref string
  | Frames string

abbreviation Txt :: "string list \<Rightarrow> chunk" where
  "Txt ls \<equiv> Val (Str (py_join CHR 0x0A ls))"

text \<open>\<open>Li\<close>: falsish chunks leave no text; \<open>0\<close> is not among them.\<close>

definition falsish :: "js \<Rightarrow> bool" where
  "falsish v \<longleftrightarrow> v \<in> {Undef, Null, Bool False, Str []}"

definition val_text :: "js \<Rightarrow> string" where
  "val_text v = (if falsish v then [] else js_str v)"

text \<open>\<open>Mi\<close> with an execution context, the results joined.\<close>

definition concat_opt :: "string option list \<Rightarrow> string option" where
  "concat_opt xs = (if None \<in> set xs then None else Some (concat (map the xs)))"

primrec render :: "runtime \<Rightarrow> js \<Rightarrow> chunk \<Rightarrow> string option" where
  "render R e (Val v) = Some (val_text v)"
| "render R e (Fn f) = Option.bind (map_option (render R e) (f R e)) id"
| "render R e (Many cs) = concat_opt (map (render R e) cs)"
| "render R e (Ref c) = Some (CHR ''.'' # rt_id R c)"
| "render R e (Frames a) = Some (rt_frames R a)"

text \<open>\<open>Mi\<close> without one, as \<open>css\<close> (\<open>Fi\<close>) uses it: arrays are spliced, functions stay for later.\<close>

primrec flat :: "(string \<Rightarrow> string) \<Rightarrow> chunk \<Rightarrow> chunk list" where
  "flat ids (Val v) = (if val_text v = [] then [] else [Val (Str (val_text v))])"
| "flat ids (Fn f) = [Fn f]"
| "flat ids (Many cs) = concat (map (flat ids) cs)"
| "flat ids (Ref c) = [Val (Str (CHR ''.'' # ids c))]"
| "flat ids (Frames a) = [Frames a]"

definition css :: "(string \<Rightarrow> string) \<Rightarrow> chunk list \<Rightarrow> chunk list" where
  "css ids cs = concat (map (flat ids) cs)"

section \<open>Components\<close>

datatype component = Component (sc_name: string) (sc_base: "component option") (sc_rules: "chunk list")

text \<open>
  The texts \<open>generateAndInjectStyles\<close> hands to the style sheet, those of the extended component
  first; a component without text gets no class.
\<close>

fun component_css :: "runtime \<Rightarrow> js \<Rightarrow> component \<Rightarrow> string list option" where
  "component_css R e (Component n b cs) =
     (case (case b of None \<Rightarrow> Some [] | Some c \<Rightarrow> component_css R e c) of
        None \<Rightarrow> None
      | Some base \<Rightarrow>
          (case concat_opt (map (render R e) (css (rt_id R) cs)) of
             None \<Rightarrow> None
           | Some t \<Rightarrow> Some (if t = [] then base else base @ [t])))"

section \<open>Flattening early or late gives the same text\<close>

lemma concat_opt_simps [simp]:
  "concat_opt [] = Some []"
  "concat_opt (x # xs) = (case x of None \<Rightarrow> None | Some a \<Rightarrow> map_option ((@) a) (concat_opt xs))"
  by (auto simp: concat_opt_def split: option.splits)

lemma concat_opt_append:
  "concat_opt (xs @ ys) =
     (case concat_opt xs of None \<Rightarrow> None | Some a \<Rightarrow> map_option ((@) a) (concat_opt ys))"
proof (induction xs)
  case Nil
  show ?case by (cases "concat_opt ys") simp_all
next
  case (Cons x xs)
  then show ?case by (cases x; cases "concat_opt xs"; cases "concat_opt ys") simp_all
qed

lemma concat_opt_concat:
  "concat_opt (map f (concat xss)) = concat_opt (map (\<lambda>xs. concat_opt (map f xs)) xss)"
  by (induction xss) (auto simp: concat_opt_append split: option.splits)

lemma render_flat: "concat_opt (map (render R e) (flat (rt_id R) c)) = render R e c"
proof (induction c)
  case (Many cs)
  then have "map (\<lambda>c. concat_opt (map (render R e) (flat (rt_id R) c))) cs = map (render R e) cs"
    by simp
  then have "concat_opt (map (\<lambda>c. concat_opt (map (render R e) (flat (rt_id R) c))) cs) =
      concat_opt (map (render R e) cs)" by (simp only:)
  then show ?case by (simp add: concat_opt_concat comp_def)
qed (auto simp: val_text_def falsish_def split: option.splits)

lemma render_css: "concat_opt (map (render R e) (css (rt_id R) cs)) = render R e (Many cs)"
  using render_flat [of R e "Many cs"] by (simp add: css_def)

lemma component_css_own:
  "component_css R e (Component n None cs) = map_option (\<lambda>t. if t = [] then [] else [t]) (render R e (Many cs))"
  by (simp only: component_css.simps render_css) (simp split: option.splits)

section \<open>Helpers for the interpolations of the templates\<close>

text \<open>\<open>e => e.k\<close>, \<open>e => e.theme.a.b\<close>, \<open>e => k * e.theme.a.b\<close>.\<close>

definition prop_at :: "string \<Rightarrow> chunk" where
  "prop_at k = Fn (\<lambda>R e. map_option Val (js_prop k e))"

definition theme_at :: "string list \<Rightarrow> chunk" where
  "theme_at ks = Fn (\<lambda>R e. map_option Val (js_path (''theme'' # ks) e))"

definition theme_times :: "int \<Rightarrow> string list \<Rightarrow> chunk" where
  "theme_times k ks = Fn (\<lambda>R e. map_option Val (Option.bind (js_path (''theme'' # ks) e) (js_times k)))"

text \<open>\<open>e => e.theme.a[e.k].b\<close>.\<close>

definition theme_by :: "string list \<Rightarrow> string \<Rightarrow> string list \<Rightarrow> js \<Rightarrow> js option" where
  "theme_by ks k ks' e =
     Option.bind (js_prop k e) (\<lambda>x. js_path (''theme'' # ks @ [js_str x] @ ks') e)"

text \<open>\<open>e => e.k || s\<close>, \<open>e => e.k ? a : b\<close>, \<open>e => e.k && c\<close>, \<open>e => !e.k && c\<close>.\<close>

definition prop_or :: "string \<Rightarrow> string \<Rightarrow> chunk" where
  "prop_or k s = Fn (\<lambda>R e. map_option (\<lambda>v. Val (js_or v (Str s))) (js_prop k e))"

definition pick :: "string \<Rightarrow> chunk \<Rightarrow> chunk \<Rightarrow> chunk" where
  "pick k a b = Fn (\<lambda>R e. map_option (\<lambda>v. js_if v a b) (js_prop k e))"

definition when_prop :: "string \<Rightarrow> chunk \<Rightarrow> chunk" where
  "when_prop k c = Fn (\<lambda>R e. map_option (\<lambda>v. js_if v c (Val v)) (js_prop k e))"

definition unless_prop :: "string \<Rightarrow> chunk \<Rightarrow> chunk" where
  "unless_prop k c = Fn (\<lambda>R e. map_option (\<lambda>v. js_if v (Val (Bool False)) c) (js_prop k e))"

text \<open>\<open>e => e.k === s && c\<close>.\<close>

definition when_eq :: "string \<Rightarrow> js \<Rightarrow> chunk \<Rightarrow> chunk" where
  "when_eq k s c = Fn (\<lambda>R e. map_option (\<lambda>v. if v = s then c else Val (Bool False)) (js_prop k e))"

text \<open>\<open>({theme: e}) => Rr(x, e.a.b)\<close>: \<open>x\<close> is a number or a setting.\<close>

definition tinted ::
  "(runtime \<Rightarrow> js \<Rightarrow> js \<Rightarrow> js option) \<Rightarrow> (js \<Rightarrow> js option) \<Rightarrow> string list \<Rightarrow> runtime \<Rightarrow> js \<Rightarrow> js option" where
  "tinted f amount ks R e =
     Option.bind (js_prop ''theme'' e) (\<lambda>t.
     Option.bind (amount t) (\<lambda>x.
     Option.bind (js_path ks t) (f R x)))"

definition tinted_at :: "(runtime \<Rightarrow> js \<Rightarrow> js \<Rightarrow> js option) \<Rightarrow> (js \<Rightarrow> js option) \<Rightarrow> string list \<Rightarrow> chunk" where
  "tinted_at f amount ks = Fn (\<lambda>R e. map_option Val (tinted f amount ks R e))"

text \<open>\<open>({theme: e}) => e.a.b ? x : y\<close> and \<open>e => s === e.k ? x : y\<close>.\<close>

definition theme_pick :: "string list \<Rightarrow> chunk \<Rightarrow> chunk \<Rightarrow> chunk" where
  "theme_pick ks a b = Fn (\<lambda>R e. map_option (\<lambda>v. js_if v a b) (js_path (''theme'' # ks) e))"

definition pick_eq :: "string \<Rightarrow> js \<Rightarrow> chunk \<Rightarrow> chunk \<Rightarrow> chunk" where
  "pick_eq k s a b = Fn (\<lambda>R e. map_option (\<lambda>v. if v = s then a else b) (js_prop k e))"

text \<open>An untagged template: every value becomes its string.\<close>

definition js_template :: "js option list \<Rightarrow> js option" where
  "js_template vs = map_option Str (concat_opt (map (map_option js_str) vs))"

definition tpl_at :: "(runtime \<Rightarrow> js \<Rightarrow> js option list) \<Rightarrow> chunk" where
  "tpl_at vs = Fn (\<lambda>R e. map_option Val (js_template (vs R e)))"

abbreviation theme_path :: "string list \<Rightarrow> js \<Rightarrow> js option" where
  "theme_path ks e \<equiv> js_path (''theme'' # ks) e"

abbreviation Lit :: "string list \<Rightarrow> js option" where
  "Lit ls \<equiv> Some (Str (py_join CHR 0x0A ls))"

abbreviation quotes :: string where
  "quotes \<equiv> [CHR 0x27, CHR 0x27]"

section \<open>Helpers of Redoc\<close>

text \<open>\<open>media\<close>: the rules \<open>r\<close> for screens up to a breakpoint, and for print when asked.\<close>

definition ma :: "string \<Rightarrow> bool \<Rightarrow> string \<Rightarrow> chunk list \<Rightarrow> chunk" where
  "ma e t n r = Many
     [Txt [[], ''      @media ''], Val (Str (if t then ''print, '' else [])), Txt ['' screen and (max-width: ''],
      theme_at [''breakpoints'', e], Txt ['') ''], Val (Str n), Txt ['' {'', ''        ''], Many r,
      Txt ['';'', ''      }'', ''    '']]"

text \<open>\<open>extensionsHook\<close>: what the hook of the theme returns for this component.\<close>

definition ya :: "string \<Rightarrow> chunk" where
  "ya name = Fn (\<lambda>R t. Option.bind (js_path [''theme'', ''extensionsHook''] t) (\<lambda>_.
     (case rt_hook R of None \<Rightarrow> Some (Val Undef) | Some h \<Rightarrow> map_option Val (h name t))))"

section \<open>Properties of the runtime\<close>


text \<open>The text of a media rule: it throws exactly when the theme has no breakpoints or a rule throws, and
  otherwise holds for screens up to the breakpoint, and for print when asked.\<close>

theorem media_rule:
  "render R e (ma b t n r) =
     (case js_path [''theme'', ''breakpoints'', b] e of
        None \<Rightarrow> None
      | Some w \<Rightarrow> map_option (\<lambda>rules. py_join CHR 0x0A
          [[], ''      @media '' @ (if t then ''print, '' else []) @ '' screen and (max-width: '' @ val_text w @ '') '' @ n @ '' {'',
           ''        '' @ rules @ '';'', ''      }'', ''    '']) (render R e (Many r)))"
  by (simp add: ma_def theme_at_def val_text_def falsish_def option.map_comp comp_def
      del: js_path.simps split: option.split)

end
