(* ===== verification/Redoc_Braces.thy ===== *)
theory Redoc_Braces
  imports Redoc_Styled
begin

text \<open>
  Braces in generated CSS. The style sheet parser ends the block of a component at the first
  unmatched \<open>}\<close>; a text is well nested when no prefix closes more blocks than it opened and all are
  closed at the end. Facts about literal parts are computed, facts about interpolations follow from
  the collection \<open>quiet\<close>.
\<close>

section \<open>Nesting depth\<close>

fun nest :: "string \<Rightarrow> nat \<Rightarrow> nat option" where
  "nest [] d = Some d"
| "nest (c # s) d =
     (if c = CHR 0x7B then nest s (Suc d)
      else if c = CHR 0x7D then (case d of 0 \<Rightarrow> None | Suc k \<Rightarrow> nest s k)
      else nest s d)"

definition well_nested :: "string \<Rightarrow> bool" where
  "well_nested s \<longleftrightarrow> nest s 0 = Some 0"

lemma nest_append: "nest (a @ b) d = Option.bind (nest a d) (nest b)"
  by (induction a d rule: nest.induct) (auto split: nat.splits)

lemma nest_plain [simp]: "plain_str s \<Longrightarrow> nest s d = Some d"
  by (induction s) auto

lemma nest_deeper: "nest s d = Some d' \<Longrightarrow> nest s (d + k) = Some (d' + k)"
  by (induction s d rule: nest.induct) (auto split: if_splits nat.splits)

lemma well_nested_any: "well_nested s \<Longrightarrow> nest s d = Some d"
  using nest_deeper [of s 0 0 d] by (simp add: well_nested_def)

fun nest_lines :: "string list \<Rightarrow> nat \<Rightarrow> nat option" where
  "nest_lines [] d = Some d"
| "nest_lines (l # ls) d = (case nest l d of None \<Rightarrow> None | Some d \<Rightarrow> nest_lines ls d)"

lemma nest_join: "nest (py_join CHR 0x0A ls) d = nest_lines ls d"
  by (induction "CHR 0x0A" ls arbitrary: d rule: py_join.induct) (auto simp: nest_append split: option.splits)

section \<open>Interpolations that leave the depth alone\<close>

definition quiet :: "runtime \<Rightarrow> js \<Rightarrow> chunk \<Rightarrow> bool" where
  "quiet R e c \<longleftrightarrow> (\<forall>s. render R e c = Some s \<longrightarrow> well_nested s)"

text \<open>What a theme, the properties of an element and the runtime have to be.\<close>

definition plain_tint :: "(js \<Rightarrow> js \<Rightarrow> js option) \<Rightarrow> bool" where
  "plain_tint f \<longleftrightarrow> (\<forall>x c y. plain x \<longrightarrow> plain c \<longrightarrow> f x c = Some y \<longrightarrow> plain y)"

lemma plain_tintD: "plain_tint f \<Longrightarrow> plain x \<Longrightarrow> plain c \<Longrightarrow> f x c = Some y \<Longrightarrow> plain y"
  unfolding plain_tint_def by blast

definition sane :: "runtime \<Rightarrow> js \<Rightarrow> bool" where
  "sane R e \<longleftrightarrow> plain e \<and> plain_tint (rt_darken R) \<and> plain_tint (rt_lighten R) \<and>
     plain_tint (rt_transparentize R) \<and> (\<forall>c. plain_str (rt_id R c) \<and> plain_str (rt_frames R c)) \<and>
     (\<forall>h n t y. rt_hook R = Some h \<longrightarrow> plain t \<longrightarrow> h n t = Some y \<longrightarrow> well_nested (val_text y))"

fun literal :: "chunk \<Rightarrow> bool" where
  "literal (Val v) = True"
| "literal c = False"

definition rest_quiet :: "runtime \<Rightarrow> js \<Rightarrow> chunk list \<Rightarrow> bool" where
  "rest_quiet R e cs \<longleftrightarrow> list_all (\<lambda>c. literal c \<or> quiet R e c) cs"

fun block_depth :: "chunk list \<Rightarrow> nat \<Rightarrow> nat option" where
  "block_depth [] d = Some d"
| "block_depth (Val v # cs) d = (case nest (val_text v) d of None \<Rightarrow> None | Some d \<Rightarrow> block_depth cs d)"
| "block_depth (c # cs) d = block_depth cs d"

lemma rest_quiet_simps [simp]:
  "rest_quiet R e []"
  "rest_quiet R e (c # cs) \<longleftrightarrow> (literal c \<or> quiet R e c) \<and> rest_quiet R e cs"
  by (simp_all add: rest_quiet_def)

lemma block_depth_Cons:
  "block_depth (c # cs) d =
     (case (case c of Val v \<Rightarrow> nest (val_text v) d | _ \<Rightarrow> Some d) of None \<Rightarrow> None | Some d \<Rightarrow> block_depth cs d)"
  by (cases c) simp_all

lemma block_depth_skip [simp]: "\<not> literal c \<Longrightarrow> block_depth (c # cs) d = block_depth cs d"
  by (cases c) simp_all

lemma helpers_not_literal [simp]:
  "\<not> literal (prop_at k)" "\<not> literal (theme_at ks)" "\<not> literal (theme_times n ks)" "\<not> literal (prop_or k s)"
  "\<not> literal (pick k a b)" "\<not> literal (when_prop k a)" "\<not> literal (unless_prop k a)" "\<not> literal (when_eq k v a)"
  "\<not> literal (tinted_at f x ks)" "\<not> literal (theme_pick ks a b)" "\<not> literal (pick_eq k v a b)"
  "\<not> literal (tpl_at vs)" "\<not> literal (ma s t q r)" "\<not> literal (ya name)"
  by (simp_all add: prop_at_def theme_at_def theme_times_def prop_or_def pick_def when_prop_def unless_prop_def
      when_eq_def tinted_at_def theme_pick_def pick_eq_def tpl_at_def ma_def ya_def)

lemma nest_concat:
  "rest_quiet R e cs \<Longrightarrow> concat_opt (map (render R e) cs) = Some s \<Longrightarrow> nest s d = block_depth cs d"
proof (induction cs arbitrary: s d)
  case (Cons c cs)
  from Cons.prems(2) obtain a r where a: "render R e c = Some a" and r: "concat_opt (map (render R e) cs) = Some r"
    and s: "s = a @ r" by (auto split: option.splits)
  have step: "nest a d = (case c of Val v \<Rightarrow> nest (val_text v) d | _ \<Rightarrow> Some d)"
  proof (cases "literal c")
    case True
    with a show ?thesis by (cases c) auto
  next
    case False
    with Cons.prems(1) a have "well_nested a" by (auto simp: quiet_def)
    with False show ?thesis by (cases c) (auto simp: well_nested_any)
  qed
  have "rest_quiet R e cs" using Cons.prems(1) by simp
  from Cons.IH [OF this r] show ?case
    by (simp only: s nest_append block_depth_Cons step) (simp split: option.splits)
qed simp

lemma quiet_Many: "rest_quiet R e cs \<Longrightarrow> block_depth cs 0 = Some 0 \<Longrightarrow> quiet R e (Many cs)"
  by (simp add: quiet_def well_nested_def nest_concat)

lemma quiet_Fn: "(\<And>c. f R e = Some c \<Longrightarrow> quiet R e c) \<Longrightarrow> quiet R e (Fn f)"
  by (auto simp: quiet_def Option.bind_eq_Some_conv)

lemma quiet_Val: "nest (val_text v) 0 = Some 0 \<Longrightarrow> quiet R e (Val v)"
  by (simp add: quiet_def well_nested_def)

lemma plain_val_text: "plain v \<Longrightarrow> plain_str (val_text v)"
  by (simp add: val_text_def plain_js_str)

lemma quiet_plain: "plain v \<Longrightarrow> quiet R e (Val v)"
  by (intro quiet_Val nest_plain plain_val_text)

lemma sane_plain: "sane R e \<Longrightarrow> plain e"
  by (simp add: sane_def)

lemma sane_prop: "sane R e \<Longrightarrow> js_prop k e = Some v \<Longrightarrow> plain v"
  using plain_prop sane_plain by blast

lemma sane_path: "sane R e \<Longrightarrow> js_path ks e = Some v \<Longrightarrow> plain v"
  using plain_path sane_plain by blast

named_theorems quiet_intros \<open>interpolations that leave the depth alone\<close>

lemma quiet_theme_at [quiet_intros]: "sane R e \<Longrightarrow> quiet R e (theme_at ks)"
  unfolding theme_at_def by (rule quiet_Fn) (auto intro!: quiet_plain dest: sane_path simp del: js_path.simps)

lemma quiet_prop_at [quiet_intros]: "sane R e \<Longrightarrow> quiet R e (prop_at k)"
  unfolding prop_at_def by (rule quiet_Fn) (auto intro!: quiet_plain dest: sane_prop)

lemma quiet_theme_times [quiet_intros]: "quiet R e (theme_times k ks)"
  unfolding theme_times_def
  by (rule quiet_Fn) (auto intro!: quiet_plain dest: plain_times simp: Option.bind_eq_Some_conv)

lemma quiet_prop_or [quiet_intros]: "sane R e \<Longrightarrow> plain_str s \<Longrightarrow> quiet R e (prop_or k s)"
  unfolding prop_or_def
  by (rule quiet_Fn) (auto intro!: quiet_plain plain_operators dest: sane_prop)

lemma quiet_pick [quiet_intros]: "quiet R e a \<Longrightarrow> quiet R e b \<Longrightarrow> quiet R e (pick k a b)"
  unfolding pick_def by (rule quiet_Fn) (auto simp: js_if_def)

lemma quiet_when_prop [quiet_intros]: "sane R e \<Longrightarrow> quiet R e c \<Longrightarrow> quiet R e (when_prop k c)"
  unfolding when_prop_def
  by (rule quiet_Fn) (auto simp: js_if_def intro!: quiet_plain dest: sane_prop)

lemma quiet_unless_prop [quiet_intros]: "quiet R e c \<Longrightarrow> quiet R e (unless_prop k c)"
  unfolding unless_prop_def by (rule quiet_Fn) (auto simp: js_if_def intro!: quiet_plain)

lemma quiet_when_eq [quiet_intros]: "quiet R e c \<Longrightarrow> quiet R e (when_eq k s c)"
  unfolding when_eq_def by (rule quiet_Fn) (auto intro!: quiet_plain split: if_splits)

lemma plain_tinted:
  assumes "sane R e" "plain_tint (f R)" "\<And>t x. plain t \<Longrightarrow> amount t = Some x \<Longrightarrow> plain x"
    and "tinted f amount ks R e = Some y"
  shows "plain y"
proof -
  from assms(4) obtain t x c where tc: "js_prop ''theme'' e = Some t" "amount t = Some x" "js_path ks t = Some c"
    "f R x c = Some y" by (auto simp: tinted_def Option.bind_eq_Some_conv)
  have "plain t" using plain_prop [OF sane_plain [OF assms(1)] tc(1)] .
  then have "plain x" "plain c" using assms(3) [OF _ tc(2)] plain_path [OF tc(3)] by blast+
  with assms(2) tc(4) show ?thesis unfolding plain_tint_def by blast
qed

lemma sane_tints [quiet_intros]:
  "sane R e \<Longrightarrow> plain_tint (rt_darken R)" "sane R e \<Longrightarrow> plain_tint (rt_lighten R)"
  "sane R e \<Longrightarrow> plain_tint (rt_transparentize R)"
  by (simp_all add: sane_def)

lemma quiet_tinted_lit [quiet_intros]:
  "sane R e \<Longrightarrow> plain_tint (f R) \<Longrightarrow> plain x \<Longrightarrow> quiet R e (tinted_at f (\<lambda>_. Some x) ks)"
  unfolding tinted_at_def by (rule quiet_Fn) (auto intro!: quiet_plain dest: plain_tinted)

lemma quiet_tinted_path [quiet_intros]:
  "sane R e \<Longrightarrow> plain_tint (f R) \<Longrightarrow> quiet R e (tinted_at f (js_path ks') ks)"
  unfolding tinted_at_def by (rule quiet_Fn) (auto intro!: quiet_plain dest: plain_tinted intro: plain_path simp del: js_path.simps)

lemma quiet_ya [quiet_intros]: "sane R e \<Longrightarrow> quiet R e (ya name)"
  unfolding ya_def
  by (rule quiet_Fn)
     (auto simp: Option.bind_eq_Some_conv quiet_def sane_def val_text_def falsish_def well_nested_def split: option.splits)

lemma quiet_Ref [quiet_intros]: "sane R e \<Longrightarrow> quiet R e (Ref c)"
  by (simp add: quiet_def sane_def well_nested_def)

lemma quiet_Frames [quiet_intros]: "sane R e \<Longrightarrow> quiet R e (Frames c)"
  by (simp add: quiet_def sane_def well_nested_def)

text \<open>A media rule is well nested when its rules are.\<close>

lemma quiet_ma [quiet_intros]:
  assumes "sane R e" "plain_str n" "quiet R e (Many r)"
  shows "quiet R e (ma b t n r)"
  unfolding ma_def
proof (rule quiet_Many)
  show "rest_quiet R e
     [Txt [[], ''      @media ''], Val (Str (if t then ''print, '' else [])), Txt ['' screen and (max-width: ''],
      theme_at [''breakpoints'', b], Txt ['') ''], Val (Str n), Txt ['' {'', ''        ''], Many r,
      Txt ['';'', ''      }'', ''    '']]"
    using assms by (simp add: quiet_theme_at)
  show "block_depth
     [Txt [[], ''      @media ''], Val (Str (if t then ''print, '' else [])), Txt ['' screen and (max-width: ''],
      theme_at [''breakpoints'', b], Txt ['') ''], Val (Str n), Txt ['' {'', ''        ''], Many r,
      Txt ['';'', ''      }'', ''    '']] 0 = Some 0"
    using assms(2) by (simp add: theme_at_def val_text_def falsish_def)
qed

lemma quiet_theme_pick [quiet_intros]: "quiet R e a \<Longrightarrow> quiet R e b \<Longrightarrow> quiet R e (theme_pick ks a b)"
  unfolding theme_pick_def by (rule quiet_Fn) (auto simp: js_if_def simp del: js_path.simps)

lemma quiet_pick_eq [quiet_intros]: "quiet R e a \<Longrightarrow> quiet R e b \<Longrightarrow> quiet R e (pick_eq k s a b)"
  unfolding pick_eq_def by (rule quiet_Fn) auto

text \<open>Untagged templates: the parts that are values count as plain, the literal ones are computed.\<close>

definition opt_text :: "js option \<Rightarrow> string" where
  "opt_text x = (case x of None \<Rightarrow> [] | Some v \<Rightarrow> js_str v)"

lemma nest_concat_lines: "nest (concat xs) d = nest_lines xs d"
  by (induction xs arbitrary: d) (auto simp: nest_append split: option.splits)

lemma template_text: "js_template vs = Some v \<Longrightarrow> js_str v = concat (map opt_text vs) \<and> \<not> (v = Undef \<or> v = Null)"
proof -
  have "concat_opt (map (map_option js_str) vs) = Some s \<Longrightarrow> s = concat (map opt_text vs)" for s
    by (induction vs arbitrary: s) (auto simp: opt_text_def split: option.splits)
  then show "js_template vs = Some v \<Longrightarrow> ?thesis" by (auto simp: js_template_def)
qed

lemma template_val_text: "js_template vs = Some v \<Longrightarrow> val_text v = concat (map opt_text vs)"
  using template_text [of vs v] by (auto simp: js_template_def val_text_def falsish_def)

lemma quiet_tpl: "nest_lines (map opt_text (vs R e)) 0 = Some 0 \<Longrightarrow> quiet R e (tpl_at vs)"
  unfolding tpl_at_def
  by (rule quiet_Fn) (auto intro!: quiet_Val simp: template_val_text nest_concat_lines)

lemma nest_opt_text:
  "opt_text (Some (Str s)) = s"
  "sane R e \<Longrightarrow> nest (opt_text (js_path ks e)) d = Some d"
  "sane R e \<Longrightarrow> nest (opt_text (Option.bind (js_path ks e) (js_times k))) d = Some d"
  "sane R e \<Longrightarrow> plain_tint (f R) \<Longrightarrow> plain x \<Longrightarrow> nest (opt_text (tinted f (\<lambda>_. Some x) ks' R e)) d = Some d"
proof -
  show "opt_text (Some (Str s)) = s" by (simp add: opt_text_def)
  show "sane R e \<Longrightarrow> nest (opt_text (js_path ks e)) d = Some d"
    by (auto simp: opt_text_def split: option.splits intro!: nest_plain plain_js_str dest: sane_path)
  show "sane R e \<Longrightarrow> nest (opt_text (Option.bind (js_path ks e) (js_times k))) d = Some d"
    by (auto simp: opt_text_def Option.bind_eq_Some_conv split: option.splits
        intro!: nest_plain plain_js_str dest: plain_times)
  show "sane R e \<Longrightarrow> plain_tint (f R) \<Longrightarrow> plain x \<Longrightarrow> nest (opt_text (tinted f (\<lambda>_. Some x) ks' R e)) d = Some d"
    by (auto simp: opt_text_def split: option.splits intro!: nest_plain plain_js_str dest: plain_tinted)
qed

section \<open>Components\<close>

definition closed :: "runtime \<Rightarrow> js \<Rightarrow> component \<Rightarrow> bool" where
  "closed R e c \<longleftrightarrow> (\<forall>ts. component_css R e c = Some ts \<longrightarrow> list_all well_nested ts)"

lemma closed_Component:
  assumes "\<And>c. b = Some c \<Longrightarrow> closed R e c" "rest_quiet R e cs" "block_depth cs 0 = Some 0"
  shows "closed R e (Component n b cs)"
  using assms(1) quiet_Many [OF assms(2,3)]
  by (auto simp: closed_def quiet_def render_css split: option.splits if_splits simp del: render.simps)

lemma val_text_simps [simp]: "val_text (Str s) = s" "val_text Undef = []" "val_text (Bool False) = []"
  by (simp_all add: val_text_def falsish_def)

lemmas closed_base = closed_Component [where b = None, simplified]
lemmas closed_extended = closed_Component [where b = "Some c" for c, simplified]

text \<open>
  Congruences that keep the simplifier from descending into long literals before their first
  character or part decides the next step.
\<close>

lemma text_congs:
  "d = d' \<Longrightarrow> nest s d = nest s d'"
  "d = d' \<Longrightarrow> nest_lines ls d = nest_lines ls d'"
  "d = d' \<Longrightarrow> block_depth cs d = block_depth cs d'"
  "rest_quiet R e cs = rest_quiet R e cs"
  "quiet R e c = quiet R e c"
  "literal c = literal c"
  "val_text v = val_text v"
  by simp_all

lemma text_steps:
  "nest (val_text (Str (py_join CHR 0x0A ls))) d = nest_lines ls d"
  "nest (val_text (Num n)) d = Some d"
  "nest (val_text (Str [])) d = Some d"
  "plain_str s \<Longrightarrow> nest (val_text (Str s)) d = Some d"
  by (simp_all add: nest_join) (simp add: val_text_def)

lemmas css_steps = text_steps nest_append quiet_Val quiet_Many

named_theorems closed_components \<open>components whose text is well nested\<close>

end
