(* ===== verification/Redoc_Interp.thy ===== *)
theory Redoc_Interp
  imports Redoc_Braces
begin

text \<open>
  The interpolations of Redoc's templates that compute more than a path of the theme or a choice
  by a property: lookups by a computed key, numbers, nested templates.
\<close>

section \<open>Comparisons and numbers\<close>

text \<open>\<open>v > n\<close>; strings and objects are outside of the model.\<close>

definition js_gt :: "js \<Rightarrow> int \<Rightarrow> bool option" where
  "js_gt v n = (case v of Num m \<Rightarrow> Some (m > n) | Undef \<Rightarrow> Some False | Null \<Rightarrow> Some (0 > n)
     | Bool b \<Rightarrow> Some ((if b then 1 else 0) > n) | _ \<Rightarrow> None)"

text \<open>\<open>parseInt(s, 10)\<close>: white space, a sign, the longest run of digits; \<open>None\<close> is \<open>NaN\<close>.\<close>

definition is_space :: "char \<Rightarrow> bool" where
  "is_space c \<longleftrightarrow> cp c \<in> {9, 10, 11, 12, 13, 32}"

definition parse_int :: "string \<Rightarrow> int option" where
  "parse_int s =
     (let t = dropWhile is_space s;
          neg = (t \<noteq> [] \<and> hd t = CHR ''-'');
          u = (if t \<noteq> [] \<and> hd t \<in> {CHR ''-'', CHR ''+''} then tl t else t);
          ds = takeWhile is_ascii_digit u
      in if ds = [] then None else Some (if neg then - int (dec_val ds) else int (dec_val ds)))"

text \<open>The text of \<open>n / 100\<close>, without trailing zeros.\<close>

definition hundredths :: "int \<Rightarrow> string" where
  "hundredths n =
     (let m = nat (abs n); w = dec_str (m div 100); t = m mod 100 div 10; u = m mod 10;
          f = (if u \<noteq> 0 then CHR ''.'' # dec_str t @ dec_str u else if t \<noteq> 0 then CHR ''.'' # dec_str t else [])
      in (if n < 0 then [CHR ''-''] else []) @ w @ f)"

section \<open>Panels, icons, badges\<close>

text \<open>Padding of a section on medium screens.\<close>

definition section_padding :: chunk where
  "section_padding = Fn (\<lambda>R e. do {
     c \<leftarrow> js_prop ''compact'' e;
     t \<leftarrow> js_prop ''theme'' e;
     p \<leftarrow> js_template [js_if c (Some (Num 0)) (js_path [''spacing'', ''sectionVertical''] t), Some (Str ''px ''),
       js_path [''spacing'', ''sectionHorizontal''] t, Some (Str ''px'')];
     Some (ma ''medium'' True [] [Txt [[], ''    width: 100%;'', ''    padding: ''], Val p, Txt ['';'', ''  '']])})"

definition panel_padding :: chunk where
  "panel_padding = tpl_at (\<lambda>R e. [theme_path [''spacing'', ''sectionVertical''] e, Some (Str ''px ''),
     theme_path [''spacing'', ''sectionHorizontal''] e, Some (Str ''px'')])"

definition Vu :: js where
  "Vu = Obj [(''left'', Str ''90deg''), (''right'', Str ''-90deg''), (''up'', Str ''-180deg''), (''down'', Str ''0'')]"

definition arrow_rotation :: chunk where
  "arrow_rotation = Fn (\<lambda>R e. do {
     d \<leftarrow> js_prop ''direction'' e;
     map_option Val (js_prop (js_str (js_or d (Str ''down''))) Vu)})"

definition arrow_fill :: chunk where
  "arrow_fill = Fn (\<lambda>R e. do {
     c \<leftarrow> js_prop ''color'' e;
     t \<leftarrow> js_prop ''theme'' e;
     if truthy c then do {
       r \<leftarrow> js_path [''colors'', ''responses'', js_str c] t;
       v \<leftarrow> (if truthy r then js_path [''colors'', ''responses'', js_str c, ''color''] t else Some r);
       Some (Val (js_or v c))
     } else Some (Val c)})"

text \<open>\<open>e => e.theme.a[e.k].b\<close> and \<open>e => e.theme.a[e.k] || s\<close>.\<close>

definition theme_by_at :: "string list \<Rightarrow> string \<Rightarrow> string list \<Rightarrow> chunk" where
  "theme_by_at ks k ks' = Fn (\<lambda>R e. map_option Val (theme_by ks k ks' e))"

definition verb_colour :: chunk where
  "verb_colour = Fn (\<lambda>R e. map_option (\<lambda>v. Val (js_or v (Str ''#999999''))) (theme_by [''colors'', ''http''] ''type'' [] e))"

section \<open>Cells and buttons\<close>

definition kind_style :: chunk where
  "kind_style = Fn (\<lambda>R e. do {
     k \<leftarrow> js_prop ''kind'' e;
     Some (if (if k = Undef then Str [] else k) \<in> {Str ''field'', Str ''additionalProperties'', Str ''patternProperties''}
       then Txt [[]] else Txt [''font-style: italic''])})"

definition button_state :: chunk where
  "button_state = pick ''active''
     (tpl_at (\<lambda>R e.
       [Lit [[], ''      color: white;'', ''      background-color: ''], theme_path [''colors'', ''primary'', ''main''] e,
        Lit ['';'', ''      &:focus {'', ''        box-shadow: none;'', ''        background-color: ''],
        tinted rt_darken (\<lambda>_. Some (Dec ''0.15'')) [''colors'', ''primary'', ''main''] R e,
        Lit ['';'', ''      }'', ''      '']]))
     (tpl_at (\<lambda>R e.
       [Lit [[], ''        color: ''], theme_path [''colors'', ''primary'', ''main''] e,
        Lit ['';'', ''        background-color: white;'', ''      '']]))"

definition tab_margin :: chunk where
  "tab_margin = tpl_at (\<lambda>R e. [theme_path [''spacing'', ''unit''] e, Some (Str ''px ''),
     theme_path [''spacing'', ''unit''] e, Some (Str ''px ''), theme_path [''spacing'', ''unit''] e, Some (Str ''px'')])"

section \<open>Schema items\<close>

definition example_colours :: chunk where
  "example_colours = tpl_at (\<lambda>R e.
     [Lit [[], ''    background-color: ''],
      tinted rt_transparentize (\<lambda>_. Some (Dec ''0.95'')) [''colors'', ''text'', ''primary''] R e,
      Lit ['';'', ''    color: ''],
      tinted rt_transparentize (\<lambda>_. Some (Dec ''0.1'')) [''colors'', ''text'', ''primary''] R e,
      Lit ['';'', [], ''    padding: 0 ''], theme_path [''spacing'', ''unit''] e,
      Lit [''px;'', ''    border: 1px solid ''],
      tinted rt_transparentize (\<lambda>_. Some (Dec ''0.9'')) [''colors'', ''text'', ''primary''] R e,
      Lit ['';'', ''    font-family: ''], theme_path [''typography'', ''code'', ''fontFamily''] e,
      Lit ['';'', ''}'']])"

definition constraint_colours :: chunk where
  "constraint_colours = tpl_at (\<lambda>R e.
     [Lit [[], ''    background-color: ''],
      tinted rt_transparentize (\<lambda>_. Some (Dec ''0.95'')) [''colors'', ''primary'', ''light''] R e,
      Lit ['';'', ''    color: ''],
      tinted rt_transparentize (\<lambda>_. Some (Dec ''0.1'')) [''colors'', ''primary'', ''main''] R e,
      Lit ['';'', [], ''    margin: 0 ''], theme_path [''spacing'', ''unit''] e,
      Lit [''px;'', ''    padding: 0 ''], theme_path [''spacing'', ''unit''] e,
      Lit [''px;'', ''    border: 1px solid ''],
      tinted rt_transparentize (\<lambda>_. Some (Dec ''0.9'')) [''colors'', ''primary'', ''main''] R e,
      Lit ['';'', ''}'']])"

definition flow_details :: chunk where
  "flow_details = when_prop ''expanded'' (tpl_at (\<lambda>R e.
     [Some (Str ''background: ''), theme_path [''colors'', ''gray'', ''100''] e,
      Lit ['';'', ''     padding: 8px 9.6px;'', ''     margin: 20px 0;'', ''     width: 100%;'', ''    '']]))"

section \<open>Menu\<close>

text \<open>A setting of the menu level a depth belongs to.\<close>

definition ky :: "js \<Rightarrow> js \<Rightarrow> string \<Rightarrow> js option" where
  "ky depth e n = do {
     t \<leftarrow> js_prop ''theme'' e;
     deep \<leftarrow> js_gt depth 1;
     if deep then js_path [''sidebar'', ''level1Items'', n] t
     else if depth = Num 1 then js_path [''sidebar'', ''groupItems'', n] t
     else Some (Str [])}"

definition ky_at :: "string \<Rightarrow> chunk" where
  "ky_at n = Fn (\<lambda>R e. do {d \<leftarrow> js_prop ''depth'' e; v \<leftarrow> ky d e n; Some (Val v)})"

definition menu_padding :: chunk where
  "menu_padding = Fn (\<lambda>R e. do {
     d \<leftarrow> js_prop ''depth'' e;
     t \<leftarrow> js_prop ''type'' e;
     n \<leftarrow> js_prop ''theme'' e;
     if t \<noteq> Str ''section'' then Some (Txt [[]])
     else do {
       deep \<leftarrow> js_gt d 1;
       if deep then do {
         u \<leftarrow> js_path [''spacing'', ''unit''] n;
         p \<leftarrow> js_times 8 u;
         Some (Val (Str (''padding-left: '' @ js_str p @ ''px;'')))
       } else Some (Txt [[]])}})"

definition Sy :: "nat \<Rightarrow> chunk" where
  "Sy n = Many (if n = 0 then
       [Txt [[], ''    opacity: 0.7;'', ''    text-transform: ''], theme_at [''sidebar'', ''groupItems'', ''textTransform''],
        Txt ['';'', ''    font-size: 0.8em;'', ''    padding-bottom: 0;'', ''    cursor: default;'', ''  '']]
     else
       [Txt [[], ''    font-size: 0.929em;'', ''    text-transform: ''],
        theme_at [''sidebar'', ''level1Items'', ''textTransform''], Txt ['';'', ''  '']])"

definition Sy_at :: chunk where
  "Sy_at = Fn (\<lambda>R e. do {
     d \<leftarrow> js_prop ''depth'' e;
     Some (if js_str d = ''0'' then Sy 0 else if js_str d = ''1'' then Sy 1 else Val Undef)})"

definition attribution :: chunk where
  "attribution = tpl_at (\<lambda>R e.
     [Lit [[], ''  font-size: 0.8em;'', ''  margin-top: ''], Option.bind (theme_path [''spacing'', ''unit''] e) (js_times 2),
      Lit [''px;'', ''  text-align: center;'', ''  position: fixed;'', ''  width: ''], theme_path [''sidebar'', ''width''] e,
      Lit ['';'', ''  bottom: 0px;'', ''  background: ''], theme_path [''sidebar'', ''backgroundColor''] e,
      Lit ['';'', '' '', ''  a,'', ''  a:visited,'', ''  a:hover {'', ''    color: ''],
      theme_path [''sidebar'', ''textColor''] e, Lit ['' !important;'', ''    padding: ''], theme_path [''spacing'', ''unit''] e,
      Lit [''px 0;'', ''    border-top: 1px solid ''],
      tinted rt_darken (\<lambda>_. Some (Dec ''0.1'')) [''sidebar'', ''backgroundColor''] R e,
      Lit ['';'', ''    text-decoration: none;'', ''    display: flex;'', ''    align-items: center;'',
        ''    justify-content: center;'', ''  }'', []]])"

section \<open>Operations and page\<close>

definition server_border :: chunk where
  "server_border = pick ''expanded'' (pick ''inverted'' (Txt [[]])
     (tpl_at (\<lambda>R e. [Some (Str ''border-color: ''), theme_path [''colors'', ''border'', ''dark''] e, Some (Str '';'')])))
     (Txt [[]])"

definition page_text :: chunk where
  "page_text = tpl_at (\<lambda>R e.
     [Lit [[], ''  font-family: ''], theme_path [''typography'', ''fontFamily''] e,
      Lit ['';'', ''  font-size: ''], theme_path [''typography'', ''fontSize''] e,
      Lit ['';'', ''  font-weight: ''], theme_path [''typography'', ''fontWeightRegular''] e,
      Lit ['';'', ''  line-height: ''], theme_path [''typography'', ''lineHeight''] e,
      Lit ['';'', ''  color: ''], theme_path [''colors'', ''text'', ''primary''] e,
      Lit ['';'', ''  display: flex;'', ''  position: relative;'', ''  text-align: left;'', [],
        ''  -webkit-font-smoothing: ''],
      theme_path [''typography'', ''smoothing''] e, Lit ['';'', ''  font-smoothing: ''],
      theme_path [''typography'', ''smoothing''] e, Lit ['';'', ''  ''],
      map_option (\<lambda>v. js_if v (Str ''text-rendering: optimizeSpeed !important'') (Str []))
        (theme_path [''typography'', ''optimizeSpeed''] e),
      Lit ['';'', [], ''  tap-highlight-color: rgba(0, 0, 0, 0);'', ''  text-size-adjust: 100%;'', [], ''  * {'',
        ''    box-sizing: border-box;'', ''    -webkit-tap-highlight-color: rgba(255, 255, 255, 0);'', ''  }'', []]])"

text \<open>\<open>s.endsWith("%")\<close> is a method of strings only.\<close>

definition right_panel_width :: chunk where
  "right_panel_width = Fn (\<lambda>R e. do {
     w \<leftarrow> theme_path [''rightPanel'', ''width''] e;
     case w of
       Str s \<Rightarrow>
         if s \<noteq> [] \<and> last s = CHR ''%'' then do {
           b \<leftarrow> theme_path [''sidebar'', ''width''] e;
           Some (Val (Str (''calc((100% - '' @ js_str b @ '') * '' @
             (case parse_int s of None \<Rightarrow> ''NaN'' | Some t \<Rightarrow> hundredths t) @ '')'')))
         } else Some (Val w)
     | _ \<Rightarrow> None})"

definition search_border :: chunk where
  "search_border = Fn (\<lambda>R e. do {
     t \<leftarrow> js_prop ''theme'' e;
     b \<leftarrow> js_path [''sidebar'', ''backgroundColor''] t;
     light \<leftarrow> rt_is_light R b;
     v \<leftarrow> (if light then rt_darken R else rt_lighten R) (Dec ''0.1'') b;
     Some (Val v)})"

section \<open>They leave the depth alone\<close>

lemma interpolations_not_literal [simp]:
  "\<not> literal section_padding" "\<not> literal panel_padding" "\<not> literal arrow_rotation" "\<not> literal arrow_fill"
  "\<not> literal (theme_by_at ks k ks')" "\<not> literal verb_colour" "\<not> literal kind_style" "\<not> literal button_state"
  "\<not> literal tab_margin" "\<not> literal example_colours" "\<not> literal constraint_colours" "\<not> literal flow_details"
  "\<not> literal (ky_at k)" "\<not> literal menu_padding" "\<not> literal (Sy n)" "\<not> literal Sy_at" "\<not> literal attribution"
  "\<not> literal server_border" "\<not> literal page_text" "\<not> literal right_panel_width" "\<not> literal search_border"
  by (simp_all add: section_padding_def panel_padding_def arrow_rotation_def arrow_fill_def theme_by_at_def
      verb_colour_def kind_style_def button_state_def tab_margin_def example_colours_def constraint_colours_def
      flow_details_def ky_at_def menu_padding_def Sy_def Sy_at_def attribution_def server_border_def page_text_def
      right_panel_width_def search_border_def)

lemma plain_hundredths [simp]: "plain_str (hundredths n)"
  by (simp add: hundredths_def Let_def plain_dec_str)

lemma plain_theme_by: "sane R e \<Longrightarrow> theme_by ks k ks' e = Some v \<Longrightarrow> plain v"
  unfolding theme_by_def by (auto simp: Option.bind_eq_Some_conv simp del: js_path.simps intro: sane_path)

lemma quiet_section_padding [quiet_intros]: "sane R e \<Longrightarrow> quiet R e section_padding"
  unfolding section_padding_def
proof (rule quiet_Fn)
  fix c
  assume e: "sane R e"
  assume "do {
     c \<leftarrow> js_prop ''compact'' e;
     t \<leftarrow> js_prop ''theme'' e;
     p \<leftarrow> js_template [js_if c (Some (Num 0)) (js_path [''spacing'', ''sectionVertical''] t), Some (Str ''px ''),
       js_path [''spacing'', ''sectionHorizontal''] t, Some (Str ''px'')];
     Some (ma ''medium'' True [] [Txt [[], ''    width: 100%;'', ''    padding: ''], Val p, Txt ['';'', ''  '']])} = Some c"
  then obtain k t p where t: "js_prop ''theme'' e = Some t"
    and p: "js_template [js_if k (Some (Num 0)) (js_path [''spacing'', ''sectionVertical''] t), Some (Str ''px ''),
       js_path [''spacing'', ''sectionHorizontal''] t, Some (Str ''px'')] = Some p"
    and c: "c = ma ''medium'' True [] [Txt [[], ''    width: 100%;'', ''    padding: ''], Val p, Txt ['';'', ''  '']]"
    by (auto simp: Option.bind_eq_Some_conv simp del: js_path.simps)
  have path: "plain_str (opt_text (js_path ks t))" for ks
    using plain_path [of ks t] sane_prop [OF e t] by (auto simp: opt_text_def plain_js_str split: option.splits)
  have opt_simps: "opt_text (Some (Str x)) = x" "plain_str (opt_text (Some (Num 0)))" for x
    by (simp_all add: opt_text_def)
  have "nest (val_text p) d = Some d" for d
    unfolding template_val_text [OF p]
    by (intro nest_plain) (simp add: js_if_def path opt_simps del: js_path.simps)
  then have "quiet R e (Many [Txt [[], ''    width: 100%;'', ''    padding: ''], Val p, Txt ['';'', ''  '']])"
    by (intro quiet_Many) (simp_all add: val_text_def falsish_def)
  then show "quiet R e c" unfolding c using e by (intro quiet_intros) simp_all
qed

lemma quiet_lookups [quiet_intros]:
  "sane R e \<Longrightarrow> quiet R e (theme_by_at ks k ks')"
  "sane R e \<Longrightarrow> quiet R e verb_colour"
  "sane R e \<Longrightarrow> quiet R e arrow_rotation"
  "sane R e \<Longrightarrow> quiet R e kind_style"
  unfolding theme_by_at_def verb_colour_def arrow_rotation_def kind_style_def
  by (rule quiet_Fn; auto simp: Option.bind_eq_Some_conv Vu_def js_prop_def intro!: quiet_plain plain_operators
      dest: plain_theme_by split: if_splits)+

lemma quiet_arrow_fill [quiet_intros]:
  assumes "sane R e"
  shows "quiet R e arrow_fill"
  unfolding arrow_fill_def
proof (rule quiet_Fn)
  fix d
  assume "do {
     c \<leftarrow> js_prop ''color'' e;
     t \<leftarrow> js_prop ''theme'' e;
     if truthy c then do {
       r \<leftarrow> js_path [''colors'', ''responses'', js_str c] t;
       v \<leftarrow> (if truthy r then js_path [''colors'', ''responses'', js_str c, ''color''] t else Some r);
       Some (Val (js_or v c))
     } else Some (Val c)} = Some d"
  then obtain c t where c: "js_prop ''color'' e = Some c" and t: "js_prop ''theme'' e = Some t"
    and d: "(if truthy c then do {
       r \<leftarrow> js_path [''colors'', ''responses'', js_str c] t;
       v \<leftarrow> (if truthy r then js_path [''colors'', ''responses'', js_str c, ''color''] t else Some r);
       Some (Val (js_or v c))
     } else Some (Val c)) = Some d"
    unfolding Option.bind_eq_Some_conv by blast
  note plain = sane_prop [OF assms c] plain_path [OF _ sane_prop [OF assms t]]
  show "quiet R e d"
  proof (cases "truthy c")
    case True
    with d obtain r v where "js_path [''colors'', ''responses'', js_str c] t = Some r"
      "(if truthy r then js_path [''colors'', ''responses'', js_str c, ''color''] t else Some r) = Some v"
      and d': "d = Val (js_or v c)"
      by (auto simp: Option.bind_eq_Some_conv simp del: js_path.simps)
    then have "plain v" using plain(2) by (metis option.inject)
    then show ?thesis unfolding d' using plain(1) by (intro quiet_plain plain_operators)
  next
    case False
    with d plain(1) show ?thesis by (auto intro: quiet_plain)
  qed
qed

lemma quiet_ky_at [quiet_intros]: "sane R e \<Longrightarrow> quiet R e (ky_at n)"
  unfolding ky_at_def ky_def
  by (rule quiet_Fn; auto simp: Option.bind_eq_Some_conv simp del: js_path.simps
      intro!: quiet_plain dest: sane_prop plain_path split: if_splits)

lemma quiet_menu_padding [quiet_intros]: "sane R e \<Longrightarrow> quiet R e menu_padding"
  unfolding menu_padding_def
  by (rule quiet_Fn; auto simp: Option.bind_eq_Some_conv simp del: js_path.simps
      intro!: quiet_plain plain_js_str dest: plain_times split: if_splits)

lemma quiet_search_border [quiet_intros]:
  assumes "sane R e"
  shows "quiet R e search_border"
  unfolding search_border_def
proof (rule quiet_Fn)
  fix d
  assume "do {
     t \<leftarrow> js_prop ''theme'' e;
     b \<leftarrow> js_path [''sidebar'', ''backgroundColor''] t;
     light \<leftarrow> rt_is_light R b;
     v \<leftarrow> (if light then rt_darken R else rt_lighten R) (Dec ''0.1'') b;
     Some (Val v)} = Some d"
  then obtain t b light v where t: "js_prop ''theme'' e = Some t" "js_path [''sidebar'', ''backgroundColor''] t = Some b"
    and v: "(if light then rt_darken R else rt_lighten R) (Dec ''0.1'') b = Some v" and d: "d = Val v"
    by (auto simp: Option.bind_eq_Some_conv simp del: js_path.simps)
  have "plain b" using plain_path [OF t(2) sane_prop [OF assms t(1)]] .
  have plain01: "plain (Dec ''0.1'')" by simp
  have "plain v"
  proof (cases light)
    case True
    with v have "rt_darken R (Dec ''0.1'') b = Some v" by (simp only: if_True)
    from plain_tintD [OF sane_tints(1) [OF assms] plain01 \<open>plain b\<close> this] show ?thesis .
  next
    case False
    with v have "rt_lighten R (Dec ''0.1'') b = Some v" by (simp only: if_False)
    from plain_tintD [OF sane_tints(2) [OF assms] plain01 \<open>plain b\<close> this] show ?thesis .
  qed
  then show "quiet R e d" unfolding d by (rule quiet_plain)
qed

lemma quiet_right_panel_width [quiet_intros]:
  assumes "sane R e"
  shows "quiet R e right_panel_width"
  unfolding right_panel_width_def
proof (rule quiet_Fn, erule Option.bind_eq_Some_conv [THEN iffD1, THEN exE], elim conjE)
  fix c w
  assume w: "theme_path [''rightPanel'', ''width''] e = Some w"
  assume c: "(case w of
       Str s \<Rightarrow>
         if s \<noteq> [] \<and> last s = CHR ''%'' then do {
           b \<leftarrow> theme_path [''sidebar'', ''width''] e;
           Some (Val (Str (''calc((100% - '' @ js_str b @ '') * '' @
             (case parse_int s of None \<Rightarrow> ''NaN'' | Some t \<Rightarrow> hundredths t) @ '')'')))
         } else Some (Val w)
     | _ \<Rightarrow> None) = Some c"
  then obtain s where s: "w = Str s" by (cases w) auto
  show "quiet R e c"
  proof (cases "s \<noteq> [] \<and> last s = CHR ''%''")
    case True
    with c s obtain b where b: "theme_path [''sidebar'', ''width''] e = Some b"
      and c': "c = Val (Str (''calc((100% - '' @ js_str b @ '') * '' @
             (case parse_int s of None \<Rightarrow> ''NaN'' | Some t \<Rightarrow> hundredths t) @ '')''))"
      by (auto simp: Option.bind_eq_Some_conv simp del: js_path.simps)
    show ?thesis unfolding c'
      by (rule quiet_plain) (simp add: plain_js_str [OF sane_path [OF assms b]] split: option.splits)
  next
    case False
    with c s have "c = Val w" by auto
    then show ?thesis using sane_path [OF assms w] by (simp add: quiet_plain)
  qed
qed

lemma quiet_Sy [quiet_intros]: "sane R e \<Longrightarrow> quiet R e (Sy n)"
  unfolding Sy_def by (rule quiet_Many) (auto simp: val_text_def falsish_def intro: quiet_intros split: if_splits)

lemma quiet_Sy_at [quiet_intros]: "sane R e \<Longrightarrow> quiet R e Sy_at"
  unfolding Sy_at_def
  by (rule quiet_Fn) (auto simp: Option.bind_eq_Some_conv intro: quiet_Sy quiet_plain split: if_splits)

lemma nest_js_if: "nest (opt_text (map_option (\<lambda>v. js_if v (Str a) (Str b)) x)) d =
    (case x of None \<Rightarrow> Some d | Some v \<Rightarrow> nest (if truthy v then a else b) d)"
  by (auto simp: opt_text_def js_if_def split: option.splits)

lemma quiet_page_text [quiet_intros]: "sane R e \<Longrightarrow> quiet R e page_text"
  unfolding page_text_def
  by (rule quiet_tpl; simp add: nest_opt_text sane_tints nest_js_if split: option.split del: js_path.simps)

lemma quiet_choices [quiet_intros]:
  "sane R e \<Longrightarrow> quiet R e button_state"
  "sane R e \<Longrightarrow> quiet R e flow_details"
  "sane R e \<Longrightarrow> quiet R e server_border"
  unfolding button_state_def flow_details_def server_border_def
  by (intro quiet_intros quiet_tpl quiet_Val; simp add: nest_opt_text sane_tints val_text_def falsish_def del: js_path.simps)+

lemma quiet_templates [quiet_intros]:
  "sane R e \<Longrightarrow> quiet R e panel_padding"
  "sane R e \<Longrightarrow> quiet R e tab_margin"
  "sane R e \<Longrightarrow> quiet R e attribution"
  unfolding panel_padding_def tab_margin_def attribution_def
  by (rule quiet_tpl; simp add: nest_opt_text sane_tints del: js_path.simps)+

end
