(* ===== verification/Redoc_Layout.thy ===== *)
theory Redoc_Layout
  imports Redoc_Interp
begin

text \<open>
  Page layout of the Redoc bundle: error and loading boxes, sections, panels, headings, links, icons, badges. One definition per template: its name is the
  variable of the bundle, its base the component it extends.
\<close>

definition sc_va :: component where
  "sc_va = Component ''va'' None
    [Txt [[], ''  padding: 20px;'', ''  color: red;'', []]]"

definition frames_wa :: chunk where
  "frames_wa = Many
    [Txt [[], ''  0% {'', ''    transform: rotate(0deg); }'', ''  100% {'', ''    transform: rotate(360deg);'', ''  }'', []]]"

definition sc_xa :: component where
  "sc_xa = Component ''xa'' None
    [Txt [[], ''  animation: 2s ''],
     Frames ''wa'',
     Txt ['' linear infinite;'', ''  width: 50px;'', ''  height: 50px;'', ''  content: '' @ quotes @ '';'', ''  display: inline-block;'', ''  margin-left: -25px;'', [], ''  path {'', ''    fill: ''],
     prop_at ''color'',
     Txt ['';'', ''  }'', []]]"

definition sc_ka :: component where
  "sc_ka = Component ''ka'' None
    [Txt [[], ''  font-family: helvetica, sans;'', ''  width: 100%;'', ''  text-align: center;'', ''  font-size: 25px;'', ''  margin: 30px 0 20px 0;'', ''  color: ''],
     prop_at ''color'',
     Txt ['';'', []]]"

definition sc_Ou :: component where
  "sc_Ou = Component ''Ou'' None
    [Txt [[], ''  width: calc(100% - ''],
     theme_at [''rightPanel'', ''width''],
     Txt ['');'', ''  padding: 0 ''],
     theme_at [''spacing'', ''sectionHorizontal''],
     Txt [''px;'', [], ''  ''],
     section_padding,
     Txt ['';'', []]]"

definition sc_Su :: component where
  "sc_Su = Component ''Su'' None
    [Txt [[], ''  padding: ''],
     theme_at [''spacing'', ''sectionVertical''],
     Txt [''px 0;'', [], ''  &:last-child {'', ''    min-height: calc(100vh + 1px);'', ''  }'', [], ''  & > &:last-child {'', ''    min-height: initial;'', ''  }'', [], ''  ''],
     ma ''medium'' True [] [Txt [[], ''    padding: 0;'', ''  '']],
     Txt [[], ''  ''],
     pick ''underlined'' (Txt [[], ''    position: relative;'', [], ''    &:not(:last-of-type):after {'', ''      position: absolute;'', ''      bottom: 0;'', ''      width: 100%;'', ''      display: block;'', ''      content: '' @ quotes @ '';'', ''      border-bottom: 1px solid rgba(0, 0, 0, 0.2);'', ''    }'', ''  '']) (Txt [[]]),
     Txt [[], []]]"

definition sc_Eu :: component where
  "sc_Eu = Component ''Eu'' None
    [Txt [[], ''  width: ''],
     theme_at [''rightPanel'', ''width''],
     Txt ['';'', ''  color: ''],
     theme_at [''rightPanel'', ''textColor''],
     Txt ['';'', ''  background-color: ''],
     theme_at [''rightPanel'', ''backgroundColor''],
     Txt ['';'', ''  padding: 0 ''],
     theme_at [''spacing'', ''sectionHorizontal''],
     Txt [''px;'', [], ''  ''],
     ma ''medium'' True [] [Txt [[], ''    width: 100%;'', ''    padding: ''],
     panel_padding,
     Txt ['';'', ''  '']],
     Txt ['';'', []]]"

definition sc_Pu :: component where
  "sc_Pu = Component ''Pu'' (Some sc_Eu)
    [Txt [[], ''  background-color: ''],
     theme_at [''rightPanel'', ''backgroundColor''],
     Txt ['';'', []]]"

definition sc_Au :: component where
  "sc_Au = Component ''Au'' None
    [Txt [[], ''  display: flex;'', ''  width: 100%;'', ''  padding: 0;'', [], ''  ''],
     ma ''medium'' True [] [Txt [[], ''    flex-direction: column;'', ''  '']],
     Txt ['';'', []]]"

definition heading_size :: "nat \<Rightarrow> js" where
  "heading_size e = (if e = 1 then Str ''1.85714em'' else if e = 2 then Str ''1.57143em''
     else if e = 3 then Str ''1.27em'' else Undef)"

definition css_Cu :: "nat \<Rightarrow> chunk" where
  "css_Cu e = Many
    [Txt [[], ''  font-family: ''],
     theme_at [''typography'', ''headings'', ''fontFamily''],
     Txt ['';'', ''  font-weight: ''],
     theme_at [''typography'', ''headings'', ''fontWeight''],
     Txt ['';'', ''  font-size: ''],
     Val (heading_size e),
     Txt ['';'', ''  line-height: ''],
     theme_at [''typography'', ''headings'', ''lineHeight''],
     Txt ['';'', []]]"

definition sc_Ru :: component where
  "sc_Ru = Component ''Ru'' None
    [Txt [[], ''  ''],
     css_Cu 1,
     Txt ['';'', ''  color: ''],
     theme_at [''colors'', ''text'', ''primary''],
     Txt ['';'', [], ''  ''],
     ya ''H1'',
     Txt ['';'', []]]"

definition sc_ju :: component where
  "sc_ju = Component ''ju'' None
    [Txt [[], ''  ''],
     css_Cu 2,
     Txt ['';'', ''  color: ''],
     theme_at [''colors'', ''text'', ''primary''],
     Txt ['';'', ''  margin: 0 0 20px;'', [], ''  ''],
     ya ''H2'',
     Txt ['';'', []]]"

definition sc_h2_small :: component where
  "sc_h2_small = Component ''h2_small'' None
    [Txt [[], ''  ''],
     css_Cu 3,
     Txt ['';'', ''  color: ''],
     theme_at [''colors'', ''text'', ''primary''],
     Txt ['';'', [], ''  ''],
     ya ''H3'',
     Txt ['';'', []]]"

definition sc_Tu :: component where
  "sc_Tu = Component ''Tu'' None
    [Txt [[], ''  color: ''],
     theme_at [''rightPanel'', ''textColor''],
     Txt ['';'', [], ''  ''],
     ya ''RightPanelHeader'',
     Txt ['';'', []]]"

definition sc_Iu :: component where
  "sc_Iu = Component ''Iu'' None
    [Txt [[], ''  border-bottom: 1px solid rgba(38, 50, 56, 0.3);'', ''  margin: 1em 0 1em 0;'', ''  color: rgba(38, 50, 56, 0.5);'', ''  font-weight: normal;'', ''  text-transform: uppercase;'', ''  font-size: 0.929em;'', ''  line-height: 20px;'', [], ''  ''],
     ya ''UnderlinedHeader'',
     Txt ['';'', []]]"

definition css_Fu :: "string \<Rightarrow> chunk" where
  "css_Fu e = Many
    [Txt [[], ''  ''],
     Val (Str e),
     Txt ['' {'', ''    cursor: pointer;'', ''    margin-left: -20px;'', ''    padding: 0;'', ''    line-height: 1;'', ''    width: 20px;'', ''    display: inline-block;'', ''    outline: 0;'', ''  }'', ''  ''],
     Val (Str e),
     Txt ['':before {'', ''    content: '' @ quotes @ '';'', ''    width: 15px;'', ''    height: 15px;'', ''    background-size: contain;'', ''    background-image: url('data:image/svg+xml;base64,PHN2ZyB4bWxucz0iaHR0cDovL3d3dy53My5vcmcvMjAwMC9zdmciIHZlcnNpb249IjEuMSIgeD0iMCIgeT0iMCIgd2lkdGg9IjUxMiIgaGVpZ2h0PSI1MTIiIHZpZXdCb3g9IjAgMCA1MTIgNTEyIiBlbmFibGUtYmFja2dyb3VuZD0ibmV3IDAgMCA1MTIgNTEyIiB4bWw6c3BhY2U9InByZXNlcnZlIj48cGF0aCBmaWxsPSIjMDEwMTAxIiBkPSJNNDU5LjcgMjMzLjRsLTkwLjUgOTAuNWMtNTAgNTAtMTMxIDUwLTE4MSAwIC03LjktNy44LTE0LTE2LjctMTkuNC0yNS44bDQyLjEtNDIuMWMyLTIgNC41LTMuMiA2LjgtNC41IDIuOSA5LjkgOCAxOS4zIDE1LjggMjcuMiAyNSAyNSA2NS42IDI0LjkgOTAuNSAwbDkwLjUtOTAuNWMyNS0yNSAyNS02NS42IDAtOTAuNSAtMjQuOS0yNS02NS41LTI1LTkwLjUgMGwtMzIuMiAzMi4yYy0yNi4xLTEwLjItNTQuMi0xMi45LTgxLjYtOC45bDY4LjYtNjguNmM1MC01MCAxMzEtNTAgMTgxIDBDNTA5LjYgMTAyLjMgNTA5LjYgMTgzLjQgNDU5LjcgMjMzLjR6TTIyMC4zIDM4Mi4ybC0zMi4yIDMyLjJjLTI1IDI0LjktNjUuNiAyNC45LTkwLjUgMCAtMjUtMjUtMjUtNjUuNiAwLTkwLjVsOTAuNS05MC41YzI1LTI1IDY1LjUtMjUgOTAuNSAwIDcuOCA3LjggMTIuOSAxNy4yIDE1LjggMjcuMSAyLjQtMS40IDQuOC0yLjUgNi44LTQuNWw0Mi4xLTQyYy01LjQtOS4yLTExLjYtMTgtMTkuNC0yNS44IC01MC01MC0xMzEtNTAtMTgxIDBsLTkwLjUgOTAuNWMtNTAgNTAtNTAgMTMxIDAgMTgxIDUwIDUwIDEzMSA1MCAxODEgMGw2OC42LTY4LjZDMjc0LjYgMzk1LjEgMjQ2LjQgMzkyLjMgMjIwLjMgMzgyLjJ6Ii8+PC9zdmc+Cg==');'', ''    opacity: 0.5;'', ''    visibility: hidden;'', ''    display: inline-block;'', ''    vertical-align: middle;'', ''  }'', [], ''  h1:hover > ''],
     Val (Str e),
     Txt [''::before, h2:hover > ''],
     Val (Str e),
     Txt [''::before, ''],
     Val (Str e),
     Txt ['':hover::before {'', ''    visibility: visible;'', ''  }'', []]]"

definition sc_zu :: component where
  "sc_zu = Component ''zu'' None
    [Txt [[], ''  ''],
     css_Fu ''&'',
     Txt ['';'', []]]"

definition sc_Bu :: component where
  "sc_Bu = Component ''Bu'' None
    [Txt [[], ''  height: ''],
     prop_or ''size'' (''18px''),
     Txt ['';'', ''  width: ''],
     prop_or ''size'' (''18px''),
     Txt ['';'', ''  min-width: ''],
     prop_or ''size'' (''18px''),
     Txt ['';'', ''  vertical-align: middle;'', ''  float: ''],
     prop_or ''float'' ([]),
     Txt ['';'', ''  transition: transform 0.2s ease-out;'', ''  transform: rotateZ(''],
     arrow_rotation,
     Txt ['');'', [], ''  polygon {'', ''    fill: ''],
     arrow_fill,
     Txt ['';'', ''  }'', []]]"

definition sc_qu :: component where
  "sc_qu = Component ''qu'' None
    [Txt [[], ''  display: inline-block;'', ''  padding: 2px 8px;'', ''  margin: 0;'', ''  background-color: ''],
     theme_by_at [''colors''] ''type'' [''main''],
     Txt ['';'', ''  color: ''],
     theme_by_at [''colors''] ''type'' [''contrastText''],
     Txt ['';'', ''  font-size: ''],
     theme_at [''typography'', ''code'', ''fontSize''],
     Txt ['';'', ''  vertical-align: middle;'', ''  line-height: 1.6;'', ''  border-radius: 4px;'', ''  font-weight: ''],
     theme_at [''typography'', ''fontWeightBold''],
     Txt ['';'', ''  font-size: 12px;'', ''  + span[type] {'', ''    margin-left: 4px;'', ''  }'', []]]"

definition css_Wu :: "chunk" where
  "css_Wu = Many
    [Txt [[], ''  text-decoration: line-through;'', ''  color: #707070;'', []]]"

section \<open>Nesting\<close>

lemma quiet_frames_wa [quiet_intros]: "sane R e \<Longrightarrow> quiet R e (frames_wa)"
  unfolding frames_wa_def by (rule quiet_Many; simp add: css_steps quiet_intros cong: text_congs)

lemma frames_wa_not_literal [simp]: "\<not> literal (frames_wa)"
  by (simp add: frames_wa_def)

lemma heading_size_step: "nest (val_text (heading_size n)) d = Some d"
  by (simp add: heading_size_def)

lemma quiet_css_Cu [quiet_intros]: "sane R e \<Longrightarrow> quiet R e (css_Cu n)"
  unfolding css_Cu_def by (rule quiet_Many; simp add: css_steps quiet_intros heading_size_step cong: text_congs)

lemma css_Cu_not_literal [simp]: "\<not> literal (css_Cu n)"
  by (simp add: css_Cu_def)

lemma quiet_css_Fu [quiet_intros]: "sane R e \<Longrightarrow> plain_str k \<Longrightarrow> quiet R e (css_Fu k)"
  unfolding css_Fu_def by (rule quiet_Many; simp add: css_steps quiet_intros cong: text_congs)

lemma css_Fu_not_literal [simp]: "\<not> literal (css_Fu k)"
  by (simp add: css_Fu_def)

lemma quiet_css_Wu [quiet_intros]: "sane R e \<Longrightarrow> quiet R e (css_Wu)"
  unfolding css_Wu_def by (rule quiet_Many; simp add: css_steps quiet_intros cong: text_congs)

lemma css_Wu_not_literal [simp]: "\<not> literal (css_Wu)"
  by (simp add: css_Wu_def)

lemma closed_layout_1 [closed_components]:
  assumes "sane R e"
  shows "closed R e sc_va"
    "closed R e sc_xa"
    "closed R e sc_ka"
    "closed R e sc_Ou"
    "closed R e sc_Su"
    "closed R e sc_Eu"
  unfolding sc_Eu_def sc_Ou_def sc_Su_def sc_ka_def sc_va_def sc_xa_def
  by (insert assms, intro closed_base closed_extended; simp add: css_steps quiet_intros cong: text_congs)+

lemma closed_layout_2 [closed_components]:
  assumes "sane R e"
  shows "closed R e sc_Pu"
    "closed R e sc_Au"
    "closed R e sc_Ru"
    "closed R e sc_ju"
    "closed R e sc_h2_small"
    "closed R e sc_Tu"
  unfolding sc_Au_def sc_Eu_def sc_Pu_def sc_Ru_def sc_Tu_def sc_h2_small_def sc_ju_def
  by (insert assms, intro closed_base closed_extended; simp add: css_steps quiet_intros cong: text_congs)+

lemma closed_layout_3 [closed_components]:
  assumes "sane R e"
  shows "closed R e sc_Iu"
    "closed R e sc_zu"
    "closed R e sc_Bu"
    "closed R e sc_qu"
  unfolding sc_Bu_def sc_Iu_def sc_qu_def sc_zu_def
  by (insert assms, intro closed_base closed_extended; simp add: css_steps quiet_intros cong: text_congs)+

end
