(* ===== verification/Redoc_Fields.thy ===== *)
theory Redoc_Fields
  imports Redoc_Layout
begin

text \<open>
  Tables of properties: cells, property names, bullets, nesting of schemas, range buttons. One definition per template: its name is the
  variable of the bundle, its base the component it extends.
\<close>

definition sc_Hu :: component where
  "sc_Hu = Component ''Hu'' None
    [Txt [[], ''  text-align: right;'', ''  font-size: 0.9em;'', ''  font-weight: normal;'', ''  color: ''],
     theme_at [''colors'', ''text'', ''secondary''],
     Txt ['';'', []]]"

definition sc_Yu :: component where
  "sc_Yu = Component ''Yu'' None
    [Txt [[], ''  border-left: 1px solid ''],
     theme_at [''schema'', ''linesColor''],
     Txt ['';'', ''  box-sizing: border-box;'', ''  position: relative;'', ''  padding: 10px 10px 10px 0;'', [], ''  ''],
     ma ''small'' False [] [Txt [[], ''    display: block;'', ''    overflow: hidden;'', ''  '']],
     Txt [[], [], ''  tr:first-of-type > &,'', ''  tr.last > & {'', ''    border-left-width: 0;'', ''    background-position: top left;'', ''    background-repeat: no-repeat;'', ''    background-size: 1px 100%;'', ''  }'', [], ''  tr:first-of-type > & {'', ''    background-image: linear-gradient('', ''      to bottom,'', ''      transparent 0%,'', ''      transparent 22px,'', ''      ''],
     theme_at [''schema'', ''linesColor''],
     Txt ['' 22px,'', ''      ''],
     theme_at [''schema'', ''linesColor''],
     Txt ['' 100%'', ''    );'', ''  }'', [], ''  tr.last > & {'', ''    background-image: linear-gradient('', ''      to bottom,'', ''      ''],
     theme_at [''schema'', ''linesColor''],
     Txt ['' 0%,'', ''      ''],
     theme_at [''schema'', ''linesColor''],
     Txt ['' 22px,'', ''      transparent 22px,'', ''      transparent 100%'', ''    );'', ''  }'', [], ''  tr.last + tr > & {'', ''    border-left-color: transparent;'', ''  }'', [], ''  tr.last:first-child > & {'', ''    background: none;'', ''    border-left-color: transparent;'', ''  }'', []]]"

definition sc_Ku :: component where
  "sc_Ku = Component ''Ku'' (Some sc_Yu)
    [Txt [[], ''  padding: 0;'', []]]"

definition sc_Gu :: component where
  "sc_Gu = Component ''Gu'' (Some sc_Yu)
    [Txt [[], ''  vertical-align: top;'', ''  line-height: 20px;'', ''  white-space: nowrap;'', ''  font-size: 13px;'', ''  font-family: ''],
     theme_at [''typography'', ''code'', ''fontFamily''],
     Txt ['';'', [], ''  &.deprecated {'', ''    ''],
     css_Wu,
     Txt ['';'', ''  }'', [], ''  ''],
     when_eq ''kind'' (Str ''patternProperties'') (Many [Txt [[], ''      > span.property-name {'', ''        display: inline-table;'', ''        white-space: break-spaces;'', ''        margin-right: 20px;'', [], ''        ::before,'', ''        ::after {'', ''          content: '/';'', ''          filter: opacity(0.2);'', ''        }'', ''      }'', ''    '']]),
     Txt [[], [], ''  ''],
     kind_style,
     Txt ['';'', [], ''  ''],
     ya ''PropertyNameCell'',
     Txt ['';'', []]]"

definition sc_Qu :: component where
  "sc_Qu = Component ''Qu'' None
    [Txt [[], ''  border-bottom: 1px solid #9fb4be;'', ''  padding: 10px 0;'', ''  width: ''],
     theme_at [''schema'', ''defaultDetailsWidth''],
     Txt ['';'', ''  box-sizing: border-box;'', [], ''  tr.expanded & {'', ''    border-bottom: none;'', ''  }'', [], ''  ''],
     ma ''small'' False [] [Txt [[], ''    padding: 0 20px;'', ''    border-bottom: none;'', ''    border-left: 1px solid ''],
     theme_at [''schema'', ''linesColor''],
     Txt ['';'', [], ''    tr.last > & {'', ''      border-left: none;'', ''    }'', ''  '']],
     Txt [[], [], ''  ''],
     ya ''PropertyDetailsCell'',
     Txt ['';'', []]]"

definition sc_Xu :: component where
  "sc_Xu = Component ''Xu'' None
    [Txt [[], ''  color: ''],
     theme_at [''schema'', ''linesColor''],
     Txt ['';'', ''  font-family: ''],
     theme_at [''typography'', ''code'', ''fontFamily''],
     Txt ['';'', ''  margin-right: 10px;'', [], ''  &::before {'', ''    content: '' @ quotes @ '';'', ''    display: inline-block;'', ''    vertical-align: middle;'', ''    width: 10px;'', ''    height: 1px;'', ''    background: ''],
     theme_at [''schema'', ''linesColor''],
     Txt ['';'', ''  }'', [], ''  &::after {'', ''    content: '' @ quotes @ '';'', ''    display: inline-block;'', ''    vertical-align: middle;'', ''    width: 1px;'', ''    background: ''],
     theme_at [''schema'', ''linesColor''],
     Txt ['';'', ''    height: 7px;'', ''  }'', []]]"

definition sc_Ju :: component where
  "sc_Ju = Component ''Ju'' None
    [Txt [[], ''  padding: ''],
     theme_at [''schema'', ''nestingSpacing''],
     Txt ['';'', []]]"

definition sc_Zu :: component where
  "sc_Zu = Component ''Zu'' None
    [Txt [[], ''  border-collapse: separate;'', ''  border-radius: 3px;'', ''  font-size: ''],
     theme_at [''typography'', ''fontSize''],
     Txt ['';'', [], ''  border-spacing: 0;'', ''  width: 100%;'', [], ''  > tr {'', ''    vertical-align: middle;'', ''  }'', [], ''  ''],
     ma ''small'' False [] [Txt [[], ''    display: block;'', ''    > tr, > tbody > tr {'', ''      display: block;'', ''    }'', ''  '']],
     Txt [[], [], ''  ''],
     ma ''small'' False ('' and (-ms-high-contrast:none)'') [Txt [[], ''    td {'', ''      float: left;'', ''      width: 100%;'', ''    }'', ''  '']],
     Txt [[], [], ''  &'', ''    ''],
     Ref ''Ju'',
     Txt ['','', ''    &'', ''    ''],
     Ref ''Ju'',
     Txt [[], ''    ''],
     Ref ''Ju'',
     Txt [[], ''    ''],
     Ref ''Ju'',
     Txt ['','', ''    &'', ''    ''],
     Ref ''Ju'',
     Txt [[], ''    ''],
     Ref ''Ju'',
     Txt [[], ''    ''],
     Ref ''Ju'',
     Txt [[], ''    ''],
     Ref ''Ju'',
     Txt [[], ''    ''],
     Ref ''Ju'',
     Txt ['' {'', ''    margin: ''],
     theme_at [''schema'', ''nestingSpacing''],
     Txt ['';'', ''    margin-right: 0;'', ''    background: ''],
     theme_at [''schema'', ''nestedBackground''],
     Txt ['';'', ''  }'', [], ''  &'', ''    ''],
     Ref ''Ju'',
     Txt [[], ''    ''],
     Ref ''Ju'',
     Txt ['','', ''    &'', ''    ''],
     Ref ''Ju'',
     Txt [[], ''    ''],
     Ref ''Ju'',
     Txt [[], ''    ''],
     Ref ''Ju'',
     Txt [[], ''    ''],
     Ref ''Ju'',
     Txt ['','', ''    &'', ''    ''],
     Ref ''Ju'',
     Txt [[], ''    ''],
     Ref ''Ju'',
     Txt [[], ''    ''],
     Ref ''Ju'',
     Txt [[], ''    ''],
     Ref ''Ju'',
     Txt [[], ''    ''],
     Ref ''Ju'',
     Txt [[], ''    ''],
     Ref ''Ju'',
     Txt ['' {'', ''    background: #ffffff;'', ''  }'', []]]"

definition sc_ep :: component where
  "sc_ep = Component ''ep'' None
    [Txt [[], ''  margin: 0 0 3px 0;'', ''  display: inline-block;'', []]]"

definition sc_tp :: component where
  "sc_tp = Component ''tp'' None
    [Txt [[], ''  font-size: 0.9em;'', ''  margin-right: 10px;'', ''  color: ''],
     theme_at [''colors'', ''primary'', ''main''],
     Txt ['';'', ''  font-family: ''],
     theme_at [''typography'', ''headings'', ''fontFamily''],
     Txt ['';'', ''}'', []]]"

definition sc_np :: component where
  "sc_np = Component ''np'' None
    [Txt [[], ''  display: inline-block;'', ''  margin-right: 10px;'', ''  margin-bottom: 5px;'', ''  font-size: 0.8em;'', ''  cursor: pointer;'', ''  border: 1px solid ''],
     theme_at [''colors'', ''primary'', ''main''],
     Txt ['';'', ''  padding: 2px 10px;'', ''  line-height: 1.5em;'', ''  outline: none;'', ''  &:focus {'', ''    box-shadow: 0 0 0 1px ''],
     theme_at [''colors'', ''primary'', ''main''],
     Txt ['';'', ''  }'', [], ''  ''],
     pick ''deprecated'' css_Wu (Txt [[]]),
     Txt ['';'', [], ''  ''],
     button_state,
     Txt [[], []]]"

definition sc_rp :: component where
  "sc_rp = Component ''rp'' None
    [Txt [[], ''  font-size: 0.9em;'', ''  font-family: ''],
     theme_at [''typography'', ''code'', ''fontFamily''],
     Txt ['';'', ''  &::after {'', ''    content: ' [';'', ''  }'', []]]"

definition sc_op :: component where
  "sc_op = Component ''op'' None
    [Txt [[], ''  font-size: 0.9em;'', ''  font-family: ''],
     theme_at [''typography'', ''code'', ''fontFamily''],
     Txt ['';'', ''  &::after {'', ''    content: ']';'', ''  }'', []]]"

section \<open>Nesting\<close>

lemma closed_fields_1 [closed_components]:
  assumes "sane R e"
  shows "closed R e sc_Hu"
    "closed R e sc_Yu"
    "closed R e sc_Ku"
    "closed R e sc_Gu"
    "closed R e sc_Qu"
    "closed R e sc_Xu"
  unfolding sc_Gu_def sc_Hu_def sc_Ku_def sc_Qu_def sc_Xu_def sc_Yu_def
  by (insert assms, intro closed_base closed_extended; simp add: css_steps quiet_intros cong: text_congs)+

lemma closed_fields_2 [closed_components]:
  assumes "sane R e"
  shows "closed R e sc_Ju"
    "closed R e sc_Zu"
    "closed R e sc_ep"
    "closed R e sc_np"
    "closed R e sc_rp"
    "closed R e sc_op"
  unfolding sc_Ju_def sc_Zu_def sc_ep_def sc_np_def sc_op_def sc_rp_def
  by (insert assms, intro closed_base closed_extended; simp add: css_steps quiet_intros cong: text_congs)+

end
