(* ===== verification/Redoc_Code.thy ===== *)
theory Redoc_Code
  imports Redoc_Fields
begin

text \<open>
  Tabs, syntax highlighting, sample controls. One definition per template: its name is the
  variable of the bundle, its base the component it extends.
\<close>

definition sc_Dp :: component where
  "sc_Dp = Component ''Dp'' None
    [Txt [[], ''  > ul {'', ''    list-style: none;'', ''    padding: 0;'', ''    margin: 0;'', ''    margin: 0 -5px;'', [], ''    > li {'', ''      padding: 5px 10px;'', ''      display: inline-block;'', [], ''      background-color: ''],
     theme_at [''codeBlock'', ''backgroundColor''],
     Txt ['';'', ''      border-bottom: 1px solid rgba(0, 0, 0, 0.5);'', ''      cursor: pointer;'', ''      text-align: center;'', ''      outline: none;'', ''      color: ''],
     tinted_at rt_darken (js_path [''colors'', ''tonalOffset'']) [''rightPanel'', ''textColor''],
     Txt ['';'', ''      margin: 0'', ''        ''],
     tab_margin,
     Txt ['';'', ''      border: 1px solid ''],
     tinted_at rt_darken (\<lambda>_. Some (Dec ''0.05'')) [''codeBlock'', ''backgroundColor''],
     Txt ['';'', ''      border-radius: 5px;'', ''      min-width: 60px;'', ''      font-size: 0.9em;'', ''      font-weight: bold;'', [], ''      &.react-tabs__tab--selected {'', ''        color: ''],
     theme_at [''colors'', ''text'', ''primary''],
     Txt ['';'', ''        background: ''],
     theme_at [''rightPanel'', ''textColor''],
     Txt ['';'', ''        &:focus {'', ''          outline: auto;'', ''        }'', ''      }'', [], ''      &:only-child {'', ''        flex: none;'', ''        min-width: 100px;'', ''      }'', [], ''      &.tab-success {'', ''        color: ''],
     theme_at [''colors'', ''responses'', ''success'', ''tabTextColor''],
     Txt ['';'', ''      }'', [], ''      &.tab-redirect {'', ''        color: ''],
     theme_at [''colors'', ''responses'', ''redirect'', ''tabTextColor''],
     Txt ['';'', ''      }'', [], ''      &.tab-info {'', ''        color: ''],
     theme_at [''colors'', ''responses'', ''info'', ''tabTextColor''],
     Txt ['';'', ''      }'', [], ''      &.tab-error {'', ''        color: ''],
     theme_at [''colors'', ''responses'', ''error'', ''tabTextColor''],
     Txt ['';'', ''      }'', ''    }'', ''  }'', ''  > .react-tabs__tab-panel {'', ''    background: ''],
     theme_at [''codeBlock'', ''backgroundColor''],
     Txt ['';'', ''    & > div,'', ''    & > pre {'', ''      padding: ''],
     theme_times 4 [''spacing'', ''unit''],
     Txt [''px;'', ''      margin: 0;'', ''    }'', [], ''    & > div > pre {'', ''      padding: 0;'', ''    }'', ''  }'', []]]"

definition sc_Dp_small :: component where
  "sc_Dp_small = Component ''Dp_small'' (Some sc_Dp)
    [Txt [[], ''  > ul {'', ''    display: block;'', ''    > li {'', ''      padding: 2px 5px;'', ''      min-width: auto;'', ''      margin: 0 15px 0 0;'', ''      font-size: 13px;'', ''      font-weight: normal;'', ''      border-bottom: 1px dashed;'', ''      color: ''],
     tinted_at rt_darken (js_path [''colors'', ''tonalOffset'']) [''rightPanel'', ''textColor''],
     Txt ['';'', ''      border-radius: 0;'', ''      background: none;'', [], ''      &:last-child {'', ''        margin-right: 0;'', ''      }'', [], ''      &.react-tabs__tab--selected {'', ''        color: ''],
     theme_at [''rightPanel'', ''textColor''],
     Txt ['';'', ''        background: none;'', ''      }'', ''    }'', ''  }'', ''  > .react-tabs__tab-panel {'', ''    & > div,'', ''    & > pre {'', ''      padding: ''],
     theme_times 2 [''spacing'', ''unit''],
     Txt [''px 0;'', ''    }'', ''  }'', []]]"

definition sc_Lp :: component where
  "sc_Lp = Component ''Lp'' None
    [Txt [[], ''  /**'', ''  * Based on prism-dark.css'', ''  */'', [], ''  code[class*='language-'],'', ''  pre[class*='language-'] {'', ''    /* color: white;'', ''    background: none; */'', ''    text-shadow: 0 -0.1em 0.2em black;'', ''    text-align: left;'', ''    white-space: pre;'', ''    word-spacing: normal;'', ''    word-break: normal;'', ''    word-wrap: normal;'', ''    line-height: 1.5;'', [], ''    -moz-tab-size: 4;'', ''    -o-tab-size: 4;'', ''    tab-size: 4;'', [], ''    -webkit-hyphens: none;'', ''    -moz-hyphens: none;'', ''    -ms-hyphens: none;'', ''    hyphens: none;'', ''  }'', [], ''  @media print {'', ''    code[class*='language-'],'', ''    pre[class*='language-'] {'', ''      text-shadow: none;'', ''    }'', ''  }'', [], ''  /* Code blocks */'', ''  pre[class*='language-'] {'', ''    padding: 1em;'', ''    margin: 0.5em 0;'', ''    overflow: auto;'', ''  }'', [], ''  .token.comment,'', ''  .token.prolog,'', ''  .token.doctype,'', ''  .token.cdata {'', ''    color: hsl(30, 20%, 50%);'', ''  }'', [], ''  .token.punctuation {'', ''    opacity: 0.7;'', ''  }'', [], ''  .namespace {'', ''    opacity: 0.7;'', ''  }'', [], ''  .token.property,'', ''  .token.tag,'', ''  .token.number,'', ''  .token.constant,'', ''  .token.symbol {'', ''    color: #4a8bb3;'', ''  }'', [], ''  .token.boolean {'', ''    color: #e64441;'', ''  }'', [], ''  .token.selector,'', ''  .token.attr-name,'', ''  .token.string,'', ''  .token.char,'', ''  .token.builtin,'', ''  .token.inserted {'', ''    color: #a0fbaa;'', ''    & + a,'', ''    & + a:visited {'', ''      color: #4ed2ba;'', ''      text-decoration: underline;'', ''    }'', ''  }'', [], ''  .token.property.string {'', ''    color: white;'', ''  }'', [], ''  .token.operator,'', ''  .token.entity,'', ''  .token.url,'', ''  .token.variable {'', ''    color: hsl(40, 90%, 60%);'', ''  }'', [], ''  .token.atrule,'', ''  .token.attr-value,'', ''  .token.keyword {'', ''    color: hsl(350, 40%, 70%);'', ''  }'', [], ''  .token.regex,'', ''  .token.important {'', ''    color: #e90;'', ''  }'', [], ''  .token.important,'', ''  .token.bold {'', ''    font-weight: bold;'', ''  }'', ''  .token.italic {'', ''    font-style: italic;'', ''  }'', [], ''  .token.entity {'', ''    cursor: help;'', ''  }'', [], ''  .token.deleted {'', ''    color: red;'', ''  }'', [], ''  ''],
     ya ''Prism'',
     Txt ['';'', []]]"

definition sc_Mp :: component where
  "sc_Mp = Component ''Mp'' None
    [Txt [[], ''  opacity: 0.7;'', ''  transition: opacity 0.3s ease;'', ''  text-align: right;'', ''  &:focus-within {'', ''    opacity: 1;'', ''  }'', ''  > button {'', ''    background-color: transparent;'', ''    border: 0;'', ''    color: inherit;'', ''    padding: 2px 10px;'', ''    font-family: ''],
     theme_at [''typography'', ''fontFamily''],
     Txt ['';'', ''    font-size: ''],
     theme_at [''typography'', ''fontSize''],
     Txt ['';'', ''    line-height: ''],
     theme_at [''typography'', ''lineHeight''],
     Txt ['';'', ''    cursor: pointer;'', ''    outline: 0;'', [], ''    :hover,'', ''    :focus {'', ''      background: rgba(255, 255, 255, 0.1);'', ''    }'', ''  }'', []]]"

definition sc_Fp :: component where
  "sc_Fp = Component ''Fp'' None
    [Txt [[], ''  &:hover ''],
     Ref ''Mp'',
     Txt ['' {'', ''    opacity: 1;'', ''  }'', []]]"

definition sc_zp :: component where
  "sc_zp = Component ''zp'' (Some sc_Lp)
    [Txt [[], ''  font-family: ''],
     theme_at [''typography'', ''code'', ''fontFamily''],
     Txt ['';'', ''  font-size: ''],
     theme_at [''typography'', ''code'', ''fontSize''],
     Txt ['';'', ''  overflow-x: auto;'', ''  margin: 0;'', [], ''  white-space: ''],
     theme_pick [''typography'', ''code'', ''wrap''] (Txt [''pre-wrap'']) (Txt [''pre'']),
     Txt ['';'', []]]"

section \<open>Nesting\<close>

lemma closed_code_1 [closed_components]:
  assumes "sane R e"
  shows "closed R e sc_Dp"
    "closed R e sc_Dp_small"
    "closed R e sc_Lp"
    "closed R e sc_Mp"
    "closed R e sc_Fp"
    "closed R e sc_zp"
  unfolding sc_Dp_def sc_Dp_small_def sc_Fp_def sc_Lp_def sc_Mp_def sc_zp_def
  by (insert assms, intro closed_base closed_extended; simp add: css_steps quiet_intros cong: text_congs)+

end
