(* ===== verification/Redoc_Text.thy ===== *)
theory Redoc_Text
  imports Redoc_Code
begin

text \<open>
  Dropdowns and rendered Markdown. One definition per template: its name is the
  variable of the bundle, its base the component it extends.
\<close>

definition sc_Sd :: component where
  "sc_Sd = Component ''Sd'' None
    [Txt [[], ''  position: relative;'', []]]"

definition sc_Ad :: component where
  "sc_Ad = Component ''Ad'' None
    [Txt [[], ''  position: absolute;'', ''  pointer-events: none;'', ''  z-index: 1;'', ''  top: 50%;'', ''  -webkit-transform: translateY(-50%);'', ''  -ms-transform: translateY(-50%);'', ''  transform: translateY(-50%);'', ''  right: 8px;'', ''  margin: auto;'', ''  text-align: center;'', ''  polyline {'', ''    color: ''],
     when_eq ''variant'' (Str ''dark'') (Txt [''white'']),
     Txt ['';'', ''  }'', []]]"

definition sc_Cd :: component where
  "sc_Cd = Component ''Cd'' None
    [Txt [[], ''  label {'', ''    box-sizing: border-box;'', ''    min-width: 100px;'', ''    outline: none;'', ''    display: inline-block;'', ''    font-family: ''],
     theme_at [''typography'', ''headings'', ''fontFamily''],
     Txt ['';'', ''    color: ''],
     theme_at [''colors'', ''text'', ''primary''],
     Txt ['';'', ''    vertical-align: bottom;'', ''    width: ''],
     pick ''fullWidth'' (Txt [''100%'']) (Txt [''auto'']),
     Txt ['';'', ''    text-transform: none;'', ''    padding: 0 22px 0 4px;'', [], ''    font-size: 0.929em;'', ''    line-height: 1.5em;'', ''    font-family: inherit;'', ''    text-overflow: ellipsis;'', ''    overflow: hidden;'', ''    white-space: nowrap;'', ''  }'', ''  .dropdown-select {'', ''    position: absolute;'', ''    top: 0;'', ''    left: 0;'', ''    width: 100%;'', ''    height: 100%;'', ''    opacity: 0;'', ''    border: none;'', ''    appearance: none;'', ''    cursor: pointer;'', [], ''    color: ''],
     theme_at [''colors'', ''text'', ''primary''],
     Txt ['';'', ''    line-height: inherit;'', ''    font-family: inherit;'', ''  }'', ''  box-sizing: border-box;'', ''  min-width: 100px;'', ''  outline: none;'', ''  display: inline-block;'', ''  border-radius: 2px;'', ''  border: 1px solid rgba(38, 50, 56, 0.5);'', ''  vertical-align: bottom;'', ''  padding: 2px 0px 2px 6px;'', ''  position: relative;'', ''  width: auto;'', ''  background: white;'', ''  color: #263238;'', ''  font-family: ''],
     theme_at [''typography'', ''headings'', ''fontFamily''],
     Txt ['';'', ''  font-size: 0.929em;'', ''  line-height: 1.5em;'', ''  cursor: pointer;'', ''  transition: border 0.25s ease, color 0.25s ease, box-shadow 0.25s ease;'', [], ''  &:hover,'', ''  &:focus-within {'', ''    border: 1px solid ''],
     theme_at [''colors'', ''primary'', ''main''],
     Txt ['';'', ''    color: ''],
     theme_at [''colors'', ''primary'', ''main''],
     Txt ['';'', ''    box-shadow: 0px 0px 0px 1px ''],
     theme_at [''colors'', ''primary'', ''main''],
     Txt ['';'', ''  }'', []]]"

definition sc_Rd :: component where
  "sc_Rd = Component ''Rd'' (Some sc_Cd)
    [Txt [[], ''  margin-left: 10px;'', ''  text-transform: none;'', ''  font-size: 0.969em;'', [], ''  font-size: 1em;'', ''  border: none;'', ''  padding: 0 1.2em 0 0;'', ''  background: transparent;'', [], ''  &:hover,'', ''  &:focus-within {'', ''    border: none;'', ''    box-shadow: none;'', ''    label {'', ''      color: ''],
     theme_at [''colors'', ''primary'', ''main''],
     Txt ['';'', ''      text-shadow: 0px 0px 0px ''],
     theme_at [''colors'', ''primary'', ''main''],
     Txt ['';'', ''    }'', ''  }'', []]]"

definition sc_jd :: component where
  "sc_jd = Component ''jd'' None
    [Txt [[], ''  margin-left: 10px;'', ''  text-transform: none;'', ''  font-size: 0.929em;'', ''  color: black;'', []]]"

definition css_Cf :: "chunk" where
  "css_Cf = Many
    [Txt [[], ''  a {'', ''    text-decoration: ''],
     theme_at [''typography'', ''links'', ''textDecoration''],
     Txt ['';'', ''    color: ''],
     theme_at [''typography'', ''links'', ''color''],
     Txt ['';'', [], ''    &:visited {'', ''      color: ''],
     theme_at [''typography'', ''links'', ''visited''],
     Txt ['';'', ''    }'', [], ''    &:hover {'', ''      color: ''],
     theme_at [''typography'', ''links'', ''hover''],
     Txt ['';'', ''      text-decoration: ''],
     theme_at [''typography'', ''links'', ''hoverTextDecoration''],
     Txt ['';'', ''    }'', ''  }'', []]]"

definition sc_Rf :: component where
  "sc_Rf = Component ''Rf'' (Some sc_Lp)
    [Txt [[], ''  font-family: ''],
     theme_at [''typography'', ''fontFamily''],
     Txt ['';'', ''  font-weight: ''],
     theme_at [''typography'', ''fontWeightRegular''],
     Txt ['';'', ''  line-height: ''],
     theme_at [''typography'', ''lineHeight''],
     Txt ['';'', [], ''  p {'', ''    &:last-child {'', ''      margin-bottom: 0;'', ''    }'', ''  }'', [], ''  ''],
     when_prop ''compact'' (Txt [[], ''    p:first-child {'', ''      margin-top: 0;'', ''    }'', ''    p:last-child {'', ''      margin-bottom: 0;'', ''    }'', ''  '']),
     Txt [[], [], ''  ''],
     when_prop ''inline'' (Txt ['' p {'', ''    display: inline-block;'', ''  }'']),
     Txt [[], [], ''  h1 {'', ''    ''],
     css_Cu 1,
     Txt ['';'', ''    color: ''],
     theme_at [''colors'', ''primary'', ''main''],
     Txt ['';'', ''    margin-top: 0;'', ''  }'', [], ''  h2 {'', ''    ''],
     css_Cu 2,
     Txt ['';'', ''    color: ''],
     theme_at [''colors'', ''text'', ''primary''],
     Txt ['';'', ''  }'', [], ''  code {'', ''    color: ''],
     theme_at [''typography'', ''code'', ''color''],
     Txt ['';'', ''    background-color: ''],
     theme_at [''typography'', ''code'', ''backgroundColor''],
     Txt ['';'', [], ''    font-family: ''],
     theme_at [''typography'', ''code'', ''fontFamily''],
     Txt ['';'', ''    border-radius: 2px;'', ''    border: 1px solid rgba(38, 50, 56, 0.1);'', ''    padding: 0 ''],
     theme_at [''spacing'', ''unit''],
     Txt [''px;'', ''    font-size: ''],
     theme_at [''typography'', ''code'', ''fontSize''],
     Txt ['';'', ''    font-weight: ''],
     theme_at [''typography'', ''code'', ''fontWeight''],
     Txt ['';'', [], ''    word-break: break-word;'', ''  }'', [], ''  pre {'', ''    font-family: ''],
     theme_at [''typography'', ''code'', ''fontFamily''],
     Txt ['';'', ''    white-space: ''],
     theme_pick [''typography'', ''code'', ''wrap''] (Txt [''pre-wrap'']) (Txt [''pre'']),
     Txt ['';'', ''    background-color: ''],
     theme_at [''codeBlock'', ''backgroundColor''],
     Txt ['';'', ''    color: white;'', ''    padding: ''],
     theme_times 4 [''spacing'', ''unit''],
     Txt [''px;'', ''    overflow-x: auto;'', ''    line-height: normal;'', ''    border-radius: 0px;'', ''    border: 1px solid rgba(38, 50, 56, 0.1);'', [], ''    code {'', ''      background-color: transparent;'', ''      color: white;'', ''      padding: 0;'', [], ''      &:before,'', ''      &:after {'', ''        content: none;'', ''      }'', ''    }'', ''  }'', [], ''  blockquote {'', ''    margin: 0;'', ''    margin-bottom: 1em;'', ''    padding: 0 15px;'', ''    color: #777;'', ''    border-left: 4px solid #ddd;'', ''  }'', [], ''  img {'', ''    max-width: 100%;'', ''    box-sizing: content-box;'', ''  }'', [], ''  ul,'', ''  ol {'', ''    padding-left: 2em;'', ''    margin: 0;'', ''    margin-bottom: 1em;'', [], ''    ul,'', ''    ol {'', ''      margin-bottom: 0;'', ''      margin-top: 0;'', ''    }'', ''  }'', [], ''  table {'', ''    display: block;'', ''    width: 100%;'', ''    overflow: auto;'', ''    word-break: normal;'', ''    word-break: keep-all;'', ''    border-collapse: collapse;'', ''    border-spacing: 0;'', ''    margin-top: 1.5em;'', ''    margin-bottom: 1.5em;'', ''  }'', [], ''  table tr {'', ''    background-color: #fff;'', ''    border-top: 1px solid #ccc;'', [], ''    &:nth-child(2n) {'', ''      background-color: ''],
     theme_at [''schema'', ''nestedBackground''],
     Txt ['';'', ''    }'', ''  }'', [], ''  table th,'', ''  table td {'', ''    padding: 6px 13px;'', ''    border: 1px solid #ddd;'', ''  }'', [], ''  table th {'', ''    text-align: left;'', ''    font-weight: bold;'', ''  }'', [], ''  ''],
     css_Fu ''.share-link'',
     Txt ['';'', [], ''  ''],
     css_Cf,
     Txt [[], [], ''  ''],
     ya ''Markdown'',
     Txt ['';'', []]]"

section \<open>Nesting\<close>

lemma quiet_css_Cf [quiet_intros]: "sane R e \<Longrightarrow> quiet R e (css_Cf)"
  unfolding css_Cf_def by (rule quiet_Many; simp add: css_steps quiet_intros cong: text_congs)

lemma css_Cf_not_literal [simp]: "\<not> literal (css_Cf)"
  by (simp add: css_Cf_def)

lemma closed_text_1 [closed_components]:
  assumes "sane R e"
  shows "closed R e sc_Sd"
    "closed R e sc_Ad"
    "closed R e sc_Cd"
    "closed R e sc_Rd"
    "closed R e sc_jd"
    "closed R e sc_Rf"
  unfolding sc_Ad_def sc_Cd_def sc_Lp_def sc_Rd_def sc_Rf_def sc_Sd_def sc_jd_def
  by (insert assms, intro closed_base closed_extended; simp add: css_steps quiet_intros cong: text_congs)+

end
