(* ===== verification/Redoc_Samples.thy ===== *)
theory Redoc_Samples
  imports Redoc_Text
begin

text \<open>
  Tooltips, the JSON viewer, media type switches of samples. One definition per template: its name is the
  variable of the bundle, its base the component it extends.
\<close>

definition sc_zf :: component where
  "sc_zf = Component ''zf'' None
    [Txt [[], ''  position: relative;'', []]]"

definition sc_Uf :: component where
  "sc_Uf = Component ''Uf'' None
    [Txt [[], ''  position: absolute;'', ''  min-width: 80px;'', ''  max-width: 500px;'', ''  background: #fff;'', ''  bottom: 100%;'', ''  left: 50%;'', ''  margin-bottom: 10px;'', ''  transform: translateX(-50%);'', [], ''  border-radius: 4px;'', ''  padding: 0.3em 0.6em;'', ''  text-align: center;'', ''  box-shadow: 0px 0px 5px 0px rgba(204, 204, 204, 1);'', []]]"

definition sc_Vf :: component where
  "sc_Vf = Component ''Vf'' None
    [Txt [[], ''  background: #fff;'', ''  color: #000;'', ''  display: inline;'', ''  font-size: 0.85em;'', ''  white-space: nowrap;'', []]]"

definition sc_Bf :: component where
  "sc_Bf = Component ''Bf'' None
    [Txt [[], ''  position: absolute;'', ''  width: 0;'', ''  height: 0;'', ''  bottom: -5px;'', ''  left: 50%;'', ''  margin-left: -5px;'', ''  border-left: solid transparent 5px;'', ''  border-right: solid transparent 5px;'', ''  border-top: solid #fff 5px;'', []]]"

definition sc_qf :: component where
  "sc_qf = Component ''qf'' None
    [Txt [[], ''  position: absolute;'', ''  width: 100%;'', ''  height: 20px;'', ''  bottom: -20px;'', []]]"

definition css_nh :: "chunk" where
  "css_nh = Many
    [Txt [[], ''  .redoc-json code > .collapser {'', ''    display: none;'', ''    pointer-events: none;'', ''  }'', [], ''  font-family: ''],
     theme_at [''typography'', ''code'', ''fontFamily''],
     Txt ['';'', ''  font-size: ''],
     theme_at [''typography'', ''code'', ''fontSize''],
     Txt ['';'', [], ''  white-space: ''],
     theme_pick [''typography'', ''code'', ''wrap''] (Txt [''pre-wrap'']) (Txt [''pre'']),
     Txt ['';'', ''  contain: content;'', ''  overflow-x: auto;'', [], ''  .callback-function {'', ''    color: gray;'', ''  }'', [], ''  .collapser:after {'', ''    content: '-';'', ''    cursor: pointer;'', ''  }'', [], ''  .collapsed > .collapser:after {'', ''    content: '+';'', ''    cursor: pointer;'', ''  }'', [], ''  .ellipsis:after {'', ''    content: ' '' @ [CHR 0xE2] @ [CHR 0x80] @ [CHR 0xA6] @ '' ';'', ''  }'', [], ''  .collapsible {'', ''    margin-left: 2em;'', ''  }'', [], ''  .hoverable {'', ''    padding-top: 1px;'', ''    padding-bottom: 1px;'', ''    padding-left: 2px;'', ''    padding-right: 2px;'', ''    border-radius: 2px;'', ''  }'', [], ''  .hovered {'', ''    background-color: rgba(235, 238, 249, 1);'', ''  }'', [], ''  .collapser {'', ''    background-color: transparent;'', ''    border: 0;'', ''    color: #fff;'', ''    font-family: ''],
     theme_at [''typography'', ''code'', ''fontFamily''],
     Txt ['';'', ''    font-size: ''],
     theme_at [''typography'', ''code'', ''fontSize''],
     Txt ['';'', ''    padding-right: 6px;'', ''    padding-left: 6px;'', ''    padding-top: 0;'', ''    padding-bottom: 0;'', ''    display: flex;'', ''    align-items: center;'', ''    justify-content: center;'', ''    width: 15px;'', ''    height: 15px;'', ''    position: absolute;'', ''    top: 4px;'', ''    left: -1.5em;'', ''    cursor: default;'', ''    user-select: none;'', ''    -webkit-user-select: none;'', ''    padding: 2px;'', ''    &:focus {'', ''      outline-color: #fff;'', ''      outline-style: dotted;'', ''      outline-width: 1px;'', ''    }'', ''  }'', [], ''  ul {'', ''    list-style-type: none;'', ''    padding: 0px;'', ''    margin: 0px 0px 0px 26px;'', ''  }'', [], ''  li {'', ''    position: relative;'', ''    display: block;'', ''  }'', [], ''  .hoverable {'', ''    display: inline-block;'', ''  }'', [], ''  .selected {'', ''    outline-style: solid;'', ''    outline-width: 1px;'', ''    outline-style: dotted;'', ''  }'', [], ''  .collapsed > .collapsible {'', ''    display: none;'', ''  }'', [], ''  .ellipsis {'', ''    display: none;'', ''  }'', [], ''  .collapsed > .ellipsis {'', ''    display: inherit;'', ''  }'', []]]"

definition sc_rh :: component where
  "sc_rh = Component ''rh'' None
    [Txt [[], ''  &:hover > ''],
     Ref ''Mp'',
     Txt ['' {'', ''    opacity: 1;'', ''  }'', []]]"

definition sc_oh :: component where
  "sc_oh = Component ''oh'' None
    [Txt [[], ''  ''],
     css_nh,
     Txt ['';'', []]]"

definition sc_uh :: component where
  "sc_uh = Component ''uh'' None
    [Txt [[], ''  padding: 0.9em;'', ''  background-color: ''],
     tinted_at rt_transparentize (\<lambda>_. Some (Dec ''0.6'')) [''rightPanel'', ''backgroundColor''],
     Txt ['';'', ''  margin: 0 0 10px 0;'', ''  display: block;'', ''  font-family: ''],
     theme_at [''typography'', ''headings'', ''fontFamily''],
     Txt ['';'', ''  font-size: 0.929em;'', ''  line-height: 1.5em;'', []]]"

definition sc_ph :: component where
  "sc_ph = Component ''ph'' None
    [Txt [[], ''  font-family: ''],
     theme_at [''typography'', ''headings'', ''fontFamily''],
     Txt ['';'', ''  font-size: 12px;'', ''  position: absolute;'', ''  z-index: 1;'', ''  top: -11px;'', ''  left: 12px;'', ''  font-weight: ''],
     theme_at [''typography'', ''fontWeightBold''],
     Txt ['';'', ''  color: ''],
     tinted_at rt_transparentize (\<lambda>_. Some (Dec ''0.3'')) [''rightPanel'', ''textColor''],
     Txt ['';'', []]]"

definition sc_dh :: component where
  "sc_dh = Component ''dh'' None
    [Txt [[], ''  position: relative;'', []]]"

definition sc_fh :: component where
  "sc_fh = Component ''fh'' (Some sc_Cd)
    [Txt [[], ''  label {'', ''    color: ''],
     theme_at [''rightPanel'', ''textColor''],
     Txt ['';'', ''    text-overflow: ellipsis;'', ''    white-space: nowrap;'', ''    overflow: hidden;'', ''    font-size: 1em;'', ''    text-transform: none;'', ''    border: none;'', ''  }'', ''  margin: 0 0 10px 0;'', ''  display: block;'', ''  background-color: ''],
     tinted_at rt_transparentize (\<lambda>_. Some (Dec ''0.6'')) [''rightPanel'', ''backgroundColor''],
     Txt ['';'', ''  border: none;'', ''  padding: 0.9em 1.6em 0.9em 0.9em;'', ''  box-shadow: none;'', ''  &:hover,'', ''  &:focus-within {'', ''    border: none;'', ''    box-shadow: none;'', ''    background-color: ''],
     tinted_at rt_transparentize (\<lambda>_. Some (Dec ''0.3'')) [''rightPanel'', ''backgroundColor''],
     Txt ['';'', ''  }'', []]]"

definition sc_hh :: component where
  "sc_hh = Component ''hh'' None
    [Txt [[], ''  font-family: ''],
     theme_at [''typography'', ''code'', ''fontFamily''],
     Txt ['';'', ''  font-size: 12px;'', ''  color: #ee807f;'', []]]"

definition sc_gh :: component where
  "sc_gh = Component ''gh'' None
    [Txt [[], ''  margin-top: 15px;'', []]]"

section \<open>Nesting\<close>

lemma quiet_css_nh [quiet_intros]: "sane R e \<Longrightarrow> quiet R e (css_nh)"
  unfolding css_nh_def by (rule quiet_Many; simp add: css_steps quiet_intros cong: text_congs)

lemma css_nh_not_literal [simp]: "\<not> literal (css_nh)"
  by (simp add: css_nh_def)

lemma closed_samples_1 [closed_components]:
  assumes "sane R e"
  shows "closed R e sc_zf"
    "closed R e sc_Uf"
    "closed R e sc_Vf"
    "closed R e sc_Bf"
    "closed R e sc_qf"
    "closed R e sc_rh"
  unfolding sc_Bf_def sc_Uf_def sc_Vf_def sc_qf_def sc_rh_def sc_zf_def
  by (insert assms, intro closed_base closed_extended; simp add: css_steps quiet_intros cong: text_congs)+

lemma closed_samples_2 [closed_components]:
  assumes "sane R e"
  shows "closed R e sc_oh"
    "closed R e sc_uh"
    "closed R e sc_ph"
    "closed R e sc_dh"
    "closed R e sc_fh"
    "closed R e sc_hh"
  unfolding sc_Cd_def sc_dh_def sc_fh_def sc_hh_def sc_oh_def sc_ph_def sc_uh_def
  by (insert assms, intro closed_base closed_extended; simp add: css_steps quiet_intros cong: text_congs)+

lemma closed_samples_3 [closed_components]:
  assumes "sane R e"
  shows "closed R e sc_gh"
  unfolding sc_gh_def
  by (insert assms, intro closed_base closed_extended; simp add: css_steps quiet_intros cong: text_congs)+

end
