(* ===== verification/Redoc_Schema.thy ===== *)
theory Redoc_Schema
  imports Redoc_Samples
begin

text \<open>
  Fields, types, constraints and examples of schemas; security requirements. One definition per template: its name is the
  variable of the bundle, its base the component it extends.
\<close>

definition sc_am :: component where
  "sc_am = Component ''am'' (Some sc_Gu)
    [Txt [[], ''  button {'', ''    background-color: transparent;'', ''    border: 0;'', ''    outline: 0;'', ''    font-size: 13px;'', ''    font-family: ''],
     theme_at [''typography'', ''code'', ''fontFamily''],
     Txt ['';'', ''    cursor: pointer;'', ''    padding: 0;'', ''    color: ''],
     theme_at [''colors'', ''text'', ''primary''],
     Txt ['';'', ''    &:focus {'', ''      font-weight: ''],
     theme_at [''typography'', ''fontWeightBold''],
     Txt ['';'', ''    }'', ''    ''],
     when_eq ''kind'' (Str ''patternProperties'') (Many [Txt [[], ''        display: inline-flex;'', ''        margin-right: 20px;'', [], ''        > span.property-name {'', ''          white-space: break-spaces;'', ''          text-align: left;'', [], ''          ::before,'', ''          ::after {'', ''            content: '/';'', ''            filter: opacity(0.2);'', ''          }'', ''        }'', [], ''        > svg {'', ''          align-self: center;'', ''        }'', ''      '']]),
     Txt [[], ''  }'', ''  ''],
     Ref ''Bu'',
     Txt ['' {'', ''    height: ''],
     theme_at [''schema'', ''arrow'', ''size''],
     Txt ['';'', ''    width: ''],
     theme_at [''schema'', ''arrow'', ''size''],
     Txt ['';'', ''    polygon {'', ''      fill: ''],
     theme_at [''schema'', ''arrow'', ''color''],
     Txt ['';'', ''    }'', ''  }'', []]]"

definition sc_sm :: component where
  "sc_sm = Component ''sm'' None
    [Txt [[], ''  vertical-align: middle;'', ''  font-size: ''],
     theme_at [''typography'', ''code'', ''fontSize''],
     Txt ['';'', ''  line-height: 20px;'', []]]"

definition sc_lm :: component where
  "sc_lm = Component ''lm'' (Some sc_sm)
    [Txt [[], ''  color: ''],
     tinted_at rt_transparentize (\<lambda>_. Some (Dec ''0.1'')) [''schema'', ''typeNameColor''],
     Txt ['';'', []]]"

definition sc_cm :: component where
  "sc_cm = Component ''cm'' (Some sc_sm)
    [Txt [[], ''  color: ''],
     theme_at [''schema'', ''typeNameColor''],
     Txt ['';'', []]]"

definition sc_um :: component where
  "sc_um = Component ''um'' (Some sc_sm)
    [Txt [[], ''  color: ''],
     theme_at [''schema'', ''typeTitleColor''],
     Txt ['';'', ''  word-break: break-word;'', []]]"

definition sc_dm :: component where
  "sc_dm = Component ''dm'' (Some sc_sm)
    [Txt [[], ''  color: ''],
     theme_at [''schema'', ''requireLabelColor''],
     Txt ['';'', ''  font-size: ''],
     theme_at [''schema'', ''labelsTextSize''],
     Txt ['';'', ''  font-weight: normal;'', ''  margin-left: 20px;'', ''  line-height: 1;'', []]]"

definition sc_fm :: component where
  "sc_fm = Component ''fm'' (Some sc_dm)
    [Txt [[], ''  color: ''],
     theme_at [''colors'', ''primary'', ''light''],
     Txt ['';'', []]]"

definition sc_hm :: component where
  "sc_hm = Component ''hm'' (Some sc_sm)
    [Txt [[], ''  color: ''],
     theme_at [''colors'', ''warning'', ''main''],
     Txt ['';'', ''  font-size: 13px;'', []]]"

definition sc_mm :: component where
  "sc_mm = Component ''mm'' (Some sc_sm)
    [Txt [[], ''  color: #0e7c86;'', ''  &::before,'', ''  &::after {'', ''    font-weight: bold;'', ''  }'', []]]"

definition sc_gm :: component where
  "sc_gm = Component ''gm'' (Some sc_sm)
    [Txt [[], ''  border-radius: 2px;'', ''  word-break: break-word;'', ''  ''],
     example_colours,
     Txt ['';'', ''  & + & {'', ''    margin-left: 0;'', ''  }'', ''  ''],
     ya ''ExampleValue'',
     Txt ['';'', []]]"

definition sc_ym :: component where
  "sc_ym = Component ''ym'' (Some sc_gm)
    []"

definition sc_vm :: component where
  "sc_vm = Component ''vm'' (Some sc_sm)
    [Txt [[], ''  border-radius: 2px;'', ''  ''],
     constraint_colours,
     Txt ['';'', ''  & + & {'', ''    margin-left: 0;'', ''  }'', ''  ''],
     ya ''ConstraintItem'',
     Txt ['';'', []]]"

definition sc_bm :: component where
  "sc_bm = Component ''bm'' None
    [Txt [[], ''  background-color: transparent;'', ''  border: 0;'', ''  color: ''],
     theme_at [''colors'', ''text'', ''secondary''],
     Txt ['';'', ''  margin-left: ''],
     theme_at [''spacing'', ''unit''],
     Txt [''px;'', ''  border-radius: 2px;'', ''  cursor: pointer;'', ''  outline-color: ''],
     theme_at [''colors'', ''text'', ''secondary''],
     Txt ['';'', ''  font-size: 12px;'', []]]"

definition sc_wm :: component where
  "sc_wm = Component ''wm'' None
    [Txt [[], ''  ''],
     css_Cf,
     Txt ['';'', ''  ''],
     pick ''compact'' (Txt [[]]) (Txt [''margin: 1em 0'']),
     Txt [[], []]]"

definition sc_u_m :: component where
  "sc_u_m = Component ''_m'' None
    [Txt [[], ''  color: ''],
     theme_at [''colors'', ''primary'', ''main''],
     Txt ['';'', ''  vertical-align: middle;'', ''  font-size: 13px;'', ''  line-height: 20px;'', ''  padding: 0 5px;'', ''  cursor: pointer;'', []]]"

definition sc_Om :: component where
  "sc_Om = Component ''Om'' (Some sc_Rf)
    [Txt [[], ''  margin: 2px 0;'', []]]"

definition sc_Pm :: component where
  "sc_Pm = Component ''Pm'' None
    [Txt [[], ''  margin-top: 1em;'', ''  list-style-position: outside;'', []]]"

definition sc_jm :: component where
  "sc_jm = Component ''jm'' (Some sc_lm)
    [Txt [[], ''  margin: 0 5px;'', ''  vertical-align: text-top;'', []]]"

definition sc_og :: component where
  "sc_og = Component ''og'' None
    [Txt [[], ''  padding-left: ''],
     theme_times 2 [''spacing'', ''unit''],
     Txt [''px;'', []]]"

definition sc_Dg :: component where
  "sc_Dg = Component ''Dg'' None
    [Txt [[], ''  background: ''],
     theme_at [''codeBlock'', ''backgroundColor''],
     Txt ['';'', ''  & > div,'', ''  & > pre {'', ''    padding: ''],
     theme_times 4 [''spacing'', ''unit''],
     Txt [''px;'', ''    margin: 0;'', ''  }'', [], ''  & > div > pre {'', ''    padding: 0;'', ''  }'', []]]"

definition sc_div_gray :: component where
  "sc_div_gray = Component ''div_gray'' None
    [Txt [[], ''  background-color: #e4e7eb;'', []]]"

definition sc_ul_commas :: component where
  "sc_ul_commas = Component ''ul_commas'' None
    [Txt [[], ''  display: inline;'', ''  list-style: none;'', ''  padding: 0;'', [], ''  li {'', ''    display: inherit;'', [], ''    &:after {'', ''      content: ',';'', ''    }'', ''    &:last-child:after {'', ''      content: none;'', ''    }'', ''  }'', []]]"

definition sc_Lg :: component where
  "sc_Lg = Component ''Lg'' None
    [Txt [[], ''  font-size: ''],
     theme_at [''typography'', ''code'', ''fontSize''],
     Txt ['';'', ''  font-family: ''],
     theme_at [''typography'', ''code'', ''fontFamily''],
     Txt ['';'', ''  margin: 0 3px;'', ''  padding: 0.2em;'', ''  display: inline-block;'', ''  line-height: 1;'', [], ''  &:after {'', ''    content: ',';'', ''    font-weight: normal;'', ''  }'', [], ''  &:last-child:after {'', ''    content: none;'', ''  }'', []]]"

definition sc_Mg :: component where
  "sc_Mg = Component ''Mg'' None
    [Txt [[], ''  &:after {'', ''    content: ' and ';'', ''    font-weight: normal;'', ''  }'', [], ''  &:last-child:after {'', ''    content: none;'', ''  }'', [], ''  ''],
     css_Cf,
     Txt ['';'', []]]"

definition sc_Fg :: component where
  "sc_Fg = Component ''Fg'' None
    [Txt [[], ''  ''],
     unless_prop ''expanded'' (Txt [''white-space: nowrap;'']),
     Txt [[], ''  &:after {'', ''    content: ' or ';'', ''    ''],
     when_prop ''expanded'' (Txt [''content: ' or '' @ [CHR 0x5C] @ ''a';'']),
     Txt [[], ''    white-space: pre;'', ''  }'', [], ''  &:last-child:after,'', ''  &:only-child:after {'', ''    content: none;'', ''  }'', [], ''  ''],
     css_Cf,
     Txt ['';'', []]]"

definition sc_zg :: component where
  "sc_zg = Component ''zg'' None
    [Txt [[], ''  flex: 1 1 auto;'', ''  cursor: pointer;'', []]]"

definition sc_Ug :: component where
  "sc_Ug = Component ''Ug'' None
    [Txt [[], ''  width: ''],
     theme_at [''schema'', ''defaultDetailsWidth''],
     Txt ['';'', ''  text-overflow: ellipsis;'', ''  border-radius: 4px;'', ''  overflow: hidden;'', ''  ''],
     flow_details,
     Txt ['';'', ''  ''],
     ma ''small'' False [] [Txt [[], ''    margin-top: 10px;'', ''  '']],
     Txt [[], []]]"

definition sc_Vg :: component where
  "sc_Vg = Component ''Vg'' (Some sc_Iu)
    [Txt [[], ''  display: inline-block;'', ''  margin: 0;'', []]]"

definition sc_Bg :: component where
  "sc_Bg = Component ''Bg'' None
    [Txt [[], ''  width: 100%;'', ''  display: flex;'', ''  margin: 1em 0;'', ''  flex-direction: ''],
     pick ''expanded'' (Txt [''column'']) (Txt [''row'']),
     Txt ['';'', ''  ''],
     ma ''small'' False [] [Txt [[], ''    flex-direction: column;'', ''  '']],
     Txt [[], []]]"

definition sc_qg :: component where
  "sc_qg = Component ''qg'' None
    [Txt [[], ''  margin: 0.5em 0;'', []]]"

definition sc_Wg :: component where
  "sc_Wg = Component ''Wg'' None
    [Txt [[], ''  border-bottom: 1px solid ''],
     theme_at [''colors'', ''border'', ''dark''],
     Txt ['';'', ''  margin-bottom: 1.5em;'', ''  padding-bottom: 0.7em;'', [], ''  h5 {'', ''    line-height: 1em;'', ''    margin: 0 0 0.6em;'', ''    font-size: ''],
     theme_at [''typography'', ''fontSize''],
     Txt ['';'', ''  }'', [], ''  .redoc-markdown p:first-child {'', ''    display: inline;'', ''  }'', []]]"

definition sc_Yg :: component where
  "sc_Yg = Component ''Yg'' None
    [Txt [[], ''  overflow-y: hidden;'', []]]"

definition sc_Kg :: component where
  "sc_Kg = Component ''Kg'' None
    [Txt [[], ''  text-align: center;'', ''  line-height: 1.5em;'', ''  ''],
     when_prop ''dimmed'' (Txt [''background-image: linear-gradient(to bottom, transparent,rgb(255 255 255));'', ''     position: relative;'', ''     top: -0.5em;'', ''     padding-top: 0.5em;'', ''     background-position-y: -1em;'', ''    '']),
     Txt [[], []]]"

definition sc_Gg :: component where
  "sc_Gg = Component ''Gg'' None
    [Txt [[], ''  cursor: pointer;'', []]]"

section \<open>Nesting\<close>

lemma closed_schema_1 [closed_components]:
  assumes "sane R e"
  shows "closed R e sc_am"
    "closed R e sc_sm"
    "closed R e sc_lm"
    "closed R e sc_cm"
    "closed R e sc_um"
    "closed R e sc_dm"
  unfolding sc_Gu_def sc_Yu_def sc_am_def sc_cm_def sc_dm_def sc_lm_def sc_sm_def sc_um_def
  by (insert assms, intro closed_base closed_extended; simp add: css_steps quiet_intros cong: text_congs)+

lemma closed_schema_2 [closed_components]:
  assumes "sane R e"
  shows "closed R e sc_fm"
    "closed R e sc_hm"
    "closed R e sc_mm"
    "closed R e sc_bm"
    "closed R e sc_wm"
    "closed R e sc_u_m"
  unfolding sc_bm_def sc_dm_def sc_fm_def sc_hm_def sc_mm_def sc_sm_def sc_u_m_def sc_wm_def
  by (insert assms, intro closed_base closed_extended; simp add: css_steps quiet_intros cong: text_congs)+

lemma closed_schema_3 [closed_components]:
  assumes "sane R e"
  shows "closed R e sc_Om"
    "closed R e sc_Pm"
    "closed R e sc_jm"
    "closed R e sc_og"
    "closed R e sc_Dg"
    "closed R e sc_div_gray"
  unfolding sc_Dg_def sc_Lp_def sc_Om_def sc_Pm_def sc_Rf_def sc_div_gray_def sc_jm_def sc_lm_def sc_og_def sc_sm_def
  by (insert assms, intro closed_base closed_extended; simp add: css_steps quiet_intros cong: text_congs)+

lemma closed_schema_4 [closed_components]:
  assumes "sane R e"
  shows "closed R e sc_ul_commas"
    "closed R e sc_Lg"
    "closed R e sc_Mg"
    "closed R e sc_Fg"
    "closed R e sc_zg"
    "closed R e sc_Ug"
  unfolding sc_Fg_def sc_Lg_def sc_Mg_def sc_Ug_def sc_ul_commas_def sc_zg_def
  by (insert assms, intro closed_base closed_extended; simp add: css_steps quiet_intros cong: text_congs)+

lemma closed_schema_5 [closed_components]:
  assumes "sane R e"
  shows "closed R e sc_Vg"
    "closed R e sc_Bg"
    "closed R e sc_qg"
    "closed R e sc_Wg"
    "closed R e sc_Yg"
    "closed R e sc_Kg"
  unfolding sc_Bg_def sc_Iu_def sc_Kg_def sc_Vg_def sc_Wg_def sc_Yg_def sc_qg_def
  by (insert assms, intro closed_base closed_extended; simp add: css_steps quiet_intros cong: text_congs)+

lemma closed_schema_6 [closed_components]:
  assumes "sane R e"
  shows "closed R e sc_Gg"
  unfolding sc_Gg_def
  by (insert assms, intro closed_base closed_extended; simp add: css_steps quiet_intros cong: text_congs)+

end
