(* ===== verification/Redoc_Menu.thy ===== *)
theory Redoc_Menu
  imports Redoc_Schema
begin

text \<open>
  Header of the API, logo and the menu. One definition per template: its name is the
  variable of the bundle, its base the component it extends.
\<close>

definition sc_ny :: component where
  "sc_ny = Component ''ny'' (Some sc_Ru)
    [Txt [[], ''  margin-top: 0;'', ''  margin-bottom: 0.5em;'', [], ''  ''],
     ya ''ApiHeader'',
     Txt ['';'', []]]"

definition sc_ry :: component where
  "sc_ry = Component ''ry'' None
    [Txt [[], ''  border: 1px solid ''],
     theme_at [''colors'', ''primary'', ''main''],
     Txt ['';'', ''  color: ''],
     theme_at [''colors'', ''primary'', ''main''],
     Txt ['';'', ''  font-weight: normal;'', ''  margin-left: 0.5em;'', ''  padding: 4px 8px 4px;'', ''  display: inline-block;'', ''  text-decoration: none;'', ''  cursor: pointer;'', [], ''  ''],
     ya ''DownloadButton'',
     Txt ['';'', []]]"

definition sc_oy :: component where
  "sc_oy = Component ''oy'' None
    [Txt [[], ''  &::before {'', ''    content: '|';'', ''    display: inline-block;'', ''    opacity: 0.5;'', ''    width: ''],
     Val (Num 15),
     Txt [''px;'', ''    text-align: center;'', ''  }'', [], ''  &:last-child::after {'', ''    display: none;'', ''  }'', []]]"

definition sc_iy :: component where
  "sc_iy = Component ''iy'' None
    [Txt [[], ''  overflow: hidden;'', []]]"

definition sc_ay :: component where
  "sc_ay = Component ''ay'' None
    [Txt [[], ''  display: flex;'', ''  flex-wrap: wrap;'', ''  // hide separator on new lines: idea from https://stackoverflow.com/a/31732902/1749888'', ''  margin-left: -''],
     Val (Num 15),
     Txt [''px;'', []]]"

definition sc_ly :: component where
  "sc_ly = Component ''ly'' None
    [Txt [[], ''  max-height: ''],
     theme_at [''logo'', ''maxHeight''],
     Txt ['';'', ''  max-width: ''],
     theme_at [''logo'', ''maxWidth''],
     Txt ['';'', ''  padding: ''],
     theme_at [''logo'', ''gutter''],
     Txt ['';'', ''  width: 100%;'', ''  display: block;'', []]]"

definition sc_cy :: component where
  "sc_cy = Component ''cy'' None
    [Txt [[], ''  text-align: center;'', []]]"

definition sc_uy :: component where
  "sc_uy = Component ''uy'' None
    [Txt [[], ''  display: inline-block;'', []]]"

definition sc_xy :: component where
  "sc_xy = Component ''xy'' None
    [Txt [[], ''  width: 9ex;'', ''  display: inline-block;'', ''  height: ''],
     theme_at [''typography'', ''code'', ''fontSize''],
     Txt ['';'', ''  line-height: ''],
     theme_at [''typography'', ''code'', ''fontSize''],
     Txt ['';'', ''  background-color: #333;'', ''  border-radius: 3px;'', ''  background-repeat: no-repeat;'', ''  background-position: 6px 4px;'', ''  font-size: 7px;'', ''  font-family: Verdana, sans-serif; // web-safe'', ''  color: white;'', ''  text-transform: uppercase;'', ''  text-align: center;'', ''  font-weight: bold;'', ''  vertical-align: middle;'', ''  margin-right: 6px;'', ''  margin-top: 2px;'', [], ''  &.get {'', ''    background-color: ''],
     theme_at [''colors'', ''http'', ''get''],
     Txt ['';'', ''  }'', [], ''  &.post {'', ''    background-color: ''],
     theme_at [''colors'', ''http'', ''post''],
     Txt ['';'', ''  }'', [], ''  &.put {'', ''    background-color: ''],
     theme_at [''colors'', ''http'', ''put''],
     Txt ['';'', ''  }'', [], ''  &.options {'', ''    background-color: ''],
     theme_at [''colors'', ''http'', ''options''],
     Txt ['';'', ''  }'', [], ''  &.patch {'', ''    background-color: ''],
     theme_at [''colors'', ''http'', ''patch''],
     Txt ['';'', ''  }'', [], ''  &.delete {'', ''    background-color: ''],
     theme_at [''colors'', ''http'', ''delete''],
     Txt ['';'', ''  }'', [], ''  &.basic {'', ''    background-color: ''],
     theme_at [''colors'', ''http'', ''basic''],
     Txt ['';'', ''  }'', [], ''  &.link {'', ''    background-color: ''],
     theme_at [''colors'', ''http'', ''link''],
     Txt ['';'', ''  }'', [], ''  &.head {'', ''    background-color: ''],
     theme_at [''colors'', ''http'', ''head''],
     Txt ['';'', ''  }'', [], ''  &.hook {'', ''    background-color: ''],
     theme_at [''colors'', ''primary'', ''main''],
     Txt ['';'', ''  }'', []]]"

definition sc_u_y :: component where
  "sc_u_y = Component ''_y'' None
    [Txt [[], ''  margin: 0;'', ''  padding: 0;'', [], ''  & & {'', ''    font-size: 0.929em;'', ''  }'', [], ''  ''],
     pick ''expanded'' (Txt [[]]) (Txt [''display: none;'']),
     Txt ['';'', []]]"

definition sc_Oy :: component where
  "sc_Oy = Component ''Oy'' None
    [Txt [[], ''  list-style: none inside none;'', ''  overflow: hidden;'', ''  text-overflow: ellipsis;'', ''  padding: 0;'', ''  ''],
     pick_eq ''depth'' (Num 0) (Txt [''margin-top: 15px'']) (Txt [[]]),
     Txt ['';'', []]]"

definition sc_Ey :: component where
  "sc_Ey = Component ''Ey'' None
    [Txt [[], ''  cursor: pointer;'', ''  color: ''],
     pick ''active'' (ky_at ''activeTextColor'') (theme_at [''sidebar'', ''textColor'']),
     Txt ['';'', ''  margin: 0;'', ''  padding: 12.5px ''],
     theme_times 4 [''spacing'', ''unit''],
     Txt [''px;'', ''  ''],
     menu_padding,
     Txt [[], ''  display: flex;'', ''  justify-content: space-between;'', ''  font-family: ''],
     theme_at [''typography'', ''headings'', ''fontFamily''],
     Txt ['';'', ''  ''],
     Sy_at,
     Txt ['';'', ''  background-color: ''],
     pick ''active'' (ky_at ''activeBackgroundColor'') (theme_at [''sidebar'', ''backgroundColor'']),
     Txt ['';'', [], ''  ''],
     pick ''deprecated'' css_Wu (Txt [[]]),
     Txt ['';'', [], ''  &:hover {'', ''    color: ''],
     ky_at ''activeTextColor'',
     Txt ['';'', ''    background-color: ''],
     ky_at ''activeBackgroundColor'',
     Txt ['';'', ''  }'', [], ''  ''],
     Ref ''Bu'',
     Txt ['' {'', ''    height: ''],
     theme_at [''sidebar'', ''arrow'', ''size''],
     Txt ['';'', ''    width: ''],
     theme_at [''sidebar'', ''arrow'', ''size''],
     Txt ['';'', ''    polygon {'', ''      fill: ''],
     theme_at [''sidebar'', ''arrow'', ''color''],
     Txt ['';'', ''    }'', ''  }'', []]]"

definition sc_Py :: component where
  "sc_Py = Component ''Py'' None
    [Txt [[], ''  display: inline-block;'', ''  vertical-align: middle;'', ''  width: ''],
     pick ''width'' (prop_at ''width'') (Txt [''auto'']),
     Txt ['';'', ''  overflow: hidden;'', ''  text-overflow: ellipsis;'', []]]"

definition sc_Ay :: component where
  "sc_Ay = Component ''Ay'' None
    [Txt [[], ''  ''],
     attribution,
     Txt ['';'', ''  img {'', ''    width: 15px;'', ''    margin-right: 5px;'', ''  }'', [], ''  ''],
     ma ''small'' False [] [Txt [[], ''    width: 100%;'', ''  '']],
     Txt ['';'', []]]"

definition sc_d_y :: component where
  "sc_d_y = Component ''$y'' None
    [Txt [[], ''  border: 0;'', ''  width: 100%;'', ''  text-align: left;'', ''  & > * {'', ''    vertical-align: middle;'', ''  }'', [], ''  ''],
     Ref ''Bu'',
     Txt ['' {'', ''    polygon {'', ''      fill: ''],
     tinted_at rt_darken (js_path [''colors'', ''tonalOffset'']) [''colors'', ''gray'', ''100''],
     Txt ['';'', ''    }'', ''  }'', []]]"

definition sc_Cy :: component where
  "sc_Cy = Component ''Cy'' None
    [Txt [[], ''  text-decoration: ''],
     pick ''deprecated'' (Txt [''line-through'']) (Txt [''none'']),
     Txt ['';'', ''  margin-right: 8px;'', []]]"

definition sc_Ry :: component where
  "sc_Ry = Component ''Ry'' (Some sc_xy)
    [Txt [[], ''  margin: 0 5px 0 0;'', []]]"

definition sc_jy :: component where
  "sc_jy = Component ''jy'' None
    [Txt [[], ''  padding: 10px;'', ''  border-radius: 2px;'', ''  margin-bottom: 4px;'', ''  line-height: 1.5em;'', ''  background-color: ''],
     theme_at [''colors'', ''gray'', ''100''],
     Txt ['';'', ''  cursor: pointer;'', ''  outline-color: ''],
     tinted_at rt_darken (js_path [''colors'', ''tonalOffset'']) [''colors'', ''gray'', ''100''],
     Txt ['';'', []]]"

section \<open>Nesting\<close>

lemma closed_menu_1 [closed_components]:
  assumes "sane R e"
  shows "closed R e sc_ny"
    "closed R e sc_ry"
    "closed R e sc_oy"
    "closed R e sc_iy"
    "closed R e sc_ay"
    "closed R e sc_ly"
  unfolding sc_Ru_def sc_ay_def sc_iy_def sc_ly_def sc_ny_def sc_oy_def sc_ry_def
  by (insert assms, intro closed_base closed_extended; simp add: css_steps quiet_intros cong: text_congs)+

lemma closed_menu_2 [closed_components]:
  assumes "sane R e"
  shows "closed R e sc_cy"
    "closed R e sc_uy"
    "closed R e sc_xy"
    "closed R e sc_u_y"
    "closed R e sc_Oy"
    "closed R e sc_Ey"
  unfolding sc_Ey_def sc_Oy_def sc_cy_def sc_u_y_def sc_uy_def sc_xy_def
  by (insert assms, intro closed_base closed_extended; simp add: css_steps quiet_intros cong: text_congs)+

lemma closed_menu_3 [closed_components]:
  assumes "sane R e"
  shows "closed R e sc_Py"
    "closed R e sc_Ay"
    "closed R e sc_d_y"
    "closed R e sc_Cy"
    "closed R e sc_Ry"
    "closed R e sc_jy"
  unfolding sc_Ay_def sc_Cy_def sc_Py_def sc_Ry_def sc_d_y_def sc_jy_def sc_xy_def
  by (insert assms, intro closed_base closed_extended; simp add: css_steps quiet_intros cong: text_congs)+

end
