(* ===== verification/Redoc_Page.thy ===== *)
theory Redoc_Page
  imports Redoc_Menu
begin

text \<open>
  Operations, servers, responses, the side bar, the page and the search box. One definition per template: its name is the
  variable of the bundle, its base the component it extends.
\<close>

definition sc_Ty :: component where
  "sc_Ty = Component ''Ty'' None
    [Txt [[], ''  padding: 10px 25px;'', ''  background-color: ''],
     theme_at [''colors'', ''gray'', ''50''],
     Txt ['';'', ''  margin-bottom: 5px;'', ''  margin-top: 5px;'', []]]"

definition sc_Ny :: component where
  "sc_Ny = Component ''Ny'' None
    [Txt [[], ''  cursor: pointer;'', ''  position: relative;'', ''  margin-bottom: 5px;'', []]]"

definition sc_Dy :: component where
  "sc_Dy = Component ''Dy'' None
    [Txt [[], ''  font-family: ''],
     theme_at [''typography'', ''code'', ''fontFamily''],
     Txt ['';'', ''  margin-left: 10px;'', ''  flex: 1;'', ''  overflow-x: hidden;'', ''  text-overflow: ellipsis;'', []]]"

definition sc_Ly :: component where
  "sc_Ly = Component ''Ly'' None
    [Txt [[], ''  outline: 0;'', ''  color: inherit;'', ''  width: 100%;'', ''  text-align: left;'', ''  cursor: pointer;'', ''  padding: 10px 30px 10px ''],
     pick ''inverted'' (Txt [''10px'']) (Txt [''20px'']),
     Txt ['';'', ''  border-radius: ''],
     pick ''inverted'' (Txt [''0'']) (Txt [''4px 4px 0 0'']),
     Txt ['';'', ''  background-color: ''],
     pick ''inverted'' (Txt [''transparent'']) (theme_at [''codeBlock'', ''backgroundColor'']),
     Txt ['';'', ''  display: flex;'', ''  white-space: nowrap;'', ''  align-items: center;'', ''  border: ''],
     pick ''inverted'' (Txt [''0'']) (Txt [''1px solid transparent'']),
     Txt ['';'', ''  border-bottom: ''],
     pick ''inverted'' (Txt [''1px solid #ccc'']) (Txt [''0'']),
     Txt ['';'', ''  transition: border-color 0.25s ease;'', [], ''  ''],
     server_border,
     Txt [[], [], ''  .''],
     Ref ''Dy'',
     Txt ['' {'', ''    color: ''],
     pick ''inverted'' (theme_at [''colors'', ''text'', ''primary'']) (Txt [''#ffffff'']),
     Txt ['';'', ''  }'', ''  &:focus {'', ''    box-shadow: inset 0 2px 2px rgba(0, 0, 0, 0.45), 0 2px 0 rgba(128, 128, 128, 0.25);'', ''  }'', []]]"

definition sc_My :: component where
  "sc_My = Component ''My'' None
    [Txt [[], ''  font-size: ''],
     pick ''compact'' (Txt [''0.8em'']) (Txt [''0.929em'']),
     Txt ['';'', ''  line-height: ''],
     pick ''compact'' (Txt [''18px'']) (Txt [''20px'']),
     Txt ['';'', ''  background-color: ''],
     verb_colour,
     Txt ['';'', ''  color: #ffffff;'', ''  padding: ''],
     pick ''compact'' (Txt [''2px 8px'']) (Txt [''3px 10px'']),
     Txt ['';'', ''  text-transform: uppercase;'', ''  font-family: ''],
     theme_at [''typography'', ''headings'', ''fontFamily''],
     Txt ['';'', ''  margin: 0;'', []]]"

definition sc_Fy :: component where
  "sc_Fy = Component ''Fy'' None
    [Txt [[], ''  position: absolute;'', ''  width: 100%;'', ''  z-index: 100;'', ''  background: ''],
     theme_at [''rightPanel'', ''servers'', ''overlay'', ''backgroundColor''],
     Txt ['';'', ''  color: ''],
     theme_at [''rightPanel'', ''servers'', ''overlay'', ''textColor''],
     Txt ['';'', ''  box-sizing: border-box;'', ''  box-shadow: 0px 0px 6px rgba(0, 0, 0, 0.33);'', ''  overflow: hidden;'', ''  border-bottom-left-radius: 4px;'', ''  border-bottom-right-radius: 4px;'', ''  transition: all 0.25s ease;'', ''  visibility: hidden;'', ''  ''],
     pick ''expanded'' (Txt [''visibility: visible;'']) (Txt [''transform: translateY(-50%) scaleY(0);'']),
     Txt [[], []]]"

definition sc_zy :: component where
  "sc_zy = Component ''zy'' None
    [Txt [[], ''  padding: 10px;'', []]]"

definition sc_Uy :: component where
  "sc_Uy = Component ''Uy'' None
    [Txt [[], ''  padding: 5px;'', ''  border: 1px solid #ccc;'', ''  background: ''],
     theme_at [''rightPanel'', ''servers'', ''url'', ''backgroundColor''],
     Txt ['';'', ''  word-break: break-all;'', ''  color: ''],
     theme_at [''colors'', ''primary'', ''main''],
     Txt ['';'', ''  > span {'', ''    color: ''],
     theme_at [''colors'', ''text'', ''primary''],
     Txt ['';'', ''  }'', []]]"

definition sc_ev :: component where
  "sc_ev = Component ''ev'' None
    [Txt [[], ''  display: block;'', ''  border: 0;'', ''  width: 100%;'', ''  text-align: left;'', ''  padding: 10px;'', ''  border-radius: 2px;'', ''  margin-bottom: 4px;'', ''  line-height: 1.5em;'', ''  cursor: pointer;'', [], ''  color: ''],
     theme_by_at [''colors'', ''responses''] ''type'' [''color''],
     Txt ['';'', ''  background-color: ''],
     theme_by_at [''colors'', ''responses''] ''type'' [''backgroundColor''],
     Txt ['';'', ''  &:focus {'', ''    outline: auto ''],
     theme_by_at [''colors'', ''responses''] ''type'' [''color''],
     Txt ['';'', ''  }'', ''  ''],
     pick ''empty'' (Txt [[], ''cursor: default;'', ''&::before {'', ''  content: '' @ [CHR 0x22] @ [CHR 0xE2] @ [CHR 0x80] @ [CHR 0x94] @ [CHR 0x22] @ '';'', ''  font-weight: bold;'', ''  width: 1.5em;'', ''  text-align: center;'', ''  display: inline-block;'', ''  vertical-align: top;'', ''}'', ''&:focus {'', ''  outline: 0;'', ''}'', []]) (Txt [[]]),
     Txt ['';'', []]]"

definition sc_tv :: component where
  "sc_tv = Component ''tv'' None
    [Txt [[], ''  padding: 10px;'', []]]"

definition sc_nv :: component where
  "sc_nv = Component ''nv'' (Some sc_Iu)
    [Txt [[], ''  text-align: left;'', ''  margin-top: 1em;'', ''  caption-side: top;'', []]]"

definition sc_rv :: component where
  "sc_rv = Component ''rv'' None
    [Txt [[], ''  vertical-align: top;'', []]]"

definition sc_dv :: component where
  "sc_dv = Component ''dv'' None
    [Txt [[], ''  font-size: 1.3em;'', ''  padding: 0.2em 0;'', ''  margin: 3em 0 1.1em;'', ''  color: ''],
     theme_at [''colors'', ''text'', ''primary''],
     Txt ['';'', ''  font-weight: normal;'', []]]"

definition sc_wv :: component where
  "sc_wv = Component ''wv'' None
    [Txt [[], ''  margin-bottom: ''],
     theme_times 3 [''spacing'', ''unit''],
     Txt [''px;'', []]]"

definition sc_u_v :: component where
  "sc_u_v = Component ''_v'' None
    [Txt [[], ''  font-size: 1.3em;'', ''  padding: 0.2em 0;'', ''  margin: 3em 0 1.1em;'', ''  color: ''],
     theme_at [''colors'', ''text'', ''primary''],
     Txt ['';'', ''  font-weight: normal;'', []]]"

definition sc_Iv :: component where
  "sc_Iv = Component ''Iv'' None
    [Txt [[], ''  margin-top: 15px;'', []]]"

definition sc_Bv :: component where
  "sc_Bv = Component ''Bv'' None
    [Txt [[], ''  background: ''],
     theme_at [''codeBlock'', ''backgroundColor''],
     Txt ['';'', ''  padding: ''],
     theme_times 4 [''spacing'', ''unit''],
     Txt [''px;'', []]]"

definition sc_Zv :: component where
  "sc_Zv = Component ''Zv'' None
    [Txt [[], ''  margin-bottom: ''],
     theme_times 6 [''spacing'', ''unit''],
     Txt [''px;'', []]]"

definition sc_jb :: component where
  "sc_jb = Component ''jb'' None
    [Txt [[], ''  user-select: none;'', ''  width: 20px;'', ''  height: 20px;'', ''  align-self: center;'', ''  display: flex;'', ''  flex-direction: column;'', ''  color: ''],
     theme_at [''colors'', ''primary'', ''main''],
     Txt ['';'', []]]"

definition sc_Nb :: component where
  "sc_Nb = Component ''Nb'' None
    [Txt [[], ''  width: ''],
     theme_at [''sidebar'', ''width''],
     Txt ['';'', ''  background-color: ''],
     theme_at [''sidebar'', ''backgroundColor''],
     Txt ['';'', ''  overflow: hidden;'', ''  display: flex;'', ''  flex-direction: column;'', [], ''  backface-visibility: hidden;'', ''  /* contain: strict; TODO: breaks layout since Chrome 80*/'', [], ''  height: 100vh;'', ''  position: sticky;'', ''  position: -webkit-sticky;'', ''  top: 0;'', [], ''  ''],
     ma ''small'' False [] [Txt [[], ''    position: fixed;'', ''    z-index: 20;'', ''    width: 100%;'', ''    background: ''],
     theme_at [''sidebar'', ''backgroundColor''],
     Txt ['';'', ''    display: ''],
     pick ''open'' (Txt [''flex'']) (Txt [''none'']),
     Txt ['';'', ''  '']],
     Txt ['';'', [], ''  @media print {'', ''    display: none;'', ''  }'', []]]"

definition sc_Db :: component where
  "sc_Db = Component ''Db'' None
    [Txt [[], ''  outline: none;'', ''  user-select: none;'', ''  background-color: ''],
     theme_at [''fab'', ''backgroundColor''],
     Txt ['';'', ''  color: ''],
     theme_at [''colors'', ''primary'', ''main''],
     Txt ['';'', ''  display: none;'', ''  cursor: pointer;'', ''  position: fixed;'', ''  right: 20px;'', ''  z-index: 100;'', ''  border-radius: 50%;'', ''  box-shadow: 0 0 20px rgba(0, 0, 0, 0.3);'', ''  ''],
     ma ''small'' False [] [Txt [[], ''    display: flex;'', ''  '']],
     Txt ['';'', [], ''  bottom: 44px;'', [], ''  width: 60px;'', ''  height: 60px;'', ''  padding: 0 20px;'', ''  svg {'', ''    color: ''],
     theme_at [''fab'', ''color''],
     Txt ['';'', ''  }'', [], ''  @media print {'', ''    display: none;'', ''  }'', []]]"

definition sc_Mb :: component where
  "sc_Mb = Component ''Mb'' None
    [Txt [[], ''  ''],
     page_text,
     Txt ['';'', []]]"

definition sc_Fb :: component where
  "sc_Fb = Component ''Fb'' None
    [Txt [[], ''  z-index: 1;'', ''  position: relative;'', ''  overflow: hidden;'', ''  width: calc(100% - ''],
     theme_at [''sidebar'', ''width''],
     Txt ['');'', ''  ''],
     ma ''small'' True [] [Txt [[], ''    width: 100%;'', ''  '']],
     Txt ['';'', [], ''  contain: layout;'', []]]"

definition sc_zb :: component where
  "sc_zb = Component ''zb'' None
    [Txt [[], ''  background: ''],
     theme_at [''rightPanel'', ''backgroundColor''],
     Txt ['';'', ''  position: absolute;'', ''  top: 0;'', ''  bottom: 0;'', ''  right: 0;'', ''  width: ''],
     right_panel_width,
     Txt ['';'', ''  ''],
     ma ''medium'' True [] [Txt [[], ''    display: none;'', ''  '']],
     Txt ['';'', []]]"

definition sc_Ub :: component where
  "sc_Ub = Component ''Ub'' None
    [Txt [[], ''  padding: 5px 0;'', []]]"

definition sc_Vb :: component where
  "sc_Vb = Component ''Vb'' None
    [Txt [[], ''  width: calc(100% - ''],
     theme_times 8 [''spacing'', ''unit''],
     Txt [''px);'', ''  box-sizing: border-box;'', ''  margin: 0 ''],
     theme_times 4 [''spacing'', ''unit''],
     Txt [''px;'', ''  padding: 5px ''],
     theme_times 2 [''spacing'', ''unit''],
     Txt [''px 5px'', ''    ''],
     theme_times 4 [''spacing'', ''unit''],
     Txt [''px;'', ''  border: 0;'', ''  border-bottom: 1px solid'', ''    ''],
     search_border,
     Txt ['';'', ''  font-family: ''],
     theme_at [''typography'', ''fontFamily''],
     Txt ['';'', ''  font-weight: bold;'', ''  font-size: 13px;'', ''  color: ''],
     theme_at [''sidebar'', ''textColor''],
     Txt ['';'', ''  background-color: transparent;'', ''  outline: none;'', []]]"

definition sc_Bb :: component where
  "sc_Bb = Component ''Bb'' None
    [Txt [[], ''  position: absolute;'', ''  left: ''],
     theme_times 4 [''spacing'', ''unit''],
     Txt [''px;'', ''  height: 1.8em;'', ''  width: 0.9em;'', [], ''  path {'', ''    fill: ''],
     theme_at [''sidebar'', ''textColor''],
     Txt ['';'', ''  }'', []]]"

definition sc_qb :: component where
  "sc_qb = Component ''qb'' None
    [Txt [[], ''  padding: ''],
     theme_at [''spacing'', ''unit''],
     Txt [''px 0;'', ''  background-color: ''],
     tinted_at rt_darken (\<lambda>_. Some (Dec ''0.05'')) [''sidebar'', ''backgroundColor''],
     Txt [''};'', ''  color: ''],
     theme_at [''sidebar'', ''textColor''],
     Txt ['';'', ''  min-height: 150px;'', ''  max-height: 250px;'', ''  border-top: ''],
     tinted_at rt_darken (\<lambda>_. Some (Dec ''0.1'')) [''sidebar'', ''backgroundColor''],
     Txt [''};'', ''  border-bottom: ''],
     tinted_at rt_darken (\<lambda>_. Some (Dec ''0.1'')) [''sidebar'', ''backgroundColor''],
     Txt [''};'', ''  margin-top: 10px;'', ''  line-height: 1.4;'', ''  font-size: 0.9em;'', ''  '', ''  li {'', ''    background-color: inherit;'', ''  }'', [], ''  ''],
     Ref ''Ey'',
     Txt ['' {'', ''    padding-top: 6px;'', ''    padding-bottom: 6px;'', [], ''    &:hover,'', ''    &.active {'', ''      background-color: ''],
     tinted_at rt_darken (\<lambda>_. Some (Dec ''0.1'')) [''sidebar'', ''backgroundColor''],
     Txt ['';'', ''    }'', [], ''    > svg {'', ''      display: none;'', ''    }'', ''  }'', []]]"

definition sc_Wb :: component where
  "sc_Wb = Component ''Wb'' None
    [Txt [[], ''  position: absolute;'', ''  display: inline-block;'', ''  width: ''],
     theme_times 2 [''spacing'', ''unit''],
     Txt [''px;'', ''  text-align: center;'', ''  right: ''],
     theme_times 4 [''spacing'', ''unit''],
     Txt [''px;'', ''  line-height: 2em;'', ''  vertical-align: middle;'', ''  margin-right: 2px;'', ''  cursor: pointer;'', ''  font-style: normal;'', ''  color: '#666';'', []]]"

section \<open>Nesting\<close>

lemma closed_page_1 [closed_components]:
  assumes "sane R e"
  shows "closed R e sc_Ty"
    "closed R e sc_Ny"
    "closed R e sc_Dy"
    "closed R e sc_Ly"
    "closed R e sc_My"
    "closed R e sc_Fy"
  unfolding sc_Dy_def sc_Fy_def sc_Ly_def sc_My_def sc_Ny_def sc_Ty_def
  by (insert assms, intro closed_base closed_extended; simp add: css_steps quiet_intros cong: text_congs)+

lemma closed_page_2 [closed_components]:
  assumes "sane R e"
  shows "closed R e sc_zy"
    "closed R e sc_Uy"
    "closed R e sc_ev"
    "closed R e sc_tv"
    "closed R e sc_nv"
    "closed R e sc_rv"
  unfolding sc_Iu_def sc_Uy_def sc_ev_def sc_nv_def sc_rv_def sc_tv_def sc_zy_def
  by (insert assms, intro closed_base closed_extended; simp add: css_steps quiet_intros cong: text_congs)+

lemma closed_page_3 [closed_components]:
  assumes "sane R e"
  shows "closed R e sc_dv"
    "closed R e sc_wv"
    "closed R e sc_u_v"
    "closed R e sc_Iv"
    "closed R e sc_Bv"
    "closed R e sc_Zv"
  unfolding sc_Bv_def sc_Iv_def sc_Zv_def sc_dv_def sc_u_v_def sc_wv_def
  by (insert assms, intro closed_base closed_extended; simp add: css_steps quiet_intros cong: text_congs)+

lemma closed_page_4 [closed_components]:
  assumes "sane R e"
  shows "closed R e sc_jb"
    "closed R e sc_Nb"
    "closed R e sc_Db"
    "closed R e sc_Mb"
    "closed R e sc_Fb"
    "closed R e sc_zb"
  unfolding sc_Db_def sc_Fb_def sc_Mb_def sc_Nb_def sc_jb_def sc_zb_def
  by (insert assms, intro closed_base closed_extended; simp add: css_steps quiet_intros cong: text_congs)+

lemma closed_page_5 [closed_components]:
  assumes "sane R e"
  shows "closed R e sc_Ub"
    "closed R e sc_Vb"
    "closed R e sc_Bb"
    "closed R e sc_Wb"
  unfolding sc_Bb_def sc_Ub_def sc_Vb_def sc_Wb_def
  by (insert assms, intro closed_base closed_extended; simp add: css_steps quiet_intros cong: text_congs)+

end
