(* ===== verification/Redoc_Theme.thy ===== *)
theory Redoc_Theme
  imports Redoc_Interp
begin

text \<open>
  The theme of Redoc: the defaults \<open>Vr\<close>, merging the user's settings into them (\<open>Zr\<close>), and the
  resolution of settings that are functions of the theme. A function setting is an expression over
  paths of the theme and the colour functions of polished, which are parameters (\<open>tints\<close>).

  Resolution replaces every function by a getter that computes the value on first use, caches it
  and counts computations, so that a circular theme ends in an exception; reading the theme as JSON
  calls all of them. \<open>fuel\<close> bounds the nesting of getters: more than the remaining number of
  computations is never needed.
\<close>

record tints =
  ti_darken :: "js \<Rightarrow> js \<Rightarrow> js option"
  ti_lighten :: "js \<Rightarrow> js \<Rightarrow> js option"
  ti_desaturate :: "js \<Rightarrow> js \<Rightarrow> js option"
  ti_transparentize :: "js \<Rightarrow> js \<Rightarrow> js option"
  ti_readable :: "js \<Rightarrow> js option"
  ti_double :: "js \<Rightarrow> js option"

datatype op2 = Darken | Lighten | Desaturate | Transparentize
datatype op1 = Readable | Twice | Times int

datatype gexp =
    Path "string list"
  | Lit js
  | Op2 op2 gexp gexp
  | Op1 op1 gexp
  | If_changed gexp js gexp

fun op2_value :: "tints \<Rightarrow> op2 \<Rightarrow> js \<Rightarrow> js \<Rightarrow> js option" where
  "op2_value T Darken = ti_darken T"
| "op2_value T Lighten = ti_lighten T"
| "op2_value T Desaturate = ti_desaturate T"
| "op2_value T Transparentize = ti_transparentize T"

fun op1_value :: "tints \<Rightarrow> op1 \<Rightarrow> js \<Rightarrow> js option" where
  "op1_value T Readable = ti_readable T"
| "op1_value T Twice = ti_double T"
| "op1_value T (Times k) = js_times k"

datatype setting = Const js | Getter gexp | Group "(string \<times> setting) list"

section \<open>The defaults\<close>

definition Vr :: setting where
  "Vr = Group [(''spacing'', Group [(''unit'', Const (Num 5)),
     (''sectionHorizontal'', Getter (Op1 (Times 8) (Path [''spacing'', ''unit'']))),
     (''sectionVertical'', Getter (Op1 (Times 8) (Path [''spacing'', ''unit''])))]),
   (''breakpoints'', Group [(''small'', Const (Str ''50rem'')),
     (''medium'', Const (Str ''75rem'')),
     (''large'', Const (Str ''105rem''))]),
   (''colors'', Group [(''tonalOffset'', Const (Dec ''0.2'')),
     (''primary'', Group [(''main'', Const (Str ''#32329f'')), (''light'', Getter (Op2 Lighten (Path [''colors'', ''tonalOffset'']) (Path [''colors'', ''primary'', ''main'']))), (''dark'', Getter (Op2 Darken (Path [''colors'', ''tonalOffset'']) (Path [''colors'', ''primary'', ''main'']))), (''contrastText'', Getter (Op1 Readable (Path [''colors'', ''primary'', ''main''])))]),
     (''success'', Group [(''main'', Const (Str ''#1d8127'')), (''light'', Getter (Op2 Lighten (Op1 Twice (Path [''colors'', ''tonalOffset''])) (Path [''colors'', ''success'', ''main'']))), (''dark'', Getter (Op2 Darken (Path [''colors'', ''tonalOffset'']) (Path [''colors'', ''success'', ''main'']))), (''contrastText'', Getter (Op1 Readable (Path [''colors'', ''success'', ''main''])))]),
     (''warning'', Group [(''main'', Const (Str ''#ffa500'')), (''light'', Getter (Op2 Lighten (Path [''colors'', ''tonalOffset'']) (Path [''colors'', ''warning'', ''main'']))), (''dark'', Getter (Op2 Darken (Path [''colors'', ''tonalOffset'']) (Path [''colors'', ''warning'', ''main'']))), (''contrastText'', Const (Str ''#ffffff''))]),
     (''error'', Group [(''main'', Const (Str ''#d41f1c'')), (''light'', Getter (Op2 Lighten (Path [''colors'', ''tonalOffset'']) (Path [''colors'', ''error'', ''main'']))), (''dark'', Getter (Op2 Darken (Path [''colors'', ''tonalOffset'']) (Path [''colors'', ''error'', ''main'']))), (''contrastText'', Getter (Op1 Readable (Path [''colors'', ''error'', ''main''])))]),
     (''gray'', Group [(''50'', Const (Str ''#FAFAFA'')), (''100'', Const (Str ''#F5F5F5''))]),
     (''text'', Group [(''primary'', Const (Str ''#333333'')), (''secondary'', Getter (Op2 Lighten (Path [''colors'', ''tonalOffset'']) (Path [''colors'', ''text'', ''primary''])))]),
     (''border'', Group [(''dark'', Const (Str ''rgba(0,0,0, 0.1)'')), (''light'', Const (Str ''#ffffff''))]),
     (''responses'', Group [(''success'', Group [(''color'', Getter (Path [''colors'', ''success'', ''main''])), (''backgroundColor'', Getter (Op2 Transparentize (Lit (Dec ''0.93'')) (Path [''colors'', ''success'', ''main'']))), (''tabTextColor'', Getter (Path [''colors'', ''responses'', ''success'', ''color'']))]), (''error'', Group [(''color'', Getter (Path [''colors'', ''error'', ''main''])), (''backgroundColor'', Getter (Op2 Transparentize (Lit (Dec ''0.93'')) (Path [''colors'', ''error'', ''main'']))), (''tabTextColor'', Getter (Path [''colors'', ''responses'', ''error'', ''color'']))]), (''redirect'', Group [(''color'', Getter (Path [''colors'', ''warning'', ''main''])), (''backgroundColor'', Getter (Op2 Transparentize (Lit (Dec ''0.9'')) (Path [''colors'', ''responses'', ''redirect'', ''color'']))), (''tabTextColor'', Getter (Path [''colors'', ''responses'', ''redirect'', ''color'']))]), (''info'', Group [(''color'', Const (Str ''#87ceeb'')), (''backgroundColor'', Getter (Op2 Transparentize (Lit (Dec ''0.9'')) (Path [''colors'', ''responses'', ''info'', ''color'']))), (''tabTextColor'', Getter (Path [''colors'', ''responses'', ''info'', ''color'']))])]),
     (''http'', Group [(''get'', Const (Str ''#2F8132'')), (''post'', Const (Str ''#186FAF'')), (''put'', Const (Str ''#95507c'')), (''options'', Const (Str ''#947014'')), (''patch'', Const (Str ''#bf581d'')), (''delete'', Const (Str ''#cc3333'')), (''basic'', Const (Str ''#707070'')), (''link'', Const (Str ''#07818F'')), (''head'', Const (Str ''#A23DAD''))])]),
   (''schema'', Group [(''linesColor'', Getter (Op2 Lighten (Path [''colors'', ''tonalOffset'']) (Op2 Desaturate (Path [''colors'', ''tonalOffset'']) (Path [''colors'', ''primary'', ''main''])))),
     (''defaultDetailsWidth'', Const (Str ''75%'')),
     (''typeNameColor'', Getter (Path [''colors'', ''text'', ''secondary''])),
     (''typeTitleColor'', Getter (Path [''schema'', ''typeNameColor''])),
     (''requireLabelColor'', Getter (Path [''colors'', ''error'', ''main''])),
     (''labelsTextSize'', Const (Str ''0.9em'')),
     (''nestingSpacing'', Const (Str ''1em'')),
     (''nestedBackground'', Const (Str ''#fafafa'')),
     (''arrow'', Group [(''size'', Const (Str ''1.1em'')), (''color'', Getter (Path [''colors'', ''text'', ''secondary'']))])]),
   (''typography'', Group [(''fontSize'', Const (Str ''14px'')),
     (''lineHeight'', Const (Str ''1.5em'')),
     (''fontWeightRegular'', Const (Str ''400'')),
     (''fontWeightBold'', Const (Str ''600'')),
     (''fontWeightLight'', Const (Str ''300'')),
     (''fontFamily'', Const (Str ''Roboto, sans-serif'')),
     (''smoothing'', Const (Str ''antialiased'')),
     (''optimizeSpeed'', Const (Bool True)),
     (''headings'', Group [(''fontFamily'', Const (Str ''Montserrat, sans-serif'')), (''fontWeight'', Const (Str ''400'')), (''lineHeight'', Const (Str ''1.6em''))]),
     (''code'', Group [(''fontSize'', Const (Str ''13px'')), (''fontFamily'', Const (Str ''Courier, monospace'')), (''lineHeight'', Getter (Path [''typography'', ''lineHeight''])), (''fontWeight'', Getter (Path [''typography'', ''fontWeightRegular''])), (''color'', Const (Str ''#e53935'')), (''backgroundColor'', Const (Str ''rgba(38, 50, 56, 0.05)'')), (''wrap'', Const (Bool False))]),
     (''links'', Group [(''color'', Getter (Path [''colors'', ''primary'', ''main''])), (''visited'', Getter (Path [''typography'', ''links'', ''color''])), (''hover'', Getter (Op2 Lighten (Lit (Dec ''0.2'')) (Path [''typography'', ''links'', ''color'']))), (''textDecoration'', Const (Str ''auto'')), (''hoverTextDecoration'', Const (Str ''auto''))])]),
   (''sidebar'', Group [(''width'', Const (Str ''260px'')),
     (''backgroundColor'', Const (Str ''#fafafa'')),
     (''textColor'', Const (Str ''#333333'')),
     (''activeTextColor'', Getter (If_changed (Path [''sidebar'', ''textColor'']) (Str ''#333333'') (Path [''colors'', ''primary'', ''main'']))),
     (''groupItems'', Group [(''activeBackgroundColor'', Getter (Op2 Darken (Lit (Dec ''0.1'')) (Path [''sidebar'', ''backgroundColor'']))), (''activeTextColor'', Getter (Path [''sidebar'', ''activeTextColor''])), (''textTransform'', Const (Str ''uppercase''))]),
     (''level1Items'', Group [(''activeBackgroundColor'', Getter (Op2 Darken (Lit (Dec ''0.05'')) (Path [''sidebar'', ''backgroundColor'']))), (''activeTextColor'', Getter (Path [''sidebar'', ''activeTextColor''])), (''textTransform'', Const (Str ''none''))]),
     (''arrow'', Group [(''size'', Const (Str ''1.5em'')), (''color'', Getter (Path [''sidebar'', ''textColor'']))])]),
   (''logo'', Group [(''maxHeight'', Getter (Path [''sidebar'', ''width''])),
     (''maxWidth'', Getter (Path [''sidebar'', ''width''])),
     (''gutter'', Const (Str ''2px''))]),
   (''rightPanel'', Group [(''backgroundColor'', Const (Str ''#263238'')),
     (''width'', Const (Str ''40%'')),
     (''textColor'', Const (Str ''#ffffff'')),
     (''servers'', Group [(''overlay'', Group [(''backgroundColor'', Const (Str ''#fafafa'')), (''textColor'', Const (Str ''#263238''))]), (''url'', Group [(''backgroundColor'', Const (Str ''#fff''))])])]),
   (''codeBlock'', Group [(''backgroundColor'', Getter (Op2 Darken (Lit (Dec ''0.1'')) (Path [''rightPanel'', ''backgroundColor''])))]),
   (''fab'', Group [(''backgroundColor'', Const (Str ''#f2f2f2'')),
     (''color'', Const (Str ''#0065FB''))])]"

section \<open>Merging\<close>

text \<open>\<open>Zr(target, source)\<close>: only groups merge into groups; anything else replaces what was there.\<close>

fun is_group :: "setting \<Rightarrow> bool" where
  "is_group (Group _) = True"
| "is_group _ = False"

definition missing :: "setting option \<Rightarrow> bool" where
  "missing s \<longleftrightarrow> (case s of None \<Rightarrow> True | Some (Const v) \<Rightarrow> \<not> truthy v | _ \<Rightarrow> False)"

function merge :: "setting \<Rightarrow> setting \<Rightarrow> setting" where
  "merge t s =
     (case (t, s) of
        (Group ts, Group ss) \<Rightarrow>
          Group (foldl (\<lambda>acc p. AList.update (fst p)
            (if is_group (snd p)
             then merge (if missing (map_of acc (fst p)) then Group [] else the (map_of acc (fst p))) (snd p)
             else snd p) acc) ts ss)
      | _ \<Rightarrow> t)"
  by pat_completeness auto
termination
proof (relation "measure (\<lambda>(t, s). size s)", simp, goal_cases)
  case (1 t s x y ts ss acc p)
  have "p \<in> set ss \<Longrightarrow> size (snd p) < size_list (size_prod (\<lambda>_. 0) size) ss" by (induction ss) auto
  with 1 show ?case by auto
qed

declare merge.simps [simp del]

section \<open>Resolution\<close>

text \<open>The setting at a path; reading through a constant reads its properties.\<close>

fun setting_at :: "setting \<Rightarrow> string list \<Rightarrow> setting option" where
  "setting_at s [] = Some s"
| "setting_at (Const v) (k # ks) = map_option Const (js_path (k # ks) v)"
| "setting_at (Getter g) (k # ks) = Some (Const Undef)"
| "setting_at (Group ss) (k # ks) =
     (case map_of ss k of None \<Rightarrow> (if ks = [] then Some (Const Undef) else None) | Some s \<Rightarrow> setting_at s ks)"

datatype failure = Circular "string list" | Thrown | Out_of_fuel

text \<open>Values computed so far, and how many computations there were.\<close>

type_synonym memo = "(string list \<times> js) list \<times> nat"

definition max_computations :: nat where
  "max_computations = 1000"

text \<open>\<open>If_changed a c b\<close> is \<open>a !== c ? a : b\<close>.\<close>

fun eval :: "tints \<Rightarrow> setting \<Rightarrow> nat \<Rightarrow> gexp \<Rightarrow> memo \<Rightarrow> failure + js \<times> memo" where
  "eval T root fuel (Lit v) m = Inr (v, m)"
| "eval T root fuel (Path ks) m =
     (case setting_at root ks of
        Some (Const v) \<Rightarrow> Inr (v, m)
      | Some (Getter g) \<Rightarrow>
          (let cached = (case map_of (fst m) ks of None \<Rightarrow> Undef | Some v \<Rightarrow> v)
           in if truthy cached then Inr (cached, m)
              else if snd m + 1 > max_computations then Inl (Circular ks)
              else (case fuel of
                 0 \<Rightarrow> Inl Out_of_fuel
               | Suc fuel \<Rightarrow>
                   res_bind (eval T root fuel g (fst m, snd m + 1)) (\<lambda>(v, m).
                     Inr (v, (ks, v) # fst m, snd m))))
      | _ \<Rightarrow> Inl Thrown)"
| "eval T root fuel (Op2 f a b) m =
     res_bind (eval T root fuel a m) (\<lambda>(x, m).
     res_bind (eval T root fuel b m) (\<lambda>(y, m).
     res_bind (of_opt Thrown (op2_value T f x y)) (\<lambda>v. Inr (v, m))))"
| "eval T root fuel (Op1 f a) m =
     res_bind (eval T root fuel a m) (\<lambda>(x, m).
     res_bind (of_opt Thrown (op1_value T f x)) (\<lambda>v. Inr (v, m)))"
| "eval T root fuel (If_changed a c b) m =
     res_bind (eval T root fuel a m) (\<lambda>(x, m).
     if x \<noteq> c then eval T root fuel a m else eval T root fuel b m)"

text \<open>
  \<open>JSON.parse(JSON.stringify(theme))\<close>: every setting in order; a function setting is read through its
  getter. Values that are not plain data do not occur in a theme.
\<close>

fun obj_cons :: "string \<Rightarrow> js \<Rightarrow> js \<Rightarrow> js" where
  "obj_cons k v (Obj ps) = Obj ((k, v) # ps)"
| "obj_cons k v w = w"

fun read_all :: "tints \<Rightarrow> setting \<Rightarrow> string list \<Rightarrow> setting \<Rightarrow> memo \<Rightarrow> failure + js \<times> memo" where
  "read_all T root pre (Const v) m = Inr (v, m)"
| "read_all T root pre (Getter g) m = eval T root (Suc max_computations) (Path pre) m"
| "read_all T root pre (Group []) m = Inr (Obj [], m)"
| "read_all T root pre (Group ((k, s) # ss)) m =
     res_bind (read_all T root (pre @ [k]) s m) (\<lambda>(v, m).
     res_bind (read_all T root pre (Group ss) m) (\<lambda>(o', m).
       Inr (obj_cons k v o', m)))"

definition resolve :: "tints \<Rightarrow> setting \<Rightarrow> failure + js" where
  "resolve T theme = res_bind (read_all T theme [] theme ([], 0)) (\<lambda>(v, _). Inr v)"

section \<open>What the values of a theme are\<close>

inductive gval :: "tints \<Rightarrow> setting \<Rightarrow> gexp \<Rightarrow> js \<Rightarrow> bool" for T root where
  lit: "gval T root (Lit v) v"
| const: "setting_at root ks = Some (Const v) \<Longrightarrow> gval T root (Path ks) v"
| getter: "setting_at root ks = Some (Getter g) \<Longrightarrow> gval T root g v \<Longrightarrow> gval T root (Path ks) v"
| op2: "gval T root a x \<Longrightarrow> gval T root b y \<Longrightarrow> op2_value T f x y = Some v \<Longrightarrow> gval T root (Op2 f a b) v"
| op1: "gval T root a x \<Longrightarrow> op1_value T f x = Some v \<Longrightarrow> gval T root (Op1 f a) v"
| changed: "gval T root a x \<Longrightarrow> x \<noteq> c \<Longrightarrow> gval T root (If_changed a c b) x"
| unchanged: "gval T root a c \<Longrightarrow> gval T root b y \<Longrightarrow> gval T root (If_changed a c b) y"

inductive_cases gval_PathE: "gval T root (Path ks) v"
inductive_cases gval_LitE: "gval T root (Lit w) v"
inductive_cases gval_Op2E: "gval T root (Op2 f a b) v"
inductive_cases gval_Op1E: "gval T root (Op1 f a) v"
inductive_cases gval_IfE: "gval T root (If_changed a c b) v"

lemma gval_unique: "gval T root g v \<Longrightarrow> gval T root g w \<Longrightarrow> v = w"
proof (induction arbitrary: w rule: gval.induct)
  case (lit v)
  then show ?case by (auto elim: gval_LitE)
next
  case (const ks v)
  from const(2) show ?case by (rule gval_PathE) (simp_all add: const(1))
next
  case (getter ks g v)
  from getter(4) show ?case
  proof (rule gval_PathE)
    fix g'
    assume "setting_at root ks = Some (Getter g')" "gval T root g' w"
    with getter(1,3) show ?thesis by simp
  qed (simp add: getter(1))
next
  case (op2 a x b y f v)
  from op2.prems obtain x' y' where "gval T root a x'" "gval T root b y'" "op2_value T f x' y' = Some w"
    by (rule gval_Op2E)
  with op2 show ?case by auto
next
  case (op1 a x f v)
  from op1.prems obtain x' where "gval T root a x'" "op1_value T f x' = Some w" by (rule gval_Op1E)
  with op1 show ?case by auto
next
  case (changed a x c b)
  from changed.prems show ?case
  proof (rule gval_IfE)
    assume "gval T root a c"
    from changed.IH [OF this] changed.hyps(2) show ?thesis by simp
  qed (rule changed.IH)
next
  case (unchanged a c b y)
  from unchanged.prems show ?case
  proof (rule gval_IfE)
    assume w: "gval T root a w" "w \<noteq> c"
    from unchanged.IH(1) [OF w(1)] w(2) show ?thesis by simp
  qed (rule unchanged.IH(2))
qed

definition memo_ok :: "tints \<Rightarrow> setting \<Rightarrow> memo \<Rightarrow> bool" where
  "memo_ok T root m \<longleftrightarrow> list_all (\<lambda>p. gval T root (Path (fst p)) (snd p)) (fst m)"

lemma memo_ok_lookup: "memo_ok T root m \<Longrightarrow> map_of (fst m) ks = Some v \<Longrightarrow> gval T root (Path ks) v"
  by (auto simp: memo_ok_def list_all_iff dest!: map_of_SomeD)

lemma eval_sound:
  "eval T root fuel g m = Inr (v, m') \<Longrightarrow> memo_ok T root m \<Longrightarrow> gval T root g v \<and> memo_ok T root m'"
proof (induction T root fuel g m arbitrary: v m' rule: eval.induct)
  case (1 T root fuel w m)
  then show ?case by (auto intro: gval.lit)
next
  case (2 T root fuel ks m)
  let ?cached = "case map_of (fst m) ks of None \<Rightarrow> Undef | Some v \<Rightarrow> v"
  show ?case
  proof (cases "setting_at root ks")
    case (Some s)
    show ?thesis
    proof (cases s)
      case (Const w)
      with 2 Some show ?thesis by (auto intro: gval.const)
    next
      case (Getter g)
      show ?thesis
      proof (cases "truthy ?cached")
        case True
        then obtain w where "map_of (fst m) ks = Some w" "truthy w" by (auto simp: truthy_def split: option.splits)
        with 2 Some Getter True show ?thesis by (auto dest: memo_ok_lookup)
      next
        case False
        with 2(2) Some Getter obtain n where n: "fuel = Suc n" "\<not> snd m + 1 > max_computations"
          by (auto simp: Let_def split: if_splits nat.splits)
        with 2(2) Some Getter False obtain m1 where m1: "eval T root n g (fst m, snd m + 1) = Inr (v, m1)"
          "m' = ((ks, v) # fst m1, snd m1)" by (auto simp: Let_def res_bind_eq_Inr split: if_splits)
        have ok: "memo_ok T root (fst m, snd m + 1)" using 2(3) by (simp add: memo_ok_def)
        from 2(1) [OF Some Getter refl False n(2) n(1) m1(1) ok] have g: "gval T root g v" "memo_ok T root m1" by auto
        have "gval T root (Path ks) v" using gval.getter [OF _ g(1)] Some Getter by simp
        then show ?thesis using g(2) by (simp add: m1(2) memo_ok_def)
      qed
    next
      case (Group ss)
      with 2 Some show ?thesis by simp
    qed
  qed (use 2 in simp)
next
  case (3 T root fuel f a b m)
  from 3(3) obtain x m1 y m2 where e: "eval T root fuel a m = Inr (x, m1)" "eval T root fuel b m1 = Inr (y, m2)"
    and v: "op2_value T f x y = Some v" "m' = m2" by (auto simp: res_bind_eq_Inr)
  from 3(1) [OF e(1) 3(4)] have a: "gval T root a x" "memo_ok T root m1" by auto
  from 3(2) [OF e(1) refl e(2) a(2)] have "gval T root b y" "memo_ok T root m2" by auto
  with a v show ?case by (auto intro: gval.op2)
next
  case (4 T root fuel f a m)
  from 4(2) obtain x m1 where e: "eval T root fuel a m = Inr (x, m1)" and v: "op1_value T f x = Some v" "m' = m1"
    by (auto simp: res_bind_eq_Inr)
  from 4(1) [OF e 4(3)] v show ?case by (auto intro: gval.op1)
next
  case (5 T root fuel a c b m)
  from 5(4) obtain x m1 where e: "eval T root fuel a m = Inr (x, m1)"
    and r: "(if x \<noteq> c then eval T root fuel a m1 else eval T root fuel b m1) = Inr (v, m')"
    by (auto simp: res_bind_eq_Inr)
  from 5(1) [OF e 5(5)] have a: "gval T root a x" "memo_ok T root m1" by auto
  show ?case
  proof (cases "x = c")
    case True
    with r 5(3) [OF e refl] a show ?thesis by (auto intro: gval.unchanged)
  next
    case False
    with r 5(2) [OF e refl] a have v: "gval T root a v" "memo_ok T root m'" by auto
    with gval_unique [OF a(1) v(1)] False show ?thesis by (auto intro: gval.changed)
  qed
qed

section \<open>Getters are never nested deeper than the count allows\<close>

lemma eval_path_cases:
  assumes "eval T root fuel (Path ks) m = r"
  obtains (done_already) v where "r = Inr (v, m)"
  | (fails) "r = Inl Thrown"
  | (circular) "r = Inl (Circular ks)"
  | (stuck) "fuel = 0" "r = Inl Out_of_fuel" "snd m < max_computations"
  | (computed) n g where "fuel = Suc n" "snd m < max_computations" "setting_at root ks = Some (Getter g)"
      "r = res_bind (eval T root n g (fst m, snd m + 1)) (\<lambda>(v, m). Inr (v, (ks, v) # fst m, snd m))"
  using assms by (auto simp: Let_def split: option.splits setting.splits if_splits nat.splits)

lemma eval_count: "eval T root fuel g m = Inr (v, m') \<Longrightarrow> snd m \<le> snd m'"
proof (induction fuel arbitrary: g m v m' rule: less_induct)
  case (less fuel)
  note deeper = less.IH
  from less.prems show ?case
  proof (induction g arbitrary: m v m')
    case (Path ks)
    from Path.prems show ?case
    proof (cases rule: eval_path_cases)
      case (computed n g)
      from computed(4) [symmetric] obtain m1 where "eval T root n g (fst m, snd m + 1) = Inr (v, m1)" "snd m' = snd m1"
        by (elim res_bindE) auto
      moreover have "n < fuel" using computed(1) by simp
      ultimately have "snd (fst m, snd m + 1) \<le> snd m1" by (intro deeper)
      with \<open>snd m' = snd m1\<close> show ?thesis by simp
    qed auto
  next
    case (Op2 f a b)
    from Op2.prems obtain x m1 y where "eval T root fuel a m = Inr (x, m1)" "eval T root fuel b m1 = Inr (y, m')"
      by (auto simp: res_bind_eq_Inr)
    then show ?case using Op2.IH(1) [of m x m1] Op2.IH(2) [of m1 y m'] by simp
  next
    case (Op1 f a)
    from Op1.prems obtain x where "eval T root fuel a m = Inr (x, m')" by (auto simp: res_bind_eq_Inr)
    then show ?case by (rule Op1.IH)
  next
    case (If_changed a c b)
    from If_changed.prems obtain x m1 where "eval T root fuel a m = Inr (x, m1)"
      "(if x \<noteq> c then eval T root fuel a m1 else eval T root fuel b m1) = Inr (v, m')"
      by (auto simp: res_bind_eq_Inr)
    then show ?case
      using If_changed.IH(1) [of m x m1] If_changed.IH(1) [of m1 v m'] If_changed.IH(2) [of m1 v m']
      by (auto split: if_splits)
  qed simp
qed

lemma eval_fuel: "max_computations < fuel + snd m \<Longrightarrow> eval T root fuel g m \<noteq> Inl Out_of_fuel"
proof (induction fuel arbitrary: g m rule: less_induct)
  case (less fuel)
  note deeper = less.IH
  from less.prems show ?case
  proof (induction g arbitrary: m)
    case (Path ks)
    obtain r where r: "eval T root fuel (Path ks) m = r" by blast
    then have "r \<noteq> Inl Out_of_fuel"
    proof (cases rule: eval_path_cases)
      case (computed n g)
      with deeper [of n "(fst m, snd m + 1)" g] Path.prems show ?thesis by (auto simp: res_bind_eq_Inl)
    qed (use Path.prems in auto)
    with r show ?case by simp
  next
    case (Op2 f a b)
    have "eval T root fuel b m1 \<noteq> Inl Out_of_fuel" if "eval T root fuel a m = Inr (x, m1)" for x m1
      using Op2.IH(2) [of m1] Op2.prems eval_count [OF that] by simp
    with Op2.IH(1) [OF Op2.prems] show ?case by (auto simp: res_bind_eq_Inl)
  next
    case (Op1 f a)
    with Op1.IH [OF Op1.prems] show ?case by (auto simp: res_bind_eq_Inl)
  next
    case (If_changed a c b)
    have "eval T root fuel a m1 \<noteq> Inl Out_of_fuel \<and> eval T root fuel b m1 \<noteq> Inl Out_of_fuel"
      if "eval T root fuel a m = Inr (x, m1)" for x m1
      using If_changed.IH(1,2) [of m1] If_changed.prems eval_count [OF that] by simp
    with If_changed.IH(1) [OF If_changed.prems] show ?case by (auto simp: res_bind_eq_Inl split: if_splits)
  qed simp
qed

lemma read_all_fuel: "read_all T root pre s m \<noteq> Inl Out_of_fuel"
proof (induction T root pre s m rule: read_all.induct)
  case (2 T root pre g m)
  show ?case by (simp only: read_all.simps) (rule eval_fuel, simp)
qed (auto simp: res_bind_eq_Inl)

section \<open>The resolved theme\<close>

fun unique_keys :: "setting \<Rightarrow> bool" where
  "unique_keys (Group ss) \<longleftrightarrow> distinct (map fst ss) \<and> list_all (\<lambda>p. unique_keys (snd p)) ss"
| "unique_keys s = True"

lemma read_group: "read_all T root pre (Group ss) m = Inr (v, m') \<Longrightarrow> \<exists>ps. v = Obj ps"
proof (induction ss arbitrary: m v m')
  case (Cons p ss)
  obtain k s where p: "p = (k, s)" by (cases p)
  from Cons.prems obtain w m1 o' where "read_all T root pre (Group ss) m1 = Inr (o', m')" "v = obj_cons k w o'"
    by (auto simp: p res_bind_eq_Inr)
  with Cons.IH [of m1 o' m'] show ?case by auto
qed simp

lemma read_all_sound:
  assumes "read_all T root pre s m = Inr (v, m')" "memo_ok T root m" "unique_keys s"
    and "\<And>ks g. setting_at s ks = Some (Getter g) \<Longrightarrow> setting_at root (pre @ ks) = Some (Getter g)"
  shows "memo_ok T root m' \<and> (\<forall>ks g. setting_at s ks = Some (Getter g) \<longrightarrow>
     (\<exists>x. js_path ks v = Some x \<and> gval T root g x))"
  using assms
proof (induction T root pre s m arbitrary: v m' rule: read_all.induct)
  case (1 T root pre w m)
  have "setting_at (Const w) ks \<noteq> Some (Getter g)" for ks g by (cases ks) auto
  with 1 show ?case by auto
next
  case (2 T root pre g m)
  from 2(1) have e: "eval T root (Suc max_computations) (Path pre) m = Inr (v, m')" by simp
  from eval_sound [OF e 2(2)] have v: "gval T root (Path pre) v" "memo_ok T root m'" by auto
  have "setting_at root pre = Some (Getter g)" using 2(4) [of "[]"] by simp
  with v(1) have "gval T root g v" by (auto elim: gval_PathE)
  moreover have "setting_at (Getter g) ks = Some (Getter h) \<Longrightarrow> ks = [] \<and> h = g" for ks h by (cases ks) auto
  ultimately have "\<exists>x. js_path ks v = Some x \<and> gval T root h x" if "setting_at (Getter g) ks = Some (Getter h)" for ks h
    using that by (metis js_path.simps(1))
  with v(2) show ?case by blast
next
  case (3 T root pre m)
  have "setting_at (Group []) ks \<noteq> Some (Getter g)" for ks g by (cases ks) auto
  with 3 show ?case by auto
next
  case (4 T root pre k s ss m)
  from 4(3) obtain w m1 o' where w: "read_all T root (pre @ [k]) s m = Inr (w, m1)"
    and o': "read_all T root pre (Group ss) m1 = Inr (o', m')"
    and v: "v = obj_cons k w o'"
    by (auto simp: res_bind_eq_Inr)
  from read_group [OF o'] obtain ps where ps: "o' = Obj ps" by blast
  have k: "k \<notin> fst ` set ss" and uk: "unique_keys s" "unique_keys (Group ss)" using 4(5) by auto
  have head: "memo_ok T root m1 \<and> (\<forall>ks g. setting_at s ks = Some (Getter g) \<longrightarrow>
      (\<exists>x. js_path ks w = Some x \<and> gval T root g x))"
  proof (rule 4(1) [OF w 4(4) uk(1)])
    fix ks g
    assume "setting_at s ks = Some (Getter g)"
    then show "setting_at root ((pre @ [k]) @ ks) = Some (Getter g)" using 4(6) [of "k # ks" g] by simp
  qed
  have tail: "memo_ok T root m' \<and> (\<forall>ks g. setting_at (Group ss) ks = Some (Getter g) \<longrightarrow>
      (\<exists>x. js_path ks o' = Some x \<and> gval T root g x))"
  proof (rule 4(2) [OF w refl o' _ uk(2)])
    show "memo_ok T root m1" using head by blast
    fix ks g
    assume "setting_at (Group ss) ks = Some (Getter g)"
    moreover from this k have "hd ks \<noteq> k" "ks \<noteq> []"
      by (cases ks; force split: option.splits if_splits dest: map_of_SomeD)+
    ultimately show "setting_at root (pre @ ks) = Some (Getter g)" using 4(6) [of ks g] by (cases ks) auto
  qed
  have "\<exists>x. js_path ks v = Some x \<and> gval T root g x"
    if "setting_at (Group ((k, s) # ss)) ks = Some (Getter g)" for ks g
  proof (cases ks)
    case Nil
    with that show ?thesis by simp
  next
    case (Cons k' ks')
    show ?thesis
    proof (cases "k' = k")
      case True
      with that Cons head show ?thesis by (auto simp: v ps js_prop_def)
    next
      case False
      with that Cons have "setting_at (Group ss) ks = Some (Getter g)" by simp
      with tail obtain x where "js_path ks o' = Some x" "gval T root g x" by blast
      with Cons False ps show ?thesis by (auto simp: v js_prop_def)
    qed
  qed
  with tail show ?case by blast
qed

lemma resolve_values:
  assumes "unique_keys theme" "resolve T theme = Inr v" "setting_at theme ks = Some (Getter g)"
  shows "\<exists>x. js_path ks v = Some x \<and> gval T theme g x"
proof -
  from assms(2) obtain m where r: "read_all T theme [] theme ([], 0) = Inr (v, m)"
    by (auto simp: resolve_def res_bind_eq_Inr)
  have "memo_ok T theme ([], 0)" by (simp add: memo_ok_def)
  from read_all_sound [OF r this assms(1)] assms(3) show ?thesis by simp
qed

lemma resolve_fuel: "resolve T theme \<noteq> Inl Out_of_fuel"
  by (auto simp: resolve_def res_bind_eq_Inl read_all_fuel)

text \<open>C25: Resolving a theme always ends, whatever its settings depend on: the bound on getters inside getters is
  never reached before the count of computations is.\<close>

theorem resolve_terminates: "resolve T theme \<noteq> Inl Out_of_fuel"
  by (rule resolve_fuel)


section \<open>Circular themes\<close>

text \<open>The paths an expression reads whatever the values are.\<close>

fun needs :: "gexp \<Rightarrow> string list set" where
  "needs (Path ks) = {ks}"
| "needs (Lit v) = {}"
| "needs (Op2 f a b) = needs a \<union> needs b"
| "needs (Op1 f a) = needs a"
| "needs (If_changed a c b) = needs a"

definition circular :: "setting \<Rightarrow> string list set \<Rightarrow> bool" where
  "circular theme S \<longleftrightarrow>
     (\<forall>ks\<in>S. case setting_at theme ks of Some (Getter g) \<Rightarrow> needs g \<inter> S \<noteq> {} | _ \<Rightarrow> False)"

lemma no_circular_value: "gval T theme g v \<Longrightarrow> circular theme S \<Longrightarrow> needs g \<inter> S = {}"
proof (induction rule: gval.induct)
  case (const ks v)
  then show ?case by (auto simp: circular_def)
next
  case (getter ks g v)
  then show ?case by (auto simp: circular_def)
qed auto


section \<open>Merged themes\<close>

lemma foldl_update_other:
  "k \<notin> fst ` set ss \<Longrightarrow> map_of (foldl (\<lambda>acc p. AList.update (fst p) (f acc p) acc) ts ss) k = map_of ts k"
  by (induction ss arbitrary: ts) (auto simp: update_conv')

lemma merge_groups:
  "merge (Group ts) (Group ss) = Group (foldl (\<lambda>acc p. AList.update (fst p)
     (if is_group (snd p) then merge (if missing (map_of acc (fst p)) then Group [] else the (map_of acc (fst p))) (snd p)
      else snd p) acc) ts ss)"
  by (simp add: merge.simps [of "Group ts"])

text \<open>In a merged group a setting of the user replaces the default, unless it is a group: then it is merged
  into the default of that name; settings the user does not give keep their default.\<close>

theorem merge_lookup:
  assumes "distinct (map fst ss)"
  shows "\<exists>ms. merge (Group ts) (Group ss) = Group ms \<and>
    (\<forall>k. map_of ms k = (case map_of ss k of
       None \<Rightarrow> map_of ts k
     | Some v \<Rightarrow> Some (if is_group v then merge (if missing (map_of ts k) then Group [] else the (map_of ts k)) v else v)))"
proof -
  define f :: "(string \<times> setting) list \<Rightarrow> string \<times> setting \<Rightarrow> setting"
    where "f = (\<lambda>acc p. if is_group (snd p)
     then merge (if missing (map_of acc (fst p)) then Group [] else the (map_of acc (fst p))) (snd p) else snd p)"
  have "map_of (foldl (\<lambda>acc p. AList.update (fst p) (f acc p) acc) ts ss) k =
      (case map_of ss k of None \<Rightarrow> map_of ts k | Some v \<Rightarrow> Some (f ts (k, v)))" for k
    using assms
  proof (induction ss arbitrary: ts)
    case (Cons p ss)
    obtain j v where p: "p = (j, v)" by (cases p)
    let ?ts = "AList.update j (f ts (j, v)) ts"
    have IH: "map_of (foldl (\<lambda>acc p. AList.update (fst p) (f acc p) acc) ?ts ss) k =
      (case map_of ss k of None \<Rightarrow> map_of ?ts k | Some v \<Rightarrow> Some (f ?ts (k, v)))"
      using Cons by simp
    show ?case
    proof (cases "k = j")
      case True
      with Cons.prems p have "map_of ss k = None" by (simp add: map_of_eq_None_iff)
      with IH True show ?thesis by (simp add: p update_conv')
    next
      case False
      then have "map_of ?ts k = map_of ts k" by (simp add: update_conv')
      with False have "f ?ts (k, v) = f ts (k, v)" for v by (simp add: f_def)
      with IH False show ?thesis by (simp add: p update_conv' split: option.splits)
    qed
  qed simp
  note lookup = this
  show ?thesis unfolding merge_groups
  proof (intro exI conjI allI)
    fix k
    show "map_of (foldl (\<lambda>acc p. AList.update (fst p)
       (if is_group (snd p) then merge (if missing (map_of acc (fst p)) then Group [] else the (map_of acc (fst p))) (snd p)
        else snd p) acc) ts ss) k = (case map_of ss k of None \<Rightarrow> map_of ts k
       | Some v \<Rightarrow> Some (if is_group v then merge (if missing (map_of ts k) then Group [] else the (map_of ts k)) v else v))"
      unfolding lookup [of k, unfolded f_def] by (cases "map_of ss k") simp_all
  qed (rule refl)
qed

section \<open>The default theme, for colour functions that leave colours alone\<close>

definition demo_tints :: tints where
  "demo_tints = \<lparr>ti_darken = \<lambda>a b. Some b, ti_lighten = \<lambda>a b. Some b, ti_desaturate = \<lambda>a b. Some b,
     ti_transparentize = \<lambda>a b. Some b, ti_readable = \<lambda>a. Some (Str ''#000''), ti_double = \<lambda>a. Some (Dec ''0.4'')\<rparr>"

definition default_theme :: js where
  "default_theme =
     Obj [(''spacing'', Obj [(''unit'', Num 5), (''sectionHorizontal'', Num 40), (''sectionVertical'', Num
     40)]), (''breakpoints'', Obj [(''small'', Str ''50rem''), (''medium'', Str ''75rem''), (''large'', Str
     ''105rem'')]), (''colors'', Obj [(''tonalOffset'', Dec ''0.2''), (''primary'', Obj [(''main'', Str
     ''#32329f''), (''light'', Str ''#32329f''), (''dark'', Str ''#32329f''), (''contrastText'', Str
     ''#000'')]), (''success'', Obj [(''main'', Str ''#1d8127''), (''light'', Str ''#1d8127''), (''dark'', Str
     ''#1d8127''), (''contrastText'', Str ''#000'')]), (''warning'', Obj [(''main'', Str ''#ffa500''),
     (''light'', Str ''#ffa500''), (''dark'', Str ''#ffa500''), (''contrastText'', Str ''#ffffff'')]),
     (''error'', Obj [(''main'', Str ''#d41f1c''), (''light'', Str ''#d41f1c''), (''dark'', Str ''#d41f1c''),
     (''contrastText'', Str ''#000'')]), (''gray'', Obj [(''50'', Str ''#FAFAFA''), (''100'', Str
     ''#F5F5F5'')]), (''text'', Obj [(''primary'', Str ''#333333''), (''secondary'', Str ''#333333'')]),
     (''border'', Obj [(''dark'', Str ''rgba(0,0,0, 0.1)''), (''light'', Str ''#ffffff'')]), (''responses'',
     Obj [(''success'', Obj [(''color'', Str ''#1d8127''), (''backgroundColor'', Str ''#1d8127''),
     (''tabTextColor'', Str ''#1d8127'')]), (''error'', Obj [(''color'', Str ''#d41f1c''),
     (''backgroundColor'', Str ''#d41f1c''), (''tabTextColor'', Str ''#d41f1c'')]), (''redirect'', Obj
     [(''color'', Str ''#ffa500''), (''backgroundColor'', Str ''#ffa500''), (''tabTextColor'', Str
     ''#ffa500'')]), (''info'', Obj [(''color'', Str ''#87ceeb''), (''backgroundColor'', Str ''#87ceeb''),
     (''tabTextColor'', Str ''#87ceeb'')])]), (''http'', Obj [(''get'', Str ''#2F8132''), (''post'', Str
     ''#186FAF''), (''put'', Str ''#95507c''), (''options'', Str ''#947014''), (''patch'', Str ''#bf581d''),
     (''delete'', Str ''#cc3333''), (''basic'', Str ''#707070''), (''link'', Str ''#07818F''), (''head'', Str
     ''#A23DAD'')])]), (''schema'', Obj [(''linesColor'', Str ''#32329f''), (''defaultDetailsWidth'', Str
     ''75%''), (''typeNameColor'', Str ''#333333''), (''typeTitleColor'', Str ''#333333''),
     (''requireLabelColor'', Str ''#d41f1c''), (''labelsTextSize'', Str ''0.9em''), (''nestingSpacing'', Str
     ''1em''), (''nestedBackground'', Str ''#fafafa''), (''arrow'', Obj [(''size'', Str ''1.1em''),
     (''color'', Str ''#333333'')])]), (''typography'', Obj [(''fontSize'', Str ''14px''), (''lineHeight'',
     Str ''1.5em''), (''fontWeightRegular'', Str ''400''), (''fontWeightBold'', Str ''600''),
     (''fontWeightLight'', Str ''300''), (''fontFamily'', Str ''Roboto, sans-serif''), (''smoothing'', Str
     ''antialiased''), (''optimizeSpeed'', Bool True), (''headings'', Obj [(''fontFamily'', Str
     ''Montserrat, sans-serif''), (''fontWeight'', Str ''400''), (''lineHeight'', Str ''1.6em'')]), (''code'',
     Obj [(''fontSize'', Str ''13px''), (''fontFamily'', Str ''Courier, monospace''), (''lineHeight'', Str
     ''1.5em''), (''fontWeight'', Str ''400''), (''color'', Str ''#e53935''), (''backgroundColor'', Str
     ''rgba(38, 50, 56, 0.05)''), (''wrap'', Bool False)]), (''links'', Obj [(''color'', Str ''#32329f''),
     (''visited'', Str ''#32329f''), (''hover'', Str ''#32329f''), (''textDecoration'', Str ''auto''),
     (''hoverTextDecoration'', Str ''auto'')])]), (''sidebar'', Obj [(''width'', Str ''260px''),
     (''backgroundColor'', Str ''#fafafa''), (''textColor'', Str ''#333333''), (''activeTextColor'', Str
     ''#32329f''), (''groupItems'', Obj [(''activeBackgroundColor'', Str ''#fafafa''), (''activeTextColor'',
     Str ''#32329f''), (''textTransform'', Str ''uppercase'')]), (''level1Items'', Obj
     [(''activeBackgroundColor'', Str ''#fafafa''), (''activeTextColor'', Str ''#32329f''),
     (''textTransform'', Str ''none'')]), (''arrow'', Obj [(''size'', Str ''1.5em''), (''color'', Str
     ''#333333'')])]), (''logo'', Obj [(''maxHeight'', Str ''260px''), (''maxWidth'', Str ''260px''),
     (''gutter'', Str ''2px'')]), (''rightPanel'', Obj [(''backgroundColor'', Str ''#263238''), (''width'',
     Str ''40%''), (''textColor'', Str ''#ffffff''), (''servers'', Obj [(''overlay'', Obj
     [(''backgroundColor'', Str ''#fafafa''), (''textColor'', Str ''#263238'')]), (''url'', Obj
     [(''backgroundColor'', Str ''#fff'')])])]), (''codeBlock'', Obj [(''backgroundColor'', Str
     ''#263238'')]), (''fab'', Obj [(''backgroundColor'', Str ''#f2f2f2''), (''color'', Str ''#0065FB'')])]"

lemma default_theme_resolved: "resolve demo_tints Vr = Inr default_theme"
  by code_simp



lemma merge_lookup_witness:
  "\<exists>ms. merge (Group [(''sidebar'', Group [(''width'', Const (Str ''260px'')), (''textColor'', Const (Str ''#333''))])])
       (Group [(''sidebar'', Group [(''width'', Const (Str ''300px''))])]) = Group ms \<and>
     map_of ms ''sidebar'' = Some (merge (Group [(''width'', Const (Str ''260px'')), (''textColor'', Const (Str ''#333''))])
       (Group [(''width'', Const (Str ''300px''))]))"
  using merge_lookup [of "[(''sidebar'', Group [(''width'', Const (Str ''300px''))])]"
      "[(''sidebar'', Group [(''width'', Const (Str ''260px'')), (''textColor'', Const (Str ''#333''))])]"]
  by (auto simp: missing_def)

end
