(* ===== verification/Redoc_Sheet.thy ===== *)
theory Redoc_Sheet
  imports Redoc_Page Redoc_Theme
begin

text \<open>
  The style sheet of the Redoc bundle as a whole: which components have well nested CSS, and which
  close a block they never opened.
\<close>

definition well_formed_components :: "component list" where
  "well_formed_components =
     [sc_va, sc_xa, sc_ka, sc_Ou, sc_Su, sc_Eu, sc_Pu, sc_Au, sc_Ru, sc_ju, sc_h2_small, sc_Tu, sc_Iu, sc_zu,
      sc_Bu, sc_qu, sc_Hu, sc_Yu, sc_Ku, sc_Gu, sc_Qu, sc_Xu, sc_Ju, sc_Zu, sc_ep, sc_np, sc_rp, sc_op,
      sc_Dp, sc_Dp_small, sc_Lp, sc_Mp, sc_Fp, sc_zp, sc_Sd, sc_Ad, sc_Cd, sc_Rd, sc_jd, sc_Rf, sc_zf, sc_Uf,
      sc_Vf, sc_Bf, sc_qf, sc_rh, sc_oh, sc_uh, sc_ph, sc_dh, sc_fh, sc_hh, sc_gh, sc_am, sc_sm, sc_lm,
      sc_cm, sc_um, sc_dm, sc_fm, sc_hm, sc_mm, sc_bm, sc_wm, sc_u_m, sc_Om, sc_Pm, sc_jm, sc_og, sc_Dg,
      sc_div_gray, sc_ul_commas, sc_Lg, sc_Mg, sc_Fg, sc_zg, sc_Ug, sc_Vg, sc_Bg, sc_qg, sc_Wg, sc_Yg, sc_Kg,
      sc_Gg, sc_ny, sc_ry, sc_oy, sc_iy, sc_ay, sc_ly, sc_cy, sc_uy, sc_xy, sc_u_y, sc_Oy, sc_Ey, sc_Py,
      sc_Ay, sc_d_y, sc_Cy, sc_Ry, sc_jy, sc_Ty, sc_Ny, sc_Dy, sc_Ly, sc_My, sc_Fy, sc_zy, sc_Uy, sc_ev,
      sc_tv, sc_nv, sc_rv, sc_dv, sc_wv, sc_u_v, sc_Iv, sc_Bv, sc_Zv, sc_jb, sc_Nb, sc_Db, sc_Mb, sc_Fb,
      sc_zb, sc_Ub, sc_Vb, sc_Bb, sc_Wb]"

definition stray_components :: "component list" where
  "stray_components = [sc_tp, sc_gm, sc_ym, sc_vm, sc_qb]"

section \<open>Stray braces\<close>

definition stray :: "runtime \<Rightarrow> js \<Rightarrow> component \<Rightarrow> bool" where
  "stray R e c \<longleftrightarrow> (\<forall>ts. component_css R e c = Some ts \<longrightarrow> list_ex (\<lambda>t. nest t 0 = None) ts)"

lemma stray_own:
  assumes "\<And>s. render R e (Many cs) = Some s \<Longrightarrow> nest s 0 = None"
  shows "stray R e (Component n b cs)"
  unfolding stray_def
proof (intro allI impI)
  fix ts
  assume "component_css R e (Component n b cs) = Some ts"
  then obtain base t where "render R e (Many cs) = Some t" "ts = (if t = [] then base else base @ [t])"
    by (auto simp: render_css split: option.splits simp del: render.simps)
  moreover from this assms have "nest t 0 = None" by blast
  ultimately show "list_ex (\<lambda>t. nest t 0 = None) ts" by (auto simp: list_ex_iff)
qed

lemma stray_base:
  assumes "stray R e c"
  shows "stray R e (Component n (Some c) cs)"
  using assms unfolding stray_def by (auto split: option.splits if_splits)

lemma stray_computed:
  "rest_quiet R e cs \<Longrightarrow> block_depth cs 0 = None \<Longrightarrow> stray R e (Component n b cs)"
  by (rule stray_own) (simp add: nest_concat)

lemma stray_second:
  assumes "nest (val_text v) 0 = Some 0" "nest_lines (map opt_text (vs R e)) 0 = None"
  shows "stray R e (Component n b (Val v # tpl_at vs # cs))"
proof (rule stray_own)
  fix s
  assume "render R e (Many (Val v # tpl_at vs # cs)) = Some s"
  then obtain t r where "render R e (tpl_at vs) = Some t" "s = val_text v @ t @ r"
    by (auto split: option.splits simp: option.map_comp)
  moreover from this(1) have "t = concat (map opt_text (vs R e))"
    by (auto simp: tpl_at_def Option.bind_eq_Some_conv template_val_text)
  ultimately show "nest s 0 = None" using assms by (simp add: nest_append nest_concat_lines)
qed

lemma stray_all:
  assumes "sane R e"
  shows "stray R e sc_tp" "stray R e sc_gm" "stray R e sc_ym" "stray R e sc_vm" "stray R e sc_qb"
proof -
  show "stray R e sc_tp" "stray R e sc_qb"
    unfolding sc_tp_def sc_qb_def
    by (insert assms; rule stray_computed; simp add: css_steps quiet_intros cong: text_congs)+
  show gm: "stray R e sc_gm"
    unfolding sc_gm_def example_colours_def using assms
    by (intro stray_second) (simp_all add: css_steps nest_opt_text sane_tints del: js_path.simps)
  then show "stray R e sc_ym" unfolding sc_ym_def by (rule stray_base)
  show "stray R e sc_vm"
    unfolding sc_vm_def constraint_colours_def using assms
    by (intro stray_second) (simp_all add: css_steps nest_opt_text sane_tints del: js_path.simps)
qed

text \<open>C2: In every sane theme the CSS of these components is well nested: no text closes a block it did not
  open, and all blocks are closed at the end.\<close>

theorem templates_well_nested:
  assumes "sane R e"
  shows "list_all (closed R e) well_formed_components"
  using closed_components [OF assms] by (simp add: well_formed_components_def)

text \<open>C29: The one-of label, the example and constraint items of a schema and the search results close
  a block they never opened, in every sane theme: the rest of their rules leaves their block.\<close>

theorem stray_closing_braces:
  assumes "sane R e"
  shows "list_all (stray R e) stray_components"
  using stray_all [OF assms] by (simp add: stray_components_def)

section \<open>The default theme\<close>

definition demo_runtime :: runtime where
  "demo_runtime = \<lparr>rt_id = (\<lambda>_. ''sc''), rt_frames = (\<lambda>_. ''spin''), rt_darken = (\<lambda>x c. Some c), rt_lighten = (\<lambda>x c. Some c),
     rt_transparentize = (\<lambda>x c. Some c), rt_is_light = (\<lambda>c. Some True), rt_hook = None\<rparr>"

definition demo_props :: js where
  "demo_props = Obj [(''theme'', default_theme), (''type'', Str ''success'')]"

lemma demo_sane: "sane demo_runtime demo_props"
proof -
  have "plain demo_props" by code_simp
  then show ?thesis by (simp add: sane_def plain_tint_def demo_runtime_def)
qed

lemma templates_well_nested_witness:
  "list_all (closed demo_runtime demo_props) well_formed_components \<and>
   component_css demo_runtime demo_props sc_Pu = Some
    [py_join CHR 0x0A [[], ''  width: 40%;'', ''  color: #ffffff;'', ''  background-color: #263238;'', ''  padding: 0 40px;'', [],
       ''  '', ''      @media print,  screen and (max-width: 75rem)  {'', ''        '', ''    width: 100%;'',
       ''    padding: 40px 40px;'', ''  ;'', ''      }'', ''    ;'', []],
     py_join CHR 0x0A [[], ''  background-color: #263238;'', []]]"
proof
  show "list_all (closed demo_runtime demo_props) well_formed_components"
    by (rule templates_well_nested [OF demo_sane])
qed code_simp

lemma stray_closing_braces_witness:
  "list_all (stray demo_runtime demo_props) stray_components \<and>
   component_css demo_runtime demo_props sc_tp = Some
    [py_join CHR 0x0A [[], ''  font-size: 0.9em;'', ''  margin-right: 10px;'', ''  color: #32329f;'',
       ''  font-family: Montserrat, sans-serif;'', [CHR 0x7D], []]]"
proof
  show "list_all (stray demo_runtime demo_props) stray_components"
    by (rule stray_closing_braces [OF demo_sane])
qed code_simp

end
