(* ===== verification/Redoc_Parser.thy ===== *)
theory Redoc_Parser
  imports Redoc_Js
begin

text \<open>
  How the Redoc bundle finds its way in an API document: JSON pointers (the class \<open>Da\<close> over the module
  \<open>json-pointer\<close>), and of the class \<open>OpenAPIParser\<close> (\<open>fc\<close>) the resolution of references and the hoisting of
  \<open>oneOf\<close>. \<^const>\<open>None\<close> is a thrown exception.
\<close>

section \<open>JSON pointers\<close>

definition pointer_escape :: "string \<Rightarrow> string" where
  "pointer_escape e = replace_char CHR ''/'' ''~1'' (replace_char CHR ''~'' ''~0'' e)"

definition pointer_unescape :: "string \<Rightarrow> string" where
  "pointer_unescape e = replace_sub ''~0'' ''~'' (replace_sub ''~1'' ''/'' e)"

definition pointer_parse :: "string \<Rightarrow> string list option" where
  "pointer_parse e =
     (case e of
        [] \<Rightarrow> Some []
      | c # s \<Rightarrow> if c \<noteq> CHR ''/'' then None else Some (map pointer_unescape (py_split CHR ''/'' s)))"

definition pointer_compile :: "string list \<Rightarrow> string" where
  "pointer_compile e = (if e = [] then [] else CHR ''/'' # py_join CHR ''/'' (map pointer_escape e))"

text \<open>\<open>Da.parse\<close>: an initial \<open>#\<close> is skipped. It replaces the \<open>parse\<close> that \<open>get\<close> calls.\<close>

definition Da_parse :: "string \<Rightarrow> string list option" where
  "Da_parse e = (case e of c # s \<Rightarrow> pointer_parse (if c = CHR ''#'' then s else e) | [] \<Rightarrow> pointer_parse e)"

text \<open>
  \<open>i in e\<close> and \<open>e[i]\<close> for an object or an array: an own property, or an inherited one. What objects and
  arrays inherit (\<open>toString\<close> and the like) is the parameter \<open>inherited\<close>.
\<close>

definition js_member :: "(js \<Rightarrow> string \<Rightarrow> js option) \<Rightarrow> js \<Rightarrow> string \<Rightarrow> js option" where
  "js_member inherited e i =
     (case e of
        Obj ps \<Rightarrow> (case map_of ps i of Some v \<Rightarrow> Some v | None \<Rightarrow> inherited e i)
      | Arr vs \<Rightarrow>
          (case map_of (zip (map dec_str [0..<length vs]) vs) i of
             Some v \<Rightarrow> Some v
           | None \<Rightarrow> if i = ''length'' then Some (Num (int (length vs))) else inherited e i)
      | _ \<Rightarrow> None)"

fun pointer_walk :: "(js \<Rightarrow> string \<Rightarrow> js option) \<Rightarrow> js \<Rightarrow> string list \<Rightarrow> js option" where
  "pointer_walk inherited e [] = Some e"
| "pointer_walk inherited e (i # n) =
     (case js_member inherited e i of None \<Rightarrow> None | Some v \<Rightarrow> pointer_walk inherited v n)"

definition pointer_get :: "(js \<Rightarrow> string \<Rightarrow> js option) \<Rightarrow> js \<Rightarrow> string \<Rightarrow> js option" where
  "pointer_get inherited e t = Option.bind (Da_parse t) (pointer_walk inherited e)"

section \<open>decodeURIComponent\<close>

definition hex_digit :: "char \<Rightarrow> nat option" where
  "hex_digit c =
     (let n = cp c in
      if 48 \<le> n \<and> n \<le> 57 then Some (n - 48)
      else if 65 \<le> n \<and> n \<le> 70 then Some (n - 55)
      else if 97 \<le> n \<and> n \<le> 102 then Some (n - 87) else None)"

text \<open>The bytes of a run of escapes and the text behind it; a \<open>%\<close> without two hexadecimal digits throws.\<close>

fun escapes :: "string \<Rightarrow> (nat list \<times> string) option" where
  "escapes (a # b # c # s) =
     (if a = CHR ''%'' then
        (case (hex_digit b, hex_digit c) of
           (Some m, Some n) \<Rightarrow> map_option (\<lambda>(bs, r). ((16 * m + n) # bs, r)) (escapes s)
         | _ \<Rightarrow> None)
      else Some ([], a # b # c # s))"
| "escapes s = (case s of [] \<Rightarrow> Some ([], s) | a # _ \<Rightarrow> if a = CHR ''%'' then None else Some ([], s))"

definition continuation :: "nat \<Rightarrow> bool" where
  "continuation b \<longleftrightarrow> 128 \<le> b \<and> b \<le> 191"

text \<open>Well-formed UTF-8: no overlong form, no surrogate, nothing above U+10FFFF.\<close>

fun utf8_valid :: "nat list \<Rightarrow> bool" where
  "utf8_valid [] = True"
| "utf8_valid (b # bs) =
     (if b < 128 then utf8_valid bs
      else if 194 \<le> b \<and> b \<le> 223 then
        (case bs of c # r \<Rightarrow> continuation c \<and> utf8_valid r | _ \<Rightarrow> False)
      else if 224 \<le> b \<and> b \<le> 239 then
        (case bs of c # d # r \<Rightarrow> continuation c \<and> continuation d \<and> (b = 224 \<longrightarrow> 160 \<le> c) \<and> (b = 237 \<longrightarrow> c \<le> 159) \<and> utf8_valid r
         | _ \<Rightarrow> False)
      else if 240 \<le> b \<and> b \<le> 244 then
        (case bs of c # d # f # r \<Rightarrow> continuation c \<and> continuation d \<and> continuation f \<and> (b = 240 \<longrightarrow> 144 \<le> c) \<and>
           (b = 244 \<longrightarrow> c \<le> 143) \<and> utf8_valid r
         | _ \<Rightarrow> False)
      else False)"

lemma escapes_not_longer: "escapes s = Some (bs, r) \<Longrightarrow> length r \<le> length s"
  by (induction s arbitrary: bs r rule: escapes.induct)
     (fastforce split: if_splits option.splits list.splits)+

lemma escapes_shorter: "escapes (CHR ''%'' # s) = Some (bs, r) \<Longrightarrow> length r < Suc (length s)"
proof (cases s rule: list.exhaust)
  case (Cons b s')
  assume e: "escapes (CHR ''%'' # s) = Some (bs, r)"
  show ?thesis
  proof (cases s')
    case Nil
    with e Cons show ?thesis by simp
  next
    case inner: (Cons c s'')
    with e Cons obtain bs' where "escapes s'' = Some (bs', r)"
      by (auto split: option.splits)
    from escapes_not_longer [OF this] show ?thesis using Cons inner by simp
  qed
qed simp

function decode_uri :: "string \<Rightarrow> string option" where
  "decode_uri [] = Some []"
| "decode_uri (c # s) =
     (if c \<noteq> CHR ''%'' then map_option ((#) c) (decode_uri s)
      else (case escapes (c # s) of
              None \<Rightarrow> None
            | Some (bs, r) \<Rightarrow> if utf8_valid bs then map_option ((@) (map char_of bs)) (decode_uri r) else None))"
  by pat_completeness auto
termination
  by (relation "measure length") (auto dest: escapes_shorter)

section \<open>References\<close>

text \<open>The document, whether it is of OpenAPI 3.1, the option \<open>ignoreNamedSchemas\<close>, what objects inherit.\<close>

record parser =
  pa_spec :: js
  pa_allow_merge_refs :: bool
  pa_ignored :: "string list"
  pa_inherited :: "js \<Rightarrow> string \<Rightarrow> js option"

text \<open>\<open>ls\<close>: the last part of \<open>#/components/schemas/NAME\<close> and \<open>#/components/pathItems/NAME\<close>.\<close>

definition named_schema :: "string \<Rightarrow> string option" where
  "named_schema e =
     (let name = (if startswith ''#/components/schemas/'' e then drop 21 e
                  else if startswith ''#/components/pathItems/'' e then drop 23 e else []) in
      if name \<noteq> [] \<and> CHR ''/'' \<notin> set name then Some name else None)"

text \<open>\<open>byRef\<close>: what is not found, and what is false, is the empty object.\<close>

definition by_ref :: "parser \<Rightarrow> string \<Rightarrow> js option" where
  "by_ref P e =
     Option.bind (decode_uri (if startswith ''#'' e then e else CHR ''#'' # e)) (\<lambda>e.
       Some (js_or (case pointer_get (pa_inherited P) (pa_spec P) e of None \<Rightarrow> Undef | Some t \<Rightarrow> t) (Obj [])))"

definition is_ref :: "js \<Rightarrow> bool" where
  "is_ref e \<longleftrightarrow> truthy e \<and> js_prop ''$ref'' e \<notin> {Some Undef, Some Null}"

text \<open>\<open>dc\<close> and \<open>pc\<close>: \<open>e.concat(t)\<close>, and \<open>e\<close> with \<open>t\<close> at its end.\<close>

definition concat_refs :: "js list \<Rightarrow> js \<Rightarrow> js list" where
  "concat_refs e t = (if truthy t then e @ (case t of Arr vs \<Rightarrow> vs | v \<Rightarrow> [v]) else e)"

definition push_ref :: "js list \<Rightarrow> js \<Rightarrow> js list" where
  "push_ref e t = (if truthy t \<and> (e = [] \<or> last e \<noteq> t) then e @ [t] else e)"

definition own_props :: "js \<Rightarrow> (string \<times> js) list" where
  "own_props e =
     AList.clearjunk
       (case e of
          Obj ps \<Rightarrow> ps
        | Arr vs \<Rightarrow> zip (map dec_str [0..<length vs]) vs
        | Str s \<Rightarrow> zip (map dec_str [0..<length s]) (map (\<lambda>c. Str [c]) s)
        | _ \<Rightarrow> [])"

definition spread :: "(string \<times> js) list \<Rightarrow> (string \<times> js) list \<Rightarrow> (string \<times> js) list" where
  "spread a b = fold (\<lambda>(k, v). AList.update k v) b a"

definition rest_props :: "js \<Rightarrow> string list \<Rightarrow> (string \<times> js) list" where
  "rest_props e names = filter (\<lambda>p. fst p \<notin> set names) (own_props e)"

definition prop_or_undef :: "(string \<times> js) list \<Rightarrow> string \<Rightarrow> js" where
  "prop_or_undef ps k = (case map_of ps k of None \<Rightarrow> Undef | Some v \<Rightarrow> v)"

definition merge_refs :: "js \<Rightarrow> js \<Rightarrow> bool \<Rightarrow> js" where
  "merge_refs e t n =
     (let i = rest_props e [''$ref''];
          picked = [''description'', ''title'', ''readOnly'', ''writeOnly''] in
      if i = [] then t
      else if n \<and> (\<exists>k\<in>set (map fst i). k \<notin> set [''description'', ''title'', ''externalDocs'', ''x-refsStack'',
          ''x-parentRefs'', ''readOnly'', ''writeOnly'']) then
        Obj [(''allOf'', Arr [Obj (map (\<lambda>k. (k, prop_or_undef i k)) picked), t, Obj (rest_props (Obj i) picked)])]
      else Obj (spread (spread [] (own_props t)) i))"

datatype 'a outcome = Throws | Returns 'a

text \<open>The part of \<open>deref\<close> after the reference is resolved to \<open>o\<close>.\<close>

definition deref_end :: "parser \<Rightarrow> js \<Rightarrow> js list \<Rightarrow> bool \<Rightarrow> string \<Rightarrow> js \<Rightarrow> (js \<times> js list) outcome" where
  "deref_end P e t n ref obj =
     Returns (if pa_allow_merge_refs P then merge_refs e obj n else obj, push_ref t (Str ref))"

definition refs_stack :: "js \<Rightarrow> js" where
  "refs_stack e = (case js_prop ''x-refsStack'' e of None \<Rightarrow> Undef | Some r \<Rightarrow> r)"

definition ignored_schema :: "parser \<Rightarrow> string \<Rightarrow> string option" where
  "ignored_schema P ref =
     (case named_schema ref of Some r \<Rightarrow> if r \<in> set (pa_ignored P) then Some r else None | None \<Rightarrow> None)"

text \<open>A call that does not return is \<^const>\<open>None\<close>: \<open>deref\<close> calls itself with the same stack.\<close>

partial_function (option) deref :: "parser \<Rightarrow> js \<Rightarrow> js list \<Rightarrow> bool \<Rightarrow> (js \<times> js list) outcome option" where
  "deref P e t n =
     (let t' = concat_refs t (refs_stack e) in
      if is_ref e then
        (case js_prop ''$ref'' e of
           Some (Str ref) \<Rightarrow>
             (case ignored_schema P ref of
                Some r \<Rightarrow> Some (Returns (Obj [(''type'', Str ''object''), (''title'', Str r)], t'))
              | None \<Rightarrow>
                  (case by_ref P ref of
                     None \<Rightarrow> Some Throws
                   | Some obj \<Rightarrow>
                       if \<not> truthy obj then Some Throws
                       else if Str ref \<in> set t' then
                         Some (deref_end P e t' n ref (Obj (spread (own_props obj) [(''x-circular-ref'', Bool True)])))
                       else if is_ref obj then
                         Option.bind (deref P obj t' n) (\<lambda>out.
                           (case out of
                              Throws \<Rightarrow> Some Throws
                            | Returns (resolved, _) \<Rightarrow> Some (deref_end P e t' n ref resolved)))
                       else Some (deref_end P e t' n ref obj)))
         | _ \<Rightarrow> Some Throws)
      else Some (Returns (e, concat_refs t' (refs_stack e))))"

declare deref.simps [code]

section \<open>oneOf inside allOf\<close>

text \<open>\<open>hoistOneOfs\<close>: the loop over the members of \<open>allOf\<close>; \<open>r\<close> are the members before. A value of \<open>allOf\<close> that is
  no array has no members here.\<close>

fun hoist_loop :: "js \<Rightarrow> js list \<Rightarrow> js list \<Rightarrow> js option" where
  "hoist_loop e r [] = Some e"
| "hoist_loop e r (n # ns) =
     (case js_prop ''oneOf'' n of
        None \<Rightarrow> None
      | Some (Arr ys) \<Rightarrow> Some (Obj [(''oneOf'', Arr (map (\<lambda>y. Obj [(''allOf'', Arr (r @ y # ns))]) ys))])
      | Some _ \<Rightarrow> hoist_loop e (r @ [n]) ns)"

definition hoist_one_ofs :: "js \<Rightarrow> js option" where
  "hoist_one_ofs e =
     (case js_prop ''allOf'' e of
        None \<Rightarrow> None
      | Some Undef \<Rightarrow> Some e
      | Some Null \<Rightarrow> None
      | Some (Arr t) \<Rightarrow> hoist_loop e [] t
      | Some _ \<Rightarrow> Some e)"

section \<open>Lemmas on pointers\<close>

lemma replace_sub_other: "p \<noteq> [] \<Longrightarrow> c \<noteq> hd p \<Longrightarrow> replace_sub p r (c # s) = c # replace_sub p r s"
  by (cases p) (auto simp: replace_sub_Cons startswith_def)

definition escaped_char :: "char \<Rightarrow> string" where
  "escaped_char c = (if c = CHR ''~'' then ''~0'' else if c = CHR ''/'' then ''~1'' else [c])"

lemma pointer_escape_Cons: "pointer_escape (c # s) = escaped_char c @ pointer_escape s"
  by (simp add: pointer_escape_def escaped_char_def)

lemma unescape_escape: "pointer_unescape (pointer_escape s) = s"
proof -
  let ?half = "\<lambda>s. replace_char CHR ''~'' ''~0'' s"
  have first: "replace_sub ''~1'' ''/'' (pointer_escape s) = ?half s" for s
  proof (induction s)
    case (Cons c s)
    consider "c = CHR ''~''" | "c = CHR ''/''" | "c \<noteq> CHR ''~''" "c \<noteq> CHR ''/''" by blast
    then show ?case
      by cases (simp_all add: pointer_escape_Cons escaped_char_def Cons replace_sub_Cons startswith_def)
  qed (simp add: pointer_escape_def)
  have "replace_sub ''~0'' ''~'' (?half s) = s"
  proof (induction s)
    case (Cons c s)
    then show ?case
      by (cases "c = CHR ''~''") (simp_all add: replace_sub_Cons startswith_def)
  qed simp
  then show ?thesis by (simp add: pointer_unescape_def first)
qed

lemma escape_no_slash: "CHR ''/'' \<notin> set (pointer_escape s)"
  by (induction s) (auto simp: pointer_escape_Cons escaped_char_def, simp add: pointer_escape_def)

lemma parse_compile: "pointer_parse (pointer_compile ts) = Some ts"
proof (cases "ts = []")
  case False
  have "py_split CHR ''/'' (py_join CHR ''/'' (map pointer_escape ts)) = map pointer_escape ts"
    by (rule py_split_join) (use False escape_no_slash in auto)
  then show ?thesis
    using False by (simp add: pointer_parse_def pointer_compile_def unescape_escape comp_def)
qed (simp add: pointer_parse_def pointer_compile_def)

lemma Da_parse_compile:
  "Da_parse (pointer_compile ts) = Some ts" "Da_parse (CHR ''#'' # pointer_compile ts) = Some ts"
proof -
  show "Da_parse (CHR ''#'' # pointer_compile ts) = Some ts" by (simp add: Da_parse_def parse_compile)
  have "pointer_compile ts = [] \<or> hd (pointer_compile ts) \<noteq> CHR ''#''" by (simp add: pointer_compile_def)
  then show "Da_parse (pointer_compile ts) = Some ts"
    using parse_compile [of ts] by (cases "pointer_compile ts") (auto simp: Da_parse_def)
qed

section \<open>Lemmas on references\<close>

text \<open>The object \<open>deref\<close> goes on with, and the stack.\<close>

definition deref_next :: "parser \<Rightarrow> js \<times> js list \<Rightarrow> (js \<times> js list) option" where
  "deref_next P s =
     (case s of (e, t) \<Rightarrow>
        let t' = concat_refs t (refs_stack e) in
        case js_prop ''$ref'' e of
          Some (Str ref) \<Rightarrow>
            (case (ignored_schema P ref, by_ref P ref) of
               (None, Some obj) \<Rightarrow>
                 if is_ref e \<and> Str ref \<notin> set t' \<and> is_ref obj then Some (obj, t') else None
             | _ \<Rightarrow> None)
        | _ \<Rightarrow> None)"

lemma by_ref_truthy: "by_ref P ref = Some obj \<Longrightarrow> truthy obj"
proof -
  assume "by_ref P ref = Some obj"
  then obtain v where "obj = js_or v (Obj [])" by (auto simp: by_ref_def Option.bind_eq_Some_conv)
  then show ?thesis by (cases "truthy v") (simp_all add: js_or_def, simp add: truthy_def)
qed

lemma deref_ends: "deref_next P (e, t) = None \<Longrightarrow> \<exists>out. deref P e t n = Some out"
  by (subst deref.simps)
     (auto simp: deref_next_def Let_def by_ref_truthy split: option.splits js.splits if_splits)

lemma deref_next_Some:
  assumes "deref_next P (e, t) = Some (obj, t')"
  obtains ref where "js_prop ''$ref'' e = Some (Str ref)" "is_ref e" "ignored_schema P ref = None"
    "by_ref P ref = Some obj" "concat_refs t (refs_stack e) = t'" "Str ref \<notin> set t'" "is_ref obj"
  using assms by (auto simp: deref_next_def Let_def split: option.splits js.splits if_splits)

lemma deref_goes_on:
  assumes "deref_next P (e, t) = Some (obj, t')"
  obtains ref where "js_prop ''$ref'' e = Some (Str ref)"
    "deref P e t n = Option.bind (deref P obj t' n) (\<lambda>out.
       (case out of Throws \<Rightarrow> Some Throws | Returns (resolved, _) \<Rightarrow> Some (deref_end P e t' n ref resolved)))"
proof -
  obtain ref where ref: "js_prop ''$ref'' e = Some (Str ref)" "is_ref e" "ignored_schema P ref = None"
    "by_ref P ref = Some obj" "concat_refs t (refs_stack e) = t'" "Str ref \<notin> set t'" "is_ref obj"
    by (rule deref_next_Some [OF assms])
  have "deref P e t n = Option.bind (deref P obj t' n) (\<lambda>out.
       (case out of Throws \<Rightarrow> Some Throws | Returns (resolved, _) \<Rightarrow> Some (deref_end P e t' n ref resolved)))"
    unfolding deref.simps [of P e t n] Let_def ref(1,5) using ref(2,6,7) by_ref_truthy [OF ref(4)] by (simp add: ref(3,4))
  with ref(1) show thesis by (rule that)
qed

lemma deref_goes_on_None: "deref_next P (e, t) = Some (obj, t') \<Longrightarrow> deref P e t n = None \<longleftrightarrow> deref P obj t' n = None"
  by (erule deref_goes_on [where n = n]) (auto split: outcome.splits Option.bind_splits)

abbreviation following :: "parser \<Rightarrow> nat \<Rightarrow> js \<Rightarrow> js list \<Rightarrow> (js \<times> js list) option" where
  "following P k e t \<equiv> ((\<lambda>s. Option.bind s (deref_next P)) ^^ k) (Some (e, t))"

lemma following_None: "((\<lambda>s. Option.bind s (deref_next P)) ^^ k) None = None"
  by (induction k) simp_all

lemma following_Suc: "following P (Suc k) e t = ((\<lambda>s. Option.bind s (deref_next P)) ^^ k) (deref_next P (e, t))"
  by (simp only: funpow_Suc_right comp_def) simp

lemma deref_returns_if: "following P k e t = None \<Longrightarrow> \<exists>out. deref P e t n = Some out"
proof (induction k arbitrary: e t)
  case (Suc k)
  show ?case
  proof (cases "deref_next P (e, t)")
    case None
    then show ?thesis by (rule deref_ends)
  next
    case (Some s)
    obtain obj t' where s: "s = (obj, t')" by (cases s)
    have "following P k obj t' = None" using Suc.prems unfolding following_Suc Some s .
    from Suc.IH [OF this] obtain out where "deref P obj t' n = Some out" ..
    then show ?thesis using deref_goes_on_None [OF Some [unfolded s], of n] by auto
  qed
qed simp

lemma deref_returns_then:
  assumes "deref P e t n = Some out"
  shows "\<exists>k. following P k e t = None"
proof -
  have "case (((P, e), t), n) of (((P, e), t), n) \<Rightarrow> \<exists>k. following P k e t = None"
  proof (rule deref.raw_induct [where Pa = "\<lambda>x out. case x of (((P, e), t), n) \<Rightarrow> \<exists>k. following P k e t = None", OF _ assms],
      goal_cases)
    case (1 deref' P e t n out)
    show ?case
    proof (cases "deref_next P (e, t)")
      case None
      then have "following P 1 e t = None" by simp
      then show ?thesis unfolding prod.case ..
    next
      case (Some s)
      obtain obj t' where s: "s = (obj, t')" by (cases s)
      obtain ref where ref: "js_prop ''$ref'' e = Some (Str ref)" "is_ref e" "ignored_schema P ref = None"
        "by_ref P ref = Some obj" "concat_refs t (refs_stack e) = t'" "Str ref \<notin> set t'" "is_ref obj"
        by (rule deref_next_Some [OF Some [unfolded s]])
      from 1(2) [unfolded Let_def ref(1,5)] have "deref' P obj t' n \<noteq> None"
        using ref(2,6,7) by_ref_truthy [OF ref(4)] by (cases "deref' P obj t' n") (simp_all add: ref(3,4))
      then obtain out' where "deref' P obj t' n = Some out'" by blast
      from 1(1) [OF this] obtain k where "following P k obj t' = None" unfolding prod.case ..
      then have "following P (Suc k) e t = None" unfolding following_Suc Some s .
      then show ?thesis unfolding prod.case ..
    qed
  qed
  then show ?thesis by simp
qed

lemma decode_uri_plain: "CHR ''%'' \<notin> set s \<Longrightarrow> decode_uri s = Some s"
  by (induction s) auto

lemma escape_no_percent: "CHR ''%'' \<notin> set s \<Longrightarrow> CHR ''%'' \<notin> set (pointer_escape s)"
  by (induction s) (auto simp: pointer_escape_Cons escaped_char_def, simp add: pointer_escape_def)

lemma join_chars: "c \<noteq> d \<Longrightarrow> \<forall>x\<in>set xs. d \<notin> set x \<Longrightarrow> d \<notin> set (py_join c xs)"
  by (induction c xs rule: py_join.induct) auto

lemma compile_no_percent: "\<forall>t\<in>set ts. CHR ''%'' \<notin> set t \<Longrightarrow> CHR ''%'' \<notin> set (pointer_compile ts)"
  using join_chars [of "CHR ''/''" "CHR ''%''" "map pointer_escape ts"] escape_no_percent
  by (auto simp: pointer_compile_def)

text \<open>Without merging, what comes out of \<open>deref\<close> is no reference, or is marked as circular.\<close>

definition circular :: "js \<Rightarrow> bool" where
  "circular e \<longleftrightarrow> js_prop ''x-circular-ref'' e = Some (Bool True)"

lemma circular_mark: "circular (Obj (spread ps [(''x-circular-ref'', Bool True)]))"
  by (simp add: circular_def spread_def js_prop_def update_conv')

lemma deref_base_result:
  assumes "\<not> pa_allow_merge_refs P" "deref_next P (e, t) = None" "deref P e t n = Some (Returns (obj, refs))"
  shows "\<not> is_ref obj \<or> circular obj"
proof (cases "is_ref e")
  case False
  with assms(3) have "obj = e" by (subst (asm) deref.simps) (simp add: Let_def)
  with False show ?thesis by simp
next
  case True
  from assms(3) True obtain ref where ref: "js_prop ''$ref'' e = Some (Str ref)"
    by (subst (asm) deref.simps) (auto simp: Let_def split: option.splits js.splits)
  note body = assms(3) [unfolded deref.simps [of P e t n] Let_def ref(1), simplified option.case js.case True if_True]
  show ?thesis
  proof (cases "ignored_schema P ref")
    case (Some r)
    with body have "obj = Obj [(''type'', Str ''object''), (''title'', Str r)]" by simp
    then show ?thesis by (simp add: is_ref_def js_prop_def)
  next
    case None
    with body obtain o' where o': "by_ref P ref = Some o'" "truthy o'" by (auto split: option.splits if_splits)
    show ?thesis
    proof (cases "Str ref \<in> set (concat_refs t (refs_stack e))")
      case True
      with body None o' assms(1) have "obj = Obj (spread (own_props o') [(''x-circular-ref'', Bool True)])"
        by (simp add: deref_end_def)
      then show ?thesis using circular_mark by blast
    next
      case False
      have "\<not> is_ref o'" using assms(2) ref \<open>is_ref e\<close> None o' False by (auto simp: deref_next_def Let_def)
      with body None o' False assms(1) have "obj = o'" by (simp add: deref_end_def)
      with \<open>\<not> is_ref o'\<close> show ?thesis by simp
    qed
  qed
qed

lemma deref_result_within:
  assumes "\<not> pa_allow_merge_refs P"
  shows "following P k e t = None \<Longrightarrow> deref P e t n = Some (Returns (obj, refs)) \<Longrightarrow> \<not> is_ref obj \<or> circular obj"
proof (induction k arbitrary: e t refs)
  case (Suc k)
  show ?case
  proof (cases "deref_next P (e, t)")
    case None
    then show ?thesis using deref_base_result [OF assms] Suc.prems(2) by blast
  next
    case (Some s)
    obtain o' t' where s: "s = (o', t')" by (cases s)
    obtain ref where "deref P e t n = Option.bind (deref P o' t' n) (\<lambda>out.
       (case out of Throws \<Rightarrow> Some Throws | Returns (resolved, _) \<Rightarrow> Some (deref_end P e t' n ref resolved)))"
      by (rule deref_goes_on [OF Some [unfolded s], of n])
    with Suc.prems(2) have "\<exists>refs'. deref P o' t' n = Some (Returns (obj, refs'))"
      using assms by (cases "deref P o' t' n") (auto simp: deref_end_def split: outcome.splits)
    then obtain refs' where "deref P o' t' n = Some (Returns (obj, refs'))" ..
    moreover have "following P k o' t' = None" using Suc.prems(1) unfolding following_Suc Some s .
    ultimately show ?thesis by (rule Suc.IH [rotated])
  qed
qed simp

section \<open>What a schema means\<close>

text \<open>
  A value is valid for a schema when it meets all its keywords; \<open>leaf\<close> decides the keywords other than
  \<open>allOf\<close> and \<open>oneOf\<close>.
\<close>

definition exactly_one :: "bool list \<Rightarrow> bool" where
  "exactly_one bs \<longleftrightarrow> length (filter id bs) = 1"

fun schema_valid :: "(string \<times> js \<Rightarrow> bool) \<Rightarrow> js \<Rightarrow> bool" where
  "schema_valid leaf (Obj ps) = list_all (\<lambda>(k, v).
     (case v of
        Arr xs \<Rightarrow>
          if k = ''allOf'' then list_all (schema_valid leaf) xs
          else if k = ''oneOf'' then exactly_one (map (schema_valid leaf) xs)
          else leaf (k, v)
      | _ \<Rightarrow> leaf (k, v))) ps"
| "schema_valid leaf s = truthy s"


lemma loop_hoists:
  assumes "hoist_loop e r ns = Some res"
  shows "res = e \<or> (\<exists>r' n ns' ys. r @ ns = r' @ n # ns' \<and> js_prop ''oneOf'' n = Some (Arr ys) \<and>
           res = Obj [(''oneOf'', Arr (map (\<lambda>y. Obj [(''allOf'', Arr (r' @ y # ns'))]) ys))])"
  using assms
proof (induction e r ns rule: hoist_loop.induct)
  case (2 e r n ns)
  show ?case
  proof (cases "\<exists>ys. js_prop ''oneOf'' n = Some (Arr ys)")
    case True
    then obtain ys where ys: "js_prop ''oneOf'' n = Some (Arr ys)" ..
    with 2 have "res = Obj [(''oneOf'', Arr (map (\<lambda>y. Obj [(''allOf'', Arr (r @ y # ns))]) ys))]" by simp
    with ys show ?thesis by blast
  next
    case False
    with 2 show ?thesis by (auto split: option.splits js.splits)
  qed
qed simp

lemma exactly_one_conj: "exactly_one (map (\<lambda>y. c \<and> P y) ys) \<longleftrightarrow> c \<and> exactly_one (map P ys)"
  by (cases c) (simp_all add: exactly_one_def filter_map comp_def)

lemma hoisted_valid:
  "schema_valid leaf (Obj [(''oneOf'', Arr (map (\<lambda>y. Obj [(''allOf'', Arr (r @ y # ns))]) ys))]) \<longleftrightarrow>
     list_all (schema_valid leaf) (r @ Obj [(''oneOf'', Arr ys)] # ns)"
proof -
  let ?c = "list_all (schema_valid leaf) r \<and> list_all (schema_valid leaf) ns"
  have "map (schema_valid leaf) (map (\<lambda>y. Obj [(''allOf'', Arr (r @ y # ns))]) ys) =
      map (\<lambda>y. ?c \<and> schema_valid leaf y) ys"
    by auto
  then have "exactly_one (map (schema_valid leaf) (map (\<lambda>y. Obj [(''allOf'', Arr (r @ y # ns))]) ys)) \<longleftrightarrow>
      ?c \<and> exactly_one (map (schema_valid leaf) ys)"
    by (simp only: exactly_one_conj)
  then show ?thesis by (simp del: map_map) blast
qed

section \<open>Properties\<close>


definition example_document :: js where
  "example_document = Obj
     [(''paths'', Obj [(''/a~b'', Obj [(''get'', Str ''found'')])]),
      (''self'', Obj [(''$ref'', Str ''#/self'')]),
      (''first'', Obj [(''$ref'', Str ''#/paths/~1a~0b'')])]"

definition example_parser :: parser where
  "example_parser = \<lparr> pa_spec = example_document, pa_allow_merge_refs = False, pa_ignored = [], pa_inherited = \<lambda>_ _. None \<rparr>"


text \<open>C33: \<open>deref\<close> fails to return exactly when the chain of references it follows is endless; the chain is cut only by a
  reference that is on the stack already, and the stack is not extended on the way.
\<close>

lemma deref_never_returns: "deref P e t n = None \<longleftrightarrow> (\<forall>k. following P k e t \<noteq> None)"
proof
  assume "deref P e t n = None"
  then show "\<forall>k. following P k e t \<noteq> None" using deref_returns_if [where P = P and e = e and t = t and n = n] by force
next
  assume "\<forall>k. following P k e t \<noteq> None"
  then show "deref P e t n = None" using deref_returns_then [where P = P and e = e and t = t and n = n] by (cases "deref P e t n") blast+
qed

lemma self_reference_next:
  "deref_next example_parser (Obj [(''$ref'', Str ''#/self'')], []) = Some (Obj [(''$ref'', Str ''#/self'')], [])"
  by code_simp

text \<open>A schema that only refers to itself, an example.\<close>

lemma self_reference_never_returns: "deref example_parser (Obj [(''$ref'', Str ''#/self'')]) [] n = None"
proof -
  have "following example_parser k (Obj [(''$ref'', Str ''#/self'')]) [] = Some (Obj [(''$ref'', Str ''#/self'')], [])" for k
    by (induction k) (simp_all add: self_reference_next)
  then have "\<nexists>k. following example_parser k (Obj [(''$ref'', Str ''#/self'')]) [] = None" by simp
  then have never: "following example_parser k (Obj [(''$ref'', Str ''#/self'')]) [] = None \<Longrightarrow> False" for k by blast
  show ?thesis
  proof (cases "deref example_parser (Obj [(''$ref'', Str ''#/self'')]) [] n")
    case (Some out)
    from deref_returns_then [OF Some] obtain k
      where "following example_parser k (Obj [(''$ref'', Str ''#/self'')]) [] = None" ..
    from never [OF this] show ?thesis ..
  qed
qed

text \<open>What \<open>deref\<close> returns in a document of OpenAPI 3.0 is no reference any more, or it is marked as circular.
\<close>

lemma deref_resolves:
  assumes "\<not> pa_allow_merge_refs P" "deref P e t n = Some (Returns (obj, refs))"
  shows "\<not> is_ref obj \<or> js_prop ''x-circular-ref'' obj = Some (Bool True)"
proof -
  from deref_returns_then [OF assms(2)] obtain k where "following P k e t = None" ..
  from deref_result_within [OF assms(1) this assms(2)] show ?thesis by (simp add: circular_def)
qed

lemma deref_example:
  "deref example_parser (Obj [(''$ref'', Str ''#/first'')]) [] False =
     Some (Returns (Obj [(''get'', Str ''found'')], [Str ''#/first'']))"
  by code_simp

lemma deref_resolves_witness: "\<not> is_ref (Obj [(''get'', Str ''found'')])"
  using deref_resolves [OF _ deref_example] by (simp add: example_parser_def js_prop_def)

text \<open>C36: Hoisting \<open>oneOf\<close> out of \<open>allOf\<close> keeps the meaning of a schema that has no other keyword than \<open>allOf\<close> and
  whose members with a \<open>oneOf\<close> have no other keyword: the same values are valid, whatever the other keywords mean.
\<close>

lemma hoist_keeps_meaning:
  assumes "\<forall>x\<in>set xs. \<forall>ys. js_prop ''oneOf'' x = Some (Arr ys) \<longrightarrow> x = Obj [(''oneOf'', Arr ys)]"
    and "hoist_one_ofs (Obj [(''allOf'', Arr xs)]) = Some res"
  shows "schema_valid leaf res \<longleftrightarrow> schema_valid leaf (Obj [(''allOf'', Arr xs)])"
proof -
  from assms(2) have "hoist_loop (Obj [(''allOf'', Arr xs)]) [] xs = Some res"
    by (simp add: hoist_one_ofs_def js_prop_def)
  from loop_hoists [OF this] consider "res = Obj [(''allOf'', Arr xs)]"
    | r n ns ys where "xs = r @ n # ns" "js_prop ''oneOf'' n = Some (Arr ys)"
      "res = Obj [(''oneOf'', Arr (map (\<lambda>y. Obj [(''allOf'', Arr (r @ y # ns))]) ys))]"
    by auto
  then show ?thesis
  proof cases
    case 2
    then have "n = Obj [(''oneOf'', Arr ys)]" using assms(1) by simp
    with 2 show ?thesis using hoisted_valid [of leaf r ns ys] by simp
  qed simp
qed

lemma hoist_keeps_meaning_witness:
  "schema_valid (\<lambda>(k, v). k \<noteq> ''b'')
     (Obj [(''oneOf'', Arr (map (\<lambda>y. Obj [(''allOf'', Arr [Obj [(''type'', Null)], y])]) [Obj [(''a'', Null)], Obj [(''b'', Null)]]))]) \<longleftrightarrow>
   schema_valid (\<lambda>(k, v). k \<noteq> ''b'')
     (Obj [(''allOf'', Arr [Obj [(''type'', Null)], Obj [(''oneOf'', Arr [Obj [(''a'', Null)], Obj [(''b'', Null)]])]])])"
  by (rule hoist_keeps_meaning) (simp_all add: js_prop_def hoist_one_ofs_def)

end
