(* ===== verification/Redoc_Merge.thy ===== *)
theory Redoc_Merge
  imports Redoc_Parser
begin

text \<open>
  Merging \<open>allOf\<close>: \<open>mergeAllOf\<close> and \<open>findDerived\<close> of the class \<open>OpenAPIParser\<close> (\<open>fc\<close>). A run is \<^const>\<open>None\<close> when it
  does not return: \<open>deref\<close> goes on for ever, or the calls of \<open>mergeAllOf\<close> nest deeper than the given depth.
  The values in lists of \<open>enum\<close> and \<open>required\<close> are compared by value, as JavaScript does for all but objects and arrays.
\<close>

section \<open>Runs\<close>

type_synonym 'a run = "'a outcome option"

definition run_bind :: "'a run \<Rightarrow> ('a \<Rightarrow> 'b run) \<Rightarrow> 'b run" where
  "run_bind r f = (case r of None \<Rightarrow> None | Some Throws \<Rightarrow> Some Throws | Some (Returns x) \<Rightarrow> f x)"

abbreviation ok :: "'a \<Rightarrow> 'a run" where
  "ok x \<equiv> Some (Returns x)"

definition run_of :: "'a option \<Rightarrow> 'a run" where
  "run_of x = Some (case x of None \<Rightarrow> Throws | Some v \<Rightarrow> Returns v)"

fun run_map :: "('a \<Rightarrow> 'b run) \<Rightarrow> 'a list \<Rightarrow> 'b list run" where
  "run_map f [] = ok []"
| "run_map f (x # xs) = run_bind (f x) (\<lambda>y. run_bind (run_map f xs) (\<lambda>ys. ok (y # ys)))"

fun run_fold :: "('a \<Rightarrow> 'b \<Rightarrow> 'b run) \<Rightarrow> 'a list \<Rightarrow> 'b \<Rightarrow> 'b run" where
  "run_fold f [] s = ok s"
| "run_fold f (x # xs) s = run_bind (f x s) (run_fold f xs)"

section \<open>Merging one member\<close>

definition prop_of :: "string \<Rightarrow> js \<Rightarrow> js" where
  "prop_of k e = (case js_prop k e of None \<Rightarrow> Undef | Some v \<Rightarrow> v)"

definition is_object :: "js \<Rightarrow> bool" where
  "is_object v = (case v of Null \<Rightarrow> True | Arr _ \<Rightarrow> True | Obj _ \<Rightarrow> True | _ \<Rightarrow> False)"

definition shallow_copy :: "js \<Rightarrow> js" where
  "shallow_copy v = Obj (spread [] (own_props v))"

text \<open>\<open>[...v]\<close> of an array or a string.\<close>

definition js_items :: "js \<Rightarrow> js list option" where
  "js_items v = (case v of Arr vs \<Rightarrow> Some vs | Str s \<Rightarrow> Some (map (\<lambda>c. Str [c]) s) | _ \<Rightarrow> None)"

text \<open>\<open>ls\<close> of a text or of \<open>undefined\<close>.\<close>

definition schema_title :: "js \<Rightarrow> js" where
  "schema_title t = (case t of Str s \<Rightarrow> (case named_schema s of Some n \<Rightarrow> Str n | None \<Rightarrow> Undef) | _ \<Rightarrow> Undef)"

definition uniques :: "js list \<Rightarrow> js list" where
  "uniques xs = rev (remdups (rev xs))"

definition merged_type :: "js \<Rightarrow> js \<Rightarrow> js" where
  "merged_type a old = (case (a, old) of (Arr xs, Arr ys) \<Rightarrow> Arr (xs @ ys) | _ \<Rightarrow> a)"

definition merged_enum :: "js \<Rightarrow> js \<Rightarrow> js" where
  "merged_enum s old = (case (s, old) of (Arr xs, Arr ys) \<Rightarrow> Arr (uniques (xs @ ys)) | _ \<Rightarrow> s)"

definition set_given :: "string \<Rightarrow> js \<Rightarrow> js \<Rightarrow> (string \<times> js) list \<Rightarrow> (string \<times> js) list" where
  "set_given k given v obj = (if given = Undef then obj else AList.update k v obj)"

type_synonym merger = "js \<Rightarrow> js \<Rightarrow> js list \<Rightarrow> js run"

definition merge_property ::
  "parser \<Rightarrow> merger \<Rightarrow> js \<Rightarrow> js list \<Rightarrow> js \<Rightarrow> string \<times> js \<Rightarrow> (string \<times> js) list \<Rightarrow> (string \<times> js) list run" where
  "merge_property P rec t n y p props =
     (let (k, v) = p;
          i = concat_refs n (prop_of ''x-refsStack'' v);
          old = (case js_member (pa_inherited P) (Obj props) k of None \<Rightarrow> Undef | Some x \<Rightarrow> x) in
      if truthy old then
        (if truthy y then ok props
         else run_bind (rec (Obj [(''allOf'', Arr [old, v]), (''x-refsStack'', Arr i)]) (Str (js_str t @ ''/properties/'' @ k)) i)
                (\<lambda>s. ok (AList.update k s props)))
      else ok (AList.update k (Obj (spread (spread [] (own_props v)) [(''x-refsStack'', Arr i)])) props))"

text \<open>A truthy \<open>properties\<close> of the merged schema that is a number, text or the like can not be assigned to.\<close>

definition merge_properties ::
  "parser \<Rightarrow> merger \<Rightarrow> js \<Rightarrow> js list \<Rightarrow> js \<Rightarrow> js \<Rightarrow> (string \<times> js) list \<Rightarrow> (string \<times> js) list run" where
  "merge_properties P rec t n y l obj =
     (if is_object l then
        (let props = js_or (prop_or_undef obj ''properties'') (Obj []) in
         if own_props l = [] then ok (AList.update ''properties'' props obj)
         else
           (case props of
              Obj ps \<Rightarrow>
                run_bind (run_fold (merge_property P rec t n y) (own_props l) ps) (\<lambda>ps'. ok (AList.update ''properties'' (Obj ps') obj))
            | _ \<Rightarrow> Some Throws))
      else ok obj)"

definition merge_items :: "merger \<Rightarrow> js \<Rightarrow> js list \<Rightarrow> js \<Rightarrow> js \<Rightarrow> (string \<times> js) list \<Rightarrow> (string \<times> js) list run" where
  "merge_items rec t n y c obj =
     (if c \<noteq> Undef \<and> \<not> truthy y then
        run_bind (rec (Obj [(''allOf'', Arr [shallow_copy (prop_or_undef obj ''items''), shallow_copy c])]) (Str (js_str t @ ''/items'')) n)
          (\<lambda>s. ok (AList.update ''items'' s obj))
      else ok obj)"

definition merge_required :: "js \<Rightarrow> (string \<times> js) list \<Rightarrow> (string \<times> js) list run" where
  "merge_required u obj =
     (if u = Undef then ok obj
      else run_bind (run_of (js_items (js_or (prop_or_undef obj ''required'') (Arr [])))) (\<lambda>old.
           run_bind (run_of (js_items u)) (\<lambda>new. ok (AList.update ''required'' (Arr (old @ new)) obj))))"

definition own_keywords :: "string list" where
  "own_keywords = [''type'', ''enum'', ''properties'', ''items'', ''required'', ''title'', ''description'', ''readOnly'',
     ''writeOnly'', ''oneOf'', ''anyOf'', ''x-circular-ref'']"

text \<open>The end of the loop body: the first title and description win, every other keyword is taken over.\<close>

definition merge_rest :: "js \<Rightarrow> (string \<times> js) list \<Rightarrow> (string \<times> js) list" where
  "merge_rest e obj =
     (let first_true = (\<lambda>k. (k, js_or (prop_or_undef obj k) (prop_of k e)));
          first_given = (\<lambda>k. (k, if prop_or_undef obj k \<noteq> Undef then prop_or_undef obj k else prop_of k e)) in
      spread
        (spread obj
           [first_true ''title'', first_true ''description'', first_given ''readOnly'', first_given ''writeOnly'', first_true ''x-circular-ref''])
        (rest_props e own_keywords))"

definition merge_member :: "parser \<Rightarrow> merger \<Rightarrow> js \<Rightarrow> js \<times> js list \<Rightarrow> (string \<times> js) list \<Rightarrow> (string \<times> js) list run" where
  "merge_member P rec t m obj =
     (let (e, n) = m;
          y = prop_of ''x-circular-ref'' e;
          obj = set_given ''type'' (prop_of ''type'' e) (merged_type (prop_of ''type'' e) (prop_or_undef obj ''type'')) obj;
          obj = set_given ''enum'' (prop_of ''enum'' e) (merged_enum (prop_of ''enum'' e) (prop_or_undef obj ''enum'')) obj in
      run_bind (merge_properties P rec t n y (prop_of ''properties'' e) obj) (\<lambda>obj.
      run_bind (merge_items rec t n y (prop_of ''items'' e) obj) (\<lambda>obj.
      let obj = set_given ''oneOf'' (prop_of ''oneOf'' e) (prop_of ''oneOf'' e) obj;
          obj = set_given ''anyOf'' (prop_of ''anyOf'' e) (prop_of ''anyOf'' e) obj in
      run_bind (merge_required (prop_of ''required'' e) obj) (\<lambda>obj. ok (merge_rest e obj)))))"

section \<open>Merging all members\<close>

definition merge_start :: "js \<Rightarrow> js \<Rightarrow> (string \<times> js) list" where
  "merge_start e t =
     (let obj = spread (spread [] (own_props e))
            [(''x-parentRefs'', Arr []), (''allOf'', Undef), (''title'', js_or (prop_of ''title'' e) (schema_title t))];
          copied = (\<lambda>k obj. if is_object (prop_or_undef obj k) then AList.update k (shallow_copy (prop_or_undef obj k)) obj else obj) in
      copied ''items'' (copied ''properties'' obj))"

text \<open>A member resolved and merged, with its stack and what it adds to \<open>x-parentRefs\<close>; a circular one with \<open>allOf\<close> is left out.\<close>

definition resolve_member :: "parser \<Rightarrow> merger \<Rightarrow> js list \<Rightarrow> js \<Rightarrow> ((js \<times> js list) \<times> js list) option run" where
  "resolve_member P rec n x =
     run_bind (deref P x n True) (\<lambda>(r, i).
       let a = js_or (prop_of ''$ref'' x) Undef in
       run_bind (rec r a i) (\<lambda>s.
         if truthy (prop_of ''x-circular-ref'' s) \<and> truthy (prop_of ''allOf'' s) then ok None
         else if truthy a then
           run_bind (run_of (js_items (js_or (prop_of ''x-parentRefs'' s) (Arr [])))) (\<lambda>ps. ok (Some ((s, push_ref i a), ps @ [a])))
         else ok (Some ((s, push_ref i a), []))))"

definition merge_body :: "parser \<Rightarrow> merger \<Rightarrow> merger" where
  "merge_body P rec e t n =
     run_bind (run_of (js_prop ''x-circular-ref'' e)) (\<lambda>c.
       if truthy c then ok e
       else run_bind (run_of (hoist_one_ofs e)) (\<lambda>e.
         case prop_of ''allOf'' e of
           Undef \<Rightarrow> ok e
         | Arr xs \<Rightarrow>
             run_bind (run_map (resolve_member P rec n) xs) (\<lambda>ms.
               let members = map the (filter (\<lambda>m. m \<noteq> None) ms);
                   obj = AList.update ''x-parentRefs'' (Arr (concat (map snd members))) (merge_start e t) in
               run_bind (run_fold (merge_member P rec t) (map fst members) obj) (\<lambda>obj. ok (Obj obj)))
         | _ \<Rightarrow> Some Throws))"

fun merge_all_of :: "parser \<Rightarrow> nat \<Rightarrow> merger" where
  "merge_all_of P 0 = (\<lambda>e t n. None)"
| "merge_all_of P (Suc d) = merge_body P (merge_all_of P d)"

section \<open>Derived schemas\<close>

text \<open>\<open>findDerived\<close>, for an array of references. The first argument is the array.\<close>

fun refers_to_one :: "js list \<Rightarrow> js list \<Rightarrow> bool option" where
  "refers_to_one e [] = Some False"
| "refers_to_one e (t # ts) =
     Option.bind (js_prop ''$ref'' t) (\<lambda>r. if r \<noteq> Undef \<and> r \<in> set e then Some True else refers_to_one e ts)"

definition find_derived_step :: "parser \<Rightarrow> js list \<Rightarrow> string \<times> js \<Rightarrow> (string \<times> js) list \<Rightarrow> (string \<times> js) list run" where
  "find_derived_step P e p found =
     (case p of (r, schema) \<Rightarrow>
        run_bind (deref P schema [] False) (\<lambda>(resolved, _).
          run_bind (run_of (js_prop ''allOf'' resolved)) (\<lambda>a.
            case a of
              Undef \<Rightarrow> ok found
            | Arr xs \<Rightarrow>
                run_bind (run_of (refers_to_one e xs)) (\<lambda>derived.
                  ok (if derived
                      then AList.update (''#/components/schemas/'' @ r) (Arr [js_or (prop_of ''x-discriminator-value'' resolved) (Str r)]) found
                      else found))
            | _ \<Rightarrow> Some Throws)))"

definition find_derived :: "parser \<Rightarrow> js list \<Rightarrow> js run" where
  "find_derived P e =
     run_bind (run_of (js_prop ''components'' (pa_spec P))) (\<lambda>c.
     run_bind (if truthy c then run_of (js_prop ''schemas'' c) else ok c) (\<lambda>s.
     run_bind (run_fold (find_derived_step P e) (own_props (js_or s (Obj []))) []) (\<lambda>found. ok (Obj found))))"

text \<open>The constructor without the URL of the document: \<open>validate\<close>, and whether the document is of OpenAPI 3.1.\<close>

definition new_parser :: "(js \<Rightarrow> string \<Rightarrow> js option) \<Rightarrow> string list \<Rightarrow> js \<Rightarrow> parser outcome" where
  "new_parser inherited ignored e =
     (case js_prop ''openapi'' e of
        Some (Str v) \<Rightarrow>
          Returns \<lparr> pa_spec = e, pa_allow_merge_refs = startswith ''3.1'' v, pa_ignored = ignored, pa_inherited = inherited \<rparr>
      | _ \<Rightarrow> Throws)"

section \<open>Lemmas\<close>

lemma run_bind_simps [simp]: "run_bind None f = None" "run_bind (Some Throws) f = Some Throws" "run_bind (ok x) f = f x"
  by (simp_all add: run_bind_def)

lemma run_bind_ok: "run_bind r f = ok y \<longleftrightarrow> (\<exists>x. r = ok x \<and> f x = ok y)"
  by (cases r rule: option.exhaust; cases "the r") auto

lemma run_of_ok [simp]: "run_of x = ok y \<longleftrightarrow> x = Some y"
  by (simp add: run_of_def split: option.split)

lemma run_of_simps [simp]: "run_of (Some x) = ok x" "run_of None = Some Throws"
  by (simp_all add: run_of_def)

lemma run_map_ok: "run_map f xs = ok ys \<longleftrightarrow> list_all2 (\<lambda>x y. f x = ok y) xs ys"
proof (induction xs arbitrary: ys)
  case (Cons x xs)
  then show ?case by (auto simp: run_bind_ok list_all2_Cons1)
qed auto

lemma run_fold_invariant:
  assumes "run_fold f xs s = ok s'" "I s" "\<And>x s s'. x \<in> set xs \<Longrightarrow> I s \<Longrightarrow> f x s = ok s' \<Longrightarrow> I s'"
  shows "I s'"
  using assms
proof (induction xs arbitrary: s)
  case (Cons x xs)
  then obtain s1 where "f x s = ok s1" "run_fold f xs s1 = ok s'" by (auto simp: run_bind_ok)
  with Cons.IH [of s1] Cons.prems show ?case by (metis list.set_intros(1) list.set_intros(2))
qed simp

definition keyword :: "string \<Rightarrow> bool" where
  "keyword k \<longleftrightarrow> k \<noteq> [] \<and> \<not> is_ascii_digit (hd k)"

lemma keyword_not_index: "keyword k \<Longrightarrow> k \<noteq> dec_str i"
  using dec_str_digits [of "hd k" i] by (auto simp: keyword_def)

lemma keyword_no_index: "keyword k \<Longrightarrow> (k, v) \<notin> set (zip (map dec_str ns) vs)"
  by (auto dest!: set_zip_leftD dest: keyword_not_index)

lemma own_props_distinct: "distinct (map fst (own_props e))"
  by (simp add: own_props_def)

lemma own_props_lookup: "keyword k \<Longrightarrow> map_of (own_props e) k = (case e of Obj ps \<Rightarrow> map_of ps k | _ \<Rightarrow> None)"
  by (cases e) (auto simp: own_props_def map_of_clearjunk map_of_eq_None_iff keyword_no_index)

lemma prop_of_own: "keyword k \<Longrightarrow> prop_or_undef (own_props e) k = prop_of k e"
  by (simp add: prop_or_undef_def own_props_lookup prop_of_def js_prop_def split: js.split option.split)

lemma spread_lookup: "map_of (spread a b) k = (case map_of (rev b) k of Some v \<Rightarrow> Some v | None \<Rightarrow> map_of a k)"
  by (induction b arbitrary: a) (auto simp: spread_def update_conv' map_of_append split: option.splits)

lemma keyword_names [simp]:
  "keyword ''allOf''" "keyword ''x-circular-ref''" "keyword ''properties''" "keyword ''required''" "keyword ''items''"
  by (simp_all add: keyword_def is_ascii_digit_def)

lemma map_of_rev_distinct: "distinct (map fst ps) \<Longrightarrow> map_of (rev ps) = map_of ps"
  by (simp add: map_of_inject_set rev_map [symmetric])

lemma rest_lookup: "map_of (rev (rest_props e ks)) k = (if k \<in> set ks then None else map_of (own_props e) k)"
proof -
  have "map_of (filter (\<lambda>p. fst p \<notin> set ks) ps) k = (if k \<in> set ks then None else map_of ps k)" for ps :: "(string \<times> js) list"
    by (induction ps) auto
  moreover have "distinct (map fst (rest_props e ks))"
    using own_props_distinct by (simp add: rest_props_def distinct_map_filter)
  ultimately show ?thesis by (simp add: map_of_rev_distinct) (simp add: rest_props_def)
qed

lemma prop_or_undef_update [simp]: "prop_or_undef (AList.update k v obj) k' = (if k' = k then v else prop_or_undef obj k')"
  by (simp add: prop_or_undef_def update_conv')

lemma prop_or_undef_given [simp]:
  "prop_or_undef (set_given k g v obj) k' = (if k' = k \<and> g \<noteq> Undef then v else prop_or_undef obj k')"
  by (simp add: set_given_def)

lemma prop_of_Obj [simp]: "prop_of k (Obj ps) = prop_or_undef ps k"
  by (simp add: prop_of_def js_prop_def prop_or_undef_def)

lemma merge_properties_other:
  "merge_properties P rec t n y l obj = ok obj' \<Longrightarrow> k \<noteq> ''properties'' \<Longrightarrow> prop_or_undef obj' k = prop_or_undef obj k"
  by (auto simp: merge_properties_def Let_def run_bind_ok split: if_splits js.splits)

lemma merge_items_other: "merge_items rec t n y c obj = ok obj' \<Longrightarrow> k \<noteq> ''items'' \<Longrightarrow> prop_or_undef obj' k = prop_or_undef obj k"
  by (auto simp: merge_items_def run_bind_ok split: if_splits)

lemma merge_required_other: "merge_required u obj = ok obj' \<Longrightarrow> k \<noteq> ''required'' \<Longrightarrow> prop_or_undef obj' k = prop_or_undef obj k"
  by (auto simp: merge_required_def run_bind_ok split: if_splits)

lemma merge_rest_circular:
  "prop_or_undef (merge_rest e obj) ''x-circular-ref'' = js_or (prop_or_undef obj ''x-circular-ref'') (prop_of ''x-circular-ref'' e)"
  by (simp add: merge_rest_def Let_def prop_or_undef_def spread_lookup rest_lookup own_keywords_def)

lemma merge_rest_other:
  "keyword k \<Longrightarrow> k \<notin> set own_keywords \<Longrightarrow>
     prop_or_undef (merge_rest e obj) k = (if map_of (own_props e) k = None then prop_or_undef obj k else prop_of k e)"
  by (auto simp: merge_rest_def Let_def prop_or_undef_def spread_lookup rest_lookup own_keywords_def split: option.split
      dest: prop_of_own [of k e, unfolded prop_or_undef_def])

lemma merge_rest_kept:
  "k \<in> {''type'', ''enum'', ''properties'', ''items'', ''required'', ''oneOf'', ''anyOf''} \<Longrightarrow>
     prop_or_undef (merge_rest e obj) k = prop_or_undef obj k"
  by (auto simp: merge_rest_def Let_def prop_or_undef_def spread_lookup rest_lookup own_keywords_def)

text \<open>No \<open>allOf\<close> is left, or the schema is circular.\<close>

definition merged :: "js \<Rightarrow> bool" where
  "merged e \<longleftrightarrow> prop_of ''allOf'' e = Undef \<or> truthy (prop_of ''x-circular-ref'' e)"

lemma merge_member_merged:
  assumes "merge_member P rec t (e, n) obj = ok obj'" "merged e" "merged (Obj obj)"
  shows "merged (Obj obj')"
proof -
  from assms(1) obtain o1 where o1: "obj' = merge_rest e o1"
    "prop_or_undef o1 ''allOf'' = prop_or_undef obj ''allOf''" "prop_or_undef o1 ''x-circular-ref'' = prop_or_undef obj ''x-circular-ref''"
    by (auto simp: merge_member_def Let_def run_bind_ok merge_properties_other merge_items_other merge_required_other)
  have "truthy (js_or a b) \<longleftrightarrow> truthy a \<or> truthy b" for a b by (simp add: js_or_def)
  with assms(2,3) show ?thesis
    by (auto simp: merged_def o1 merge_rest_circular merge_rest_other own_keywords_def)
qed

lemma merge_start_allOf: "prop_or_undef (merge_start e t) ''allOf'' = Undef"
proof -
  have "prop_or_undef (spread ps [(''x-parentRefs'', a), (''allOf'', Undef), (''title'', b)]) ''allOf'' = Undef" for ps a b
    by (simp add: prop_or_undef_def spread_lookup)
  then show ?thesis by (simp add: merge_start_def Let_def)
qed

lemma resolve_member_merged:
  assumes "resolve_member P rec n x = ok (Some ((s, i), ps))" "\<And>e t n r. rec e t n = ok r \<Longrightarrow> merged r"
  shows "merged s"
  using assms by (auto simp: resolve_member_def Let_def run_bind_ok split: if_splits prod.splits)

lemma merge_body_merged:
  assumes "merge_body P rec e t n = ok r" "\<And>e t n r. rec e t n = ok r \<Longrightarrow> merged r"
  shows "merged r"
proof -
  from assms(1) obtain c where c: "js_prop ''x-circular-ref'' e = Some c" by (auto simp: merge_body_def run_bind_ok)
  show ?thesis
  proof (cases "truthy c")
    case True
    with assms(1) c have "r = e" by (simp add: merge_body_def)
    with True c show ?thesis by (simp add: merged_def prop_of_def)
  next
    case False
    with assms(1) c obtain h where h: "hoist_one_ofs e = Some h" by (auto simp: merge_body_def run_bind_ok)
    note body = assms(1) [unfolded merge_body_def c h run_of_simps run_bind_simps]
    consider "prop_of ''allOf'' h = Undef" | xs where "prop_of ''allOf'' h = Arr xs"
      using body False by (cases "prop_of ''allOf'' h") auto
    then show ?thesis
    proof cases
      case 1
      with body False show ?thesis by (simp add: merged_def)
    next
      case 2
      with body False obtain ms obj where ms: "run_map (resolve_member P rec n) xs = ok ms"
        and fold: "run_fold (merge_member P rec t) (map fst (map the (filter (\<lambda>m. m \<noteq> None) ms)))
          (AList.update ''x-parentRefs'' (Arr (concat (map snd (map the (filter (\<lambda>m. m \<noteq> None) ms))))) (merge_start h t)) = ok obj"
        and r: "r = Obj obj"
        by (auto simp: run_bind_ok Let_def)
      have members: "merged (fst m)" if m: "m \<in> set (map fst (map the (filter (\<lambda>m. m \<noteq> None) ms)))" for m
      proof -
        from m obtain ps where "Some (m, ps) \<in> set ms" by force
        then obtain x where "resolve_member P rec n x = ok (Some (m, ps))"
          using ms unfolding run_map_ok list_all2_conv_all_nth by (metis in_set_conv_nth)
        then show ?thesis using resolve_member_merged [of P rec n x "fst m" "snd m" ps] assms(2) by simp
      qed
      have "merged (Obj obj)"
        by (rule run_fold_invariant [OF fold, where I = "\<lambda>obj. merged (Obj obj)"])
           (use members merge_member_merged in \<open>force simp: merged_def [of "Obj _"] merge_start_allOf\<close>)+
      with r show ?thesis by simp
    qed
  qed
qed

lemma merge_all_of_merged: "merge_all_of P d e t n = ok r \<Longrightarrow> merged r"
proof (induction d arbitrary: e t n r)
  case (Suc d)
  then show ?case using merge_body_merged [of P "merge_all_of P d" e t n r] by simp
qed simp

section \<open>Members that share no property\<close>

text \<open>An object schema without references, further members, alternatives and \<open>items\<close>.\<close>

definition flat_member :: "js \<Rightarrow> bool" where
  "flat_member x \<longleftrightarrow>
     list_all (\<lambda>k. prop_of k x = Undef) [''$ref'', ''allOf'', ''oneOf'', ''x-circular-ref'', ''x-refsStack'', ''items''] \<and>
     (case (prop_of ''properties'' x, prop_of ''required'' x) of (Obj _, Arr _) \<Rightarrow> True | _ \<Rightarrow> False)"

definition properties_of :: "js \<Rightarrow> (string \<times> js) list" where
  "properties_of x = own_props (prop_of ''properties'' x)"

definition required_of :: "js \<Rightarrow> js list" where
  "required_of x = (case prop_of ''required'' x of Arr vs \<Rightarrow> vs | _ \<Rightarrow> [])"

definition with_stack :: "js list \<Rightarrow> string \<times> js \<Rightarrow> string \<times> js" where
  "with_stack n p = (case p of (k, v) \<Rightarrow>
     (k, Obj (spread (spread [] (own_props v)) [(''x-refsStack'', Arr (concat_refs n (prop_of ''x-refsStack'' v)))])))"

lemma with_stack_key [simp]: "fst (with_stack n p) = fst p"
  by (simp add: with_stack_def split: prod.split)

lemma update_new: "k \<notin> fst ` set ps \<Longrightarrow> AList.update k v ps = ps @ [(k, v)]"
  by (induction ps) auto

lemma merge_new_properties:
  assumes "distinct (map fst ps @ map fst kvs)" "\<forall>k\<in>fst ` set kvs. \<forall>ps. pa_inherited P (Obj ps) k = None"
  shows "run_fold (merge_property P rec t n y) kvs ps = ok (ps @ map (with_stack n) kvs)"
  using assms
proof (induction kvs arbitrary: ps)
  case (Cons p kvs)
  obtain k v where p: "p = (k, v)" by (cases p)
  have "k \<notin> fst ` set ps" using Cons.prems(1) p by auto
  then have "merge_property P rec t n y p ps = ok (ps @ [with_stack n p])"
    using Cons.prems(2) p
    by (simp add: merge_property_def js_member_def map_of_eq_None_iff [THEN iffD2] truthy_def with_stack_def update_new)
  moreover have "run_fold (merge_property P rec t n y) kvs (ps @ [with_stack n p]) = ok ((ps @ [with_stack n p]) @ map (with_stack n) kvs)"
    by (rule Cons.IH) (use Cons.prems in auto)
  ultimately show ?case by simp
qed simp

lemma flat_memberD:
  assumes "flat_member x"
  shows "prop_of ''$ref'' x = Undef" "prop_of ''allOf'' x = Undef" "prop_of ''oneOf'' x = Undef"
    "prop_of ''x-circular-ref'' x = Undef" "prop_of ''x-refsStack'' x = Undef" "prop_of ''items'' x = Undef"
    "\<exists>ps. prop_of ''properties'' x = Obj ps" "prop_of ''required'' x = Arr (required_of x)" "\<exists>ps. x = Obj ps"
proof -
  show "\<exists>ps. x = Obj ps"
    using assms by (cases x) (auto simp: flat_member_def prop_of_def js_prop_def)
qed (use assms in \<open>auto simp: flat_member_def required_of_def split: js.splits\<close>)

lemma flat_prop: "flat_member x \<Longrightarrow> js_prop k x = Some (prop_of k x)"
  using flat_memberD(9) [of x] by (auto simp: js_prop_def prop_or_undef_def)

lemma flat_merged: "flat_member x \<Longrightarrow> merge_all_of P (Suc d) x t n = ok x"
  using flat_memberD [of x] by (simp add: merge_body_def flat_prop truthy_def hoist_one_ofs_def)

lemma flat_resolved:
  assumes "flat_member x"
  shows "resolve_member P (merge_all_of P (Suc d)) n x = ok (Some ((x, n), []))"
proof -
  have "deref P x n True = ok (x, n)"
    using flat_memberD(1,5) [OF assms]
    by (subst deref.simps) (simp add: is_ref_def flat_prop [OF assms] refs_stack_def concat_refs_def truthy_def)
  then show ?thesis
    using flat_merged [OF assms] flat_memberD [OF assms]
    by (simp add: resolve_member_def js_or_def truthy_def push_ref_def del: merge_all_of.simps)
qed

lemma flat_member_step:
  assumes "flat_member x" "js_or (prop_or_undef obj ''properties'') (Obj []) = Obj ps" "js_or (prop_or_undef obj ''required'') (Arr []) = Arr rs"
    "distinct (map fst ps @ map fst (properties_of x))" "\<forall>k\<in>fst ` set (properties_of x). \<forall>ps. pa_inherited P (Obj ps) k = None"
  shows "\<exists>obj'. merge_member P rec t (x, n) obj = ok obj' \<and>
    prop_or_undef obj' ''properties'' = Obj (ps @ map (with_stack n) (properties_of x)) \<and>
    prop_or_undef obj' ''required'' = Arr (rs @ required_of x)"
proof -
  obtain qs where qs: "prop_of ''properties'' x = Obj qs" using flat_memberD(7) [OF assms(1)] ..
  have props: "merge_properties P rec t n Undef (prop_of ''properties'' x) o1 =
      ok (AList.update ''properties'' (Obj (ps @ map (with_stack n) (properties_of x))) o1)"
    if "prop_or_undef o1 ''properties'' = prop_or_undef obj ''properties''" for o1
    using merge_new_properties [OF assms(4,5)] assms(2) that
    by (auto simp: merge_properties_def Let_def qs is_object_def properties_of_def)
  show ?thesis
    using flat_memberD(3,4,6,8) [OF assms(1)] assms(3)
    by (simp add: merge_member_def Let_def props merge_items_def merge_required_def js_items_def merge_rest_kept)
qed

lemma flat_members_fold:
  assumes "js_or (prop_or_undef obj ''properties'') (Obj []) = Obj ps" "js_or (prop_or_undef obj ''required'') (Arr []) = Arr rs"
    "xs \<noteq> []" "list_all flat_member xs" "distinct (map fst ps @ concat (map (\<lambda>x. map fst (properties_of x)) xs))"
    "\<forall>x\<in>set xs. \<forall>k\<in>fst ` set (properties_of x). \<forall>ps. pa_inherited P (Obj ps) k = None"
  shows "\<exists>obj'. run_fold (merge_member P rec t) (map (\<lambda>x. (x, n)) xs) obj = ok obj' \<and>
    prop_or_undef obj' ''properties'' = Obj (ps @ concat (map (\<lambda>x. map (with_stack n) (properties_of x)) xs)) \<and>
    prop_or_undef obj' ''required'' = Arr (rs @ concat (map required_of xs))"
  using assms
proof (induction xs arbitrary: obj ps rs)
  case (Cons x xs)
  have "\<exists>obj1. merge_member P rec t (x, n) obj = ok obj1 \<and>
    prop_or_undef obj1 ''properties'' = Obj (ps @ map (with_stack n) (properties_of x)) \<and>
    prop_or_undef obj1 ''required'' = Arr (rs @ required_of x)"
    by (rule flat_member_step) (use Cons.prems in auto)
  then obtain obj1 where obj1: "merge_member P rec t (x, n) obj = ok obj1"
    "prop_or_undef obj1 ''properties'' = Obj (ps @ map (with_stack n) (properties_of x))"
    "prop_or_undef obj1 ''required'' = Arr (rs @ required_of x)" by blast
  show ?case
  proof (cases "xs = []")
    case True
    with obj1 show ?thesis by simp
  next
    case False
    have "\<exists>obj'. run_fold (merge_member P rec t) (map (\<lambda>x. (x, n)) xs) obj1 = ok obj' \<and>
      prop_or_undef obj' ''properties'' =
        Obj ((ps @ map (with_stack n) (properties_of x)) @ concat (map (\<lambda>x. map (with_stack n) (properties_of x)) xs)) \<and>
      prop_or_undef obj' ''required'' = Arr ((rs @ required_of x) @ concat (map required_of xs))"
      by (rule Cons.IH) (use Cons.prems obj1 False in \<open>auto simp: js_or_def truthy_def comp_def\<close>)
    with obj1 show ?thesis by simp
  qed
qed simp

lemma flat_hoist: "list_all flat_member xs \<Longrightarrow> hoist_loop e r xs = Some e"
  by (induction xs arbitrary: r) (auto simp: flat_prop flat_memberD)

section \<open>Properties\<close>

text \<open>C35: Whatever \<open>mergeAllOf\<close> returns has no \<open>allOf\<close> any more, or is marked as circular.\<close>

lemma merging_leaves_no_allOf:
  assumes "merge_all_of P d e t n = Some (Returns r)"
  shows "prop_of ''allOf'' r = Undef \<or> truthy (prop_of ''x-circular-ref'' r)"
  using merge_all_of_merged [OF assms] by (simp add: merged_def)

lemma merge_example:
  "merge_all_of example_parser 2 (Obj [(''allOf'', Arr [Obj [(''type'', Str ''object'')]])]) Undef [] =
     Some (Returns (Obj [(''allOf'', Undef), (''x-parentRefs'', Arr []), (''title'', Undef), (''type'', Str ''object''),
       (''description'', Undef), (''readOnly'', Undef), (''writeOnly'', Undef), (''x-circular-ref'', Undef)]))"
  by code_simp

lemma merging_leaves_no_allOf_witness:
  "prop_of ''allOf'' (Obj [(''allOf'', Undef), (''x-parentRefs'', Arr []), (''title'', Undef), (''type'', Str ''object''),
       (''description'', Undef), (''readOnly'', Undef), (''writeOnly'', Undef), (''x-circular-ref'', Undef)]) = Undef"
  using merging_leaves_no_allOf [OF merge_example] by (simp add: prop_or_undef_def truthy_def)


definition demo_members :: "js list" where
  "demo_members =
     [Obj [(''properties'', Obj [(''name'', Obj [(''type'', Str ''string'')])]), (''required'', Arr [Str ''name''])],
      Obj [(''properties'', Obj [(''school'', Obj [])]), (''required'', Arr [Str ''school''])]]"


text \<open>The \<open>enum\<close> of a merged member is united with the one merged so far, although a value that is valid for
  both is in both.
\<close>

lemma enums_united:
  assumes "prop_or_undef obj ''enum'' = Arr xs" "prop_of ''enum'' e = Arr ys" "merge_member P rec t (e, n) obj = Some (Returns obj')"
  shows "\<exists>zs. prop_or_undef obj' ''enum'' = Arr zs \<and> set zs = set xs \<union> set ys \<and> distinct zs"
proof -
  have "prop_or_undef obj' ''enum'' = Arr (uniques (ys @ xs))"
    using assms by (auto simp: merge_member_def Let_def run_bind_ok merge_properties_other merge_items_other merge_required_other
        merge_rest_kept merged_enum_def)
  then show ?thesis by (auto simp: uniques_def)
qed

lemma enum_example:
  "merge_member example_parser (\<lambda>_ _ _. None) Undef (Obj [(''enum'', Arr [Num 2, Num 3])], []) [(''enum'', Arr [Num 1, Num 2])] =
     Some (Returns [(''enum'', Arr [Num 2, Num 3, Num 1]), (''title'', Undef), (''description'', Undef), (''readOnly'', Undef),
       (''writeOnly'', Undef), (''x-circular-ref'', Undef)])"
  by code_simp

lemma enums_united_witness:
  "\<exists>zs. prop_or_undef [(''enum'', Arr [Num 2, Num 3, Num 1]), (''title'', Undef), (''description'', Undef), (''readOnly'', Undef),
       (''writeOnly'', Undef), (''x-circular-ref'', Undef)] ''enum'' = Arr zs \<and> set zs = {Num 1, Num 2} \<union> {Num 2, Num 3} \<and> distinct zs"
  using enums_united [OF _ _ enum_example, of "[Num 1, Num 2]" "[Num 2, Num 3]"] by (simp add: prop_or_undef_def)

end
