(* ===== verification/Spec2Isabelle.thy ===== *)
theory Spec2Isabelle
  imports Validators Query_Filter Domain_Patch Dn_Mapper Shared_Manager Mappers
    School_Manager Group_Manager User_Port Group_Depth Sync_Users Api_Responses Redoc_Sheet Redoc_Merge
begin

text \<open>
  Verification library of the UCS@school Kelvin REST API.

  \<^bold>\<open>The program.\<close> Kelvin keeps schools, groups, users, roles and memberships of an LDAP directory in a SQL
  database. The object library (\<open>src/ucsschool-objects\<close>) holds the domain objects, a query language
  and managers that translate between objects and rows. The connector (\<open>src/kelvin-connector\<close>)
  consumes the events of the directory one by one and brings the database into their state. The REST
  API v2 (\<open>src/kelvin-api/ucsschool/kelvin/routers/v2\<close>) answers searches from the database. The page
  with the API's documentation is Redoc, a JavaScript bundle (\<open>src/kelvin-api/static\<close>).

  A request of the API goes from its parameters to a query expression (\<open>Api_Query\<close>), to SQL
  (\<open>Query_Filter\<close>), to rows and domain objects (\<open>User_Manager\<close> and its siblings, \<open>Mappers\<close>), to the values of
  the response (\<open>Api_V2\<close>). An event goes through the retry policy (\<open>Connector_Consumer\<close>) to a handler
  (\<open>Connector_Sync\<close>), which runs in a transaction (\<open>Session\<close>) and calls the managers and the DN mapper.

  \<^bold>\<open>Theories and the code they model.\<close> Paths below \<open>ucsschool_objects/core\<close> are shortened to \<open>domain/\<close>
  and \<open>sqlalchemy/\<close>; definitions keep the names of functions and methods, with the class or the object in
  front where a name occurs more than once.

  \<^item> \<open>Prelude\<close>, \<open>Uuid\<close>, \<open>Py_Date\<close>, \<open>Py_Json\<close>: results of fallible code, dicts, the used methods of \<open>str\<close>, \<open>UUID\<close> as
    128 bit words with its text, dates with ISO text, JSON values with Python's equality.
  \<^item> \<open>Domain_Query\<close>, \<open>Domain_Models\<close>, \<open>Domain_Json\<close>, \<open>Domain_Patch\<close>, \<open>Validators\<close>: \<open>domain/query.py\<close>, \<open>errors.py\<close>,
    \<open>models.py\<close>, \<open>load_spec.py\<close>, \<open>json.py\<close>, \<open>patch.py\<close>, \<open>validators.py\<close>.
  \<^item> \<open>Query_Filter\<close>: \<open>sqlalchemy/query_filter.py\<close>; the statements are a syntax tree of the calls made.
  \<^item> \<open>Kelvin_Db\<close>: \<open>database_models.py\<close>, the tables as lists of rows, their constraints (\<open>db_ok\<close>), the cascades of a
    deletion, and \<open>storage\<close>, the state of a session with the rows that wait for a flush.
  \<^item> \<open>Dn_Mapper\<close>: \<open>dn_mapper.py\<close> of the port and of the adapter.
  \<^item> \<open>Shared_Manager\<close>, \<open>Mappers\<close>, \<open>Manager_Port\<close>, \<open>School_Manager\<close>, \<open>Group_Manager\<close>, \<open>Group_Depth\<close>, \<open>User_Manager\<close>,
    \<open>User_Port\<close>: \<open>sqlalchemy/managers\<close>, \<open>sqlalchemy/mappers\<close> and the port \<open>manager.py\<close>.
  \<^item> \<open>Session\<close>: \<open>sqlalchemy/session.py\<close>, the session object and its scopes.
  \<^item> \<open>Connector_Models\<close>, \<open>Connector_Consumer\<close>, \<open>Connector_Sync\<close>, \<open>Sync_Schools\<close>, \<open>Sync_Users\<close>: \<open>models.py\<close>,
    \<open>consumer.py\<close>, \<open>ports.py\<close> and \<open>sync.py\<close> of the connector.
  \<^item> \<open>Api_Query\<close>, \<open>Api_V2\<close>, \<open>Api_Responses\<close>: the read routes of \<open>routers/v2\<close>.
  \<^item> \<open>Redoc_Js\<close>, \<open>Redoc_Styled\<close>: JavaScript values and the styled-components library as bundled;
    \<open>Redoc_Interp\<close>, \<open>Redoc_Layout\<close>, \<open>Redoc_Text\<close>, \<open>Redoc_Menu\<close>, \<open>Redoc_Code\<close>, \<open>Redoc_Fields\<close>, \<open>Redoc_Schema\<close>,
    \<open>Redoc_Samples\<close>, \<open>Redoc_Page\<close>: one definition per style template of the bundle, text for text;
    \<open>Redoc_Braces\<close>, \<open>Redoc_Sheet\<close>: the style sheet they make; \<open>Redoc_Theme\<close>: defaults, merging and resolution;
    \<open>Redoc_Parser\<close>, \<open>Redoc_Merge\<close>: the class \<open>OpenAPIParser\<close>, how references of an API
    document are resolved and \<open>allOf\<close> is merged for display.

  \<^bold>\<open>Interfaces.\<close> \<open>dn_id_mapper\<close> (\<open>Dn_Mapper\<close>), \<open>object_manager\<close> and \<open>modifying_manager\<close> (\<open>Manager_Port\<close>) and
  \<open>transactional_manager\<close> (\<open>Connector_Consumer\<close>) state what clients rely on. Each is interpreted on the
  model of the code: \<open>sql_dn\<close>, \<open>sql_schools\<close>, \<open>sql_groups\<close>, \<open>sql_users\<close>, \<open>sql_manager\<close>.

  \<^bold>\<open>What the lemmas show.\<close>

  \<^item> Queries: which expressions are translated, and that the SQL selects the rows the query
    describes in SQL's three-valued logic; for the API, which rows a user search selects and the only
    parameters it fails for.
  \<^item> Managers: creation, deletion and modification meet the port, all constraints hold after every
    flush; what a patch of memberships does and when the rule of one primary membership
    survives it; when collections are synchronised; how deep the conversion of a group nests.
  \<^item> Mapping of DNs: renames and exchanges move the mapping and nothing else.
  \<^item> Patches and JSON: the order of sets does not matter, replaced collections are found by identity,
    written references are read back.
  \<^item> Sessions and the connector: no manager outside a session, a failing handler leaves no trace, a
    returning one leaves a state that satisfies the constraints, the queue is worked off within the delivery
    budget, school and user events end in the state they describe.
  \<^item> API responses: everything a response reads is loaded, users found are answered in sorted order, classes
    and workgroups of a user, and when the URL of a class leads back to it.
  \<^item> Redoc: the generated style sheet is well nested but for five components, flattening early or late
    gives the same text, resolving a theme ends and satisfies the settings or reports a circle; where references lead and when
    following them does not end; what merging and hoisting in schemas keep.

  \<^bold>\<open>Bounds.\<close> \<open>depth\<close> of \<open>to_group\<close> is the number of nested calls Python allows; as many as there are groups are
  enough unless a group is among its own senders in some number of steps (\<open>Group_Depth\<close>). \<open>fuel\<close> of \<open>eval\<close> in
  \<open>Redoc_Theme\<close> bounds nested getters; the code's own limit of 1000 computations is met first, so
  \<open>Out_of_fuel\<close> never occurs. \<open>deref\<close> may not return, which is the value \<open>None\<close>; \<open>merge_all_of\<close> carries a depth of nested calls, of which
  members without references need two. All other recursion is structural or has a measure.
  Strings hold code points below 256, \<open>str.lower\<close> stays among them.

  \<^bold>\<open>Parameters.\<close> The answer of the database to a SELECT statement (\<open>exec_select\<close>, and per row \<open>row_sem\<close> with
  the laws of \<open>LIKE\<close>), the jsonpatch library (\<open>json_patch_laws\<close>), fresh ids (\<open>uuid4\<close>), the parsing of DNs, the
  delivery of events by the provisioning library, the checks of pydantic, the URL of a route, the
  configuration, and the colour functions of Redoc's theme.

  \<^bold>\<open>Not modelled.\<close> React, MobX and the other libraries in the Redoc bundle and the Swagger bundles (third-party
  code, minified); API v1 and the writing routes, which go through ucs-school-lib, ucs-school-import
  and the UDM REST API with their hooks; FastAPI's routing and authentication; the SQLAlchemy engine, column
  types and migrations; the start of the connector, logging, packaging, documentation and tests. That
  instances stay in the identity map of a session between two queries of one handler is left out, and of
  message texts only the fixed parts are kept.
\<close>

end
